(* ===== verification/Zeroid_Prelude.thy ===== *)
theory Zeroid_Prelude
  imports Main "HOL-Library.Sublist" "HOL-Library.Char_ord"
begin

text \<open>
  Shared vocabulary of the ZeroID development: time and the 64-bit durations of Go, the
  string functions of Go's \<open>strings\<close> package that the services use, tables as lists of rows
  with the four statement forms the repositories issue, the state-and-error result of a
  service call, and the interface of a single-use claim, which several components implement.
  The lemmas here are the ones the component theories share.
\<close>

named_theorems svc_inv \<open>inversion of service calls that returned a value\<close>
named_theorems table_simps \<open>reads of a table after a statement\<close>

subsection \<open>Time and machine integers\<close>

text \<open>
  A \<open>time.Time\<close> is an instant in nanoseconds (an \<open>int\<close>); \<open>time.Duration\<close> is a signed 64-bit
  count of nanoseconds, so a product of durations wraps around.
\<close>

type_synonym time = int

abbreviation second :: int where
  "second \<equiv> 1000000000"

definition int64 :: "int \<Rightarrow> int" where
  "int64 x = (x + 2 ^ 63) mod 2 ^ 64 - 2 ^ 63"

definition dur_seconds :: "int \<Rightarrow> int" where
  "dur_seconds n = int64 (n * second)"

text \<open>\<open>int(d.Seconds())\<close>: conversion of a float to an int truncates towards zero.\<close>

definition whole_seconds :: "int \<Rightarrow> int" where
  "whole_seconds d = (if 0 \<le> d then d div second else - ((- d) div second))"

lemma int64_id: "- (2 ^ 63) \<le> x \<Longrightarrow> x < 2 ^ 63 \<Longrightarrow> int64 x = x"
  by (simp add: int64_def)

lemma int64_range: "- (2 ^ 63) \<le> int64 x \<and> int64 x < 2 ^ 63"
  using pos_mod_bound [of "2 ^ 64" "x + 2 ^ 63"] pos_mod_sign [of "2 ^ 64" "x + 2 ^ 63"]
  by (simp add: int64_def)

lemma dur_seconds_exact: "0 \<le> n \<Longrightarrow> n \<le> 9223372036 \<Longrightarrow> dur_seconds n = n * second"
  unfolding dur_seconds_def by (rule int64_id) simp_all

lemma whole_seconds_le: "0 \<le> d \<Longrightarrow> whole_seconds d * second \<le> d"
  by (simp add: whole_seconds_def)

lemma whole_seconds_pos:
  assumes "0 < whole_seconds d"
  shows "second \<le> d"
proof (cases "0 \<le> d")
  case True
  with assms have "1 \<le> d div second" by (simp add: whole_seconds_def)
  then show ?thesis by simp
next
  case False
  then have "0 \<le> (- d) div second" by (simp add: pos_imp_zdiv_nonneg_iff)
  with False assms show ?thesis by (simp add: whole_seconds_def)
qed

subsection \<open>Go strings\<close>

text \<open>A string is a list of bytes; white space is the ASCII white space of \<open>unicode.IsSpace\<close>.\<close>

definition is_space :: "char \<Rightarrow> bool" where
  "is_space c \<longleftrightarrow> c \<in> {CHR 0x09, CHR 0x0A, CHR 0x0B, CHR 0x0C, CHR 0x0D, CHR 0x20}"

fun fields_aux :: "string \<Rightarrow> string \<Rightarrow> string list" where
  "fields_aux [] cur = (if cur = [] then [] else [rev cur])"
| "fields_aux (c # cs) cur =
     (if is_space c then (if cur = [] then fields_aux cs [] else rev cur # fields_aux cs [])
      else fields_aux cs (c # cur))"

text \<open>\<open>strings.Fields\<close> (ASCII white space), \<open>strings.Join\<close> with a blank, \<open>strings.HasPrefix\<close>,
  \<open>strings.TrimPrefix\<close>, \<open>strings.SplitN\<close> on a one-character separator, \<open>strings.Cut\<close> and
  \<open>strings.Replace\<close> with count 1.\<close>

definition strings_Fields :: "string \<Rightarrow> string list" where
  "strings_Fields s = fields_aux s []"

fun join_sp :: "string list \<Rightarrow> string" where
  "join_sp [] = []"
| "join_sp [w] = w"
| "join_sp (w # ws) = w @ CHR 0x20 # join_sp ws"

definition has_prefix :: "string \<Rightarrow> string \<Rightarrow> bool" where
  "has_prefix p s \<longleftrightarrow> take (length p) s = p"

definition trim_prefix :: "string \<Rightarrow> string \<Rightarrow> string" where
  "trim_prefix p s = (if has_prefix p s then drop (length p) s else s)"

fun cut_at :: "char \<Rightarrow> string \<Rightarrow> (string \<times> string) option" where
  "cut_at c [] = None"
| "cut_at c (x # xs) =
     (if x = c then Some ([], xs)
      else (case cut_at c xs of None \<Rightarrow> None | Some (a, b) \<Rightarrow> Some (x # a, b)))"

fun split_n :: "nat \<Rightarrow> char \<Rightarrow> string \<Rightarrow> string list" where
  "split_n 0 c s = []"
| "split_n (Suc 0) c s = [s]"
| "split_n (Suc (Suc n)) c s =
     (case cut_at c s of None \<Rightarrow> [s] | Some (a, b) \<Rightarrow> a # split_n (Suc n) c b)"

fun replace_first :: "string \<Rightarrow> string \<Rightarrow> string \<Rightarrow> string" where
  "replace_first old new [] = (if old = [] then new else [])"
| "replace_first old new (c # cs) =
     (if has_prefix old (c # cs) then new @ drop (length old) (c # cs)
      else c # replace_first old new cs)"

definition word_ok :: "string \<Rightarrow> bool" where
  "word_ok w \<longleftrightarrow> w \<noteq> [] \<and> (\<forall>c \<in> set w. \<not> is_space c)"

lemma fields_aux_word:
  "\<forall>c \<in> set w. \<not> is_space c \<Longrightarrow> fields_aux (w @ s) cur = fields_aux s (rev w @ cur)"
  by (induction w arbitrary: cur) auto

lemma space_is_space [simp]: "is_space CHR 0x20"
  by (simp add: is_space_def)

lemma fields_join_aux:
  "\<forall>w \<in> set ws. word_ok w \<Longrightarrow> fields_aux (join_sp ws) [] = ws"
proof (induction ws rule: join_sp.induct)
  case (2 w)
  then show ?case
    using fields_aux_word [of w "[]" "[]"] by (simp add: word_ok_def)
next
  case (3 w v vs)
  then show ?case
    using fields_aux_word [of w "CHR 0x20 # join_sp (v # vs)" "[]"]
    by (simp add: word_ok_def)
qed simp

lemma strings_Fields_join: "\<forall>w \<in> set ws. word_ok w \<Longrightarrow> strings_Fields (join_sp ws) = ws"
  by (simp add: strings_Fields_def fields_join_aux)

lemma fields_aux_words:
  "\<forall>c \<in> set cur. \<not> is_space c \<Longrightarrow> w \<in> set (fields_aux s cur) \<Longrightarrow> word_ok w"
proof (induction s arbitrary: cur)
  case Nil
  then show ?case by (auto simp: word_ok_def split: if_splits)
next
  case (Cons c s)
  show ?case
  proof (cases "is_space c")
    case True
    with Cons.prems have "w \<in> set (fields_aux s []) \<or> (cur \<noteq> [] \<and> w = rev cur)"
      by (auto split: if_splits)
    with Cons.IH [of "[]"] Cons.prems(1) show ?thesis by (auto simp: word_ok_def)
  next
    case False
    with Cons.prems Cons.IH [of "c # cur"] show ?thesis by simp
  qed
qed

lemma strings_Fields_words: "w \<in> set (strings_Fields s) \<Longrightarrow> word_ok w"
  unfolding strings_Fields_def by (rule fields_aux_words [of "[]"]) simp_all

lemma has_prefix_append [simp]: "has_prefix p (p @ s)"
  by (simp add: has_prefix_def)

lemma trim_prefix_append [simp]: "trim_prefix p (p @ s) = s"
  by (simp add: trim_prefix_def)

lemma has_prefixE: "has_prefix p s \<Longrightarrow> \<exists>r. s = p @ r"
  by (metis append_take_drop_id has_prefix_def)

lemma cut_at_append: "c \<notin> set a \<Longrightarrow> cut_at c (a @ c # b) = Some (a, b)"
  by (induction a) auto

lemma cut_at_None_iff: "cut_at c s = None \<longleftrightarrow> c \<notin> set s"
  by (induction s) (auto split: option.splits)

lemma cut_at_SomeD: "cut_at c s = Some (a, b) \<Longrightarrow> s = a @ c # b \<and> c \<notin> set a"
  by (induction s arbitrary: a) (auto split: if_splits option.splits)

subsection \<open>Tables\<close>

text \<open>
  A table is a list of rows. The repositories use \<open>SELECT ... WHERE\<close> (the first matching row),
  \<open>UPDATE ... WHERE\<close>, \<open>DELETE ... WHERE\<close> and \<open>INSERT\<close> under uniqueness constraints.
\<close>

definition update_where :: "('r \<Rightarrow> bool) \<Rightarrow> ('r \<Rightarrow> 'r) \<Rightarrow> 'r list \<Rightarrow> 'r list" where
  "update_where P f t = map (\<lambda>r. if P r then f r else r) t"

definition delete_where :: "('r \<Rightarrow> bool) \<Rightarrow> 'r list \<Rightarrow> 'r list" where
  "delete_where P t = filter (\<lambda>r. \<not> P r) t"

definition count_where :: "('r \<Rightarrow> bool) \<Rightarrow> 'r list \<Rightarrow> nat" where
  "count_where P t = length (filter P t)"

text \<open>\<open>conflict a b\<close> says that rows \<open>a\<close> and \<open>b\<close> violate a uniqueness constraint together.\<close>

definition insert_row :: "('r \<Rightarrow> 'r \<Rightarrow> bool) \<Rightarrow> 'r \<Rightarrow> 'r list \<Rightarrow> 'r list option" where
  "insert_row conflict r t = (if \<exists>x \<in> set t. conflict x r then None else Some (t @ [r]))"

definition unique_by :: "('r \<Rightarrow> 'r \<Rightarrow> bool) \<Rightarrow> 'r list \<Rightarrow> bool" where
  "unique_by conflict t \<longleftrightarrow> sorted_wrt (\<lambda>a b. \<not> conflict a b) t"

lemma set_update_where [table_simps]:
  "set (update_where P f t) = (\<lambda>r. if P r then f r else r) ` set t"
  by (simp add: update_where_def)

lemma length_update_where [simp]: "length (update_where P f t) = length t"
  by (simp add: update_where_def)

lemma update_where_Nil [simp]: "update_where P f [] = []"
  by (simp add: update_where_def)

lemma update_where_Cons [simp]:
  "update_where P f (r # t) = (if P r then f r else r) # update_where P f t"
  by (simp add: update_where_def)

lemma set_delete_where [table_simps]: "set (delete_where P t) = {r \<in> set t. \<not> P r}"
  by (auto simp: delete_where_def)

lemma insert_row_Some [table_simps]:
  "insert_row c r t = Some t' \<longleftrightarrow> t' = t @ [r] \<and> (\<forall>x \<in> set t. \<not> c x r)"
  by (auto simp: insert_row_def)

lemma insert_row_None [table_simps]:
  "insert_row c r t = None \<longleftrightarrow> (\<exists>x \<in> set t. c x r)"
  by (auto simp: insert_row_def)

lemma unique_by_insert:
  "unique_by c t \<Longrightarrow> insert_row c r t = Some t' \<Longrightarrow> unique_by c t'"
  by (auto simp: unique_by_def sorted_wrt_append table_simps)

lemma unique_by_update:
  assumes "unique_by c t" and l: "\<And>a b. c (f a) b = c a b" and r: "\<And>a b. c a (f b) = c a b"
  shows "unique_by c (update_where P f t)"
proof -
  have eq: "c (if P a then f a else a) (if P b then f b else b) = c a b" for a b
    by (simp add: l r)
  from assms(1) show ?thesis
    by (simp only: unique_by_def update_where_def sorted_wrt_map eq)
qed

lemma unique_by_delete: "unique_by c t \<Longrightarrow> unique_by c (delete_where P t)"
  by (simp add: unique_by_def delete_where_def sorted_wrt_filter)

lemma find_SomeD: "find P t = Some r \<Longrightarrow> r \<in> set t \<and> P r"
  by (auto simp: find_Some_iff in_set_conv_nth)

lemma find_append:
  "find P (xs @ ys) = (case find P xs of None \<Rightarrow> find P ys | Some x \<Rightarrow> Some x)"
  by (induction xs) auto

lemma find_fresh_last: "(\<forall>x \<in> set t. \<not> P x) \<Longrightarrow> P k \<Longrightarrow> find P (t @ [k]) = Some k"
  by (induction t) auto

lemma update_where_none: "(\<And>x. x \<in> set t \<Longrightarrow> \<not> P x) \<Longrightarrow> update_where P f t = t"
  by (auto simp: update_where_def intro: map_idI)

lemma delete_where_none: "(\<And>x. x \<in> set t \<Longrightarrow> \<not> P x) \<Longrightarrow> delete_where P t = t"
  by (auto simp: delete_where_def filter_id_conv)

lemma find_update_where:
  "(\<And>x. P (f x) = P x) \<Longrightarrow> find P (update_where Q f t) = map_option (\<lambda>x. if Q x then f x else x) (find P t)"
  by (induction t) (auto simp: update_where_def)

lemma find_update_where_other:
  "(\<And>r. P r \<Longrightarrow> Q (f r) = Q r) \<Longrightarrow>
   find Q (update_where P f t) = map_option (\<lambda>r. if P r then f r else r) (find Q t)"
  by (induction t) auto

subsection \<open>Service calls\<close>

text \<open>
  A service call reads and writes the database and returns a value or an error. The state
  after an error is kept: a Go function that fails midway has already executed its earlier
  statements.
\<close>

type_synonym ('s, 'e, 'a) svc = "'s \<Rightarrow> ('e + 'a) \<times> 's"

definition ret :: "'a \<Rightarrow> ('s, 'e, 'a) svc" where
  "ret a = (\<lambda>s. (Inr a, s))"

definition throw :: "'e \<Rightarrow> ('s, 'e, 'a) svc" where
  "throw e = (\<lambda>s. (Inl e, s))"

definition bind :: "('s, 'e, 'a) svc \<Rightarrow> ('a \<Rightarrow> ('s, 'e, 'b) svc) \<Rightarrow> ('s, 'e, 'b) svc" where
  "bind m f = (\<lambda>s. case m s of (Inl e, s') \<Rightarrow> (Inl e, s') | (Inr a, s') \<Rightarrow> f a s')"

definition lift :: "('e + 'a) \<Rightarrow> ('s, 'e, 'a) svc" where
  "lift r = (\<lambda>s. (r, s))"

text \<open>\<open>on_error m h\<close> replaces an error of \<open>m\<close> (Go's \<open>if err != nil { return ... }\<close>).\<close>

definition on_error :: "('s, 'e, 'a) svc \<Rightarrow> ('e \<Rightarrow> 'f) \<Rightarrow> ('s, 'f, 'a) svc" where
  "on_error m h = (\<lambda>s. case m s of (Inl e, s') \<Rightarrow> (Inl (h e), s') | (Inr a, s') \<Rightarrow> (Inr a, s'))"

lemma ret_eq [simp]: "ret a s = (r, s') \<longleftrightarrow> r = Inr a \<and> s' = s"
  by (auto simp: ret_def)

lemma throw_eq [simp]: "throw e s = (r, s') \<longleftrightarrow> r = Inl e \<and> s' = s"
  by (auto simp: throw_def)

lemma lift_eq [simp]: "lift x s = (r, s') \<longleftrightarrow> x = r \<and> s' = s"
  by (auto simp: lift_def)

lemma bind_Inr [svc_inv]:
  "bind m f s = (Inr b, s') \<longleftrightarrow> (\<exists>a s1. m s = (Inr a, s1) \<and> f a s1 = (Inr b, s'))"
  by (auto simp: bind_def split: prod.splits sum.splits)

lemma bind_Inl [svc_inv]:
  "bind m f s = (Inl e, s') \<longleftrightarrow>
     m s = (Inl e, s') \<or> (\<exists>a s1. m s = (Inr a, s1) \<and> f a s1 = (Inl e, s'))"
  by (auto simp: bind_def split: prod.splits sum.splits)

lemma on_error_Inr [svc_inv]: "on_error m h s = (Inr a, s') \<longleftrightarrow> m s = (Inr a, s')"
  by (auto simp: on_error_def split: prod.splits sum.splits)

lemma on_error_Inl [svc_inv]:
  "on_error m h s = (Inl f, s') \<longleftrightarrow> (\<exists>e. m s = (Inl e, s') \<and> f = h e)"
  by (auto simp: on_error_def split: prod.splits sum.splits)

lemma if_svc_eq [svc_inv]:
  "(if b then m else n) s = (r, s') \<longleftrightarrow> (if b then m s = (r, s') else n s = (r, s'))"
  by simp

lemma bind_eval [simp]:
  "m s = (Inr a, s1) \<Longrightarrow> bind m f s = f a s1"
  "m s = (Inl e, s1) \<Longrightarrow> bind m f s = (Inl e, s1)"
  by (simp_all add: bind_def)

subsection \<open>Effects of service calls\<close>

text \<open>
  \<open>keeps R m\<close>: whatever \<open>m\<close> returns, the state after it is \<open>R\<close>-related to the state before. For a
  reflexive and transitive \<open>R\<close> the rules below follow the structure of a service, so an effect
  is proved for the primitive calls only.
\<close>

definition keeps :: "('s \<Rightarrow> 's \<Rightarrow> bool) \<Rightarrow> ('s, 'e, 'a) svc \<Rightarrow> bool" where
  "keeps R m \<longleftrightarrow> (\<forall>s. R s (snd (m s)))"

lemma keepsI: "(\<And>s. R s (snd (m s))) \<Longrightarrow> keeps R m"
  by (simp add: keeps_def)

lemma keepsD: "keeps R m \<Longrightarrow> R s (snd (m s))"
  by (simp add: keeps_def)

lemma keeps_case_option:
  "keeps R m \<Longrightarrow> (\<And>x. keeps R (f x)) \<Longrightarrow> keeps R (case y of None \<Rightarrow> m | Some x \<Rightarrow> f x)"
  by (cases y) simp_all

lemma keeps_case_prod: "(\<And>a b. keeps R (f a b)) \<Longrightarrow> keeps R (case p of (a, b) \<Rightarrow> f a b)"
  by (cases p) simp

lemma keeps_if: "(b \<Longrightarrow> keeps R m) \<Longrightarrow> (\<not> b \<Longrightarrow> keeps R n) \<Longrightarrow> keeps R (if b then m else n)"
  by simp

locale effect =
  fixes R :: "'s \<Rightarrow> 's \<Rightarrow> bool"
  assumes R_refl: "R s s" and R_trans: "R s t \<Longrightarrow> R t u \<Longrightarrow> R s u"
begin

lemma keeps_ret: "keeps R (ret a)"
  by (simp add: keeps_def ret_def R_refl)

lemma keeps_throw: "keeps R (throw e)"
  by (simp add: keeps_def throw_def R_refl)

lemma keeps_on_error: "keeps R m \<Longrightarrow> keeps R (on_error m h)"
  by (auto simp: keeps_def on_error_def split: prod.splits sum.splits) (metis snd_conv)+

lemma keeps_read: "(\<And>s. snd (m s) = s) \<Longrightarrow> keeps R m"
  by (simp add: keeps_def R_refl)

lemma keeps_bind:
  assumes "keeps R m" "\<And>a. keeps R (f a)"
  shows "keeps R (bind m f)"
proof (rule keepsI)
  fix s
  obtain r s1 where m: "m s = (r, s1)" by fastforce
  have "R s s1" using keepsD [OF assms(1), of s] m by simp
  then show "R s (snd (bind m f s))"
    using m keepsD [OF assms(2)] R_trans by (cases r) (auto simp: bind_def)
qed

lemmas keeps_intros = keeps_ret keeps_throw keeps_on_error keeps_bind keeps_case_option
  keeps_case_prod keeps_if

end

subsection \<open>Single-use claims\<close>

text \<open>
  The contract shared by the replay defences of the program (authorization codes, DPoP proof
  identifiers, refresh tokens, approved backchannel requests): \<open>claim k i s\<close> answers whether the
  caller won \<open>k\<close>. A win leaves \<open>k\<close> spent, a spent key cannot be won, and no claim of
  whatever key gives a spent key back. \<open>wins\<close> counts the wins of one key over a sequence
  of claims that starts in the table's invariant (\<open>i\<close> is what differs between attempts: clock, fresh values, the rest of the request).
\<close>

primrec run_claims ::
  "('k \<Rightarrow> 'i \<Rightarrow> 's \<Rightarrow> bool \<times> 's) \<Rightarrow> ('k \<times> 'i) list \<Rightarrow> 's \<Rightarrow> ('k \<times> bool) list \<times> 's" where
  "run_claims claim [] s = ([], s)"
| "run_claims claim (a # as) s =
     (let (b, s1) = claim (fst a) (snd a) s; (rs, s2) = run_claims claim as s1
      in ((fst a, b) # rs, s2))"

definition wins :: "'k \<Rightarrow> ('k \<times> bool) list \<Rightarrow> nat" where
  "wins k rs = length (filter (\<lambda>r. r = (k, True)) rs)"

locale single_use =
  fixes claim :: "'k \<Rightarrow> 'i \<Rightarrow> 's \<Rightarrow> bool \<times> 's"
    and spent :: "'k \<Rightarrow> 's \<Rightarrow> bool"
    and inv :: "'s \<Rightarrow> bool"
  assumes inv_stays: "inv s \<Longrightarrow> inv (snd (claim k i s))"
    and win_spends: "inv s \<Longrightarrow> claim k i s = (True, s') \<Longrightarrow> spent k s'"
    and spent_refused: "spent k s \<Longrightarrow> \<not> fst (claim k i s)"
    and spent_stays: "spent k s \<Longrightarrow> spent k (snd (claim k' i s))"
begin

lemma run_spent:
  "spent k s \<Longrightarrow> wins k (fst (run_claims claim as s)) = 0 \<and> spent k (snd (run_claims claim as s))"
proof (induction as arbitrary: s)
  case (Cons a as)
  obtain b s1 where c: "claim (fst a) (snd a) s = (b, s1)" by fastforce
  have "spent k s1" using spent_stays [OF Cons.prems, of "fst a" "snd a"] c by simp
  moreover have "(fst a, b) \<noteq> (k, True)" using spent_refused [OF Cons.prems, of "snd a"] c by auto
  ultimately show ?case
    using Cons.IH [of s1] c by (auto simp: wins_def split: prod.splits)
qed (simp add: wins_def)

lemma run_at_most_once: "inv s \<Longrightarrow> wins k (fst (run_claims claim as s)) \<le> 1"
proof (induction as arbitrary: s)
  case (Cons a as)
  obtain b s1 where c: "claim (fst a) (snd a) s = (b, s1)" by fastforce
  have inv1: "inv s1" using inv_stays [OF Cons.prems, of "fst a" "snd a"] c by simp
  show ?case
  proof (cases "(fst a, b) = (k, True)")
    case True
    then have "spent k s1" using c win_spends [OF Cons.prems] by auto
    from run_spent [OF this, of as] True c show ?thesis
      by (auto simp: wins_def split: prod.splits)
  next
    case False
    with Cons.IH [OF inv1] c show ?thesis by (auto simp: wins_def split: prod.splits)
  qed
qed (simp add: wins_def)

end

end
