(* ===== verification/Zeroid_Domain.thy ===== *)
theory Zeroid_Domain
  imports Zeroid_Prelude
begin

text \<open>
  The domain package (\<open>src/domain\<close>): the string-typed enumerations with their validity tests,
  the identity lifecycle, SPIFFE/WIMSE identifiers, grant-type normalisation, the OAuth error
  vocabulary (\<open>src/internal/oautherror\<close>) and the rows of every table. Go's string enumerations
  are open (any string can reach the services), so they stay strings here. JSON columns are
  kept as their raw text, \<open>*T\<close> columns are options, and \<open>json.RawMessage(nil)\<close> is the empty
  string.
\<close>

subsection \<open>Trust levels, identity types, sub-types\<close>

abbreviation TrustLevelFirstParty :: string where
  "TrustLevelFirstParty \<equiv> ''first_party''"
abbreviation TrustLevelVerifiedThirdParty :: string where
  "TrustLevelVerifiedThirdParty \<equiv> ''verified_third_party''"
abbreviation TrustLevelUnverified :: string where
  "TrustLevelUnverified \<equiv> ''unverified''"

definition TrustLevel_Valid :: "string \<Rightarrow> bool" where
  "TrustLevel_Valid t \<longleftrightarrow>
     t = TrustLevelFirstParty \<or> t = TrustLevelVerifiedThirdParty \<or> t = TrustLevelUnverified"

definition TrustLevelRank :: "string \<Rightarrow> int" where
  "TrustLevelRank level =
     (if level = TrustLevelUnverified then 0
      else if level = TrustLevelVerifiedThirdParty then 1
      else if level = TrustLevelFirstParty then 2
      else - 1)"

abbreviation IdentityTypeAgent :: string where "IdentityTypeAgent \<equiv> ''agent''"
abbreviation IdentityTypeApplication :: string where "IdentityTypeApplication \<equiv> ''application''"
abbreviation IdentityTypeMCPServer :: string where "IdentityTypeMCPServer \<equiv> ''mcp_server''"
abbreviation IdentityTypeService :: string where "IdentityTypeService \<equiv> ''service''"

definition IdentityType_Valid :: "string \<Rightarrow> bool" where
  "IdentityType_Valid t \<longleftrightarrow>
     t = IdentityTypeAgent \<or> t = IdentityTypeApplication \<or>
     t = IdentityTypeMCPServer \<or> t = IdentityTypeService"

abbreviation SubTypeToolAgent :: string where "SubTypeToolAgent \<equiv> ''tool_agent''"

definition agentSubTypes :: "string list" where
  "agentSubTypes = [''orchestrator'', ''autonomous'', SubTypeToolAgent, ''human_proxy'', ''evaluator'']"

definition applicationSubTypes :: "string list" where
  "applicationSubTypes = [''chatbot'', ''assistant'', ''api_service'', ''custom'', ''code_agent'']"

definition serviceSubTypes :: "string list" where
  "serviceSubTypes = [''llm_provider'']"

definition ValidForIdentityType :: "string \<Rightarrow> string \<Rightarrow> bool" where
  "ValidForIdentityType s t =
     (if s = [] then True
      else if t = IdentityTypeAgent then s \<in> set agentSubTypes
      else if t = IdentityTypeApplication then s \<in> set applicationSubTypes
      else if t = IdentityTypeMCPServer then s = []
      else if t = IdentityTypeService then s \<in> set serviceSubTypes
      else False)"

subsection \<open>Identity status and risk metadata\<close>

abbreviation IdentityStatusPending :: string where "IdentityStatusPending \<equiv> ''pending''"
abbreviation IdentityStatusActive :: string where "IdentityStatusActive \<equiv> ''active''"
abbreviation IdentityStatusSuspended :: string where "IdentityStatusSuspended \<equiv> ''suspended''"
abbreviation IdentityStatusDeactivated :: string where
  "IdentityStatusDeactivated \<equiv> ''deactivated''"

definition IdentityStatus_Valid :: "string \<Rightarrow> bool" where
  "IdentityStatus_Valid s \<longleftrightarrow>
     s = IdentityStatusPending \<or> s = IdentityStatusActive \<or>
     s = IdentityStatusSuspended \<or> s = IdentityStatusDeactivated"

definition CanTransitionTo :: "string \<Rightarrow> string \<Rightarrow> bool" where
  "CanTransitionTo s target =
     (if s = IdentityStatusPending then
        target = IdentityStatusActive \<or> target = IdentityStatusDeactivated
      else if s = IdentityStatusActive then
        target = IdentityStatusSuspended \<or> target = IdentityStatusDeactivated
      else if s = IdentityStatusSuspended then
        target = IdentityStatusActive \<or> target = IdentityStatusDeactivated
      else if s = IdentityStatusDeactivated then target = IdentityStatusActive
      else False)"

definition IsUsable :: "string \<Rightarrow> bool" where
  "IsUsable s \<longleftrightarrow> s = IdentityStatusActive"

definition ValidCapabilityTier :: "string \<Rightarrow> bool" where
  "ValidCapabilityTier v \<longleftrightarrow> v \<in> {[], ''low'', ''high''}"

definition ValidRiskTier :: "string \<Rightarrow> bool" where
  "ValidRiskTier v \<longleftrightarrow> v \<in> {[], ''low'', ''high''}"

definition ValidIAL :: "string \<Rightarrow> bool" where
  "ValidIAL v \<longleftrightarrow> v \<in> {[], ''ial1'', ''ial2'', ''ial3''}"

subsection \<open>Identities\<close>

record identity =
  i_ID :: string
  i_AccountID :: string
  i_ProjectID :: string
  i_ExternalID :: string
  i_Name :: string
  i_WIMSEURI :: string
  i_IdentityType :: string
  i_SubType :: string
  i_TrustLevel :: string
  i_Status :: string
  i_OwnerUserID :: string
  i_CredentialPolicyID :: string
  i_AllowedScopes :: "string list"
  i_PublicKeyPEM :: string
  i_Framework :: string
  i_Version :: string
  i_Publisher :: string
  i_Description :: string
  i_Capabilities :: string
  i_Labels :: string
  i_Metadata :: string
  i_CapabilityTier :: string
  i_RiskTier :: string
  i_IAL :: string
  i_ExpiresAt :: "time option"
  i_CreatedBy :: string
  i_ModifiedBy :: string
  i_CreatedAt :: time
  i_UpdatedAt :: time

text \<open>The zero value \<open>domain.Identity{}\<close> of Go: the carriers of human sessions start from it.\<close>

definition zero_identity :: identity where
  "zero_identity = \<lparr>i_ID = [], i_AccountID = [], i_ProjectID = [], i_ExternalID = [],
     i_Name = [], i_WIMSEURI = [], i_IdentityType = [], i_SubType = [], i_TrustLevel = [],
     i_Status = [], i_OwnerUserID = [], i_CredentialPolicyID = [], i_AllowedScopes = [],
     i_PublicKeyPEM = [], i_Framework = [], i_Version = [], i_Publisher = [],
     i_Description = [], i_Capabilities = [], i_Labels = [], i_Metadata = [],
     i_CapabilityTier = [], i_RiskTier = [], i_IAL = [], i_ExpiresAt = None,
     i_CreatedBy = [], i_ModifiedBy = [], i_CreatedAt = 0, i_UpdatedAt = 0\<rparr>"

text \<open>\<open>!time.Now().Before(*ExpiresAt)\<close>, shared by identities, policies and API keys.\<close>

definition expired_at :: "time option \<Rightarrow> time \<Rightarrow> bool" where
  "expired_at ex now = (case ex of None \<Rightarrow> False | Some t \<Rightarrow> \<not> now < t)"

definition Identity_IsExpired :: "identity \<Rightarrow> time \<Rightarrow> bool" where
  "Identity_IsExpired i now = expired_at (i_ExpiresAt i) now"

subsection \<open>SPIFFE identifiers\<close>

definition MaxSPIFFEIDBytes :: nat where
  "MaxSPIFFEIDBytes = 2048"

text \<open>\<open>None\<close> is \<open>ErrSPIFFEIDTooLong\<close>.\<close>

definition BuildWIMSEURI :: "string \<Rightarrow> string \<Rightarrow> string \<Rightarrow> string \<Rightarrow> string \<Rightarrow> string option" where
  "BuildWIMSEURI wimseDomain accountID projectID identityType externalID =
     (let uri = ''spiffe://'' @ wimseDomain @ ''/'' @ accountID @ ''/'' @ projectID @ ''/'' @
                identityType @ ''/'' @ externalID
      in if length uri > MaxSPIFFEIDBytes then None else Some uri)"

text \<open>The letters, digits and three marks of SPIFFE 2.3; bytes above ASCII fail every case.\<close>

definition spiffe_char :: "char \<Rightarrow> bool" where
  "spiffe_char r \<longleftrightarrow>
     (CHR ''a'' \<le> r \<and> r \<le> CHR ''z'') \<or> (CHR ''A'' \<le> r \<and> r \<le> CHR ''Z'') \<or>
     (CHR ''0'' \<le> r \<and> r \<le> CHR ''9'') \<or> r = CHR ''.'' \<or> r = CHR ''-'' \<or> r = CHR ''_''"

definition ValidateSPIFFEPathSegment :: "string \<Rightarrow> bool" where
  "ValidateSPIFFEPathSegment v \<longleftrightarrow> v \<noteq> [] \<and> list_all spiffe_char v"

end
