(* ===== verification/Zeroid_Records.thy ===== *)
theory Zeroid_Records
  imports Zeroid_Domain
begin

text \<open>
  The rest of the domain package: grant types, OAuth error codes and constructors, and the
  rows of the tables the services share. Field prefixes name the table: \<open>p_\<close> credential
  policies, \<open>c_\<close> issued credentials, \<open>k_\<close> API keys, \<open>o_\<close> OAuth clients, \<open>rt_\<close> refresh tokens,
  \<open>ac_\<close> authorization codes, \<open>b_\<close> backchannel requests, \<open>pt_\<close> proof tokens, \<open>sg_\<close> signals.
\<close>

subsection \<open>Grant types\<close>

abbreviation GrantTypeClientCredentials :: string where
  "GrantTypeClientCredentials \<equiv> ''client_credentials''"
abbreviation GrantTypeJWTBearer :: string where "GrantTypeJWTBearer \<equiv> ''jwt_bearer''"
abbreviation GrantTypeTokenExchange :: string where "GrantTypeTokenExchange \<equiv> ''token_exchange''"
abbreviation GrantTypeAPIKey :: string where "GrantTypeAPIKey \<equiv> ''api_key''"
abbreviation GrantTypeAuthorizationCode :: string where
  "GrantTypeAuthorizationCode \<equiv> ''authorization_code''"
abbreviation GrantTypeRefreshToken :: string where "GrantTypeRefreshToken \<equiv> ''refresh_token''"
abbreviation GrantTypeCIBA :: string where
  "GrantTypeCIBA \<equiv> ''urn:openid:params:grant-type:ciba''"
abbreviation urnJWTBearer :: string where
  "urnJWTBearer \<equiv> ''urn:ietf:params:oauth:grant-type:jwt-bearer''"
abbreviation urnTokenExchange :: string where
  "urnTokenExchange \<equiv> ''urn:ietf:params:oauth:grant-type:token-exchange''"

definition urnToShortGrantType :: "string \<rightharpoonup> string" where
  "urnToShortGrantType =
     [urnJWTBearer \<mapsto> GrantTypeJWTBearer, urnTokenExchange \<mapsto> GrantTypeTokenExchange]"

definition allValidGrantTypes :: "string list" where
  "allValidGrantTypes =
     [GrantTypeClientCredentials, GrantTypeJWTBearer, GrantTypeTokenExchange, GrantTypeAPIKey,
      GrantTypeAuthorizationCode, GrantTypeRefreshToken, GrantTypeCIBA]"

definition NormalizeGrantType :: "string \<Rightarrow> string" where
  "NormalizeGrantType gt =
     (case urnToShortGrantType gt of Some short \<Rightarrow> short | None \<Rightarrow> gt)"

definition IsValidGrantType :: "string \<Rightarrow> bool" where
  "IsValidGrantType gt \<longleftrightarrow> NormalizeGrantType gt \<in> set allValidGrantTypes"

lemma NormalizeGrantType_idem: "NormalizeGrantType (NormalizeGrantType gt) = NormalizeGrantType gt"
  by (auto simp: NormalizeGrantType_def urnToShortGrantType_def split: option.splits)

subsection \<open>Errors\<close>

datatype oauth_code =
    InvalidClient | InvalidGrant | UnauthorizedClient | UnsupportedGrantType | InvalidScope
  | ServerError | InvalidRequest | InvalidToken | InsufficientScope | InvalidClientMetadata
  | InvalidRedirectURI | InvalidSoftwareStatement | InvalidAuthorizationDetails
  | InvalidDPoPProof | AuthorizationPending | SlowDown | ExpiredToken | AccessDenied

fun oauth_code_string :: "oauth_code \<Rightarrow> string" where
  "oauth_code_string InvalidClient = ''invalid_client''"
| "oauth_code_string InvalidGrant = ''invalid_grant''"
| "oauth_code_string UnauthorizedClient = ''unauthorized_client''"
| "oauth_code_string UnsupportedGrantType = ''unsupported_grant_type''"
| "oauth_code_string InvalidScope = ''invalid_scope''"
| "oauth_code_string ServerError = ''server_error''"
| "oauth_code_string InvalidRequest = ''invalid_request''"
| "oauth_code_string InvalidToken = ''invalid_token''"
| "oauth_code_string InsufficientScope = ''insufficient_scope''"
| "oauth_code_string InvalidClientMetadata = ''invalid_client_metadata''"
| "oauth_code_string InvalidRedirectURI = ''invalid_redirect_uri''"
| "oauth_code_string InvalidSoftwareStatement = ''invalid_software_statement''"
| "oauth_code_string InvalidAuthorizationDetails = ''invalid_authorization_details''"
| "oauth_code_string InvalidDPoPProof = ''invalid_dpop_proof''"
| "oauth_code_string AuthorizationPending = ''authorization_pending''"
| "oauth_code_string SlowDown = ''slow_down''"
| "oauth_code_string ExpiredToken = ''expired_token''"
| "oauth_code_string AccessDenied = ''access_denied''"

text \<open>The axis on which a policy rejects a request.\<close>

datatype policy_axis =
    AxInactive | AxExpired | AxTTL | AxGrantType | AxScope | AxTrust | AxAttestation | AxDepth

text \<open>
  One constructor per error sentinel of the services; \<open>OAuthErr\<close> is \<open>*OAuthError\<close> with its code
  and HTTP status, \<open>HTTPErr\<close> a handler's status code, \<open>ErrMsg\<close> a plain \<open>fmt.Errorf\<close> without a sentinel. Descriptions are not kept.
\<close>

datatype err =
    OAuthErr oauth_code nat
  | ErrIdentityNotUsable | ErrIdentityExpired | ErrCredentialExpired | ErrScopesNotAllowed
  | ErrPolicyNotFound | ErrPolicyViolation policy_axis | ErrPolicyNameConflict
  | ErrInvalidPolicyField | ErrPolicySubsetViolation policy_axis
  | ErrIdentityAlreadyExists | ErrInvalidIdentityField | ErrIdentityNotFound
  | ErrSPIFFEIDTooLong | ErrNoRows | ErrDPoPBindingMismatch | ErrNonceReplayed
  | ErrOAuthClientNotFound | ErrInvalidClientSecret | ErrOAuthClientAlreadyExists
  | ErrPrivateNotificationEndpoint | ErrDPoPStorageFailure | ErrAttestationRejected
  | ErrAttestationAlreadyVerified | ErrCredentialNotFound | HTTPErr nat | ErrMsg string

definition oauthBadRequest :: "oauth_code \<Rightarrow> err" where
  "oauthBadRequest code = OAuthErr code 400"

definition oauthUnauthorized :: err where
  "oauthUnauthorized = OAuthErr InvalidClient 401"

definition oauthServerError :: err where
  "oauthServerError = OAuthErr ServerError 500"

subsection \<open>Rows\<close>

record policy =
  p_ID :: string
  p_AccountID :: string
  p_ProjectID :: string
  p_Name :: string
  p_Description :: string
  p_MaxTTLSeconds :: int
  p_AllowedGrantTypes :: "string list"
  p_AllowedScopes :: "string list"
  p_RequiredTrustLevel :: string
  p_RequiredAttestation :: string
  p_MaxDelegationDepth :: int
  p_IsActive :: bool
  p_ExpiresAt :: "time option"
  p_CreatedAt :: time
  p_UpdatedAt :: time

record credential =
  c_ID :: string
  c_IdentityID :: "string option"
  c_AccountID :: string
  c_ProjectID :: string
  c_JTI :: string
  c_Subject :: string
  c_IssuedAt :: time
  c_ExpiresAt :: time
  c_TTLSeconds :: int
  c_Scopes :: "string list"
  c_IsRevoked :: bool
  c_RevokedAt :: "time option"
  c_RevokeReason :: string
  c_GrantType :: string
  c_DelegationDepth :: int
  c_ParentJTI :: string
  c_DelegatedByWIMSEURI :: string
  c_MissionID :: string
  c_DPoPKeyThumbprint :: string

abbreviation APIKeyStateActive :: string where "APIKeyStateActive \<equiv> ''active''"
abbreviation APIKeyStateRevoked :: string where "APIKeyStateRevoked \<equiv> ''revoked''"

record api_key =
  k_ID :: string
  k_Name :: string
  k_Description :: string
  k_KeyPrefix :: string
  k_KeyHash :: string
  k_KeyVersion :: int
  k_AccountID :: string
  k_ProjectID :: string
  k_IdentityID :: string
  k_CreatedBy :: string
  k_Scopes :: "string list"
  k_Product :: string
  k_Environment :: string
  k_ExpiresAt :: "time option"
  k_State :: string
  k_RevokedAt :: "time option"
  k_RevokedBy :: string
  k_RevokeReason :: string
  k_LastUsedAt :: "time option"
  k_LastUsedIP :: string
  k_UsageCount :: int
  k_Metadata :: string
  k_IPAllowlist :: "string list"
  k_CredentialPolicyID :: string
  k_RateLimitRPS :: int
  k_ReplacedBy :: string
  k_CreatedAt :: time
  k_UpdatedAt :: time

record oauth_client =
  o_ID :: string
  o_ClientID :: string
  o_ClientSecret :: string
  o_Name :: string
  o_Description :: string
  o_ClientType :: string
  o_TokenEndpointAuthMethod :: string
  o_GrantTypes :: "string list"
  o_RedirectURIs :: "string list"
  o_Scopes :: "string list"
  o_ClientNotificationEndpoint :: string
  o_BackchannelTokenDeliveryMode :: string
  o_AccessTokenTTL :: int
  o_RefreshTokenTTL :: int
  o_ClientSecretExpiresAt :: "time option"
  o_JWKSURI :: string
  o_JWKS :: string
  o_SoftwareID :: string
  o_SoftwareVersion :: string
  o_Contacts :: "string list"
  o_Metadata :: string
  o_IdentityID :: "string option"
  o_RegistrationSource :: string
  o_RegistrationAccessToken :: string
  o_IsActive :: bool
  o_CreatedAt :: time
  o_UpdatedAt :: time

abbreviation RefreshTokenStateActive :: string where "RefreshTokenStateActive \<equiv> ''active''"
abbreviation RefreshTokenStateRevoked :: string where "RefreshTokenStateRevoked \<equiv> ''revoked''"

record refresh_token =
  rt_ID :: string
  rt_TokenHash :: string
  rt_ClientID :: string
  rt_AccountID :: string
  rt_ProjectID :: string
  rt_UserID :: string
  rt_IdentityID :: "string option"
  rt_Scopes :: string
  rt_FamilyID :: string
  rt_State :: string
  rt_ExpiresAt :: time
  rt_RevokedAt :: "time option"
  rt_CreatedAt :: time
  rt_DPoPKeyThumbprint :: string

record auth_code =
  ac_JTI :: string
  ac_ClientID :: string
  ac_AccountID :: string
  ac_ProjectID :: string
  ac_CredentialJTI :: "string option"
  ac_RefreshFamilyID :: "string option"
  ac_ConsumedAt :: time
  ac_ExpiresAt :: time

abbreviation BackchannelStatusPending :: string where "BackchannelStatusPending \<equiv> ''pending''"
abbreviation BackchannelStatusApproved :: string where "BackchannelStatusApproved \<equiv> ''approved''"
abbreviation BackchannelStatusIssued :: string where "BackchannelStatusIssued \<equiv> ''issued''"
abbreviation BackchannelStatusDenied :: string where "BackchannelStatusDenied \<equiv> ''denied''"
abbreviation BackchannelStatusExpired :: string where "BackchannelStatusExpired \<equiv> ''expired''"
abbreviation BackchannelNotificationPoll :: string where "BackchannelNotificationPoll \<equiv> ''poll''"
abbreviation BackchannelNotificationPing :: string where "BackchannelNotificationPing \<equiv> ''ping''"
abbreviation BackchannelNotificationPush :: string where "BackchannelNotificationPush \<equiv> ''push''"

record bc_request =
  b_AuthReqID :: string
  b_AccountID :: string
  b_ProjectID :: string
  b_ClientID :: string
  b_LoginHint :: string
  b_GroupHint :: string
  b_Scope :: string
  b_BindingMessage :: string
  b_AuthorizationDetailsRaw :: string
  b_NotificationMode :: string
  b_ClientNotificationEndpoint :: string
  b_ClientNotificationToken :: string
  b_Status :: string
  b_ApprovedSubjectID :: string
  b_ApprovedSubjectEmail :: string
  b_ApprovedSubjectName :: string
  b_IntervalSeconds :: int
  b_LastPolledAt :: "time option"
  b_LastNotifyError :: string
  b_ExpiresAt :: time
  b_CreatedAt :: time
  b_ApprovedAt :: "time option"

record proof_token =
  pt_ID :: string
  pt_IdentityID :: string
  pt_AccountID :: string
  pt_ProjectID :: string
  pt_JTI :: string
  pt_Nonce :: string
  pt_Audience :: string
  pt_IssuedAt :: time
  pt_ExpiresAt :: time
  pt_IsUsed :: bool
  pt_UsedAt :: "time option"
  pt_CreatedAt :: time

record signal =
  sg_ID :: string
  sg_AccountID :: string
  sg_ProjectID :: string
  sg_IdentityID :: string
  sg_SignalType :: string
  sg_Severity :: string
  sg_Source :: string
  sg_Payload :: "(string \<times> string) list"
  sg_ProcessedAt :: "time option"
  sg_CreatedAt :: time
  sg_MissionID :: string

record dpop_jti_record =
  d_JTI :: string
  d_ExpiresAt :: time

record attestation =
  at_ID :: string
  at_IdentityID :: string
  at_AccountID :: string
  at_ProjectID :: string
  at_Level :: string
  at_ProofType :: string
  at_ProofValue :: string
  at_ProofHash :: string
  at_VerifiedAt :: "time option"
  at_ExpiresAt :: "time option"
  at_IsVerified :: bool
  at_IsExpired :: bool
  at_CredentialID :: string
  at_CreatedAt :: time

record access_token =
  a_AccessToken :: string
  a_TokenType :: string
  a_ExpiresIn :: int
  a_Scope :: string
  a_JTI :: string
  a_IssuedAt :: int
  a_AccountID :: string
  a_ProjectID :: string
  a_ExternalID :: string
  a_UserID :: string
  a_RefreshToken :: string
  a_AuthorizationDetails :: string

definition Policy_IsExpired :: "policy \<Rightarrow> time \<Rightarrow> bool" where
  "Policy_IsExpired p now = expired_at (p_ExpiresAt p) now"

definition APIKey_IsExpired :: "api_key \<Rightarrow> time \<Rightarrow> bool" where
  "APIKey_IsExpired k now = expired_at (k_ExpiresAt k) now"

abbreviation AttestationLevelSoftware :: string where "AttestationLevelSoftware \<equiv> ''software''"
abbreviation AttestationLevelPlatform :: string where "AttestationLevelPlatform \<equiv> ''platform''"
abbreviation AttestationLevelHardware :: string where "AttestationLevelHardware \<equiv> ''hardware''"

definition AttestationLevel_Valid :: "string \<Rightarrow> bool" where
  "AttestationLevel_Valid l \<longleftrightarrow>
     l = AttestationLevelSoftware \<or> l = AttestationLevelPlatform \<or> l = AttestationLevelHardware"

definition IsValidBackchannelDeliveryMode :: "string \<Rightarrow> bool" where
  "IsValidBackchannelDeliveryMode mode \<longleftrightarrow>
     mode \<in> {[], BackchannelNotificationPoll, BackchannelNotificationPing,
             BackchannelNotificationPush}"

end
