(* ===== verification/Zeroid_Store.thy ===== *)
theory Zeroid_Store
  imports Zeroid_Records
begin

text \<open>
  The PostgreSQL store (\<open>src/internal/store/postgres\<close>): the database as a record of tables, the
  uniqueness constraints of the migrations, and one definition per repository statement. The
  database is healthy in this model: a statement fails only where a constraint rejects it or
  no row matches. \<open>cascade_chain\<close> is the recursive query of \<open>revoke_credentials_cascade\<close> and
  \<open>revoke_credential_cascade\<close> (\<open>src/migrations/007_cascade_revocation.up.sql\<close>): it follows
  \<open>parent_jti\<close> links through active rows, at most 50 deep, and drops a row whose \<open>jti\<close> is
  already on its path (the \<open>CYCLE\<close> clause).
\<close>

record db =
  identities :: "identity list"
  credential_policies :: "policy list"
  issued_credentials :: "credential list"
  service_keys :: "api_key list"
  oauth_clients :: "oauth_client list"
  refresh_tokens :: "refresh_token list"
  auth_codes :: "auth_code list"
  backchannel_auth_requests :: "bc_request list"
  proof_tokens :: "proof_token list"
  dpop_jti :: "dpop_jti_record list"
  cae_signals :: "signal list"
  attestation_records :: "attestation list"

definition empty_db :: db where
  "empty_db = \<lparr>identities = [], credential_policies = [], issued_credentials = [],
     service_keys = [], oauth_clients = [], refresh_tokens = [], auth_codes = [],
     backchannel_auth_requests = [], proof_tokens = [], dpop_jti = [], cae_signals = [],
     attestation_records = []\<rparr>"

subsection \<open>Uniqueness constraints\<close>

definition identity_conflict :: "identity \<Rightarrow> identity \<Rightarrow> bool" where
  "identity_conflict a b \<longleftrightarrow> i_ID a = i_ID b \<or>
     (i_AccountID a = i_AccountID b \<and> i_ProjectID a = i_ProjectID b \<and>
      i_ExternalID a = i_ExternalID b)"

definition policy_conflict :: "policy \<Rightarrow> policy \<Rightarrow> bool" where
  "policy_conflict a b \<longleftrightarrow> p_ID a = p_ID b \<or>
     (p_AccountID a = p_AccountID b \<and> p_ProjectID a = p_ProjectID b \<and> p_Name a = p_Name b)"

definition credential_conflict :: "credential \<Rightarrow> credential \<Rightarrow> bool" where
  "credential_conflict a b \<longleftrightarrow> c_ID a = c_ID b \<or> c_JTI a = c_JTI b"

definition api_key_conflict :: "api_key \<Rightarrow> api_key \<Rightarrow> bool" where
  "api_key_conflict a b \<longleftrightarrow> k_ID a = k_ID b \<or> k_KeyHash a = k_KeyHash b"

definition refresh_conflict :: "refresh_token \<Rightarrow> refresh_token \<Rightarrow> bool" where
  "refresh_conflict a b \<longleftrightarrow> rt_ID a = rt_ID b \<or> rt_TokenHash a = rt_TokenHash b"

definition proof_conflict :: "proof_token \<Rightarrow> proof_token \<Rightarrow> bool" where
  "proof_conflict a b \<longleftrightarrow>
     pt_ID a = pt_ID b \<or> pt_JTI a = pt_JTI b \<or> pt_Nonce a = pt_Nonce b"

subsection \<open>Identities\<close>

abbreviation in_tenant_i :: "string \<Rightarrow> string \<Rightarrow> identity \<Rightarrow> bool" where
  "in_tenant_i acct proj i \<equiv> i_AccountID i = acct \<and> i_ProjectID i = proj"

text \<open>The \<open>CHECK\<close> constraints of the table (\<open>001_init_schema\<close>, \<open>016_identity_risk_metadata\<close>).\<close>

definition identity_check :: "identity \<Rightarrow> bool" where
  "identity_check i \<longleftrightarrow> IdentityType_Valid (i_IdentityType i) \<and> TrustLevel_Valid (i_TrustLevel i) \<and>
     IdentityStatus_Valid (i_Status i) \<and> ValidCapabilityTier (i_CapabilityTier i) \<and>
     ValidRiskTier (i_RiskTier i) \<and> ValidIAL (i_IAL i)"

definition Identity_Create :: "identity \<Rightarrow> (db, err, unit) svc" where
  "Identity_Create i = (\<lambda>s. if \<not> identity_check i then (Inl (ErrMsg ''failed to register identity''), s)
    else case insert_row identity_conflict i (identities s) of
      None \<Rightarrow> (Inl ErrIdentityAlreadyExists, s)
    | Some t \<Rightarrow> (Inr (), s\<lparr>identities := t\<rparr>))"

definition Identity_GetByID :: "string \<Rightarrow> string \<Rightarrow> string \<Rightarrow> (db, err, identity) svc" where
  "Identity_GetByID rid acct proj = (\<lambda>s.
     case find (\<lambda>i. i_ID i = rid \<and> in_tenant_i acct proj i) (identities s) of
       None \<Rightarrow> (Inl ErrNoRows, s) | Some i \<Rightarrow> (Inr i, s))"

definition Identity_GetByExternalID :: "string \<Rightarrow> string \<Rightarrow> string \<Rightarrow> (db, err, identity) svc" where
  "Identity_GetByExternalID ext acct proj = (\<lambda>s.
     case find (\<lambda>i. i_ExternalID i = ext \<and> in_tenant_i acct proj i) (identities s) of
       None \<Rightarrow> (Inl ErrNoRows, s) | Some i \<Rightarrow> (Inr i, s))"

definition Identity_GetByWIMSEURI :: "string \<Rightarrow> string \<Rightarrow> string \<Rightarrow> (db, err, identity) svc" where
  "Identity_GetByWIMSEURI uri acct proj = (\<lambda>s.
     case find (\<lambda>i. i_WIMSEURI i = uri \<and> in_tenant_i acct proj i) (identities s) of
       None \<Rightarrow> (Inl ErrNoRows, s) | Some i \<Rightarrow> (Inr i, s))"

definition Identity_GetByIDs :: "string list \<Rightarrow> string \<Rightarrow> string \<Rightarrow> db \<Rightarrow> identity list" where
  "Identity_GetByIDs ids acct proj s =
     (if ids = [] then []
      else filter (\<lambda>i. i_ID i \<in> set ids \<and> in_tenant_i acct proj i) (identities s))"

definition Identity_Update :: "string \<Rightarrow> identity \<Rightarrow> (db, err, unit) svc" where
  "Identity_Update caller i = (\<lambda>s.
     if \<not> identity_check i then (Inl (ErrMsg ''failed to update identity''), s)
     else (Inr (), s\<lparr>identities :=
       update_where (\<lambda>r. i_ID r = i_ID i \<and> in_tenant_i (i_AccountID i) (i_ProjectID i) r)
         (\<lambda>_. i\<lparr>i_ModifiedBy := caller\<rparr>) (identities s)\<rparr>))"

text \<open>
  Deleting an identity also applies the foreign keys of the migrations: credentials, refresh
  tokens, signals and OAuth clients lose the reference (\<open>SET NULL\<close>), API keys, proof tokens and
  attestations go with it (\<open>CASCADE\<close>).
\<close>

definition Identity_Delete :: "string \<Rightarrow> string \<Rightarrow> string \<Rightarrow> db \<Rightarrow> db" where
  "Identity_Delete rid acct proj s =
     (if \<exists>i \<in> set (identities s). i_ID i = rid \<and> in_tenant_i acct proj i then
        s\<lparr>identities := delete_where (\<lambda>i. i_ID i = rid \<and> in_tenant_i acct proj i) (identities s),
          issued_credentials := update_where (\<lambda>c. c_IdentityID c = Some rid)
            (\<lambda>c. c\<lparr>c_IdentityID := None\<rparr>) (issued_credentials s),
          refresh_tokens := update_where (\<lambda>r. rt_IdentityID r = Some rid)
            (\<lambda>r. r\<lparr>rt_IdentityID := None\<rparr>) (refresh_tokens s),
          cae_signals := update_where (\<lambda>g. sg_IdentityID g = rid)
            (\<lambda>g. g\<lparr>sg_IdentityID := []\<rparr>) (cae_signals s),
          oauth_clients := update_where (\<lambda>c. o_IdentityID c = Some rid)
            (\<lambda>c. c\<lparr>o_IdentityID := None\<rparr>) (oauth_clients s),
          service_keys := delete_where (\<lambda>k. k_IdentityID k = rid) (service_keys s),
          proof_tokens := delete_where (\<lambda>p. pt_IdentityID p = rid) (proof_tokens s),
          attestation_records := delete_where (\<lambda>a. at_IdentityID a = rid) (attestation_records s)\<rparr>
      else s)"

definition DeactivateIfActive ::
  "string \<Rightarrow> time \<Rightarrow> string \<Rightarrow> string \<Rightarrow> string \<Rightarrow> db \<Rightarrow> identity option \<times> db" where
  "DeactivateIfActive caller now rid acct proj s =
     (let hit = (\<lambda>i. i_ID i = rid \<and> in_tenant_i acct proj i \<and> i_Status i = IdentityStatusActive);
          upd = (\<lambda>i. i\<lparr>i_Status := IdentityStatusDeactivated, i_UpdatedAt := now,
                       i_ModifiedBy := (if caller = [] then i_ModifiedBy i else caller)\<rparr>)
      in case find hit (identities s) of
           None \<Rightarrow> (None, s)
         | Some i \<Rightarrow> (Some (upd i), s\<lparr>identities := update_where hit upd (identities s)\<rparr>))"

definition ListExpiredActive :: "time \<Rightarrow> db \<Rightarrow> identity list" where
  "ListExpiredActive now s =
     filter (\<lambda>i. (case i_ExpiresAt i of None \<Rightarrow> False | Some t \<Rightarrow> t < now) \<and>
                 i_Status i = IdentityStatusActive) (identities s)"

subsection \<open>Issued credentials and cascade revocation\<close>

definition Credential_Create :: "credential \<Rightarrow> (db, err, unit) svc" where
  "Credential_Create c = (\<lambda>s. case insert_row credential_conflict c (issued_credentials s) of
      None \<Rightarrow> (Inl (ErrMsg ''failed to persist credential''), s)
    | Some t \<Rightarrow> (Inr (), s\<lparr>issued_credentials := t\<rparr>))"

definition Credential_GetByID :: "string \<Rightarrow> string \<Rightarrow> string \<Rightarrow> (db, err, credential) svc" where
  "Credential_GetByID rid acct proj = (\<lambda>s.
     case find (\<lambda>c. c_ID c = rid \<and> c_AccountID c = acct \<and> c_ProjectID c = proj)
            (issued_credentials s) of
       None \<Rightarrow> (Inl ErrNoRows, s) | Some c \<Rightarrow> (Inr c, s))"

definition Credential_GetByJTI :: "string \<Rightarrow> db \<Rightarrow> credential option" where
  "Credential_GetByJTI jti s = find (\<lambda>c. c_JTI c = jti) (issued_credentials s)"

definition cred_active :: "time \<Rightarrow> credential \<Rightarrow> bool" where
  "cred_active now c \<longleftrightarrow> \<not> c_IsRevoked c \<and> now < c_ExpiresAt c"

definition children_of :: "time \<Rightarrow> credential list \<Rightarrow> credential \<Rightarrow> credential list" where
  "children_of now t c = filter (\<lambda>ic. c_ParentJTI ic = c_JTI c \<and> cred_active now ic) t"

fun cascade_chain ::
  "nat \<Rightarrow> time \<Rightarrow> credential list \<Rightarrow> string list \<Rightarrow> credential \<Rightarrow> credential list" where
  "cascade_chain 0 now t path c = [c]"
| "cascade_chain (Suc n) now t path c =
     c # concat (map (\<lambda>ic. if c_JTI ic \<in> set path then []
                           else cascade_chain n now t (c_JTI ic # path) ic)
                  (children_of now t c))"

definition cascade_from :: "time \<Rightarrow> credential list \<Rightarrow> (credential \<Rightarrow> bool) \<Rightarrow> credential list" where
  "cascade_from now t anchor =
     concat (map (\<lambda>c. cascade_chain 50 now t [c_JTI c] c)
       (filter (\<lambda>c. anchor c \<and> cred_active now c) t))"

definition mark_revoked :: "time \<Rightarrow> string \<Rightarrow> credential \<Rightarrow> credential" where
  "mark_revoked now reason c =
     c\<lparr>c_IsRevoked := True, c_RevokedAt := Some now, c_RevokeReason := reason\<rparr>"

definition revoke_cascade ::
  "time \<Rightarrow> string \<Rightarrow> (credential \<Rightarrow> bool) \<Rightarrow> credential list \<Rightarrow> credential list" where
  "revoke_cascade now reason anchor t =
     (let hit = set (map c_ID (cascade_from now t anchor))
      in update_where (\<lambda>c. c_ID c \<in> hit \<and> \<not> c_IsRevoked c) (mark_revoked now reason) t)"

text \<open>\<open>revoke_credentials_cascade\<close>, anchored on the owning identity.\<close>

definition Credential_RevokeAllActiveForIdentity ::
  "time \<Rightarrow> string \<Rightarrow> string \<Rightarrow> db \<Rightarrow> db" where
  "Credential_RevokeAllActiveForIdentity now identityID reason s =
     s\<lparr>issued_credentials := revoke_cascade now reason
         (\<lambda>c. c_IdentityID c = Some identityID) (issued_credentials s)\<rparr>"

text \<open>\<open>revoke_credential_cascade\<close>, anchored on one credential of the caller's tenant.\<close>

definition Credential_Revoke :: "time \<Rightarrow> string \<Rightarrow> string \<Rightarrow> string \<Rightarrow> string \<Rightarrow> db \<Rightarrow> db" where
  "Credential_Revoke now rid acct proj reason s =
     s\<lparr>issued_credentials := revoke_cascade now reason
         (\<lambda>c. c_ID c = rid \<and> c_AccountID c = acct \<and> c_ProjectID c = proj) (issued_credentials s)\<rparr>"

subsection \<open>Attestations, API keys, clients, codes\<close>

definition attestation_order :: "string \<Rightarrow> int" where
  "attestation_order l =
     (if l = AttestationLevelHardware then 3 else if l = AttestationLevelPlatform then 2
      else if l = AttestationLevelSoftware then 1 else 0)"

fun highest_level :: "attestation list \<Rightarrow> string option" where
  "highest_level [] = None"
| "highest_level (a # as) =
     (case highest_level as of
        None \<Rightarrow> Some (at_Level a)
      | Some l \<Rightarrow> if attestation_order l \<le> attestation_order (at_Level a)
                  then Some (at_Level a) else Some l)"

definition GetHighestVerifiedLevel :: "string \<Rightarrow> db \<Rightarrow> string" where
  "GetHighestVerifiedLevel identityID s =
     (case highest_level (filter (\<lambda>a. at_IdentityID a = identityID \<and> at_IsVerified a \<and>
                                      \<not> at_IsExpired a) (attestation_records s)) of
        None \<Rightarrow> [] | Some l \<Rightarrow> l)"

definition APIKey_GetByKeyHash :: "time \<Rightarrow> string \<Rightarrow> (db, err, api_key) svc" where
  "APIKey_GetByKeyHash now keyHash = (\<lambda>s.
     case find (\<lambda>k. k_KeyHash k = keyHash \<and> k_State k = APIKeyStateActive) (service_keys s) of
       None \<Rightarrow> (Inl ErrNoRows, s)
     | Some sk \<Rightarrow>
         (if (case k_ExpiresAt sk of None \<Rightarrow> False | Some t \<Rightarrow> t < now)
          then (Inl (ErrMsg ''API key has expired''), s) else (Inr sk, s)))"

definition APIKey_UpdateLastUsed :: "time \<Rightarrow> string \<Rightarrow> string \<Rightarrow> db \<Rightarrow> db" where
  "APIKey_UpdateLastUsed now rid ip s = s\<lparr>service_keys :=
     update_where (\<lambda>k. k_ID k = rid)
       (\<lambda>k. k\<lparr>k_LastUsedAt := Some now, k_LastUsedIP := ip, k_UsageCount := k_UsageCount k + 1\<rparr>)
       (service_keys s)\<rparr>"

definition APIKey_RevokeByIdentityID :: "time \<Rightarrow> string \<Rightarrow> db \<Rightarrow> db" where
  "APIKey_RevokeByIdentityID now identityID s = s\<lparr>service_keys :=
     update_where (\<lambda>k. k_IdentityID k = identityID \<and> k_State k = APIKeyStateActive)
       (\<lambda>k. k\<lparr>k_State := APIKeyStateRevoked, k_RevokedAt := Some now,
              k_RevokedBy := ''system:identity_revocation'',
              k_RevokeReason := ''identity deactivated or key rotated'', k_UpdatedAt := now\<rparr>)
       (service_keys s)\<rparr>"

definition APIKey_Revoke ::
  "time \<Rightarrow> string \<Rightarrow> string \<Rightarrow> string \<Rightarrow> string \<Rightarrow> string \<Rightarrow> db \<Rightarrow> nat \<times> db" where
  "APIKey_Revoke now rid acct proj revokedBy reason s =
     (let hit = (\<lambda>k. k_ID k = rid \<and> k_AccountID k = acct \<and> k_ProjectID k = proj \<and>
                     k_State k = APIKeyStateActive)
      in (count_where hit (service_keys s),
          s\<lparr>service_keys := update_where hit
              (\<lambda>k. k\<lparr>k_State := APIKeyStateRevoked, k_RevokedAt := Some now,
                     k_RevokedBy := revokedBy, k_RevokeReason := reason, k_UpdatedAt := now\<rparr>)
              (service_keys s)\<rparr>))"

text \<open>
  The foreign keys of \<open>006_service_keys\<close>; the columns are UUIDs without \<open>nullzero\<close>, so an empty
  identifier is sent as the empty string, which is not a UUID.
\<close>

definition APIKey_Create :: "api_key \<Rightarrow> (db, err, unit) svc" where
  "APIKey_Create k = (\<lambda>s.
     if k_IdentityID k \<noteq> [] \<and> (\<exists>i \<in> set (identities s). i_ID i = k_IdentityID k) \<and>
        k_CredentialPolicyID k \<noteq> [] \<and>
        (\<exists>p \<in> set (credential_policies s). p_ID p = k_CredentialPolicyID k)
     then case insert_row api_key_conflict k (service_keys s) of
            None \<Rightarrow> (Inl (ErrMsg ''failed to store API key''), s)
          | Some t \<Rightarrow> (Inr (), s\<lparr>service_keys := t\<rparr>)
     else (Inl (ErrMsg ''failed to store API key''), s))"

definition OAuthClient_GetByClientID :: "string \<Rightarrow> db \<Rightarrow> oauth_client option" where
  "OAuthClient_GetByClientID clientID s = find (\<lambda>c. o_ClientID c = clientID) (oauth_clients s)"

definition OAuthClient_GetPublicByClientID :: "string \<Rightarrow> db \<Rightarrow> oauth_client option" where
  "OAuthClient_GetPublicByClientID clientID s =
     find (\<lambda>c. o_ClientID c = clientID \<and> o_ClientType c = ''public'') (oauth_clients s)"

text \<open>\<open>INSERT ... ON CONFLICT (jti) DO NOTHING\<close>; the flag says whether a row was inserted.\<close>

definition AuthCode_Consume :: "auth_code \<Rightarrow> db \<Rightarrow> bool \<times> db" where
  "AuthCode_Consume code s =
     (case insert_row (\<lambda>a b. ac_JTI a = ac_JTI b) code (auth_codes s) of
        None \<Rightarrow> (False, s) | Some t \<Rightarrow> (True, s\<lparr>auth_codes := t\<rparr>))"

definition AuthCode_GetByJTI :: "string \<Rightarrow> db \<Rightarrow> auth_code option" where
  "AuthCode_GetByJTI jti s = find (\<lambda>c. ac_JTI c = jti) (auth_codes s)"

definition AuthCode_UpdateTokenInfo :: "string \<Rightarrow> string \<Rightarrow> string \<Rightarrow> db \<Rightarrow> db" where
  "AuthCode_UpdateTokenInfo jti credJTI familyID s = s\<lparr>auth_codes :=
     update_where (\<lambda>c. ac_JTI c = jti)
       (\<lambda>c. c\<lparr>ac_CredentialJTI := Some credJTI,
              ac_RefreshFamilyID :=
                (if familyID \<noteq> [] then Some familyID else ac_RefreshFamilyID c)\<rparr>)
       (auth_codes s)\<rparr>"

end
