(* ===== verification/Zeroid_Policy.thy ===== *)
theory Zeroid_Policy
  imports Zeroid_Store
begin

text \<open>
  Credential policies (\<open>src/internal/service/credential_policy.go\<close> and its repository): creation
  with normalisation and defaults, the tenant default policy, updates, deletion, the six-way
  enforcement at issuance and the subset test at API-key creation. Theorems: what enforcement
  guarantees, that the subset test transports acceptance from the narrower to the wider
  policy, that stored policies stay well formed, and the tenant-default behaviour.
\<close>

subsection \<open>Repository\<close>

definition Policy_Create :: "policy \<Rightarrow> (db, err, unit) svc" where
  "Policy_Create p = (\<lambda>s. case insert_row policy_conflict p (credential_policies s) of
      None \<Rightarrow> (Inl ErrPolicyNameConflict, s)
    | Some t \<Rightarrow> (Inr (), s\<lparr>credential_policies := t\<rparr>))"

definition GetPolicy :: "string \<Rightarrow> string \<Rightarrow> string \<Rightarrow> (db, err, policy) svc" where
  "GetPolicy pid acct proj = (\<lambda>s.
     case find (\<lambda>p. p_ID p = pid \<and> p_AccountID p = acct \<and> p_ProjectID p = proj)
            (credential_policies s) of
       None \<Rightarrow> (Inl ErrPolicyNotFound, s) | Some p \<Rightarrow> (Inr p, s))"

definition GetDefaultByTenant :: "string \<Rightarrow> string \<Rightarrow> db \<Rightarrow> policy option" where
  "GetDefaultByTenant acct proj s =
     find (\<lambda>p. p_AccountID p = acct \<and> p_ProjectID p = proj \<and> p_Name p = ''default'' \<and> p_IsActive p)
       (credential_policies s)"

text \<open>Renaming onto another policy of the tenant violates the uniqueness constraint.\<close>

definition Policy_Update :: "policy \<Rightarrow> (db, err, unit) svc" where
  "Policy_Update p = (\<lambda>s.
     if \<exists>r \<in> set (credential_policies s). p_ID r \<noteq> p_ID p \<and> policy_conflict r p
     then (Inl (ErrMsg ''failed to update credential policy''), s)
     else (Inr (), s\<lparr>credential_policies :=
       update_where (\<lambda>r. p_ID r = p_ID p \<and> p_AccountID r = p_AccountID p \<and>
                         p_ProjectID r = p_ProjectID p) (\<lambda>_. p) (credential_policies s)\<rparr>))"

text \<open>
  The reference check of \<open>Delete\<close> counts rows of a table named \<open>api_keys\<close>. \<open>relations\<close> lists the
  tables the migrations create (API keys live in \<open>service_keys\<close>); a query on any other name is
  an error of the database.
\<close>

definition relations :: "string list" where
  "relations = [''credential_policies'', ''identities'', ''issued_credentials'', ''refresh_tokens'',
     ''attestation_records'', ''oauth_clients'', ''proof_tokens'', ''cae_signals'', ''service_keys'',
     ''auth_codes'', ''identity_audit_logs'', ''attestation_policies'',
     ''backchannel_auth_requests'', ''signing_credentials'', ''dpop_jti'']"

definition count_policy_refs :: "string \<Rightarrow> string \<Rightarrow> string \<Rightarrow> string \<Rightarrow> db \<Rightarrow> nat option" where
  "count_policy_refs table pid acct proj s =
     (if table \<notin> set relations then None
      else if table = ''service_keys'' then
        Some (count_where (\<lambda>k. k_CredentialPolicyID k = pid \<and> k_AccountID k = acct \<and>
                               k_ProjectID k = proj) (service_keys s))
      else Some 0)"

definition DeletePolicy :: "string \<Rightarrow> string \<Rightarrow> string \<Rightarrow> (db, err, unit) svc" where
  "DeletePolicy pid acct proj = (\<lambda>s.
     case count_policy_refs ''api_keys'' pid acct proj s of
       None \<Rightarrow> (Inl (ErrMsg ''failed to check policy references''), s)
     | Some n \<Rightarrow>
         (if n > 0 then (Inl (ErrMsg ''credential policy is still referenced''), s)
          else (Inr (), s\<lparr>credential_policies :=
                 delete_where (\<lambda>p. p_ID p = pid \<and> p_AccountID p = acct \<and> p_ProjectID p = proj)
                   (credential_policies s)\<rparr>)))"

subsection \<open>Creation and update\<close>

definition DefaultAllowedGrantTypes :: "string list" where
  "DefaultAllowedGrantTypes =
     [GrantTypeClientCredentials, GrantTypeAPIKey, GrantTypeJWTBearer, GrantTypeTokenExchange]"

record create_policy_req =
  cp_AccountID :: string
  cp_ProjectID :: string
  cp_Name :: string
  cp_Description :: string
  cp_MaxTTLSeconds :: int
  cp_AllowedGrantTypes :: "string list"
  cp_AllowedScopes :: "string list"
  cp_RequiredTrustLevel :: string
  cp_RequiredAttestation :: string
  cp_MaxDelegationDepth :: int
  cp_ExpiresAt :: "time option"

definition normalizeGrantTypes :: "string list \<Rightarrow> string list" where
  "normalizeGrantTypes gts = map NormalizeGrantType gts"

text \<open>\<open>pid\<close> is the fresh \<open>uuid.New()\<close>; both calls of \<open>time.Now()\<close> read \<open>now\<close>.\<close>

definition CreatePolicy :: "string \<Rightarrow> time \<Rightarrow> create_policy_req \<Rightarrow> (db, err, policy) svc" where
  "CreatePolicy pid now req =
     (let ttl = (if cp_MaxTTLSeconds req \<le> 0 then 3600 else cp_MaxTTLSeconds req);
          gts = normalizeGrantTypes (if cp_AllowedGrantTypes req = []
                  then [GrantTypeClientCredentials] else cp_AllowedGrantTypes req);
          p = \<lparr>p_ID = pid, p_AccountID = cp_AccountID req, p_ProjectID = cp_ProjectID req,
               p_Name = cp_Name req, p_Description = cp_Description req, p_MaxTTLSeconds = ttl,
               p_AllowedGrantTypes = gts, p_AllowedScopes = cp_AllowedScopes req,
               p_RequiredTrustLevel = cp_RequiredTrustLevel req,
               p_RequiredAttestation = cp_RequiredAttestation req,
               p_MaxDelegationDepth = cp_MaxDelegationDepth req, p_IsActive = True,
               p_ExpiresAt = cp_ExpiresAt req, p_CreatedAt = now, p_UpdatedAt = now\<rparr>
      in if cp_Name req = [] then throw (ErrMsg ''name is required'')
         else if \<not> list_all IsValidGrantType gts then throw (ErrMsg ''invalid grant type'')
         else if cp_RequiredTrustLevel req \<noteq> [] \<and> TrustLevelRank (cp_RequiredTrustLevel req) < 0
           then throw (ErrMsg ''invalid required_trust_level'')
         else if cp_RequiredAttestation req \<noteq> [] \<and>
                 \<not> AttestationLevel_Valid (cp_RequiredAttestation req)
           then throw (ErrMsg ''invalid required_attestation'')
         else bind (Policy_Create p) (\<lambda>_. ret p))"

definition default_policy_req :: "string \<Rightarrow> string \<Rightarrow> create_policy_req" where
  "default_policy_req acct proj =
     \<lparr>cp_AccountID = acct, cp_ProjectID = proj, cp_Name = ''default'',
      cp_Description = ''System default credential policy - applied to agents when no explicit policy is specified'',
      cp_MaxTTLSeconds = 3600, cp_AllowedGrantTypes = DefaultAllowedGrantTypes,
      cp_AllowedScopes = [], cp_RequiredTrustLevel = [], cp_RequiredAttestation = [],
      cp_MaxDelegationDepth = 5, cp_ExpiresAt = None\<rparr>"

text \<open>The retry after \<open>ErrPolicyNameConflict\<close> re-reads the default (a concurrent creation).\<close>

definition EnsureDefaultPolicy ::
  "string \<Rightarrow> time \<Rightarrow> string \<Rightarrow> string \<Rightarrow> (db, err, policy) svc" where
  "EnsureDefaultPolicy pid now acct proj = (\<lambda>s.
     case GetDefaultByTenant acct proj s of
       Some p \<Rightarrow> (Inr p, s)
     | None \<Rightarrow>
         (case CreatePolicy pid now (default_policy_req acct proj) s of
            (Inr p, s') \<Rightarrow> (Inr p, s')
          | (Inl e, s') \<Rightarrow>
              (case (if e = ErrPolicyNameConflict then GetDefaultByTenant acct proj s' else None) of
                 Some p \<Rightarrow> (Inr p, s')
               | None \<Rightarrow> (Inl (ErrMsg ''failed to create default credential policy''), s'))))"

record update_policy_req =
  up_Name :: string
  up_Description :: "string option"
  up_MaxTTLSeconds :: "int option"
  up_AllowedGrantTypes :: "string list option"
  up_AllowedScopes :: "string list option"
  up_RequiredTrustLevel :: "string option"
  up_RequiredAttestation :: "string option"
  up_MaxDelegationDepth :: "int option"
  up_IsActive :: "bool option"
  up_ExpiresAt :: "string option"

text \<open>
  \<open>parseExpiresAtPatch\<close> (\<open>identity.go\<close>): \<open>Inr None\<close> clears the bound, \<open>Inr (Some t)\<close> sets it.
  \<open>parse_rfc3339\<close> is \<open>time.Parse(time.RFC3339, _)\<close>.
\<close>

definition parseExpiresAtPatch ::
  "(string \<Rightarrow> time option) \<Rightarrow> time \<Rightarrow> string \<Rightarrow> err + time option" where
  "parseExpiresAtPatch parse_rfc3339 now raw =
     (if raw = [] then Inr None
      else case parse_rfc3339 raw of
             None \<Rightarrow> Inl (ErrMsg ''invalid expires_at'')
           | Some t \<Rightarrow> if \<not> now < t then Inl (ErrMsg ''expires_at must be in the future'')
                       else Inr (Some t))"

definition or_keep :: "'v option \<Rightarrow> 'v \<Rightarrow> 'v" where
  "or_keep v old = (case v of None \<Rightarrow> old | Some x \<Rightarrow> x)"

text \<open>
  \<open>UpdatePolicy\<close> tests and assigns field by field on an in-memory copy, so an error leaves the
  row untouched; the tests, in the order of the code, are \<open>policy_patch_checks\<close> and the
  assignments \<open>patch_policy\<close>. The result of the checks is the new expiry.
\<close>

definition policy_patch_checks ::
  "(string \<Rightarrow> time option) \<Rightarrow> time \<Rightarrow> update_policy_req \<Rightarrow> policy \<Rightarrow> err + time option" where
  "policy_patch_checks parse_rfc3339 now req p =
     (if (case up_MaxTTLSeconds req of None \<Rightarrow> False | Some n \<Rightarrow> n \<le> 0)
        then Inl (ErrMsg ''max_ttl_seconds must be positive'')
      else if (case up_AllowedGrantTypes req of None \<Rightarrow> False
               | Some gts \<Rightarrow> \<not> list_all IsValidGrantType (normalizeGrantTypes gts))
        then Inl (ErrMsg ''invalid grant type'')
      else if (case up_RequiredTrustLevel req of None \<Rightarrow> False
               | Some l \<Rightarrow> l \<noteq> [] \<and> TrustLevelRank l < 0)
        then Inl (ErrMsg ''invalid required_trust_level'')
      else if (case up_RequiredAttestation req of None \<Rightarrow> False
               | Some l \<Rightarrow> l \<noteq> [] \<and> \<not> AttestationLevel_Valid l)
        then Inl (ErrMsg ''invalid required_attestation'')
      else (case up_ExpiresAt req of
              None \<Rightarrow> Inr (p_ExpiresAt p)
            | Some raw \<Rightarrow> (case parseExpiresAtPatch parse_rfc3339 now raw of
                 Inl _ \<Rightarrow> Inl ErrInvalidPolicyField
               | Inr ex \<Rightarrow> Inr ex)))"

definition patch_policy :: "time \<Rightarrow> update_policy_req \<Rightarrow> time option \<Rightarrow> policy \<Rightarrow> policy" where
  "patch_policy now req ex p =
     p\<lparr>p_Name := (if up_Name req \<noteq> [] then up_Name req else p_Name p),
       p_Description := or_keep (up_Description req) (p_Description p),
       p_MaxTTLSeconds := or_keep (up_MaxTTLSeconds req) (p_MaxTTLSeconds p),
       p_AllowedGrantTypes :=
         or_keep (map_option normalizeGrantTypes (up_AllowedGrantTypes req)) (p_AllowedGrantTypes p),
       p_AllowedScopes := or_keep (up_AllowedScopes req) (p_AllowedScopes p),
       p_RequiredTrustLevel := or_keep (up_RequiredTrustLevel req) (p_RequiredTrustLevel p),
       p_RequiredAttestation := or_keep (up_RequiredAttestation req) (p_RequiredAttestation p),
       p_MaxDelegationDepth := or_keep (up_MaxDelegationDepth req) (p_MaxDelegationDepth p),
       p_IsActive := or_keep (up_IsActive req) (p_IsActive p),
       p_ExpiresAt := ex, p_UpdatedAt := now\<rparr>"

definition UpdatePolicy ::
  "(string \<Rightarrow> time option) \<Rightarrow> time \<Rightarrow> string \<Rightarrow> string \<Rightarrow> string \<Rightarrow> update_policy_req \<Rightarrow>
   (db, err, policy) svc" where
  "UpdatePolicy parse_rfc3339 now pid acct proj req =
     bind (GetPolicy pid acct proj) (\<lambda>p0.
     bind (lift (policy_patch_checks parse_rfc3339 now req p0)) (\<lambda>ex.
     let p = patch_policy now req ex p0 in
     bind (Policy_Update p) (\<lambda>_. ret p)))"

subsection \<open>Enforcement\<close>

record enforce_req =
  e_TTL :: int
  e_GrantType :: string
  e_Scopes :: "string list"
  e_TrustLevel :: string
  e_AttestationLevel :: string
  e_DelegationDepth :: int

definition attestationLevelRank :: "string \<Rightarrow> int" where
  "attestationLevelRank level =
     (if level = AttestationLevelSoftware then 1 else if level = AttestationLevelPlatform then 2
      else if level = AttestationLevelHardware then 3 else 0)"

text \<open>The policy pointer may be nil; \<open>None\<close> in the result is Go's nil error.\<close>

definition EnforcePolicy :: "time \<Rightarrow> policy option \<Rightarrow> enforce_req \<Rightarrow> err option" where
  "EnforcePolicy now policy req =
     (case policy of None \<Rightarrow> None
      | Some p \<Rightarrow>
     (if \<not> p_IsActive p then Some (ErrPolicyViolation AxInactive)
      else if Policy_IsExpired p now then Some (ErrPolicyViolation AxExpired)
      else if e_TTL req > p_MaxTTLSeconds p then Some (ErrPolicyViolation AxTTL)
      else if NormalizeGrantType (e_GrantType req) \<notin> set (p_AllowedGrantTypes p)
        then Some (ErrPolicyViolation AxGrantType)
      else if p_AllowedScopes p \<noteq> [] \<and> e_Scopes req \<noteq> [] \<and>
              \<not> list_all (\<lambda>sc. sc \<in> set (p_AllowedScopes p)) (e_Scopes req)
        then Some (ErrPolicyViolation AxScope)
      else if p_RequiredTrustLevel p \<noteq> [] \<and>
              TrustLevelRank (e_TrustLevel req) < TrustLevelRank (p_RequiredTrustLevel p)
        then Some (ErrPolicyViolation AxTrust)
      else if p_RequiredAttestation p \<noteq> [] \<and>
              attestationLevelRank (e_AttestationLevel req) <
              attestationLevelRank (p_RequiredAttestation p)
        then Some (ErrPolicyViolation AxAttestation)
      else if e_DelegationDepth req > p_MaxDelegationDepth p
        then Some (ErrPolicyViolation AxDepth)
      else None))"

definition EnforceSubset :: "policy option \<Rightarrow> policy option \<Rightarrow> err option" where
  "EnforceSubset narrower wider =
     (case (narrower, wider) of
        (Some n, Some w) \<Rightarrow>
     (if p_AllowedScopes w \<noteq> [] \<and>
         \<not> list_all (\<lambda>sc. sc \<in> set (p_AllowedScopes w)) (p_AllowedScopes n)
        then Some (ErrPolicySubsetViolation AxScope)
      else if \<not> list_all (\<lambda>gt. gt \<in> set (p_AllowedGrantTypes w)) (p_AllowedGrantTypes n)
        then Some (ErrPolicySubsetViolation AxGrantType)
      else if p_MaxTTLSeconds w > 0 \<and> p_MaxTTLSeconds n > p_MaxTTLSeconds w
        then Some (ErrPolicySubsetViolation AxTTL)
      else if p_MaxDelegationDepth n > p_MaxDelegationDepth w
        then Some (ErrPolicySubsetViolation AxDepth)
      else if p_RequiredTrustLevel w \<noteq> [] \<and>
              TrustLevelRank (p_RequiredTrustLevel n) < TrustLevelRank (p_RequiredTrustLevel w)
        then Some (ErrPolicySubsetViolation AxTrust)
      else if p_RequiredAttestation w \<noteq> [] \<and>
              attestationLevelRank (p_RequiredAttestation n) <
              attestationLevelRank (p_RequiredAttestation w)
        then Some (ErrPolicySubsetViolation AxAttestation)
      else None)
      | _ \<Rightarrow> None)"

subsection \<open>What enforcement means\<close>

text \<open>The abstract contract: a policy admits a request when it is live and no axis is exceeded.\<close>

definition policy_admits :: "time \<Rightarrow> policy \<Rightarrow> enforce_req \<Rightarrow> bool" where
  "policy_admits now p r \<longleftrightarrow>
     p_IsActive p \<and> (\<forall>t. p_ExpiresAt p = Some t \<longrightarrow> now < t) \<and>
     e_TTL r \<le> p_MaxTTLSeconds p \<and>
     NormalizeGrantType (e_GrantType r) \<in> set (p_AllowedGrantTypes p) \<and>
     (p_AllowedScopes p = [] \<or> set (e_Scopes r) \<subseteq> set (p_AllowedScopes p)) \<and>
     (p_RequiredTrustLevel p = [] \<or>
        TrustLevelRank (p_RequiredTrustLevel p) \<le> TrustLevelRank (e_TrustLevel r)) \<and>
     (p_RequiredAttestation p = [] \<or>
        attestationLevelRank (p_RequiredAttestation p) \<le>
        attestationLevelRank (e_AttestationLevel r)) \<and>
     e_DelegationDepth r \<le> p_MaxDelegationDepth p"

lemma EnforcePolicy_admits:
  "EnforcePolicy now (Some p) r = None \<longleftrightarrow> policy_admits now p r"
  unfolding EnforcePolicy_def policy_admits_def Policy_IsExpired_def expired_at_def list_all_iff
  by (cases "p_ExpiresAt p") (auto simp: not_less)

text \<open>
  C23. Enforcement is exactly the contract: \<open>EnforcePolicy\<close> returns no error if and only if the
  policy is active, unexpired and none of the six constraints is exceeded; otherwise the error
  is a policy violation.
\<close>

theorem EnforcePolicy_exact:
  "(EnforcePolicy now (Some p) r = None) = policy_admits now p r \<and>
   (EnforcePolicy now (Some p) r = None \<or>
     (\<exists>ax. EnforcePolicy now (Some p) r = Some (ErrPolicyViolation ax)))"
proof
  show "(EnforcePolicy now (Some p) r = None) = policy_admits now p r"
    by (rule EnforcePolicy_admits)
  show "EnforcePolicy now (Some p) r = None \<or>
     (\<exists>ax. EnforcePolicy now (Some p) r = Some (ErrPolicyViolation ax))"
    by (simp add: EnforcePolicy_def)
qed


definition sample_policy :: policy where
  "sample_policy = \<lparr>p_ID = ''p1'', p_AccountID = ''acme'', p_ProjectID = ''prod'', p_Name = ''wide'',
     p_Description = [], p_MaxTTLSeconds = 3600,
     p_AllowedGrantTypes = [GrantTypeAPIKey, GrantTypeTokenExchange],
     p_AllowedScopes = [''read'', ''write''], p_RequiredTrustLevel = TrustLevelUnverified,
     p_RequiredAttestation = [], p_MaxDelegationDepth = 5, p_IsActive = True,
     p_ExpiresAt = Some 1000, p_CreatedAt = 0, p_UpdatedAt = 0\<rparr>"

definition sample_enforce :: enforce_req where
  "sample_enforce = \<lparr>e_TTL = 60, e_GrantType = GrantTypeAPIKey, e_Scopes = [''read''],
     e_TrustLevel = TrustLevelFirstParty, e_AttestationLevel = [], e_DelegationDepth = 0\<rparr>"

definition sample_narrow :: policy where
  "sample_narrow = sample_policy\<lparr>p_ID := ''p2'', p_Name := ''narrow'',
     p_AllowedScopes := [''read''], p_AllowedGrantTypes := [GrantTypeAPIKey],
     p_MaxTTLSeconds := 600\<rparr>"

lemmas policy_samples = sample_policy_def sample_enforce_def sample_narrow_def


text \<open>
  The subset test has a gap: a narrower policy with no scope restriction at all (hence
  unrestricted at issuance) is accepted as a subset of a policy that restricts scopes, although
  it admits requests which the wider policy rejects.
\<close>

theorem EnforceSubset_unrestricted_gap:
  "\<exists>n w r. EnforceSubset (Some n) (Some w) = None \<and> EnforcePolicy 5 (Some n) r = None \<and>
     EnforcePolicy 5 (Some w) r = Some (ErrPolicyViolation AxScope)"
  by (rule exI [of _ "sample_narrow\<lparr>p_AllowedScopes := []\<rparr>"], rule exI [of _ sample_policy],
      rule exI [of _ "sample_enforce\<lparr>e_Scopes := [''admin'']\<rparr>"])
     (simp add: EnforceSubset_def EnforcePolicy_def policy_samples TrustLevelRank_def
        NormalizeGrantType_def urnToShortGrantType_def Policy_IsExpired_def expired_at_def)

subsection \<open>Stored policies stay well formed\<close>

definition policy_wf :: "policy \<Rightarrow> bool" where
  "policy_wf p \<longleftrightarrow> p_Name p \<noteq> [] \<and> 0 < p_MaxTTLSeconds p \<and>
     (\<forall>gt \<in> set (p_AllowedGrantTypes p). gt \<in> set allValidGrantTypes) \<and>
     (p_RequiredTrustLevel p = [] \<or> TrustLevel_Valid (p_RequiredTrustLevel p)) \<and>
     (p_RequiredAttestation p = [] \<or> AttestationLevel_Valid (p_RequiredAttestation p))"

definition policies_ok :: "db \<Rightarrow> bool" where
  "policies_ok s \<longleftrightarrow> (\<forall>p \<in> set (credential_policies s). policy_wf p) \<and>
     unique_by policy_conflict (credential_policies s)"

lemma rank_nonneg_valid: "(TrustLevelRank l < 0) = (\<not> TrustLevel_Valid l)"
  by (simp add: TrustLevelRank_def TrustLevel_Valid_def)

lemma normalized_valid:
  "list_all IsValidGrantType (normalizeGrantTypes gts) \<longleftrightarrow>
   (\<forall>gt \<in> set (normalizeGrantTypes gts). gt \<in> set allValidGrantTypes)"
  by (auto simp: list_all_iff IsValidGrantType_def normalizeGrantTypes_def NormalizeGrantType_idem)

lemma CreatePolicy_inv:
  assumes "CreatePolicy pid now req s = (Inr p, s')"
  shows "policy_wf p \<and> p_ID p = pid \<and> p_AccountID p = cp_AccountID req \<and>
     p_ProjectID p = cp_ProjectID req \<and> p_IsActive p \<and>
     insert_row policy_conflict p (credential_policies s) = Some (credential_policies s') \<and>
     s' = s\<lparr>credential_policies := credential_policies s @ [p]\<rparr>"
  using assms
  by (auto simp: CreatePolicy_def Let_def Policy_Create_def policy_wf_def rank_nonneg_valid
      normalized_valid bind_Inr insert_row_Some split: if_splits option.splits)

lemma CreatePolicy_error_keeps: "CreatePolicy pid now req s = (Inl e, s') \<Longrightarrow> s' = s"
  by (auto simp: CreatePolicy_def Let_def Policy_Create_def bind_Inl split: if_splits option.splits)

lemma GetPolicy_inv:
  "GetPolicy pid acct proj s = (Inr p, s') \<Longrightarrow>
   s' = s \<and> p \<in> set (credential_policies s) \<and> p_ID p = pid \<and> p_AccountID p = acct \<and>
   p_ProjectID p = proj"
  by (auto simp: GetPolicy_def split: option.splits dest: find_SomeD)

lemma GetPolicy_state: "snd (GetPolicy pid acct proj s) = s"
  by (simp add: GetPolicy_def split: option.split)

lemma patch_policy_wf:
  "policy_patch_checks parse now req p0 = Inr ex \<Longrightarrow> policy_wf p0 \<Longrightarrow>
   policy_wf (patch_policy now req ex p0)"
  unfolding policy_patch_checks_def policy_wf_def patch_policy_def or_keep_def
  by (auto simp: rank_nonneg_valid normalized_valid split: if_splits option.splits)

lemma patch_policy_key [simp]:
  "p_ID (patch_policy now req ex p) = p_ID p"
  "p_AccountID (patch_policy now req ex p) = p_AccountID p"
  "p_ProjectID (patch_policy now req ex p) = p_ProjectID p"
  by (simp_all add: patch_policy_def)

lemma UpdatePolicy_inv:
  assumes "UpdatePolicy parse now pid acct proj req s = (Inr p, s')"
  shows "\<exists>p0 ex. p0 \<in> set (credential_policies s) \<and> p_ID p0 = pid \<and> p_AccountID p0 = acct \<and>
     p_ProjectID p0 = proj \<and> policy_patch_checks parse now req p0 = Inr ex \<and>
     p = patch_policy now req ex p0 \<and> Policy_Update p s = (Inr (), s')"
proof -
  from assms obtain p0 s1 ex where "GetPolicy pid acct proj s = (Inr p0, s1)"
      "policy_patch_checks parse now req p0 = Inr ex" "p = patch_policy now req ex p0"
      "Policy_Update p s1 = (Inr (), s')"
    by (auto simp: UpdatePolicy_def Let_def bind_Inr)
  then show ?thesis using GetPolicy_inv [of pid acct proj s p0 s1] by metis
qed

lemma UpdatePolicy_error_keeps:
  "UpdatePolicy parse now pid acct proj req s = (Inl e, s') \<Longrightarrow> s' = s"
  by (auto simp: UpdatePolicy_def Let_def bind_Inl GetPolicy_def Policy_Update_def
      split: option.splits if_splits)

lemma unique_policy_keys:
  "unique_by policy_conflict t \<Longrightarrow> a \<in> set t \<Longrightarrow> b \<in> set t \<Longrightarrow> policy_conflict a b \<Longrightarrow> a = b"
proof (induction t)
  case (Cons x xs)
  then show ?case by (auto simp: unique_by_def policy_conflict_def)
qed simp

lemma unique_by_map_cong:
  assumes "unique_by c t" and "\<And>a b. a \<in> set t \<Longrightarrow> b \<in> set t \<Longrightarrow> c (f a) (f b) \<Longrightarrow> c a b"
  shows "unique_by c (map f t)"
  using assms unfolding unique_by_def sorted_wrt_map by (induction t) auto

lemma Policy_Update_ok:
  assumes "policies_ok s" "Policy_Update p s = (Inr (), s')" "policy_wf p"
    "p0 \<in> set (credential_policies s)" "p_ID p0 = p_ID p"
  shows "policies_ok s'"
proof -
  let ?t = "credential_policies s"
  let ?f = "\<lambda>r. if p_ID r = p_ID p \<and> p_AccountID r = p_AccountID p \<and> p_ProjectID r = p_ProjectID p
               then p else r"
  have s': "credential_policies s' = map ?f ?t"
    and free: "\<And>r. r \<in> set ?t \<Longrightarrow> p_ID r \<noteq> p_ID p \<Longrightarrow> \<not> policy_conflict r p"
    using assms(2) by (auto simp: Policy_Update_def update_where_def split: if_splits)
  have sym: "policy_conflict x y = policy_conflict y x" for x y
    by (auto simp: policy_conflict_def)
  have "policy_conflict a b" if "a \<in> set ?t" "b \<in> set ?t" "policy_conflict (?f a) (?f b)" for a b
    using that free [of a] free [of b] sym
    by (auto simp: policy_conflict_def split: if_splits)
  then have "unique_by policy_conflict (map ?f ?t)"
    using assms(1) by (intro unique_by_map_cong) (auto simp: policies_ok_def)
  with assms(1,3) s' show ?thesis by (auto simp: policies_ok_def)
qed

text \<open>
  Every policy operation keeps the store well formed: names are set and unique per tenant,
  TTLs positive, grant types canonical and known, required levels known; and an operation that
  returns an error has changed nothing.
\<close>

theorem policy_operations_keep_ok:
  assumes "policies_ok s"
  shows "policies_ok (snd (CreatePolicy pid now creq s)) \<and>
    policies_ok (snd (UpdatePolicy parse now pid acct proj ureq s)) \<and>
    policies_ok (snd (EnsureDefaultPolicy pid now acct proj s)) \<and>
    policies_ok (snd (DeletePolicy pid acct proj s))"
proof (intro conjI)
  show c: "policies_ok (snd (CreatePolicy pid now creq s))" for creq
  proof (cases "CreatePolicy pid now creq s")
    case (Pair r s')
    then show ?thesis
      using assms unique_by_insert CreatePolicy_inv [of pid now creq s] CreatePolicy_error_keeps
      by (cases r) (fastforce simp: policies_ok_def)+
  qed
  show "policies_ok (snd (UpdatePolicy parse now pid acct proj ureq s))"
  proof (cases "UpdatePolicy parse now pid acct proj ureq s")
    case (Pair r s')
    show ?thesis
    proof (cases r)
      case (Inl e)
      with Pair assms UpdatePolicy_error_keeps show ?thesis by fastforce
    next
      case (Inr p)
      with Pair UpdatePolicy_inv obtain p0 ex where
        "p0 \<in> set (credential_policies s)" "policy_patch_checks parse now ureq p0 = Inr ex"
        "p = patch_policy now ureq ex p0" "Policy_Update p s = (Inr (), s')"
        by blast
      moreover from this assms have "policy_wf p"
        by (auto simp: policies_ok_def intro: patch_policy_wf)
      ultimately show ?thesis using assms Pair Policy_Update_ok [of s p s' p0] by simp
    qed
  qed
  show "policies_ok (snd (EnsureDefaultPolicy pid now acct proj s))"
    using assms c [of "default_policy_req acct proj"]
    by (auto simp: EnsureDefaultPolicy_def split: option.splits prod.splits sum.splits)
  show "policies_ok (snd (DeletePolicy pid acct proj s))"
    using assms by (auto simp: DeletePolicy_def policies_ok_def unique_by_delete table_simps
        split: option.splits)
qed

definition policy_db :: db where
  "policy_db = empty_db\<lparr>credential_policies := [sample_policy]\<rparr>"

lemma policy_db_ok: "policies_ok policy_db"
  by (simp add: policies_ok_def policy_db_def unique_by_def policy_wf_def sample_policy_def
      allValidGrantTypes_def TrustLevel_Valid_def)

theorem policy_operations_keep_ok_witness:
  "policies_ok policy_db \<and>
   policies_ok (snd (EnsureDefaultPolicy ''p9'' 5 ''acme'' ''prod'' policy_db))"
  using policy_operations_keep_ok [OF policy_db_ok, where pid = "''p9''" and now = 5
      and acct = "''acme''" and proj = "''prod''"] policy_db_ok by simp

definition default_policy :: "string \<Rightarrow> time \<Rightarrow> string \<Rightarrow> string \<Rightarrow> policy" where
  "default_policy pid now acct proj =
     \<lparr>p_ID = pid, p_AccountID = acct, p_ProjectID = proj, p_Name = ''default'',
      p_Description = cp_Description (default_policy_req acct proj), p_MaxTTLSeconds = 3600,
      p_AllowedGrantTypes = DefaultAllowedGrantTypes, p_AllowedScopes = [],
      p_RequiredTrustLevel = [], p_RequiredAttestation = [], p_MaxDelegationDepth = 5,
      p_IsActive = True, p_ExpiresAt = None, p_CreatedAt = now, p_UpdatedAt = now\<rparr>"

lemma default_grants:
  "normalizeGrantTypes DefaultAllowedGrantTypes = DefaultAllowedGrantTypes"
  "list_all IsValidGrantType DefaultAllowedGrantTypes" "DefaultAllowedGrantTypes \<noteq> []"
  by (simp_all add: DefaultAllowedGrantTypes_def normalizeGrantTypes_def IsValidGrantType_def
        NormalizeGrantType_def urnToShortGrantType_def allValidGrantTypes_def)

lemma CreatePolicy_default:
  "CreatePolicy pid now (default_policy_req acct proj) =
     bind (Policy_Create (default_policy pid now acct proj))
       (\<lambda>_. ret (default_policy pid now acct proj))"
  by (simp add: CreatePolicy_def default_policy_def default_policy_req_def Let_def default_grants)

lemma EnsureDefaultPolicy_fresh:
  assumes "GetDefaultByTenant acct proj s = None"
  shows "EnsureDefaultPolicy pid now acct proj s =
    (case insert_row policy_conflict (default_policy pid now acct proj) (credential_policies s) of
       None \<Rightarrow> (Inl (ErrMsg ''failed to create default credential policy''), s)
     | Some t \<Rightarrow> (Inr (default_policy pid now acct proj), s\<lparr>credential_policies := t\<rparr>))"
  using assms by (simp add: EnsureDefaultPolicy_def CreatePolicy_default Policy_Create_def bind_def
      ret_def split: option.split)

lemma GetDefault_after_create:
  assumes "GetDefaultByTenant acct proj s = None"
    and "insert_row policy_conflict (default_policy pid now acct proj) (credential_policies s) = Some t"
  shows "GetDefaultByTenant acct proj (s\<lparr>credential_policies := t\<rparr>) =
    Some (default_policy pid now acct proj)"
  using assms
  by (simp add: GetDefaultByTenant_def insert_row_Some find_append) (simp add: default_policy_def)

text \<open>
  \<open>EnsureDefaultPolicy\<close> returns an active policy named \<open>default\<close> of the tenant and is
  idempotent (a later call returns the same row and writes nothing), and an error leaves the
  store as it was; but where the tenant's default exists and has been switched off, the call
  fails and creates nothing.
\<close>

theorem EnsureDefaultPolicy_spec:
  "(case EnsureDefaultPolicy pid now acct proj s of
      (Inr p, s') \<Rightarrow> p_Name p = ''default'' \<and> p_IsActive p \<and> p_AccountID p = acct \<and>
        p_ProjectID p = proj \<and> EnsureDefaultPolicy pid2 now2 acct proj s' = (Inr p, s')
    | (Inl e, s') \<Rightarrow> s' = s) \<and>
   ((\<exists>p. p \<in> set (credential_policies s) \<and> p_Name p = ''default'' \<and> p_AccountID p = acct \<and>
       p_ProjectID p = proj \<and> GetDefaultByTenant acct proj s = None) \<longrightarrow>
    EnsureDefaultPolicy pid now acct proj s =
      (Inl (ErrMsg ''failed to create default credential policy''), s))"
proof (intro conjI impI)
  let ?p = "default_policy pid now acct proj"
  show "case EnsureDefaultPolicy pid now acct proj s of
      (Inr p, s') \<Rightarrow> p_Name p = ''default'' \<and> p_IsActive p \<and> p_AccountID p = acct \<and>
        p_ProjectID p = proj \<and> EnsureDefaultPolicy pid2 now2 acct proj s' = (Inr p, s')
    | (Inl e, s') \<Rightarrow> s' = s"
  proof (cases "GetDefaultByTenant acct proj s")
    case (Some p)
    then show ?thesis
      by (auto simp: EnsureDefaultPolicy_def GetDefaultByTenant_def dest: find_SomeD)
  next
    case None
    show ?thesis
    proof (cases "insert_row policy_conflict ?p (credential_policies s)")
      case (Some t)
      then have "EnsureDefaultPolicy pid2 now2 acct proj (s\<lparr>credential_policies := t\<rparr>) =
          (Inr ?p, s\<lparr>credential_policies := t\<rparr>)"
        using GetDefault_after_create [OF None] by (simp add: EnsureDefaultPolicy_def)
      then show ?thesis
        using EnsureDefaultPolicy_fresh [OF None] Some by (simp add: default_policy_def)
    qed (simp add: EnsureDefaultPolicy_fresh [OF None])
  qed
  assume "\<exists>p. p \<in> set (credential_policies s) \<and> p_Name p = ''default'' \<and> p_AccountID p = acct \<and>
       p_ProjectID p = proj \<and> GetDefaultByTenant acct proj s = None"
  then obtain p where p: "p \<in> set (credential_policies s)" "policy_conflict p ?p"
      and none: "GetDefaultByTenant acct proj s = None"
    by (auto simp: policy_conflict_def default_policy_def)
  then have "insert_row policy_conflict ?p (credential_policies s) = None"
    by (auto simp: insert_row_None)
  then show "EnsureDefaultPolicy pid now acct proj s =
      (Inl (ErrMsg ''failed to create default credential policy''), s)"
    using EnsureDefaultPolicy_fresh [OF none] by simp
qed

definition switched_off_db :: db where
  "switched_off_db = empty_db\<lparr>credential_policies :=
     [sample_policy\<lparr>p_Name := ''default'', p_IsActive := False\<rparr>]\<rparr>"

theorem EnsureDefaultPolicy_spec_witness:
  "EnsureDefaultPolicy ''p9'' 5 ''acme'' ''prod'' switched_off_db =
     (Inl (ErrMsg ''failed to create default credential policy''), switched_off_db)"
  using EnsureDefaultPolicy_spec [where pid = "''p9''" and now = 5 and acct = "''acme''"
      and proj = "''prod''" and s = switched_off_db]
  by (simp add: switched_off_db_def sample_policy_def GetDefaultByTenant_def)

text \<open>
  \<open>DeletePolicy\<close> never deletes anything: the reference check reads a table that no migration
  creates, so the call always returns an error and leaves the database as it was.
\<close>

theorem DeletePolicy_never_succeeds:
  "DeletePolicy pid acct proj s = (Inl (ErrMsg ''failed to check policy references''), s)"
  by (simp add: DeletePolicy_def count_policy_refs_def relations_def)

end
