(* ===== verification/Zeroid_Cascade.thy ===== *)
theory Zeroid_Cascade
  imports Zeroid_Store
begin

text \<open>
  Correctness of the revocation cascade. The recursive query keeps a path per row, drops a row
  whose \<open>jti\<close> the path already holds and stops 50 levels down; \<open>delegated_within\<close> is what it is
  meant to compute, reachability through active delegation links. Under the uniqueness
  constraints of the table both agree, so the cycle clause never loses a credential.
\<close>

definition delegation :: "time \<Rightarrow> credential list \<Rightarrow> (credential \<times> credential) set" where
  "delegation now t = {(a, b). b \<in> set (children_of now t a)}"

definition delegated_within ::
  "nat \<Rightarrow> time \<Rightarrow> credential list \<Rightarrow> credential \<Rightarrow> credential \<Rightarrow> bool" where
  "delegated_within n now t a d \<longleftrightarrow> (\<exists>k \<le> n. (a, d) \<in> delegation now t ^^ k)"

lemma delegation_iff:
  "(a, b) \<in> delegation now t \<longleftrightarrow> b \<in> set t \<and> c_ParentJTI b = c_JTI a \<and> cred_active now b"
  by (auto simp: delegation_def children_of_def)

lemma delegated_step:
  "(a, b) \<in> delegation now t \<Longrightarrow> delegated_within n now t b d \<Longrightarrow>
   delegated_within (Suc n) now t a d"
  unfolding delegated_within_def by (metis Suc_le_mono relpow_Suc_I2)

lemma cascade_chain_sound:
  "d \<in> set (cascade_chain n now t path c) \<Longrightarrow> delegated_within n now t c d"
proof (induction n arbitrary: path c)
  case 0
  then show ?case by (simp add: delegated_within_def)
next
  case (Suc n)
  from Suc.prems consider "d = c"
    | b where "b \<in> set (children_of now t c)"
        and "d \<in> set (cascade_chain n now t (c_JTI b # path) b)"
    by (auto split: if_splits)
  then show ?case
  proof cases
    case 1
    then show ?thesis by (auto simp: delegated_within_def intro!: exI [of _ 0])
  next
    case 2
    then show ?thesis
      using Suc.IH delegated_step [of c b now t n d] by (simp add: delegation_def)
  qed
qed

text \<open>A chain without repeated \<open>jti\<close> that avoids the path is found.\<close>

lemma cascade_chain_simple:
  assumes "\<forall>i<k. (f i, f (Suc i)) \<in> delegation now t" and "k \<le> n"
    and "inj_on (\<lambda>i. c_JTI (f i)) {0..k}" and "\<forall>i. 0 < i \<and> i \<le> k \<longrightarrow> c_JTI (f i) \<notin> set path"
  shows "f k \<in> set (cascade_chain n now t path (f 0))"
  using assms
proof (induction n arbitrary: f k path)
  case 0
  then show ?case by simp
next
  case (Suc n)
  show ?case
  proof (cases k)
    case 0
    then show ?thesis by simp
  next
    case (Suc k')
    let ?g = "\<lambda>i. f (Suc i)" and ?path = "c_JTI (f 1) # path"
    have inj: "inj_on (\<lambda>i. c_JTI (?g i)) {0..k'}"
      using Suc.prems(3) Suc unfolding inj_on_def by fastforce
    have fresh: "\<forall>i. 0 < i \<and> i \<le> k' \<longrightarrow> c_JTI (?g i) \<notin> set ?path"
    proof (intro allI impI)
      fix i assume i: "0 < i \<and> i \<le> k'"
      have "c_JTI (f (Suc i)) \<noteq> c_JTI (f 1)"
        using inj_onD [OF Suc.prems(3), of "Suc i" 1] Suc i by auto
      with Suc.prems(4) Suc i show "c_JTI (?g i) \<notin> set ?path" by simp
    qed
    have "?g k' \<in> set (cascade_chain n now t ?path (?g 0))"
      by (rule Suc.IH) (use Suc.prems(1,2) Suc inj fresh in auto)
    moreover have "f 1 \<in> set (children_of now t (f 0))"
      using Suc.prems(1) Suc by (auto simp: delegation_def)
    moreover have "c_JTI (f 1) \<notin> set path" using Suc.prems(4) Suc by simp
    ultimately show ?thesis using Suc by auto
  qed
qed

text \<open>A shortest chain repeats no row, hence no \<open>jti\<close>.\<close>

lemma shortest_chain_inj:
  assumes steps: "\<forall>i<k. (f i, f (Suc i)) \<in> r"
    and short: "\<forall>k'<k. (f 0, f k) \<notin> r ^^ k'"
  shows "inj_on f {0..k}"
proof (rule ccontr)
  assume "\<not> inj_on f {0..k}"
  then obtain i j where ij: "i < j" "j \<le> k" "f i = f j"
    unfolding inj_on_def by (metis atLeastAtMost_iff linorder_neqE_nat)
  have part: "(f a, f b) \<in> r ^^ (b - a)" if "a \<le> b" "b \<le> k" for a b
    unfolding relpow_fun_conv
    by (rule exI [of _ "\<lambda>i. f (a + i)"]) (use that steps in auto)
  have "(f 0, f i) \<in> r ^^ i" and "(f i, f k) \<in> r ^^ (k - j)"
    using part [of 0 i] part [of j k] ij by simp_all
  then have "(f 0, f k) \<in> r ^^ (i + (k - j))"
    unfolding relpow_add by (rule relcompI)
  moreover have "i + (k - j) < k" using ij by simp
  ultimately show False using short by blast
qed

lemma unique_cred_jti:
  "unique_by credential_conflict t \<Longrightarrow> a \<in> set t \<Longrightarrow> b \<in> set t \<Longrightarrow>
   c_JTI a = c_JTI b \<or> c_ID a = c_ID b \<Longrightarrow> a = b"
proof (induction t)
  case (Cons x xs)
  then show ?case
    by (auto simp: unique_by_def credential_conflict_def)
qed simp

lemma cascade_chain_complete:
  assumes u: "unique_by credential_conflict t" and a: "a \<in> set t"
    and d: "delegated_within n now t a d"
  shows "d \<in> set (cascade_chain n now t [c_JTI a] a)"
proof -
  define k where "k = (LEAST k. (a, d) \<in> delegation now t ^^ k)"
  obtain m where m: "m \<le> n" "(a, d) \<in> delegation now t ^^ m"
    using d by (auto simp: delegated_within_def)
  have k: "(a, d) \<in> delegation now t ^^ k" "k \<le> n"
    and short: "\<forall>k'<k. (a, d) \<notin> delegation now t ^^ k'"
    unfolding k_def using m LeastI [of "\<lambda>k. (a, d) \<in> delegation now t ^^ k" m]
    by (auto intro: Least_le [THEN le_trans] dest: not_less_Least)
  then obtain f where f: "f 0 = a" "f k = d"
      "\<forall>i<k. (f i, f (Suc i)) \<in> delegation now t"
    by (auto simp: relpow_fun_conv)
  have rows: "f i \<in> set t" if "i \<le> k" for i
    using that f a by (cases i) (auto simp: delegation_iff)
  have inj: "inj_on f {0..k}"
    by (rule shortest_chain_inj) (use f short in auto)
  have injj: "inj_on (\<lambda>i. c_JTI (f i)) {0..k}"
  proof (rule inj_onI)
    fix x y assume xy: "x \<in> {0..k}" "y \<in> {0..k}" "c_JTI (f x) = c_JTI (f y)"
    then have "f x = f y" using rows unique_cred_jti [OF u, of "f x" "f y"] by simp
    with inj xy show "x = y" by (simp add: inj_on_def)
  qed
  have "f k \<in> set (cascade_chain n now t [c_JTI a] (f 0))"
    by (rule cascade_chain_simple [OF f(3) k(2) injj]) (use injj f(1) in \<open>auto dest: inj_onD\<close>)
  with f show ?thesis by simp
qed

lemma cascade_from_iff:
  assumes "unique_by credential_conflict t"
  shows "d \<in> set (cascade_from now t anchor) \<longleftrightarrow>
     (\<exists>a \<in> set t. anchor a \<and> cred_active now a \<and> delegated_within 50 now t a d)"
  using assms by (auto simp: cascade_from_def intro: cascade_chain_complete
      dest: cascade_chain_sound)

lemma delegated_cases:
  "delegated_within n now t a d \<Longrightarrow> d = a \<or> (d \<in> set t \<and> cred_active now d)"
proof -
  assume "delegated_within n now t a d"
  then obtain k where "(a, d) \<in> delegation now t ^^ k" by (auto simp: delegated_within_def)
  then show ?thesis
    by (cases k) (auto simp: delegation_iff)
qed

lemma delegated_row: "delegated_within n now t a d \<Longrightarrow> a \<in> set t \<Longrightarrow> d \<in> set t"
  using delegated_cases by blast

lemma delegated_active:
  "delegated_within n now t a d \<Longrightarrow> cred_active now a \<Longrightarrow> cred_active now d"
  using delegated_cases by blast

text \<open>
  C1. The cascade is exact: in one statement it revokes precisely the active credentials that
  an active anchor reaches through at most 50 active delegation links, and leaves every other
  row as it was.
\<close>

theorem revoke_cascade_exact:
  assumes "unique_by credential_conflict t"
  shows "revoke_cascade now reason anchor t =
    map (\<lambda>c. if \<exists>a \<in> set t. anchor a \<and> cred_active now a \<and> delegated_within 50 now t a c
             then mark_revoked now reason c else c) t"
proof -
  have hit: "c_ID c \<in> set (map c_ID (cascade_from now t anchor)) \<and> \<not> c_IsRevoked c \<longleftrightarrow>
      (\<exists>a \<in> set t. anchor a \<and> cred_active now a \<and> delegated_within 50 now t a c)"
    if c: "c \<in> set t" for c
  proof
    assume "c_ID c \<in> set (map c_ID (cascade_from now t anchor)) \<and> \<not> c_IsRevoked c"
    then obtain a d where "a \<in> set t" "anchor a" "cred_active now a"
        "delegated_within 50 now t a d" "c_ID d = c_ID c"
      by (auto simp: cascade_from_iff [OF assms])
    moreover from this have "d = c"
      using delegated_row unique_cred_jti [OF assms _ c] by blast
    ultimately show "\<exists>a \<in> set t. anchor a \<and> cred_active now a \<and> delegated_within 50 now t a c"
      by auto
  next
    assume "\<exists>a \<in> set t. anchor a \<and> cred_active now a \<and> delegated_within 50 now t a c"
    then show "c_ID c \<in> set (map c_ID (cascade_from now t anchor)) \<and> \<not> c_IsRevoked c"
      using delegated_active by (auto simp: cascade_from_iff [OF assms] cred_active_def)
  qed
  then show ?thesis
    by (auto simp: revoke_cascade_def update_where_def Let_def)
qed

text \<open>The zero row of the table and a small delegation tree for closed examples.\<close>

definition zero_credential :: credential where
  "zero_credential = \<lparr>c_ID = [], c_IdentityID = None, c_AccountID = [], c_ProjectID = [],
     c_JTI = [], c_Subject = [], c_IssuedAt = 0, c_ExpiresAt = 0, c_TTLSeconds = 0,
     c_Scopes = [], c_IsRevoked = False, c_RevokedAt = None, c_RevokeReason = [],
     c_GrantType = [], c_DelegationDepth = 0, c_ParentJTI = [], c_DelegatedByWIMSEURI = [],
     c_MissionID = [], c_DPoPKeyThumbprint = []\<rparr>"

definition sample_tree :: "credential list" where
  "sample_tree =
     [zero_credential\<lparr>c_ID := ''1'', c_JTI := ''root'', c_ExpiresAt := 100\<rparr>,
      zero_credential\<lparr>c_ID := ''2'', c_JTI := ''mid'', c_ParentJTI := ''root'', c_ExpiresAt := 50\<rparr>,
      zero_credential\<lparr>c_ID := ''3'', c_JTI := ''leaf'', c_ParentJTI := ''mid'', c_ExpiresAt := 100\<rparr>,
      zero_credential\<lparr>c_ID := ''4'', c_JTI := ''other'', c_ExpiresAt := 100\<rparr>]"

lemma sample_tree_unique: "unique_by credential_conflict sample_tree"
  by (simp add: unique_by_def sample_tree_def credential_conflict_def zero_credential_def)

theorem revoke_cascade_exact_witness:
  "unique_by credential_conflict sample_tree \<and>
   revoke_cascade 10 ''why'' (\<lambda>c. c_ID c = ''1'') sample_tree =
     map (\<lambda>c. if \<exists>a \<in> set sample_tree. c_ID a = ''1'' \<and> cred_active 10 a \<and>
                   delegated_within 50 10 sample_tree a c
              then mark_revoked 10 ''why'' c else c) sample_tree"
  using revoke_cascade_exact [OF sample_tree_unique, of 10 "''why''" "\<lambda>c. c_ID c = ''1''"]
    sample_tree_unique by simp

lemma sample_tree_revoked:
  "map c_IsRevoked (revoke_cascade 10 ''why'' (\<lambda>c. c_ID c = ''1'') sample_tree) =
   [True, True, True, False]"
  by (simp add: revoke_cascade_def cascade_from_def sample_tree_def children_of_def
      cred_active_def zero_credential_def mark_revoked_def update_where_def eval_nat_numeral)

text \<open>
  A cascade anchored on credentials that are already expired or revoked changes nothing:
  descendants of such a credential stay valid, whatever their own expiry.
\<close>

theorem revoke_cascade_inactive_anchor:
  assumes "\<And>c. c \<in> set t \<Longrightarrow> anchor c \<Longrightarrow> \<not> cred_active now c"
  shows "revoke_cascade now reason anchor t = t"
proof -
  have "cascade_from now t anchor = []"
    using assms by (auto simp: cascade_from_def filter_empty_conv)
  then show ?thesis by (simp add: revoke_cascade_def update_where_def)
qed

theorem revoke_cascade_inactive_anchor_witness:
  "revoke_cascade 60 ''why'' (\<lambda>c. c_ID c = ''2'') sample_tree = sample_tree \<and>
   cred_active 60 (sample_tree ! 2) \<and> c_ParentJTI (sample_tree ! 2) = ''mid''"
proof -
  have "revoke_cascade 60 ''why'' (\<lambda>c. c_ID c = ''2'') sample_tree = sample_tree"
    by (rule revoke_cascade_inactive_anchor)
       (auto simp: sample_tree_def zero_credential_def cred_active_def)
  then show ?thesis
    by (simp add: sample_tree_def zero_credential_def cred_active_def)
qed

lemma revoke_cascade_map:
  "\<exists>f. revoke_cascade now reason anchor t = map f t \<and>
       (\<forall>c. f c = c \<or> (\<not> c_IsRevoked c \<and> f c = mark_revoked now reason c))"
  unfolding revoke_cascade_def update_where_def Let_def by (rule exI, rule conjI, rule refl) auto

lemma mark_revoked_fields [simp]:
  "c_JTI (mark_revoked now reason c) = c_JTI c" "c_ID (mark_revoked now reason c) = c_ID c"
  "c_ExpiresAt (mark_revoked now reason c) = c_ExpiresAt c"
  "c_IsRevoked (mark_revoked now reason c)"
  "c_ParentJTI (mark_revoked now reason c) = c_ParentJTI c"
  by (simp_all add: mark_revoked_def)

lemma revoke_cascade_find:
  assumes "\<And>c. Q (mark_revoked now reason c) = Q c"
  shows "find Q (revoke_cascade now reason anchor t) =
    map_option (\<lambda>c. if c_ID c \<in> set (map c_ID (cascade_from now t anchor)) \<and> \<not> c_IsRevoked c
                    then mark_revoked now reason c else c) (find Q t)"
  unfolding revoke_cascade_def Let_def
  by (rule find_update_where_other) (simp add: assms)

lemma unique_by_revoke_cascade:
  "unique_by credential_conflict t \<Longrightarrow>
   unique_by credential_conflict (revoke_cascade now reason anchor t)"
  unfolding revoke_cascade_def Let_def
  by (rule unique_by_update) (auto simp: credential_conflict_def)

end
