(* ===== verification/Zeroid_Issuance.thy ===== *)
theory Zeroid_Issuance
  imports Zeroid_Policy Zeroid_Cascade
begin

text \<open>
  Credential issuance (\<open>src/internal/service/credential.go\<close>): the chokepoint \<open>IssueCredential\<close>
  through which every grant mints its token, and revocation, rotation and introspection.
  \<open>env\<close> holds the configuration and the code outside the repository (signing, token parsing,
  hashing), \<open>inputs\<close> what one request draws from its surroundings: each reading of the clock
  separately, and the fresh identifiers. \<open>int(d.Seconds())\<close> is computed exactly, which the
  floating-point original also is below \<open>2\<^sup>2\<^sup>3\<close> seconds (97 days).
\<close>

subsection \<open>Environment of a request\<close>

datatype cval =
    CStr string | CInt int | CTime time | CStrs "string list"
  | CArr "string option list" | CObj "(string \<times> string) list" | CRaw string

text \<open>\<open>CStrs\<close> is an array of strings, \<open>CArr\<close> one with other elements too (\<open>None\<close> for those).\<close>

type_synonym claims = "string \<rightharpoonup> cval"

text \<open>
  \<open>jwt_set\<close> is the setter of the JWT library on caller-supplied names (it may refuse a value for
  a registered name), \<open>sign_jwt rs256 claims\<close> the compact serialisation or an error,
  \<open>parse_jwks validate token\<close> the verification against the server's key set at a clock reading,
  \<open>parse_es256 key aud token\<close> the verification of an assertion against a registered key,
  \<open>parse_hs256\<close> that of an authorization code, \<open>parse_insecure\<close> the unverified reading,
  \<open>header_alg\<close> the \<open>alg\<close> member of a base64url-encoded JSON header (empty if it has none),
  \<open>pem_decode\<close> the type and bytes of a PEM block and \<open>parse_pkix\<close> the public key in those
  bytes (an EC key with its curve's name).
\<close>

datatype pkix = ECDSAKey (pk_curve: string) (pk_key: string) | OtherKey

record env =
  issuer :: string
  defaultTTL :: int
  maxTTL :: int
  wimseDomain :: string
  hmacSecret :: string
  authCodeIssuer :: string
  hasRSAKeys :: bool
  trustedService :: "string option option"
  jwt_set :: "string \<Rightarrow> cval \<Rightarrow> claims \<Rightarrow> claims"
  sign_jwt :: "bool \<Rightarrow> claims \<Rightarrow> string option"
  parse_jwks :: "bool \<Rightarrow> time \<Rightarrow> string \<Rightarrow> claims option"
  parse_insecure :: "string \<Rightarrow> claims option"
  parse_es256 :: "string \<Rightarrow> string \<Rightarrow> time \<Rightarrow> string \<Rightarrow> claims option"
  parse_hs256 :: "string \<Rightarrow> time \<Rightarrow> string \<Rightarrow> claims option"
  pem_decode :: "string \<Rightarrow> (string \<times> string) option"
  parse_pkix :: "string \<Rightarrow> pkix option"
  header_alg :: "string \<Rightarrow> string option"
  sha256_hex :: "string \<Rightarrow> string"
  sha256_b64url :: "string \<Rightarrow> string"
  bcrypt_ok :: "string \<Rightarrow> string \<Rightarrow> bool"

record inputs =
  tk_auth :: time
  tk_grant :: time
  tk_policy :: time
  tk_gate :: time
  tk_clamp :: time
  tk_idpol :: time
  tk_keypol :: time
  tk_issue :: time
  tk_after :: time
  fr_policy :: string
  fr_jti :: string
  fr_cred :: string
  fr_rt_id :: string
  fr_rt_raw :: string
  fr_rt_family :: string

definition clock_ordered :: "inputs \<Rightarrow> bool" where
  "clock_ordered w \<longleftrightarrow> tk_auth w \<le> tk_grant w \<and> tk_grant w \<le> tk_policy w \<and>
     tk_policy w \<le> tk_gate w \<and> tk_gate w \<le> tk_clamp w \<and> tk_clamp w \<le> tk_idpol w \<and>
     tk_idpol w \<le> tk_keypol w \<and> tk_keypol w \<le> tk_issue w \<and> tk_issue w \<le> tk_after w"

subsection \<open>Issuance\<close>

record issue_request =
  iq_Identity :: "identity option"
  iq_IdentityPolicyID :: string
  iq_CredentialPolicyID :: string
  iq_Scopes :: "string list"
  iq_TTL :: int
  iq_GrantType :: string
  iq_Audience :: "string list"
  iq_DelegatedBy :: string
  iq_ParentJTI :: string
  iq_DelegationDepth :: int
  iq_UseRS256 :: bool
  iq_ApplicationID :: string
  iq_SubjectOverride :: string
  iq_ActingUserID :: string
  iq_UserEmail :: string
  iq_UserName :: string
  iq_CustomClaims :: "(string \<times> cval) list"
  iq_CredentialExpiresAt :: "time option"
  iq_MissionID :: string
  iq_DPoPKeyThumbprint :: string

definition empty_issue :: "identity \<Rightarrow> issue_request" where
  "empty_issue i = \<lparr>iq_Identity = Some i, iq_IdentityPolicyID = [], iq_CredentialPolicyID = [],
     iq_Scopes = [], iq_TTL = 0, iq_GrantType = [], iq_Audience = [], iq_DelegatedBy = [],
     iq_ParentJTI = [], iq_DelegationDepth = 0, iq_UseRS256 = False, iq_ApplicationID = [],
     iq_SubjectOverride = [], iq_ActingUserID = [], iq_UserEmail = [], iq_UserName = [],
     iq_CustomClaims = [], iq_CredentialExpiresAt = None, iq_MissionID = [],
     iq_DPoPKeyThumbprint = []\<rparr>"

text \<open>\<open>t.Sub(u)\<close> saturates at the bounds of \<open>time.Duration\<close>.\<close>

definition time_Sub :: "time \<Rightarrow> time \<Rightarrow> int" where
  "time_Sub t u = max (- (2 ^ 63)) (min (2 ^ 63 - 1) (t - u))"

definition base_ttl :: "env \<Rightarrow> int \<Rightarrow> int" where
  "base_ttl E req_ttl =
     (let ttl = (if req_ttl \<le> 0 then defaultTTL E else req_ttl)
      in if ttl > maxTTL E then maxTTL E else ttl)"

text \<open>One bound of the clamp: the rest of the authority's lifetime, in whole seconds.\<close>

definition clamp_ttl :: "err \<Rightarrow> time \<Rightarrow> time option \<Rightarrow> int \<Rightarrow> err + int" where
  "clamp_ttl e now bound ttl =
     (case bound of
        None \<Rightarrow> Inr ttl
      | Some t \<Rightarrow>
          (let remaining = whole_seconds (time_Sub t now)
           in if remaining \<le> 0 then Inl e else if ttl > remaining then Inr remaining else Inr ttl))"

definition scopes_allowed :: "string list \<Rightarrow> string list \<Rightarrow> bool" where
  "scopes_allowed allowed requested \<longleftrightarrow>
     (if allowed \<noteq> [] \<and> requested \<noteq> [] then list_all (\<lambda>s. s \<in> set allowed) requested else True)"

definition enforce_layer :: "time \<Rightarrow> string \<Rightarrow> identity \<Rightarrow> enforce_req \<Rightarrow> (db, err, unit) svc" where
  "enforce_layer now pid i req =
     bind (GetPolicy pid (i_AccountID i) (i_ProjectID i)) (\<lambda>p.
       case EnforcePolicy now (Some p) req of None \<Rightarrow> ret () | Some e \<Rightarrow> throw e)"

definition stringPtrOrNil :: "string \<Rightarrow> string option" where
  "stringPtrOrNil s = (if s = [] then None else Some s)"

definition set_if :: "bool \<Rightarrow> string \<Rightarrow> cval \<Rightarrow> claims \<Rightarrow> claims" where
  "set_if b k v c = (if b then c(k \<mapsto> v) else c)"

definition token_subject :: "issue_request \<Rightarrow> identity \<Rightarrow> string" where
  "token_subject req i = (if iq_SubjectOverride req \<noteq> [] then iq_SubjectOverride req else i_WIMSEURI i)"

definition token_mission :: "inputs \<Rightarrow> issue_request \<Rightarrow> string" where
  "token_mission w req = (if iq_MissionID req = [] then fr_jti w else iq_MissionID req)"

text \<open>The claims in the order the code sets them; custom claims come before \<open>act\<close> and \<open>cnf\<close>.\<close>

definition server_claims ::
  "env \<Rightarrow> inputs \<Rightarrow> issue_request \<Rightarrow> identity \<Rightarrow> string \<Rightarrow> time \<Rightarrow> claims" where
  "server_claims E w req i grant expiresAt =
     (let c0 = [''iss'' \<mapsto> CStr (issuer E), ''sub'' \<mapsto> CStr (token_subject req i),
                ''iat'' \<mapsto> CTime (tk_issue w), ''exp'' \<mapsto> CTime expiresAt,
                ''jti'' \<mapsto> CStr (fr_jti w), ''account_id'' \<mapsto> CStr (i_AccountID i),
                ''project_id'' \<mapsto> CStr (i_ProjectID i), ''grant_type'' \<mapsto> CStr grant,
                ''mission_id'' \<mapsto> CStr (token_mission w req),
                ''external_id'' \<mapsto> CStr (i_ExternalID i),
                ''identity_type'' \<mapsto> CStr (i_IdentityType i), ''sub_type'' \<mapsto> CStr (i_SubType i),
                ''trust_level'' \<mapsto> CStr (i_TrustLevel i), ''status'' \<mapsto> CStr (i_Status i)];
          c1 = set_if (i_OwnerUserID i \<noteq> []) ''owner_user_id'' (CStr (i_OwnerUserID i)) c0;
          c2 = set_if (iq_DelegationDepth req > 0) ''delegation_depth''
                 (CInt (iq_DelegationDepth req)) c1;
          c3 = set_if (i_Name i \<noteq> []) ''name'' (CStr (i_Name i)) c2;
          c4 = set_if (i_Framework i \<noteq> []) ''framework'' (CStr (i_Framework i)) c3;
          c5 = set_if (i_Version i \<noteq> []) ''version'' (CStr (i_Version i)) c4;
          c6 = set_if (i_Publisher i \<noteq> []) ''publisher'' (CStr (i_Publisher i)) c5;
          c7 = set_if (i_Capabilities i \<noteq> [] \<and> i_Capabilities i \<noteq> ''[]'') ''capabilities''
                 (CRaw (i_Capabilities i)) c6;
          c8 = c7(''aud'' \<mapsto>
                 CStrs (if iq_Audience req = [] then [issuer E] else iq_Audience req));
          c9 = set_if (iq_Scopes req \<noteq> []) ''scopes'' (CStrs (iq_Scopes req)) c8;
          c10 = set_if (iq_ApplicationID req \<noteq> []) ''application_id''
                  (CStr (iq_ApplicationID req)) c9;
          c11 = set_if (iq_UserEmail req \<noteq> []) ''user_email'' (CStr (iq_UserEmail req)) c10
      in set_if (iq_UserName req \<noteq> []) ''user_name'' (CStr (iq_UserName req)) c11)"

definition issue_claims ::
  "env \<Rightarrow> inputs \<Rightarrow> issue_request \<Rightarrow> identity \<Rightarrow> string \<Rightarrow> time \<Rightarrow> claims" where
  "issue_claims E w req i grant expiresAt =
     (let c = fold (\<lambda>(k, v). jwt_set E k v) (iq_CustomClaims req)
                (server_claims E w req i grant expiresAt);
          c' = (if iq_DelegatedBy req \<noteq> [] then c(''act'' \<mapsto> CObj [(''sub'', iq_DelegatedBy req)])
                else if iq_ActingUserID req \<noteq> []
                then c(''act'' \<mapsto> CObj [(''sub'', iq_ActingUserID req)]) else c)
      in set_if (iq_DPoPKeyThumbprint req \<noteq> []) ''cnf''
           (CObj [(''jkt'', iq_DPoPKeyThumbprint req)]) c')"

definition issued_row ::
  "inputs \<Rightarrow> issue_request \<Rightarrow> identity \<Rightarrow> string \<Rightarrow> int \<Rightarrow> time \<Rightarrow> credential" where
  "issued_row w req i grant ttl expiresAt =
     \<lparr>c_ID = fr_cred w, c_IdentityID = stringPtrOrNil (i_ID i), c_AccountID = i_AccountID i,
      c_ProjectID = i_ProjectID i, c_JTI = fr_jti w, c_Subject = i_WIMSEURI i,
      c_IssuedAt = tk_issue w, c_ExpiresAt = expiresAt, c_TTLSeconds = ttl,
      c_Scopes = iq_Scopes req, c_IsRevoked = False, c_RevokedAt = None, c_RevokeReason = [],
      c_GrantType = grant, c_DelegationDepth = iq_DelegationDepth req,
      c_ParentJTI = iq_ParentJTI req, c_DelegatedByWIMSEURI = iq_DelegatedBy req,
      c_MissionID = token_mission w req, c_DPoPKeyThumbprint = iq_DPoPKeyThumbprint req\<rparr>"

definition issued_token :: "inputs \<Rightarrow> issue_request \<Rightarrow> int \<Rightarrow> string \<Rightarrow> access_token" where
  "issued_token w req ttl signed =
     \<lparr>a_AccessToken = signed,
      a_TokenType = (if iq_DPoPKeyThumbprint req \<noteq> [] then ''DPoP'' else ''Bearer''),
      a_ExpiresIn = ttl, a_Scope = join_sp (iq_Scopes req), a_JTI = fr_jti w,
      a_IssuedAt = tk_issue w div second, a_AccountID = [], a_ProjectID = [], a_ExternalID = [],
      a_UserID = [], a_RefreshToken = [], a_AuthorizationDetails = []\<rparr>"

definition issue_grant :: "issue_request \<Rightarrow> string" where
  "issue_grant req =
     (if iq_GrantType req = [] then GrantTypeClientCredentials else iq_GrantType req)"

definition issue_enforce :: "issue_request \<Rightarrow> identity \<Rightarrow> int \<Rightarrow> db \<Rightarrow> enforce_req" where
  "issue_enforce req i ttl s =
     \<lparr>e_TTL = ttl, e_GrantType = issue_grant req, e_Scopes = iq_Scopes req,
      e_TrustLevel = i_TrustLevel i,
      e_AttestationLevel = (if i_ID i \<noteq> [] then GetHighestVerifiedLevel (i_ID i) s else []),
      e_DelegationDepth = iq_DelegationDepth req\<rparr>"

text \<open>
  \<open>IssueCredential\<close> in its three stretches: the lifetime, the two policy layers, and signing with
  persistence.
\<close>

definition issue_ttl :: "env \<Rightarrow> inputs \<Rightarrow> issue_request \<Rightarrow> identity \<Rightarrow> err + int" where
  "issue_ttl E w req i =
     (case clamp_ttl ErrIdentityExpired (tk_clamp w) (i_ExpiresAt i) (base_ttl E (iq_TTL req)) of
        Inl e \<Rightarrow> Inl e
      | Inr ttl \<Rightarrow> clamp_ttl ErrCredentialExpired (tk_clamp w) (iq_CredentialExpiresAt req) ttl)"

definition issue_policies :: "inputs \<Rightarrow> issue_request \<Rightarrow> identity \<Rightarrow> int \<Rightarrow> (db, err, unit) svc" where
  "issue_policies w req i ttl = (\<lambda>s.
     let enf = issue_enforce req i ttl s in
     bind (if iq_IdentityPolicyID req \<noteq> []
           then enforce_layer (tk_idpol w) (iq_IdentityPolicyID req) i enf else ret ()) (\<lambda>_.
       if iq_CredentialPolicyID req \<noteq> [] \<and> iq_CredentialPolicyID req \<noteq> iq_IdentityPolicyID req
       then enforce_layer (tk_keypol w) (iq_CredentialPolicyID req) i enf else ret ()) s)"

definition issue_mint ::
  "env \<Rightarrow> inputs \<Rightarrow> issue_request \<Rightarrow> identity \<Rightarrow> int \<Rightarrow> (db, err, access_token \<times> credential) svc" where
  "issue_mint E w req i ttl =
     (let grant = issue_grant req;
          expiresAt = tk_issue w + dur_seconds ttl;
          cred = issued_row w req i grant ttl expiresAt
      in case sign_jwt E (iq_UseRS256 req \<and> hasRSAKeys E)
                (issue_claims E w req i grant expiresAt) of
           None \<Rightarrow> throw (ErrMsg ''failed to sign JWT'')
         | Some signed \<Rightarrow>
             bind (Credential_Create cred) (\<lambda>_. ret (issued_token w req ttl signed, cred)))"

definition IssueCredential ::
  "env \<Rightarrow> inputs \<Rightarrow> issue_request \<Rightarrow> (db, err, access_token \<times> credential) svc" where
  "IssueCredential E w req =
     (case iq_Identity req of
       None \<Rightarrow> throw (ErrMsg ''identity is required'')
     | Some i \<Rightarrow>
     if \<not> IsUsable (i_Status i) then throw ErrIdentityNotUsable
     else if Identity_IsExpired i (tk_gate w) then throw ErrIdentityExpired
     else
     bind (lift (issue_ttl E w req i)) (\<lambda>ttl.
     if \<not> scopes_allowed (i_AllowedScopes i) (iq_Scopes req) then throw ErrScopesNotAllowed
     else
     bind (issue_policies w req i ttl) (\<lambda>_.
     issue_mint E w req i ttl)))"

subsection \<open>Revocation, rotation, introspection\<close>

definition RevokeCredential :: "time \<Rightarrow> string \<Rightarrow> string \<Rightarrow> string \<Rightarrow> string \<Rightarrow> db \<Rightarrow> db" where
  "RevokeCredential now rid acct proj reason s =
     Credential_Revoke now rid acct proj
       (if reason = [] then ''manual_revocation'' else reason) s"

definition RevokeAllActiveForIdentity :: "time \<Rightarrow> string \<Rightarrow> string \<Rightarrow> db \<Rightarrow> db" where
  "RevokeAllActiveForIdentity now identityID reason s =
     Credential_RevokeAllActiveForIdentity now identityID
       (if reason = [] then ''identity_deactivated'' else reason) s"

definition RotateCredential ::
  "env \<Rightarrow> inputs \<Rightarrow> string \<Rightarrow> string \<Rightarrow> string \<Rightarrow> identity option \<Rightarrow>
   (db, err, access_token \<times> credential) svc" where
  "RotateCredential E w credID acct proj ident =
     bind (on_error (Credential_GetByID credID acct proj) (\<lambda>_. ErrMsg ''credential not found''))
       (\<lambda>old.
     if c_IsRevoked old then throw (ErrMsg ''credential is already revoked'')
     else (\<lambda>s. IssueCredential E w
       ((empty_issue zero_identity)\<lparr>iq_Identity := ident, iq_Scopes := c_Scopes old,
          iq_TTL := c_TTLSeconds old, iq_GrantType := c_GrantType old\<rparr>)
       (Credential_Revoke (tk_auth w) credID acct proj ''rotated'' s)))"

text \<open>The flag says active; a missing row is inactive, not an error.\<close>

definition IntrospectToken :: "time \<Rightarrow> string \<Rightarrow> db \<Rightarrow> credential option \<times> bool" where
  "IntrospectToken now jti s =
     (case Credential_GetByJTI jti s of
        None \<Rightarrow> (None, False)
      | Some c \<Rightarrow>
          if c_IsRevoked c then (Some c, False)
          else if c_ExpiresAt c < now then (Some c, False)
          else (Some c, True))"

subsection \<open>What issuance guarantees\<close>

text \<open>
  The contract of the chokepoint, independent of the order of the code: \<open>layer_admits\<close> says that
  the policy exists in the identity's tenant and admits the request, \<open>authorised\<close> that every gate
  is open and the granted lifetime is \<open>ttl\<close>.
\<close>

definition layer_admits :: "time \<Rightarrow> string \<Rightarrow> identity \<Rightarrow> enforce_req \<Rightarrow> db \<Rightarrow> bool" where
  "layer_admits now pid i r s \<longleftrightarrow>
     (\<exists>p. GetPolicy pid (i_AccountID i) (i_ProjectID i) s = (Inr p, s) \<and> policy_admits now p r)"

definition authorised :: "env \<Rightarrow> inputs \<Rightarrow> issue_request \<Rightarrow> identity \<Rightarrow> int \<Rightarrow> db \<Rightarrow> bool" where
  "authorised E w req i ttl s \<longleftrightarrow>
     i_Status i = IdentityStatusActive \<and> \<not> expired_at (i_ExpiresAt i) (tk_gate w) \<and>
     issue_ttl E w req i = Inr ttl \<and>
     (i_AllowedScopes i = [] \<or> set (iq_Scopes req) \<subseteq> set (i_AllowedScopes i)) \<and>
     (iq_IdentityPolicyID req = [] \<or>
        layer_admits (tk_idpol w) (iq_IdentityPolicyID req) i (issue_enforce req i ttl s) s) \<and>
     (iq_CredentialPolicyID req = [] \<or> iq_CredentialPolicyID req = iq_IdentityPolicyID req \<or>
        layer_admits (tk_keypol w) (iq_CredentialPolicyID req) i (issue_enforce req i ttl s) s)"

lemma scopes_allowed_iff: "scopes_allowed a r \<longleftrightarrow> a = [] \<or> set r \<subseteq> set a"
  by (auto simp: scopes_allowed_def list_all_iff)

lemma enforce_layer_Inr:
  "enforce_layer now pid i r s = (Inr u, s') \<longleftrightarrow> layer_admits now pid i r s \<and> s' = s"
  using GetPolicy_state [of pid "i_AccountID i" "i_ProjectID i" s]
  by (auto simp: enforce_layer_def layer_admits_def bind_Inr EnforcePolicy_admits [symmetric]
      split: option.splits)

lemma enforce_layer_state: "enforce_layer now pid i r s = (x, s') \<Longrightarrow> s' = s"
  using GetPolicy_state [of pid "i_AccountID i" "i_ProjectID i" s]
  by (auto simp: enforce_layer_def bind_def throw_def ret_def
      split: option.splits prod.splits sum.splits)

lemma Credential_Create_Inr:
  "Credential_Create c s = (Inr u, s') \<longleftrightarrow>
     (\<forall>x \<in> set (issued_credentials s). \<not> credential_conflict x c) \<and>
     s' = s\<lparr>issued_credentials := issued_credentials s @ [c]\<rparr>"
  by (auto simp: Credential_Create_def table_simps split: option.splits)

lemma Credential_Create_Inl: "Credential_Create c s = (Inl e, s') \<Longrightarrow> s' = s"
  by (auto simp: Credential_Create_def split: option.splits)

lemma issue_policies_Inr:
  "issue_policies w req i ttl s = (Inr u, s') \<longleftrightarrow> s' = s \<and>
     (iq_IdentityPolicyID req = [] \<or>
        layer_admits (tk_idpol w) (iq_IdentityPolicyID req) i (issue_enforce req i ttl s) s) \<and>
     (iq_CredentialPolicyID req = [] \<or> iq_CredentialPolicyID req = iq_IdentityPolicyID req \<or>
        layer_admits (tk_keypol w) (iq_CredentialPolicyID req) i (issue_enforce req i ttl s) s)"
  by (auto simp: issue_policies_def Let_def bind_Inr enforce_layer_Inr split: if_splits)

lemma issue_policies_state: "issue_policies w req i ttl s = (r, s') \<Longrightarrow> s' = s"
  by (cases r)
     (auto simp: issue_policies_def Let_def bind_Inl bind_Inr enforce_layer_Inr
       split: if_splits dest: enforce_layer_state)

lemma issue_mint_Inr:
  "issue_mint E w req i ttl s = (Inr (tok, c), s') \<longleftrightarrow>
   (\<exists>signed. sign_jwt E (iq_UseRS256 req \<and> hasRSAKeys E)
        (issue_claims E w req i (issue_grant req) (tk_issue w + dur_seconds ttl)) = Some signed \<and>
      c = issued_row w req i (issue_grant req) ttl (tk_issue w + dur_seconds ttl) \<and>
      tok = issued_token w req ttl signed \<and>
      (\<forall>x \<in> set (issued_credentials s). \<not> credential_conflict x c) \<and>
      s' = s\<lparr>issued_credentials := issued_credentials s @ [c]\<rparr>)"
  by (auto simp: issue_mint_def Let_def bind_Inr Credential_Create_Inr split: option.splits)

lemma issue_mint_Inl: "issue_mint E w req i ttl s = (Inl e, s') \<Longrightarrow> s' = s"
  by (auto simp: issue_mint_def Let_def bind_Inl split: option.splits dest: Credential_Create_Inl)

lemma IssueCredential_steps:
  "IssueCredential E w req s = (Inr r, s') \<longleftrightarrow>
   (\<exists>i ttl. iq_Identity req = Some i \<and> authorised E w req i ttl s \<and>
      issue_mint E w req i ttl s = (Inr r, s'))"
proof (cases "iq_Identity req")
  case (Some i)
  have "IssueCredential E w req s = (Inr r, s') \<longleftrightarrow> i_Status i = IdentityStatusActive \<and>
      \<not> expired_at (i_ExpiresAt i) (tk_gate w) \<and> (\<exists>ttl. issue_ttl E w req i = Inr ttl \<and>
        scopes_allowed (i_AllowedScopes i) (iq_Scopes req) \<and>
        issue_policies w req i ttl s = (Inr (), s) \<and> issue_mint E w req i ttl s = (Inr r, s'))"
    using Some by (simp add: IssueCredential_def IsUsable_def Identity_IsExpired_def bind_Inr
        if_svc_eq issue_policies_Inr) blast
  with Some show ?thesis
    unfolding authorised_def scopes_allowed_iff issue_policies_Inr by auto
qed (simp add: IssueCredential_def)

lemma IssueCredential_Inr:
  "IssueCredential E w req s = (Inr (tok, c), s') \<longleftrightarrow>
   (\<exists>i ttl signed. iq_Identity req = Some i \<and> authorised E w req i ttl s \<and>
      sign_jwt E (iq_UseRS256 req \<and> hasRSAKeys E)
        (issue_claims E w req i (issue_grant req) (tk_issue w + dur_seconds ttl)) = Some signed \<and>
      c = issued_row w req i (issue_grant req) ttl (tk_issue w + dur_seconds ttl) \<and>
      tok = issued_token w req ttl signed \<and>
      (\<forall>x \<in> set (issued_credentials s). \<not> credential_conflict x c) \<and>
      s' = s\<lparr>issued_credentials := issued_credentials s @ [c]\<rparr>)"
  by (simp add: IssueCredential_steps issue_mint_Inr)

lemma IssueCredential_Inl: "IssueCredential E w req s = (Inl e, s') \<Longrightarrow> s' = s"
  by (auto simp: IssueCredential_def bind_Inl split: option.splits if_splits
      dest: issue_policies_state issue_mint_Inl)

subsection \<open>Theorems about issuance\<close>

lemma clamp_ttl_Inr:
  assumes "clamp_ttl e now bound ttl = Inr ttl'"
  shows "ttl' \<le> ttl" "0 < ttl \<Longrightarrow> 0 < ttl'"
    "bound = Some t \<Longrightarrow> 0 < ttl' \<Longrightarrow> now + ttl' * second \<le> t"
proof -
  show "ttl' \<le> ttl" and "0 < ttl \<Longrightarrow> 0 < ttl'"
    using assms by (auto simp: clamp_ttl_def Let_def split: option.splits if_splits)
  assume b: "bound = Some t" and pos: "0 < ttl'"
  let ?d = "time_Sub t now"
  have le: "ttl' \<le> whole_seconds ?d" and rem: "0 < whole_seconds ?d"
    using assms b by (auto simp: clamp_ttl_def Let_def split: if_splits)
  have d: "second \<le> ?d" using whole_seconds_pos [OF rem] .
  then have "?d \<le> t - now" by (auto simp: time_Sub_def max_def min_def split: if_splits)
  moreover have "whole_seconds ?d * second \<le> ?d" using d by (intro whole_seconds_le) simp
  moreover have "ttl' * second \<le> whole_seconds ?d * second" using le by simp
  ultimately show "now + ttl' * second \<le> t" by linarith
qed

lemma base_ttl_bounds:
  "0 < defaultTTL E \<Longrightarrow> 0 < maxTTL E \<Longrightarrow> 0 < base_ttl E n \<and> base_ttl E n \<le> maxTTL E"
  by (simp add: base_ttl_def Let_def)

lemma issue_ttl_bounds:
  assumes "issue_ttl E w req i = Inr ttl" "0 < defaultTTL E" "0 < maxTTL E"
  shows "0 < ttl" "ttl \<le> maxTTL E"
    "i_ExpiresAt i = Some t \<Longrightarrow> tk_clamp w + ttl * second \<le> t"
    "iq_CredentialExpiresAt req = Some t \<Longrightarrow> tk_clamp w + ttl * second \<le> t"
proof -
  from assms(1) obtain ttl1 where c:
    "clamp_ttl ErrIdentityExpired (tk_clamp w) (i_ExpiresAt i) (base_ttl E (iq_TTL req)) = Inr ttl1"
    "clamp_ttl ErrCredentialExpired (tk_clamp w) (iq_CredentialExpiresAt req) ttl1 = Inr ttl"
    by (auto simp: issue_ttl_def split: sum.splits)
  note b = base_ttl_bounds [OF assms(2,3), of "iq_TTL req"]
  have p1: "0 < ttl1" and le1: "ttl1 \<le> maxTTL E"
    using clamp_ttl_Inr(1,2) [OF c(1)] b by auto
  show p: "0 < ttl" and "ttl \<le> maxTTL E"
    using clamp_ttl_Inr(1,2) [OF c(2)] p1 le1 by auto
  show "i_ExpiresAt i = Some t \<Longrightarrow> tk_clamp w + ttl * second \<le> t"
    using clamp_ttl_Inr(3) [OF c(1) _ p1, of t] clamp_ttl_Inr(1) [OF c(2)] by simp
  show "iq_CredentialExpiresAt req = Some t \<Longrightarrow> tk_clamp w + ttl * second \<le> t"
    using clamp_ttl_Inr(3) [OF c(2) _ p, of t] .
qed

text \<open>An authorised request with fresh identifiers and a working signer is always served.\<close>

lemma IssueCredential_serves:
  assumes "iq_Identity req = Some i" "authorised E w req i ttl s" "\<And>rs cl. sign_jwt E rs cl \<noteq> None"
    and "fr_jti w \<notin> c_JTI ` set (issued_credentials s)"
    and "fr_cred w \<notin> c_ID ` set (issued_credentials s)"
  shows "\<exists>tok c s'. IssueCredential E w req s = (Inr (tok, c), s')"
proof -
  have "\<forall>x \<in> set (issued_credentials s). \<not> credential_conflict x (issued_row w req i g n t)" for g n t
    using assms(4,5) by (auto simp: credential_conflict_def issued_row_def image_iff)
  moreover obtain signed where "sign_jwt E (iq_UseRS256 req \<and> hasRSAKeys E)
      (issue_claims E w req i (issue_grant req) (tk_issue w + dur_seconds ttl)) = Some signed"
    using assms(3) by blast
  ultimately show ?thesis using assms(1,2) unfolding IssueCredential_Inr by blast
qed



text \<open>A concrete environment and identity for closed examples.\<close>

definition sample_env :: env where
  "sample_env = \<lparr>issuer = ''iss'', defaultTTL = 3600, maxTTL = 86400, wimseDomain = ''z.dev'',
     hmacSecret = ''k'', authCodeIssuer = ''ui'', hasRSAKeys = True,
     trustedService = Some (Some ''gw''), jwt_set = (\<lambda>k v c. c(k \<mapsto> v)),
     sign_jwt = (\<lambda>rs c. Some (if rs then ''rs'' else ''es'')), parse_jwks = (\<lambda>v t x. None),
     parse_insecure = (\<lambda>x. None), parse_es256 = (\<lambda>k a t x. None),
     parse_hs256 = (\<lambda>k t x. None), pem_decode = (\<lambda>p. Some (''PUBLIC KEY'', p)),
     parse_pkix = (\<lambda>b. Some (ECDSAKey ''P-256'' b)),
     header_alg = (\<lambda>x. Some ''ES256''), sha256_hex = (\<lambda>x. ''h'' @ x),
     sha256_b64url = (\<lambda>x. ''b'' @ x), bcrypt_ok = (\<lambda>h p. h = p)\<rparr>"

definition sample_inputs :: inputs where
  "sample_inputs = \<lparr>tk_auth = 0, tk_grant = 0, tk_policy = 0, tk_gate = 0, tk_clamp = 0,
     tk_idpol = 1, tk_keypol = 1, tk_issue = 2, tk_after = 2, fr_policy = ''fp'',
     fr_jti = ''j1'', fr_cred = ''c1'', fr_rt_id = ''r1'', fr_rt_raw = ''raw1'',
     fr_rt_family = ''f1''\<rparr>"

definition sample_identity :: identity where
  "sample_identity = zero_identity\<lparr>i_ID := ''i1'', i_AccountID := ''acme'', i_ProjectID := ''prod'',
     i_ExternalID := ''bot'', i_WIMSEURI := ''spiffe://z.dev/acme/prod/agent/bot'',
     i_IdentityType := IdentityTypeAgent, i_TrustLevel := TrustLevelFirstParty,
     i_Status := IdentityStatusActive, i_CredentialPolicyID := ''p1'',
     i_ExpiresAt := Some (600 * second)\<rparr>"

definition sample_issue :: issue_request where
  "sample_issue = (empty_issue sample_identity)\<lparr>iq_GrantType := GrantTypeAPIKey,
     iq_IdentityPolicyID := ''p1'', iq_Scopes := [''read'']\<rparr>"

lemmas issue_samples = sample_env_def sample_inputs_def sample_identity_def sample_issue_def
  empty_issue_def zero_identity_def

lemma sample_ttl: "issue_ttl sample_env sample_inputs sample_issue sample_identity = Inr 600"
  by (simp add: issue_ttl_def clamp_ttl_def base_ttl_def issue_samples time_Sub_def
      whole_seconds_def)

lemma sample_authorised:
  "authorised sample_env sample_inputs sample_issue sample_identity 600 policy_db"
proof -
  have "layer_admits 1 ''p1'' sample_identity
      (issue_enforce sample_issue sample_identity 600 policy_db) policy_db"
    by (simp add: layer_admits_def GetPolicy_def policy_db_def sample_policy_def policy_admits_def
        issue_enforce_def issue_grant_def issue_samples NormalizeGrantType_def
        urnToShortGrantType_def TrustLevelRank_def)
  then show ?thesis
    using sample_ttl by (simp add: authorised_def sample_issue_def empty_issue_def
        sample_inputs_def sample_identity_def zero_identity_def expired_at_def)
qed

definition sample_row :: credential where
  "sample_row = issued_row sample_inputs sample_issue sample_identity GrantTypeAPIKey 600
     (2 + 600 * second)"

lemma sample_row_fields:
  "c_ID sample_row = ''c1''" "c_JTI sample_row = ''j1''" "c_AccountID sample_row = ''acme''"
  "c_ProjectID sample_row = ''prod''" "c_TTLSeconds sample_row = 600"
  "c_ExpiresAt sample_row = 600000000002"
  "a_JTI (issued_token sample_inputs sample_issue 600 x) = ''j1''"
  by (simp_all add: sample_row_def issued_row_def issued_token_def sample_inputs_def
      sample_identity_def)

lemma sample_fields:
  "iq_Identity sample_issue = Some sample_identity" "issue_grant sample_issue = GrantTypeAPIKey"
  "iq_UseRS256 sample_issue = False" "sign_jwt sample_env b cl = Some (if b then ''rs'' else ''es'')"
  "tk_issue sample_inputs = 2" "issued_credentials policy_db = []"
  by (simp_all add: sample_issue_def empty_issue_def issue_grant_def sample_env_def
      sample_inputs_def policy_db_def empty_db_def)

lemma sample_issued:
  "IssueCredential sample_env sample_inputs sample_issue policy_db =
     (Inr (issued_token sample_inputs sample_issue 600 ''es'',
           sample_row), policy_db\<lparr>issued_credentials := [sample_row]\<rparr>)"
  unfolding IssueCredential_Inr sample_row_def
  by (intro exI [of _ sample_identity] exI [of _ 600])
     (simp add: sample_authorised dur_seconds_exact sample_fields)


subsection \<open>Introspection and revocation of issued tokens\<close>

lemma IntrospectToken_active:
  "IntrospectToken now jti s = (Some c, True) \<longleftrightarrow>
     Credential_GetByJTI jti s = Some c \<and> \<not> c_IsRevoked c \<and> now \<le> c_ExpiresAt c"
  by (auto simp: IntrospectToken_def split: option.splits)

lemma anchor_revoked:
  assumes "c \<in> set t" "anchor c" "cred_active now c"
  shows "c_ID c \<in> set (map c_ID (cascade_from now t anchor)) \<and> \<not> c_IsRevoked c"
proof -
  have "c \<in> set (cascade_chain n now t path c)" for n path by (cases n) auto
  with assms show ?thesis by (force simp: cascade_from_def cred_active_def)
qed

lemma revoked_inactive:
  assumes "Credential_GetByJTI jti s = Some c" "cred_active now c"
  shows "\<not> snd (IntrospectToken t jti
    (Credential_Revoke now (c_ID c) (c_AccountID c) (c_ProjectID c) reason s))"
proof -
  let ?anchor = "\<lambda>d. c_ID d = c_ID c \<and> c_AccountID d = c_AccountID c \<and> c_ProjectID d = c_ProjectID c"
  have "c \<in> set (issued_credentials s)"
    using assms(1) find_SomeD by (fastforce simp: Credential_GetByJTI_def)
  from anchor_revoked [of c _ ?anchor, OF this _ assms(2)]
  have "find (\<lambda>d. c_JTI d = jti) (revoke_cascade now reason ?anchor (issued_credentials s)) =
      Some (mark_revoked now reason c)"
    using assms(1) revoke_cascade_find [of "\<lambda>d. c_JTI d = jti" now reason ?anchor]
    by (auto simp: Credential_GetByJTI_def)
  then show ?thesis
    by (simp add: IntrospectToken_def Credential_Revoke_def Credential_GetByJTI_def)
qed

lemma issued_lookup:
  assumes "IssueCredential E w req s = (Inr (tok, c), s')"
  shows "Credential_GetByJTI (a_JTI tok) s' = Some c" "c_JTI c = a_JTI tok" "\<not> c_IsRevoked c"
proof -
  from assms have s': "s' = s\<lparr>issued_credentials := issued_credentials s @ [c]\<rparr>"
    and free: "\<forall>x \<in> set (issued_credentials s). \<not> credential_conflict x c"
    and jti: "c_JTI c = a_JTI tok" and "\<not> c_IsRevoked c"
    by (auto simp: IssueCredential_Inr issued_row_def issued_token_def)
  then show "c_JTI c = a_JTI tok" "\<not> c_IsRevoked c" by simp_all
  have "find (\<lambda>d. c_JTI d = a_JTI tok) (issued_credentials s) = None"
    using free jti by (auto simp: find_None_iff credential_conflict_def)
  then show "Credential_GetByJTI (a_JTI tok) s' = Some c"
    using s' jti by (simp add: Credential_GetByJTI_def find_append)
qed

text \<open>
  C26. Life of an issued token: introspection reports it active with its row exactly until its
  expiry, and once \<open>RevokeCredential\<close> has run before that expiry it is inactive at every time.
\<close>

theorem issued_then_revoked:
  assumes "IssueCredential E w req s = (Inr (tok, c), s')" and "now < c_ExpiresAt c"
  shows "IntrospectToken t (a_JTI tok) s' = (Some c, t \<le> c_ExpiresAt c) \<and>
    \<not> snd (IntrospectToken t (a_JTI tok)
        (RevokeCredential now (c_ID c) (c_AccountID c) (c_ProjectID c) reason s'))"
  using issued_lookup [OF assms(1)] assms(2)
    revoked_inactive [of "a_JTI tok" s' c now t]
  by (auto simp: IntrospectToken_def RevokeCredential_def cred_active_def)

theorem issued_then_revoked_witness:
  "IntrospectToken 5 ''j1'' (snd (IssueCredential sample_env sample_inputs sample_issue policy_db)) =
     (Some sample_row, True) \<and>
   \<not> snd (IntrospectToken 5 ''j1'' (RevokeCredential 4 ''c1'' ''acme'' ''prod'' []
        (snd (IssueCredential sample_env sample_inputs sample_issue policy_db))))"
  using issued_then_revoked [OF sample_issued, of 4 5 "[]"]
  by (simp add: sample_issued sample_row_fields)

subsection \<open>Rotation\<close>

text \<open>
  Rotation replaces a credential but not its bounds: on success the old row is revoked and
  the new row has the old scopes and grant type, but it is the root of a new mission, with no
  parent, depth 0 and no DPoP key, and it was issued without any policy layer.
\<close>

theorem RotateCredential_detaches:
  assumes "RotateCredential E w credID acct proj ident s = (Inr (tok, c), s')"
  shows "\<exists>old i ttl. Credential_GetByID credID acct proj s = (Inr old, s) \<and> ident = Some i \<and>
     authorised E w ((empty_issue i)\<lparr>iq_Scopes := c_Scopes old, iq_TTL := c_TTLSeconds old,
       iq_GrantType := c_GrantType old\<rparr>) i ttl s \<and>
     c_Scopes c = c_Scopes old \<and> c_TTLSeconds c = ttl \<and>
     c_ParentJTI c = [] \<and> c_DelegationDepth c = 0 \<and> c_MissionID c = c_JTI c \<and>
     c_DPoPKeyThumbprint c = [] \<and>
     s' = s\<lparr>issued_credentials :=
       issued_credentials (Credential_Revoke (tk_auth w) credID acct proj ''rotated'' s) @ [c]\<rparr>"
proof -
  let ?s1 = "Credential_Revoke (tk_auth w) credID acct proj ''rotated'' s"
  have pol: "GetPolicy p a b ?s1 = (Inr x, ?s1) \<longleftrightarrow> GetPolicy p a b s = (Inr x, s)" for p a b x
    by (simp add: GetPolicy_def Credential_Revoke_def split: option.splits)
  from assms obtain old where old: "Credential_GetByID credID acct proj s = (Inr old, s)"
    and iss: "IssueCredential E w ((empty_issue zero_identity)\<lparr>iq_Identity := ident,
        iq_Scopes := c_Scopes old, iq_TTL := c_TTLSeconds old, iq_GrantType := c_GrantType old\<rparr>)
        ?s1 = (Inr (tok, c), s')"
    by (auto simp: RotateCredential_def bind_Inr on_error_Inr Credential_GetByID_def
        split: option.splits if_splits)
  from iss show ?thesis
    unfolding IssueCredential_Inr
    by (auto simp: old empty_issue_def issued_row_def authorised_def issue_ttl_def
        Credential_Revoke_def token_mission_def)
qed

text \<open>
  A closed instance in which the identity's own policy has been switched off since the first
  issuance: rotation still hands out a fresh token.
\<close>

definition rotate_db :: db where
  "rotate_db = empty_db\<lparr>credential_policies := [sample_policy\<lparr>p_IsActive := False\<rparr>],
     issued_credentials := [sample_row]\<rparr>"

definition rotate_inputs :: inputs where
  "rotate_inputs = sample_inputs\<lparr>fr_jti := ''j2'', fr_cred := ''c2''\<rparr>"

lemma rotate_find: "Credential_GetByID ''c1'' ''acme'' ''prod'' rotate_db = (Inr sample_row, rotate_db)"
  by (simp add: Credential_GetByID_def rotate_db_def sample_row_fields)

lemma rotate_revoked:
  "map c_ID (issued_credentials (Credential_Revoke t rid a p r rotate_db)) = [''c1''] \<and>
   map c_JTI (issued_credentials (Credential_Revoke t rid a p r rotate_db)) = [''j1'']"
  by (simp add: Credential_Revoke_def revoke_cascade_def Let_def rotate_db_def sample_row_fields)

lemma rotate_sample:
  "\<exists>tok c s'. RotateCredential sample_env rotate_inputs ''c1'' ''acme'' ''prod''
     (Some sample_identity) rotate_db = (Inr (tok, c), s')"
proof -
  let ?s1 = "Credential_Revoke (tk_auth rotate_inputs) ''c1'' ''acme'' ''prod'' ''rotated'' rotate_db"
  let ?req = "(empty_issue zero_identity)\<lparr>iq_Identity := Some sample_identity,
    iq_Scopes := c_Scopes sample_row, iq_TTL := c_TTLSeconds sample_row,
    iq_GrantType := c_GrantType sample_row\<rparr>"
  have "issue_ttl sample_env rotate_inputs ?req sample_identity = Inr 600"
    by (simp add: issue_ttl_def clamp_ttl_def base_ttl_def sample_env_def rotate_inputs_def
        sample_inputs_def sample_identity_def empty_issue_def sample_row_fields time_Sub_def
        whole_seconds_def)
  then have auth: "authorised sample_env rotate_inputs ?req sample_identity 600 ?s1"
    by (simp add: authorised_def empty_issue_def sample_identity_def zero_identity_def
        rotate_inputs_def sample_inputs_def expired_at_def)
  have "\<exists>tok c s'. IssueCredential sample_env rotate_inputs ?req ?s1 = (Inr (tok, c), s')"
    by (rule IssueCredential_serves [OF _ auth])
       (use rotate_revoked [of "tk_auth rotate_inputs" "''c1''" "''acme''" "''prod''" "''rotated''"]
         in \<open>auto simp: sample_fields rotate_inputs_def empty_issue_def\<close>)
  moreover have "\<not> c_IsRevoked sample_row" by (simp add: sample_row_def issued_row_def)
  ultimately show ?thesis
    by (simp add: RotateCredential_def bind_def on_error_def rotate_find)
qed

theorem RotateCredential_detaches_witness:
  "\<exists>c s'. (\<exists>tok. RotateCredential sample_env rotate_inputs ''c1'' ''acme'' ''prod''
       (Some sample_identity) rotate_db = (Inr (tok, c), s')) \<and>
     c_ParentJTI c = [] \<and> c_MissionID c = c_JTI c \<and>
     EnforcePolicy 1 (Some (hd (credential_policies rotate_db))) sample_enforce =
       Some (ErrPolicyViolation AxInactive)"
proof -
  obtain tok c s' where r: "RotateCredential sample_env rotate_inputs ''c1'' ''acme'' ''prod''
      (Some sample_identity) rotate_db = (Inr (tok, c), s')"
    using rotate_sample by blast
  moreover have "EnforcePolicy 1 (Some (hd (credential_policies rotate_db))) sample_enforce =
      Some (ErrPolicyViolation AxInactive)"
    by (simp add: EnforcePolicy_def rotate_db_def)
  ultimately show ?thesis using RotateCredential_detaches [OF r] by blast
qed

end
