(* ===== verification/Zeroid_Evolution.thy ===== *)
theory Zeroid_Evolution
  imports Zeroid_Issuance
begin

text \<open>
  What an operation may do to the credential table, as an interface: \<open>credential_op\<close> is the
  contract that every service operation keeps, and its consequence is that a token which is
  inactive stays inactive. The components interpret it on their own operations.
\<close>

subsection \<open>How operations may change the credential table\<close>

text \<open>
  \<open>cred_evolves M t t'\<close>: apart from rows whose \<open>jti\<close> is in \<open>M\<close> (minted by the operation), every
  row of \<open>t'\<close> comes from a row of \<open>t\<close> with the same token, lifetime, scopes and lineage, and a
  revoked row is still revoked.
\<close>

definition same_token :: "credential \<Rightarrow> credential \<Rightarrow> bool" where
  "same_token c c' \<longleftrightarrow> c_ID c' = c_ID c \<and> c_JTI c' = c_JTI c \<and> c_ExpiresAt c' = c_ExpiresAt c \<and>
     c_Scopes c' = c_Scopes c \<and> c_ParentJTI c' = c_ParentJTI c \<and>
     c_DelegationDepth c' = c_DelegationDepth c \<and> c_MissionID c' = c_MissionID c \<and>
     (c_IsRevoked c \<longrightarrow> c_IsRevoked c')"

definition cred_evolves :: "string set \<Rightarrow> credential list \<Rightarrow> credential list \<Rightarrow> bool" where
  "cred_evolves M t t' \<longleftrightarrow> (\<forall>c' \<in> set t'. c_JTI c' \<in> M \<or> (\<exists>c \<in> set t. same_token c c'))"

definition token_dead :: "time \<Rightarrow> string \<Rightarrow> credential list \<Rightarrow> bool" where
  "token_dead now jti t \<longleftrightarrow> (\<forall>c \<in> set t. c_JTI c = jti \<longrightarrow> c_IsRevoked c \<or> c_ExpiresAt c < now)"

lemma same_token_refl [simp]: "same_token c c"
  by (simp add: same_token_def)

lemma same_token_trans: "same_token a b \<Longrightarrow> same_token b c \<Longrightarrow> same_token a c"
  by (auto simp: same_token_def)

lemma same_token_mark_revoked [simp]: "same_token c (mark_revoked now reason c)"
  by (simp add: same_token_def mark_revoked_def)

lemma cred_evolves_refl [simp]: "cred_evolves M t t"
  unfolding cred_evolves_def using same_token_refl by blast

lemma cred_evolves_trans:
  assumes "cred_evolves M t t'" "cred_evolves N t' t''"
  shows "cred_evolves (M \<union> N) t t''"
  unfolding cred_evolves_def
proof
  fix c'' assume "c'' \<in> set t''"
  then consider "c_JTI c'' \<in> N" | c' where "c' \<in> set t'" "same_token c' c''"
    using assms(2) by (auto simp: cred_evolves_def)
  then show "c_JTI c'' \<in> M \<union> N \<or> (\<exists>c\<in>set t. same_token c c'')"
  proof cases
    case 2
    then consider "c_JTI c' \<in> M" | c where "c \<in> set t" "same_token c c'"
      using assms(1) by (auto simp: cred_evolves_def)
    then show ?thesis
      using 2 same_token_trans by cases (auto simp: same_token_def)
  qed simp
qed

lemma cred_evolves_mono: "cred_evolves M t t' \<Longrightarrow> M \<subseteq> N \<Longrightarrow> cred_evolves N t t'"
  by (auto simp: cred_evolves_def)

lemma cred_evolves_update:
  "(\<And>c. same_token c (f c)) \<Longrightarrow> cred_evolves M t (update_where P f t)"
  by (auto simp: cred_evolves_def table_simps) (metis same_token_refl)

lemma cred_evolves_delete: "cred_evolves M t (delete_where P t)"
  by (auto simp: cred_evolves_def table_simps) (metis same_token_refl)

lemma cred_evolves_cascade: "cred_evolves M t (revoke_cascade now reason anchor t)"
  unfolding revoke_cascade_def Let_def by (rule cred_evolves_update) simp

lemma cred_evolves_append: "c_JTI c \<in> M \<Longrightarrow> cred_evolves M t (t @ [c])"
  by (auto simp: cred_evolves_def) (metis same_token_refl)

lemma cred_evolves_dead:
  "cred_evolves M t t' \<Longrightarrow> jti \<notin> M \<Longrightarrow> token_dead now jti t \<Longrightarrow> token_dead now jti t'"
  unfolding cred_evolves_def token_dead_def same_token_def by metis

lemma token_dead_inactive: "token_dead now jti (issued_credentials s) \<Longrightarrow> \<not> snd (IntrospectToken now jti s)"
  by (auto simp: token_dead_def IntrospectToken_def Credential_GetByJTI_def split: option.splits
      dest: find_SomeD)

lemma inactive_token_dead:
  assumes "unique_by credential_conflict (issued_credentials s)"
  shows "token_dead now jti (issued_credentials s) \<longleftrightarrow> \<not> snd (IntrospectToken now jti s)"
proof
  assume "\<not> snd (IntrospectToken now jti s)"
  moreover have "find (\<lambda>d. c_JTI d = jti) (issued_credentials s) = Some c"
    if c: "c \<in> set (issued_credentials s)" "c_JTI c = jti" for c
  proof -
    from c have "find (\<lambda>d. c_JTI d = jti) (issued_credentials s) \<noteq> None"
      by (auto simp: find_None_iff)
    then obtain d where d: "find (\<lambda>d. c_JTI d = jti) (issued_credentials s) = Some d" by blast
    then have "d = c"
      using unique_cred_jti [OF assms c(1), of d] c(2) find_SomeD [OF d] by simp
    with d show ?thesis by simp
  qed
  ultimately show "token_dead now jti (issued_credentials s)"
    by (auto simp: token_dead_def IntrospectToken_def Credential_GetByJTI_def split: if_splits)
qed (rule token_dead_inactive)

text \<open>
  The contract every operation of the services keeps with the credential table: it mints at
  most the tokens of \<open>mints\<close>, and keeps the table's uniqueness constraint.
\<close>

locale credential_op =
  fixes op :: "db \<Rightarrow> db" and mints :: "string set"
  assumes evolves: "cred_evolves mints (issued_credentials s) (issued_credentials (op s))"
    and keeps_unique: "unique_by credential_conflict (issued_credentials s) \<Longrightarrow>
      unique_by credential_conflict (issued_credentials (op s))"
begin

lemma dead_stays_dead:
  assumes "unique_by credential_conflict (issued_credentials s)" "jti \<notin> mints"
    and "\<not> snd (IntrospectToken now jti s)"
  shows "\<not> snd (IntrospectToken now jti (op s))"
  using assms cred_evolves_dead [OF evolves] inactive_token_dead [OF assms(1)] token_dead_inactive
  by blast

end

lemma credential_op_unchanged:
  "(\<And>s. issued_credentials (op s) = issued_credentials s) \<Longrightarrow> credential_op op M"
  by unfold_locales simp_all

lemma credential_op_compose:
  assumes "credential_op f M" "credential_op g N"
  shows "credential_op (\<lambda>s. g (f s)) (M \<union> N)"
proof
  show "cred_evolves (M \<union> N) (issued_credentials s) (issued_credentials (g (f s)))" for s
    using credential_op.evolves [OF assms(1)] credential_op.evolves [OF assms(2)]
    by (rule cred_evolves_trans)
  show "unique_by credential_conflict (issued_credentials s) \<Longrightarrow>
      unique_by credential_conflict (issued_credentials (g (f s)))" for s
    using assms by (simp add: credential_op.keeps_unique)
qed

interpretation revoke_op: credential_op "RevokeCredential now rid acct proj reason" "{}"
  by unfold_locales
     (simp_all add: RevokeCredential_def Credential_Revoke_def cred_evolves_cascade
       unique_by_revoke_cascade)

interpretation revoke_all_op: credential_op "RevokeAllActiveForIdentity now rid reason" "{}"
  by unfold_locales
     (simp_all add: RevokeAllActiveForIdentity_def Credential_RevokeAllActiveForIdentity_def
       cred_evolves_cascade unique_by_revoke_cascade)

lemma IssueCredential_effect:
  obtains (error) e where "IssueCredential E w req s = (Inl e, s)"
  | (minted) tok c where
      "IssueCredential E w req s = (Inr (tok, c), s\<lparr>issued_credentials := issued_credentials s @ [c]\<rparr>)"
      "c_JTI c = fr_jti w"
      "insert_row credential_conflict c (issued_credentials s) = Some (issued_credentials s @ [c])"
proof (cases "IssueCredential E w req s")
  case (Pair r s')
  show ?thesis
  proof (cases r)
    case (Inl e)
    with Pair error IssueCredential_Inl show ?thesis by blast
  next
    case (Inr p)
    obtain tok c where "p = (tok, c)" by (cases p)
    with Inr Pair have eq: "IssueCredential E w req s = (Inr (tok, c), s')" by simp
    then have "c_JTI c = fr_jti w" "s' = s\<lparr>issued_credentials := issued_credentials s @ [c]\<rparr>"
        "insert_row credential_conflict c (issued_credentials s) = Some (issued_credentials s @ [c])"
      by (auto simp: IssueCredential_Inr insert_row_Some issued_row_def)
    with eq minted [of tok c] show ?thesis by simp
  qed
qed

interpretation issue_op: credential_op "\<lambda>s. snd (IssueCredential E w req s)" "{fr_jti w}"
proof
  fix s
  show "cred_evolves {fr_jti w} (issued_credentials s)
      (issued_credentials (snd (IssueCredential E w req s)))"
    by (cases rule: IssueCredential_effect [of E w req s]) (simp_all add: cred_evolves_append)
  show "unique_by credential_conflict (issued_credentials (snd (IssueCredential E w req s)))"
    if "unique_by credential_conflict (issued_credentials s)"
    using that unique_by_insert
    by (cases rule: IssueCredential_effect [of E w req s]) auto
qed

interpretation rotate_op:
  credential_op "\<lambda>s. snd (RotateCredential E w credID acct proj ident s)" "{fr_jti w}"
proof
  fix s
  let ?op = "\<lambda>req s. snd (IssueCredential E w req
    (RevokeCredential (tk_auth w) credID acct proj ''rotated'' s))"
  have op: "credential_op (?op req) ({} \<union> {fr_jti w})" for req
    by (rule credential_op_compose [OF revoke_op.credential_op_axioms issue_op.credential_op_axioms])
  have cases: "snd (RotateCredential E w credID acct proj ident s) = s \<or>
      (\<exists>req. snd (RotateCredential E w credID acct proj ident s) = ?op req s)"
    by (auto simp: RotateCredential_def RevokeCredential_def bind_def on_error_def
        Credential_GetByID_def throw_def split: option.splits)
  show "cred_evolves {fr_jti w} (issued_credentials s)
      (issued_credentials (snd (RotateCredential E w credID acct proj ident s)))"
    using cases credential_op.evolves [OF op] by auto
  show "unique_by credential_conflict
      (issued_credentials (snd (RotateCredential E w credID acct proj ident s)))"
    if "unique_by credential_conflict (issued_credentials s)"
    using that cases credential_op.keeps_unique [OF op] by auto
qed

end
