(* ===== verification/Zeroid_Signals.thy ===== *)
theory Zeroid_Signals
  imports Zeroid_Evolution
begin

text \<open>
  Continuous access evaluation (\<open>src/internal/service/signal.go\<close>): a signal is stored, a high or
  critical one revokes the identity's credentials, and subscribers of the tenant are notified
  through bounded channels. The subscriber map is a list of subscriber identifiers with their
  queued signals.
\<close>

abbreviation SignalTypeRetirement :: string where "SignalTypeRetirement \<equiv> ''retirement''"
abbreviation SignalTypeIdentityExpired :: string where
  "SignalTypeIdentityExpired \<equiv> ''identity_expired''"
abbreviation SignalSeverityHigh :: string where "SignalSeverityHigh \<equiv> ''high''"
abbreviation SignalSeverityCritical :: string where "SignalSeverityCritical \<equiv> ''critical''"

definition SignalSeverity_Valid :: "string \<Rightarrow> bool" where
  "SignalSeverity_Valid s \<longleftrightarrow>
     s \<in> {''low'', ''medium'', SignalSeverityHigh, SignalSeverityCritical}"

definition SignalType_Valid :: "string \<Rightarrow> bool" where
  "SignalType_Valid t \<longleftrightarrow>
     t \<in> {''credential_change'', ''session_revoked'', ''ip_change'', ''anomalous_behavior'',
          ''policy_violation'', SignalTypeRetirement, ''owner_change'', SignalTypeIdentityExpired}"

text \<open>The foreign key on \<open>identity_id\<close> (\<open>005_signals.up.sql\<close>); the empty string is not a UUID.\<close>

definition Signal_Create :: "signal \<Rightarrow> (db, err, unit) svc" where
  "Signal_Create g = (\<lambda>s.
     if (\<exists>i \<in> set (identities s). i_ID i = sg_IdentityID g) \<and> sg_IdentityID g \<noteq> [] \<and>
        sg_ID g \<notin> sg_ID ` set (cae_signals s)
     then (Inr (), s\<lparr>cae_signals := cae_signals s @ [g]\<rparr>)
     else (Inl (ErrMsg ''failed to create CAE signal''), s))"

definition new_signal ::
  "string \<Rightarrow> time \<Rightarrow> string \<Rightarrow> string \<Rightarrow> string \<Rightarrow> string \<Rightarrow> string \<Rightarrow> string \<Rightarrow>
   (string \<times> string) list \<Rightarrow> signal" where
  "new_signal sid now acct proj identityID signalType severity source payload =
     \<lparr>sg_ID = sid, sg_AccountID = acct, sg_ProjectID = proj, sg_IdentityID = identityID,
      sg_SignalType = signalType, sg_Severity = severity, sg_Source = source,
      sg_Payload = payload, sg_ProcessedAt = None, sg_CreatedAt = now, sg_MissionID = []\<rparr>"

definition signal_reason :: "signal \<Rightarrow> string" where
  "signal_reason g = ''auto-revoked by CAE signal '' @ sg_ID g @ '' (severity: '' @ sg_Severity g @ '')''"

definition auto_revoke :: "time \<Rightarrow> signal \<Rightarrow> db \<Rightarrow> db" where
  "auto_revoke now g s =
     (if sg_IdentityID g \<noteq> [] \<and>
         (sg_Severity g = SignalSeverityHigh \<or> sg_Severity g = SignalSeverityCritical)
      then case Identity_GetByID (sg_IdentityID g) (sg_AccountID g) (sg_ProjectID g) s of
             (Inl _, _) \<Rightarrow> s
           | (Inr _, _) \<Rightarrow>
               Credential_RevokeAllActiveForIdentity now (sg_IdentityID g) (signal_reason g) s
      else s)"

definition IngestSignal ::
  "string \<Rightarrow> time \<Rightarrow> string \<Rightarrow> string \<Rightarrow> string \<Rightarrow> string \<Rightarrow> string \<Rightarrow> string \<Rightarrow>
   (string \<times> string) list \<Rightarrow> (db, err, signal) svc" where
  "IngestSignal sid now acct proj identityID signalType severity source payload =
     (let g = new_signal sid now acct proj identityID signalType severity source payload
      in bind (on_error (Signal_Create g) (\<lambda>_. ErrMsg ''failed to ingest signal''))
           (\<lambda>_ s. (Inr g, auto_revoke now g s)))"

subsection \<open>Subscribers\<close>

type_synonym subscribers = "(string \<times> signal list) list"

definition tenantPrefix :: "string \<Rightarrow> string \<Rightarrow> string" where
  "tenantPrefix acct proj = acct @ '':'' @ proj @ '':''"

definition subscriber_cap :: nat where "subscriber_cap = 100"

text \<open>A full channel drops the signal (\<open>select\<close> with \<open>default\<close>).\<close>

definition fan_out :: "signal \<Rightarrow> subscribers \<Rightarrow> subscribers" where
  "fan_out g subs =
     map (\<lambda>(subID, q). if has_prefix (tenantPrefix (sg_AccountID g) (sg_ProjectID g)) subID \<and>
                          length q < subscriber_cap
                       then (subID, q @ [g]) else (subID, q)) subs"

text \<open>Only an ingested signal reaches the subscribers.\<close>

definition deliver :: "err + signal \<Rightarrow> subscribers \<Rightarrow> subscribers" where
  "deliver r subs = (case r of Inl _ \<Rightarrow> subs | Inr g \<Rightarrow> fan_out g subs)"

definition Subscribe :: "string \<Rightarrow> subscribers \<Rightarrow> subscribers" where
  "Subscribe subscriberID subs =
     filter (\<lambda>(k, _). k \<noteq> subscriberID) subs @ [(subscriberID, [])]"

definition Unsubscribe :: "string \<Rightarrow> subscribers \<Rightarrow> subscribers" where
  "Unsubscribe subscriberID subs = filter (\<lambda>(k, _). k \<noteq> subscriberID) subs"

text \<open>\<open>{accountID}:{projectID}:{uuid}\<close>, built by the streaming handler.\<close>

definition subscriber_id :: "string \<Rightarrow> string \<Rightarrow> string \<Rightarrow> string" where
  "subscriber_id acct proj uuid = acct @ '':'' @ proj @ '':'' @ uuid"

subsection \<open>What signals may touch\<close>

lemma auto_revoke_rows:
  "auto_revoke now g s = s \<or> auto_revoke now g s =
     s\<lparr>issued_credentials := revoke_cascade now (signal_reason g)
         (\<lambda>c. c_IdentityID c = Some (sg_IdentityID g)) (issued_credentials s)\<rparr>"
  by (auto simp: auto_revoke_def Credential_RevokeAllActiveForIdentity_def
      split: prod.splits sum.splits)

lemma new_signal_fields [simp]:
  "sg_ID (new_signal sid now acct proj rid ty sev src pay) = sid"
  "sg_AccountID (new_signal sid now acct proj rid ty sev src pay) = acct"
  "sg_ProjectID (new_signal sid now acct proj rid ty sev src pay) = proj"
  "sg_IdentityID (new_signal sid now acct proj rid ty sev src pay) = rid"
  "sg_Severity (new_signal sid now acct proj rid ty sev src pay) = sev"
  by (simp_all add: new_signal_def)

lemma IngestSignal_snd:
  "snd (IngestSignal sid now acct proj rid ty sev src pay s) =
    (let g = new_signal sid now acct proj rid ty sev src pay
     in if (\<exists>i \<in> set (identities s). i_ID i = rid) \<and> rid \<noteq> [] \<and> sid \<notin> sg_ID ` set (cae_signals s)
        then auto_revoke now g (s\<lparr>cae_signals := cae_signals s @ [g]\<rparr>) else s)"
  by (auto simp: IngestSignal_def Let_def bind_def on_error_def Signal_Create_def)

interpretation ingest_op:
  credential_op "\<lambda>s. snd (IngestSignal sid now acct proj rid ty sev src pay s)" "{}"
proof
  fix s
  let ?g = "new_signal sid now acct proj rid ty sev src pay"
  have rows: "issued_credentials (snd (IngestSignal sid now acct proj rid ty sev src pay s)) =
      issued_credentials s \<or>
    issued_credentials (snd (IngestSignal sid now acct proj rid ty sev src pay s)) =
      revoke_cascade now (signal_reason ?g) (\<lambda>c. c_IdentityID c = Some (sg_IdentityID ?g))
        (issued_credentials s)"
    using auto_revoke_rows [of now ?g "s\<lparr>cae_signals := cae_signals s @ [?g]\<rparr>"]
    by (auto simp: IngestSignal_snd Let_def)
  then show "cred_evolves {} (issued_credentials s)
      (issued_credentials (snd (IngestSignal sid now acct proj rid ty sev src pay s)))"
    by (auto simp: cred_evolves_cascade)
  show "unique_by credential_conflict
      (issued_credentials (snd (IngestSignal sid now acct proj rid ty sev src pay s)))"
    if "unique_by credential_conflict (issued_credentials s)"
    using that rows by (auto simp: unique_by_revoke_cascade)
qed

lemma cascade_anchor_inactive:
  assumes "c \<in> set (revoke_cascade now reason anchor t)" "anchor c"
    and "\<And>d. anchor (mark_revoked now reason d) = anchor d"
  shows "\<not> cred_active now c"
proof -
  obtain d where d: "d \<in> set t"
    "c = (if c_ID d \<in> set (map c_ID (cascade_from now t anchor)) \<and> \<not> c_IsRevoked d
          then mark_revoked now reason d else d)"
    using assms(1) by (auto simp: revoke_cascade_def Let_def table_simps)
  then have "anchor d" using assms(2,3) by (auto split: if_splits)
  with d anchor_revoked [of d t anchor now] show ?thesis
    by (auto simp: cred_active_def mark_revoked_def)
qed

text \<open>
  Signals act on their own tenant only: a signal that names an identity of another tenant
  revokes nothing, and one of high or critical severity for an identity of the tenant leaves
  none of that identity's credentials active.
\<close>

theorem IngestSignal_tenant_guard:
  "(case Identity_GetByID rid acct proj s of
      (Inl _, _) \<Rightarrow> issued_credentials (snd (IngestSignal sid now acct proj rid ty sev src pay s)) =
        issued_credentials s
    | (Inr i, _) \<Rightarrow> sev \<in> {SignalSeverityHigh, SignalSeverityCritical} \<and> rid \<noteq> [] \<and>
        sid \<notin> sg_ID ` set (cae_signals s) \<longrightarrow>
        (\<forall>c \<in> set (issued_credentials (snd (IngestSignal sid now acct proj rid ty sev src pay s))).
           c_IdentityID c = Some rid \<longrightarrow> \<not> cred_active now c))"
proof (cases "Identity_GetByID rid acct proj s")
  case (Pair r s')
  let ?g = "new_signal sid now acct proj rid ty sev src pay"
  let ?s = "s\<lparr>cae_signals := cae_signals s @ [?g]\<rparr>"
  have get: "fst (Identity_GetByID rid acct proj ?s) = r"
    using Pair by (auto simp: Identity_GetByID_def split: option.splits)
  show ?thesis
  proof (cases r)
    case (Inl e)
    with get have "auto_revoke now ?g ?s = ?s"
      by (auto simp: auto_revoke_def split: prod.splits sum.splits)
    with Pair Inl show ?thesis by (simp add: IngestSignal_snd Let_def)
  next
    case (Inr i)
    let ?anchor = "\<lambda>c. c_IdentityID c = Some rid"
    have ex: "\<exists>i \<in> set (identities s). i_ID i = rid"
      using Pair Inr by (auto simp: Identity_GetByID_def split: option.splits dest!: find_SomeD)
    have "\<not> cred_active now c" if hyp: "sev \<in> {SignalSeverityHigh, SignalSeverityCritical}"
        "rid \<noteq> []" "sid \<notin> sg_ID ` set (cae_signals s)"
      and c: "c \<in> set (issued_credentials (snd (IngestSignal sid now acct proj rid ty sev src pay s)))"
      "c_IdentityID c = Some rid" for c
    proof -
      have "issued_credentials (snd (IngestSignal sid now acct proj rid ty sev src pay s)) =
          revoke_cascade now (signal_reason ?g) ?anchor (issued_credentials s)"
        using hyp ex get Inr
        by (auto simp: IngestSignal_snd Let_def auto_revoke_def 
            Credential_RevokeAllActiveForIdentity_def split: prod.splits sum.splits)
      with c show ?thesis
        using cascade_anchor_inactive [of c now _ ?anchor] by (simp add: mark_revoked_def)
    qed
    with Pair Inr show ?thesis by simp
  qed
qed

definition signal_db :: db where
  "signal_db = empty_db\<lparr>identities := [sample_identity],
     issued_credentials := [zero_credential\<lparr>c_ID := ''c1'', c_JTI := ''j1'',
       c_IdentityID := Some ''i1'', c_ExpiresAt := 100\<rparr>]\<rparr>"

theorem IngestSignal_tenant_guard_witness:
  "issued_credentials (snd (IngestSignal ''g'' 5 ''evil'' ''prod'' ''i1'' ''ip_change'' ''high'' ''x'' []
       signal_db)) = issued_credentials signal_db \<and>
   filter (\<lambda>c. c_IdentityID c = Some ''i1'' \<and> cred_active 5 c) (issued_credentials (snd (IngestSignal
       ''g'' 5 ''acme'' ''prod'' ''i1'' ''ip_change'' ''high'' ''x'' [] signal_db))) = []"
proof
  have "fst (Identity_GetByID ''i1'' ''evil'' ''prod'' signal_db) = Inl ErrNoRows"
    by (simp add: Identity_GetByID_def signal_db_def sample_identity_def)
  then show "issued_credentials (snd (IngestSignal ''g'' 5 ''evil'' ''prod'' ''i1'' ''ip_change'' ''high''
      ''x'' [] signal_db)) = issued_credentials signal_db"
    using IngestSignal_tenant_guard [where rid = "''i1''" and acct = "''evil''" and
        proj = "''prod''" and s = signal_db and sid = "''g''" and now = 5 and
        ty = "''ip_change''" and sev = "''high''" and src = "''x''" and pay = "[]"]
    by (cases "Identity_GetByID ''i1'' ''evil'' ''prod'' signal_db") simp
  have "fst (Identity_GetByID ''i1'' ''acme'' ''prod'' signal_db) = Inr sample_identity"
    by (simp add: Identity_GetByID_def signal_db_def sample_identity_def)
  then show "filter (\<lambda>c. c_IdentityID c = Some ''i1'' \<and> cred_active 5 c) (issued_credentials (snd
      (IngestSignal ''g'' 5 ''acme'' ''prod'' ''i1'' ''ip_change'' ''high'' ''x'' [] signal_db))) = []"
    using IngestSignal_tenant_guard [where rid = "''i1''" and acct = "''acme''" and
        proj = "''prod''" and s = signal_db and sid = "''g''" and now = 5 and
        ty = "''ip_change''" and sev = "''high''" and src = "''x''" and pay = "[]"]
    by (cases "Identity_GetByID ''i1'' ''acme'' ''prod'' signal_db")
       (auto simp: signal_db_def empty_db_def filter_empty_conv)
qed

subsection \<open>Subscribers see their own tenant\<close>

lemma prefix_segments:
  assumes "CHR '':'' \<notin> set a" "CHR '':'' \<notin> set p" "CHR '':'' \<notin> set a'" "CHR '':'' \<notin> set p'"
  shows "has_prefix (tenantPrefix a p) (subscriber_id a' p' u) \<longleftrightarrow> a = a' \<and> p = p'"
proof
  assume "has_prefix (tenantPrefix a p) (subscriber_id a' p' u)"
  then obtain r where eq: "a' @ CHR '':'' # p' @ CHR '':'' # u = a @ CHR '':'' # p @ CHR '':'' # r"
    using has_prefixE by (fastforce simp: tenantPrefix_def subscriber_id_def)
  have "a' = a \<and> p' @ CHR '':'' # u = p @ CHR '':'' # r"
    using cut_at_append [OF assms(1), of "p @ CHR '':'' # r"]
      cut_at_append [OF assms(3), of "p' @ CHR '':'' # u"] eq by simp
  moreover from this have "p' = p"
    using cut_at_append [OF assms(2), of r] cut_at_append [OF assms(4), of u] by simp
  ultimately show "a = a' \<and> p = p'" by simp
next
  assume "a = a' \<and> p = p'"
  then have "subscriber_id a' p' u = tenantPrefix a p @ u"
    by (simp add: tenantPrefix_def subscriber_id_def)
  then show "has_prefix (tenantPrefix a p) (subscriber_id a' p' u)" by simp
qed

text \<open>
  Fan-out is tenant-isolated when tenant names contain no colon: a subscriber's queue grows
  by the signal exactly when the signal is of the subscriber's own account and project and the
  channel has room (100 signals); every other queue is unchanged.
\<close>

theorem fan_out_isolated:
  assumes "CHR '':'' \<notin> set (sg_AccountID g)" "CHR '':'' \<notin> set (sg_ProjectID g)"
    and "CHR '':'' \<notin> set acct" "CHR '':'' \<notin> set proj"
    and "(subscriber_id acct proj u, q) \<in> set subs"
  shows "(subscriber_id acct proj u,
      if sg_AccountID g = acct \<and> sg_ProjectID g = proj \<and> length q < 100 then q @ [g] else q)
    \<in> set (deliver (Inr g) subs)"
  using assms prefix_segments [OF assms(1-4), of u]
  by (auto simp: deliver_def fan_out_def subscriber_cap_def image_iff intro!: bexI [OF _ assms(5)])

definition sample_signal :: signal where
  "sample_signal = new_signal ''g'' 5 ''acme'' ''prod'' ''i1'' ''ip_change'' ''high'' ''x'' []"

theorem fan_out_isolated_witness:
  "(subscriber_id ''acme'' ''prod'' ''u'', [sample_signal]) \<in>
     set (deliver (Inr sample_signal) [(subscriber_id ''acme'' ''prod'' ''u'', [])])"
  using fan_out_isolated [of sample_signal "''acme''" "''prod''" "''u''" "[]"
      "[(subscriber_id ''acme'' ''prod'' ''u'', [])]"]
  by (simp add: sample_signal_def)

text \<open>
  With a colon in a tenant name the isolation fails: a signal of one tenant is delivered to
  a subscriber of another.
\<close>

theorem fan_out_colon_leak:
  "\<exists>g subs acct proj u. (acct, proj) \<noteq> (sg_AccountID g, sg_ProjectID g) \<and>
     (subscriber_id acct proj u, [g]) \<in> set (deliver (Inr g) (Subscribe (subscriber_id acct proj u) subs))"
  by (rule exI [of _ "sample_signal\<lparr>sg_AccountID := ''a'', sg_ProjectID := ''b:c''\<rparr>"],
      rule exI [of _ "[]"], rule exI [of _ "''a:b''"], rule exI [of _ "''c''"],
      rule exI [of _ "''u''"])
     (simp add: deliver_def fan_out_def Subscribe_def subscriber_id_def tenantPrefix_def
        has_prefix_def subscriber_cap_def)

end
