(* ===== verification/Zeroid_Identities.thy ===== *)
theory Zeroid_Identities
  imports Zeroid_Signals
begin

text \<open>
  The identity service (\<open>src/internal/service/identity.go\<close>): registration, update, the tenant's
  policy resolution, service identities, deactivation cleanup, the expiry sweep and deletion.
  \<open>iid\<close>, \<open>pid\<close> and \<open>sid\<close> are the fresh identifiers of the identity, of a default policy and of
  the lifecycle signal; \<open>now\<close> is the request's reading of the clock.
\<close>

subsection \<open>Keys\<close>

definition validateECPublicKeyPEM :: "env \<Rightarrow> string \<Rightarrow> bool" where
  "validateECPublicKeyPEM E keyPEM =
     (if keyPEM = [] then True
      else case pem_decode E keyPEM of
             None \<Rightarrow> False
           | Some (ty, bytes) \<Rightarrow>
               (if ty \<noteq> ''PUBLIC KEY'' then False
                else case parse_pkix E bytes of
                       Some (ECDSAKey curve k) \<Rightarrow> curve = ''P-256''
                     | _ \<Rightarrow> False))"

subsection \<open>Registration\<close>

record register_req =
  ri_AccountID :: string
  ri_ProjectID :: string
  ri_ExternalID :: string
  ri_Name :: string
  ri_TrustLevel :: string
  ri_IdentityType :: string
  ri_SubType :: string
  ri_OwnerUserID :: string
  ri_AllowedScopes :: "string list"
  ri_PublicKeyPEM :: string
  ri_Framework :: string
  ri_Version :: string
  ri_Publisher :: string
  ri_Description :: string
  ri_Capabilities :: string
  ri_Labels :: string
  ri_Metadata :: string
  ri_CreatedBy :: string
  ri_CredentialPolicyID :: string
  ri_CapabilityTier :: string
  ri_RiskTier :: string
  ri_IAL :: string
  ri_ExpiresAt :: "time option"

definition resolveIdentityPolicyID ::
  "string \<Rightarrow> time \<Rightarrow> string \<Rightarrow> string \<Rightarrow> string \<Rightarrow> (db, err, string) svc" where
  "resolveIdentityPolicyID pid now acct proj suppliedID =
     (if suppliedID = []
      then bind (on_error (EnsureDefaultPolicy pid now acct proj)
             (\<lambda>_. ErrMsg ''failed to ensure default credential policy'')) (\<lambda>p. ret (p_ID p))
      else bind (GetPolicy suppliedID acct proj) (\<lambda>_. ret suppliedID))"

definition ResolveCredentialPolicy :: "string \<Rightarrow> time \<Rightarrow> identity \<Rightarrow> (db, err, policy) svc" where
  "ResolveCredentialPolicy pid now i =
     (if i_CredentialPolicyID i \<noteq> []
      then GetPolicy (i_CredentialPolicyID i) (i_AccountID i) (i_ProjectID i)
      else EnsureDefaultPolicy pid now (i_AccountID i) (i_ProjectID i))"

definition or_default :: "string \<Rightarrow> string \<Rightarrow> string" where
  "or_default v d = (if v = [] then d else v)"

definition reg_type :: "register_req \<Rightarrow> string" where
  "reg_type req = or_default (ri_IdentityType req) IdentityTypeAgent"

definition reg_subtype :: "register_req \<Rightarrow> string" where
  "reg_subtype req =
     (if ri_SubType req = [] \<and> reg_type req = IdentityTypeAgent then SubTypeToolAgent
      else ri_SubType req)"

text \<open>The input checks of \<open>RegisterIdentity\<close>, in the order of the code.\<close>

definition register_checks :: "env \<Rightarrow> register_req \<Rightarrow> err option" where
  "register_checks E req =
     (if ri_OwnerUserID req = [] then Some (ErrMsg ''owner_user_id is required'')
      else if \<not> IdentityType_Valid (reg_type req) then Some (ErrMsg ''invalid identity_type'')
      else if \<not> list_all ValidateSPIFFEPathSegment
                 [ri_AccountID req, ri_ProjectID req, ri_ExternalID req, reg_type req]
        then Some ErrInvalidIdentityField
      else if \<not> ValidForIdentityType (reg_subtype req) (reg_type req)
        then Some (ErrMsg ''invalid sub_type'')
      else if \<not> validateECPublicKeyPEM E (ri_PublicKeyPEM req)
        then Some (ErrMsg ''invalid public_key_pem'')
      else if \<not> ValidCapabilityTier (ri_CapabilityTier req) then Some ErrInvalidIdentityField
      else if \<not> ValidRiskTier (ri_RiskTier req) then Some ErrInvalidIdentityField
      else if \<not> ValidIAL (ri_IAL req) then Some ErrInvalidIdentityField
      else None)"

definition register_row ::
  "string \<Rightarrow> time \<Rightarrow> register_req \<Rightarrow> string \<Rightarrow> string \<Rightarrow> identity" where
  "register_row iid now req policyID wimseURI =
     \<lparr>i_ID = iid, i_AccountID = ri_AccountID req, i_ProjectID = ri_ProjectID req,
      i_ExternalID = ri_ExternalID req, i_Name = ri_Name req, i_WIMSEURI = wimseURI,
      i_IdentityType = reg_type req, i_SubType = reg_subtype req,
      i_TrustLevel = or_default (ri_TrustLevel req) TrustLevelUnverified,
      i_Status = IdentityStatusActive, i_OwnerUserID = ri_OwnerUserID req,
      i_CredentialPolicyID = policyID, i_AllowedScopes = ri_AllowedScopes req,
      i_PublicKeyPEM = ri_PublicKeyPEM req, i_Framework = ri_Framework req,
      i_Version = ri_Version req, i_Publisher = ri_Publisher req,
      i_Description = ri_Description req,
      i_Capabilities = or_default (ri_Capabilities req) ''[]'',
      i_Labels = or_default (ri_Labels req) ''{}'', i_Metadata = or_default (ri_Metadata req) ''{}'',
      i_CapabilityTier = ri_CapabilityTier req, i_RiskTier = ri_RiskTier req,
      i_IAL = ri_IAL req, i_ExpiresAt = ri_ExpiresAt req, i_CreatedBy = ri_CreatedBy req,
      i_ModifiedBy = [], i_CreatedAt = now, i_UpdatedAt = now\<rparr>"

definition RegisterIdentity ::
  "env \<Rightarrow> string \<Rightarrow> string \<Rightarrow> time \<Rightarrow> register_req \<Rightarrow> (db, err, identity) svc" where
  "RegisterIdentity E iid pid now req =
     (case register_checks E req of
        Some e \<Rightarrow> throw e
      | None \<Rightarrow>
          bind (resolveIdentityPolicyID pid now (ri_AccountID req) (ri_ProjectID req)
                  (ri_CredentialPolicyID req)) (\<lambda>policyID.
          case BuildWIMSEURI (wimseDomain E) (ri_AccountID req) (ri_ProjectID req) (reg_type req)
                 (ri_ExternalID req) of
            None \<Rightarrow> throw ErrSPIFFEIDTooLong
          | Some wimseURI \<Rightarrow>
              (let i = register_row iid now req policyID wimseURI
               in bind (Identity_Create i) (\<lambda>_. ret i))))"

definition service_req :: "string \<Rightarrow> string \<Rightarrow> string \<Rightarrow> string \<Rightarrow> register_req" where
  "service_req acct proj ext createdBy =
     \<lparr>ri_AccountID = acct, ri_ProjectID = proj, ri_ExternalID = ext, ri_Name = ext,
      ri_TrustLevel = [], ri_IdentityType = IdentityTypeService, ri_SubType = [],
      ri_OwnerUserID = createdBy, ri_AllowedScopes = [], ri_PublicKeyPEM = [], ri_Framework = [],
      ri_Version = [], ri_Publisher = [], ri_Description = [], ri_Capabilities = [],
      ri_Labels = [], ri_Metadata = [], ri_CreatedBy = [], ri_CredentialPolicyID = [],
      ri_CapabilityTier = [], ri_RiskTier = [], ri_IAL = [], ri_ExpiresAt = None\<rparr>"

definition EnsureServiceIdentity ::
  "env \<Rightarrow> string \<Rightarrow> string \<Rightarrow> time \<Rightarrow> string \<Rightarrow> string \<Rightarrow> string \<Rightarrow> string \<Rightarrow>
   (db, err, identity) svc" where
  "EnsureServiceIdentity E iid pid now acct proj ext createdBy = (\<lambda>s.
     case Identity_GetByExternalID ext acct proj s of
       (Inr existing, s1) \<Rightarrow> (Inr existing, s1)
     | (Inl _, s1) \<Rightarrow>
         (case RegisterIdentity E iid pid now (service_req acct proj ext createdBy) s1 of
            (Inr i, s2) \<Rightarrow> (Inr i, s2)
          | (Inl e, s2) \<Rightarrow>
              (case (if e = ErrIdentityAlreadyExists
                     then fst (Identity_GetByExternalID ext acct proj s2) else Inl e) of
                 Inr existing \<Rightarrow> (Inr existing, s2)
               | Inl _ \<Rightarrow> (Inl (ErrMsg ''failed to ensure service identity''), s2))))"

subsection \<open>Cleanup, deletion, expiry sweep\<close>

definition runDeactivationCleanup :: "time \<Rightarrow> string \<Rightarrow> identity \<Rightarrow> string \<Rightarrow> db \<Rightarrow> db" where
  "runDeactivationCleanup now sid i reason s =
     (let s1 = APIKey_RevokeByIdentityID now (i_ID i) s;
          s2 = RevokeAllActiveForIdentity now (i_ID i) reason s1;
          signalType = (if reason = ''expired'' then SignalTypeIdentityExpired
                        else SignalTypeRetirement)
      in snd (IngestSignal sid now (i_AccountID i) (i_ProjectID i) (i_ID i) signalType
                SignalSeverityHigh ''identity_lifecycle'' [(''reason'', reason)] s2))"

definition DeleteIdentity :: "time \<Rightarrow> string \<Rightarrow> string \<Rightarrow> string \<Rightarrow> string \<Rightarrow> db \<Rightarrow> db" where
  "DeleteIdentity now sid rid acct proj s =
     (case Identity_GetByID rid acct proj s of
        (Inl _, _) \<Rightarrow> Identity_Delete rid acct proj s
      | (Inr i, _) \<Rightarrow>
          Identity_Delete rid acct proj (runDeactivationCleanup now sid i ''identity_deleted'' s))"

text \<open>\<open>sid\<close> gives the fresh signal identifier of each swept row.\<close>

fun sweep_rows ::
  "(string \<Rightarrow> string) \<Rightarrow> time \<Rightarrow> identity list \<Rightarrow> db \<Rightarrow> nat \<times> db" where
  "sweep_rows sid now [] s = (0, s)"
| "sweep_rows sid now (row # rows) s =
     (case DeactivateIfActive ''system:expired_sweep'' now (i_ID row) (i_AccountID row)
             (i_ProjectID row) s of
        (None, s1) \<Rightarrow> sweep_rows sid now rows s1
      | (Some i, s1) \<Rightarrow>
          (let (n, s2) = sweep_rows sid now rows
                 (runDeactivationCleanup now (sid (i_ID i)) i ''expired'' s1)
           in (Suc n, s2)))"

definition SweepExpiredIdentities :: "(string \<Rightarrow> string) \<Rightarrow> time \<Rightarrow> db \<Rightarrow> nat \<times> db" where
  "SweepExpiredIdentities sid now s = sweep_rows sid now (ListExpiredActive now s) s"

subsection \<open>Update\<close>

record update_req =
  ui_Name :: string
  ui_TrustLevel :: string
  ui_IdentityType :: string
  ui_SubType :: string
  ui_OwnerUserID :: string
  ui_AllowedScopes :: "string list option"
  ui_PublicKeyPEM :: string
  ui_Framework :: "string option"
  ui_Version :: "string option"
  ui_Publisher :: "string option"
  ui_Description :: "string option"
  ui_Capabilities :: "string option"
  ui_Labels :: "string option"
  ui_Metadata :: "string option"
  ui_Status :: "string option"
  ui_CredentialPolicyID :: "string option"
  ui_CapabilityTier :: "string option"
  ui_RiskTier :: "string option"
  ui_IAL :: "string option"
  ui_ExpiresAt :: "string option"

text \<open>
  Fields are tested and assigned one after the other on a copy of the row. \<open>update_part1\<close> is the
  stretch before the policy is resolved (which may create the tenant default), \<open>update_part2\<close>
  the stretch after it.
\<close>

definition update_part1 :: "env \<Rightarrow> update_req \<Rightarrow> identity \<Rightarrow> err + identity" where
  "update_part1 E req i0 =
     (let i1 = i0\<lparr>i_Name := or_default (ui_Name req) (i_Name i0),
                  i_TrustLevel := or_default (ui_TrustLevel req) (i_TrustLevel i0)\<rparr>
      in if ui_IdentityType req \<noteq> [] \<and> \<not> IdentityType_Valid (ui_IdentityType req)
           then Inl (ErrMsg ''invalid identity_type'')
         else
      let i2 = i1\<lparr>i_IdentityType := or_default (ui_IdentityType req) (i_IdentityType i1)\<rparr>
      in if ui_SubType req \<noteq> [] \<and> \<not> ValidForIdentityType (ui_SubType req) (i_IdentityType i2)
           then Inl (ErrMsg ''invalid sub_type'')
         else
      let i3 = i2\<lparr>i_SubType := or_default (ui_SubType req) (i_SubType i2),
                  i_OwnerUserID := or_default (ui_OwnerUserID req) (i_OwnerUserID i2),
                  i_AllowedScopes := or_keep (ui_AllowedScopes req) (i_AllowedScopes i2)\<rparr>
      in if ui_PublicKeyPEM req \<noteq> [] \<and> \<not> validateECPublicKeyPEM E (ui_PublicKeyPEM req)
           then Inl (ErrMsg ''invalid public_key_pem'')
         else
      let i4 = i3\<lparr>i_PublicKeyPEM := or_default (ui_PublicKeyPEM req) (i_PublicKeyPEM i3),
                  i_Framework := or_keep (ui_Framework req) (i_Framework i3),
                  i_Version := or_keep (ui_Version req) (i_Version i3),
                  i_Publisher := or_keep (ui_Publisher req) (i_Publisher i3),
                  i_Description := or_keep (ui_Description req) (i_Description i3),
                  i_Capabilities := or_keep (ui_Capabilities req) (i_Capabilities i3),
                  i_Labels := or_keep (ui_Labels req) (i_Labels i3),
                  i_Metadata := or_keep (ui_Metadata req) (i_Metadata i3)\<rparr>
      in case ui_Status req of
           None \<Rightarrow> Inr i4
         | Some st \<Rightarrow> if \<not> CanTransitionTo (i_Status i4) st
                      then Inl (ErrMsg ''invalid status transition'')
                      else Inr (i4\<lparr>i_Status := st\<rparr>))"

definition update_part2 ::
  "(string \<Rightarrow> time option) \<Rightarrow> time \<Rightarrow> update_req \<Rightarrow> identity \<Rightarrow> err + identity" where
  "update_part2 parse_rfc3339 now req i5 =
     (if (case ui_CapabilityTier req of None \<Rightarrow> False | Some v \<Rightarrow> \<not> ValidCapabilityTier v)
        then Inl ErrInvalidIdentityField
      else if (case ui_RiskTier req of None \<Rightarrow> False | Some v \<Rightarrow> \<not> ValidRiskTier v)
        then Inl ErrInvalidIdentityField
      else if (case ui_IAL req of None \<Rightarrow> False | Some v \<Rightarrow> \<not> ValidIAL v)
        then Inl ErrInvalidIdentityField
      else
      let i6 = i5\<lparr>i_CapabilityTier := or_keep (ui_CapabilityTier req) (i_CapabilityTier i5),
                  i_RiskTier := or_keep (ui_RiskTier req) (i_RiskTier i5),
                  i_IAL := or_keep (ui_IAL req) (i_IAL i5), i_UpdatedAt := now\<rparr>
      in case ui_ExpiresAt req of
           None \<Rightarrow> Inr i6
         | Some raw \<Rightarrow>
             (case parseExpiresAtPatch parse_rfc3339 now raw of
                Inl _ \<Rightarrow> Inl ErrInvalidIdentityField
              | Inr ex \<Rightarrow> Inr (i6\<lparr>i_ExpiresAt := ex\<rparr>)))"

definition UpdateIdentity ::
  "env \<Rightarrow> (string \<Rightarrow> time option) \<Rightarrow> string \<Rightarrow> string \<Rightarrow> string \<Rightarrow> time \<Rightarrow> string \<Rightarrow> string \<Rightarrow>
   string \<Rightarrow> update_req \<Rightarrow> (db, err, identity) svc" where
  "UpdateIdentity E parse_rfc3339 caller pid sid now rid acct proj req =
     bind (Identity_GetByID rid acct proj) (\<lambda>i0.
     bind (lift (update_part1 E req i0)) (\<lambda>i4.
     bind (case ui_CredentialPolicyID req of
             None \<Rightarrow> ret i4
           | Some supplied \<Rightarrow>
               bind (resolveIdentityPolicyID pid now (i_AccountID i4) (i_ProjectID i4) supplied)
                 (\<lambda>p. ret (i4\<lparr>i_CredentialPolicyID := p\<rparr>))) (\<lambda>i5.
     bind (lift (update_part2 parse_rfc3339 now req i5)) (\<lambda>i6.
     bind (Identity_Update caller i6) (\<lambda>_ s.
       (Inr i6, if i_Status i0 \<noteq> IdentityStatusDeactivated \<and>
                   i_Status i6 = IdentityStatusDeactivated
                then runDeactivationCleanup now sid i6 ''identity_deactivated'' s
                else s))))))"

subsection \<open>Policies an identity refers to\<close>

definition policy_of_tenant :: "string \<Rightarrow> string \<Rightarrow> string \<Rightarrow> db \<Rightarrow> bool" where
  "policy_of_tenant pid acct proj s \<longleftrightarrow>
     (\<exists>p \<in> set (credential_policies s). p_ID p = pid \<and> p_AccountID p = acct \<and> p_ProjectID p = proj)"

lemma no_new_policy [intro]: "\<exists>ps. s = s\<lparr>credential_policies := credential_policies s @ ps\<rparr>"
  by (rule exI [of _ "[]"]) simp

text \<open>The one effect policy resolution has: it may append the tenant's default.\<close>

lemma EnsureDefaultPolicy_effect:
  "EnsureDefaultPolicy pid now acct proj s = (r, s') \<Longrightarrow>
   \<exists>ps. s' = s\<lparr>credential_policies := credential_policies s @ ps\<rparr> \<and>
     (\<forall>p. r = Inr p \<longrightarrow> policy_of_tenant (p_ID p) acct proj s')"
proof (cases "GetDefaultByTenant acct proj s")
  case None
  assume "EnsureDefaultPolicy pid now acct proj s = (r, s')"
  with None show ?thesis
    by (auto simp: EnsureDefaultPolicy_fresh policy_of_tenant_def insert_row_Some
        split: option.splits) (auto simp: default_policy_def)
next
  case (Some p)
  assume "EnsureDefaultPolicy pid now acct proj s = (r, s')"
  with Some have "r = Inr p" "s' = s" by (auto simp: EnsureDefaultPolicy_def)
  with Some show ?thesis
    by (auto simp: GetDefaultByTenant_def policy_of_tenant_def dest!: find_SomeD intro!: exI [of _ "[]"])
qed

lemma resolveIdentityPolicyID_effect:
  assumes "resolveIdentityPolicyID pid now acct proj supplied s = (r, s')"
  shows "\<exists>ps. s' = s\<lparr>credential_policies := credential_policies s @ ps\<rparr> \<and>
     (\<forall>p. r = Inr p \<longrightarrow> policy_of_tenant p acct proj s')"
proof (cases "supplied = []")
  case True
  obtain r0 s0 where e: "EnsureDefaultPolicy pid now acct proj s = (r0, s0)" by fastforce
  with assms True EnsureDefaultPolicy_effect [OF e] show ?thesis
    by (cases r0) (auto simp: resolveIdentityPolicyID_def bind_def on_error_def ret_def)
next
  case False
  obtain r0 s0 where e: "GetPolicy supplied acct proj s = (r0, s0)" by fastforce
  with assms False GetPolicy_inv [of supplied acct proj s _ s0] GetPolicy_state [of supplied acct proj s]
  show ?thesis
    by (cases r0) (auto simp: resolveIdentityPolicyID_def bind_def ret_def policy_of_tenant_def
        intro!: exI [of _ "[]"])
qed

lemma ResolveCredentialPolicy_effect:
  assumes "ResolveCredentialPolicy pid now i s = (r, s')"
  shows "\<exists>ps. s' = s\<lparr>credential_policies := credential_policies s @ ps\<rparr> \<and>
     (\<forall>p. r = Inr p \<longrightarrow> policy_of_tenant (p_ID p) (i_AccountID i) (i_ProjectID i) s')"
proof (cases "i_CredentialPolicyID i = []")
  case True
  with assms EnsureDefaultPolicy_effect show ?thesis by (simp add: ResolveCredentialPolicy_def)
next
  case False
  with assms have g: "GetPolicy (i_CredentialPolicyID i) (i_AccountID i) (i_ProjectID i) s = (r, s')"
    by (simp add: ResolveCredentialPolicy_def)
  have "s' = s" using GetPolicy_state [of "i_CredentialPolicyID i"] g by (metis snd_conv)
  with g show ?thesis
    using GetPolicy_inv [of "i_CredentialPolicyID i" "i_AccountID i" "i_ProjectID i" s _ s']
    by (auto simp: policy_of_tenant_def intro!: exI [of _ "[]"])
qed

lemma policy_of_tenant_append:
  "policy_of_tenant pid acct proj s \<Longrightarrow>
   policy_of_tenant pid acct proj (s\<lparr>credential_policies := credential_policies s @ ps\<rparr>)"
  by (auto simp: policy_of_tenant_def)

subsection \<open>Registration\<close>

definition policy_ref_ok :: "db \<Rightarrow> identity \<Rightarrow> bool" where
  "policy_ref_ok s i \<longleftrightarrow> i_CredentialPolicyID i = [] \<or>
     policy_of_tenant (i_CredentialPolicyID i) (i_AccountID i) (i_ProjectID i) s"

definition identities_ok :: "db \<Rightarrow> bool" where
  "identities_ok s \<longleftrightarrow> unique_by identity_conflict (identities s) \<and>
     (\<forall>i \<in> set (identities s). identity_check i \<and> policy_ref_ok s i)"

lemma RegisterIdentity_Inr:
  assumes "RegisterIdentity E iid pid now req s = (Inr i, s')"
  shows "\<exists>ps policyID uri. register_checks E req = None \<and>
     BuildWIMSEURI (wimseDomain E) (ri_AccountID req) (ri_ProjectID req) (reg_type req)
       (ri_ExternalID req) = Some uri \<and>
     i = register_row iid now req policyID uri \<and> identity_check i \<and>
     s' = s\<lparr>credential_policies := credential_policies s @ ps, identities := identities s @ [i]\<rparr> \<and>
     insert_row identity_conflict i (identities s) = Some (identities s @ [i]) \<and>
     policy_of_tenant policyID (ri_AccountID req) (ri_ProjectID req) s'"
proof -
  from assms obtain policyID s1 uri where ck: "register_checks E req = None"
    and r: "resolveIdentityPolicyID pid now (ri_AccountID req) (ri_ProjectID req)
       (ri_CredentialPolicyID req) s = (Inr policyID, s1)"
    and u: "BuildWIMSEURI (wimseDomain E) (ri_AccountID req) (ri_ProjectID req) (reg_type req)
       (ri_ExternalID req) = Some uri"
    and i: "i = register_row iid now req policyID uri"
    and c: "Identity_Create i s1 = (Inr (), s')"
    by (auto simp: RegisterIdentity_def bind_Inr Let_def split: option.splits)
  from resolveIdentityPolicyID_effect [OF r] obtain ps where
    s1: "s1 = s\<lparr>credential_policies := credential_policies s @ ps\<rparr>"
    and p: "policy_of_tenant policyID (ri_AccountID req) (ri_ProjectID req) s1" by auto
  from c s1 have "identity_check i" "insert_row identity_conflict i (identities s) = Some (identities s @ [i])"
      "s' = s1\<lparr>identities := identities s @ [i]\<rparr>"
    by (auto simp: Identity_Create_def insert_row_Some split: if_splits option.splits)
  with ck u i p s1 show ?thesis
    by (intro exI [of _ ps] exI [of _ policyID] exI [of _ uri]) (auto simp: policy_of_tenant_def)
qed

lemma RegisterIdentity_Inl:
  assumes "RegisterIdentity E iid pid now req s = (Inl e, s')"
  shows "\<exists>ps. s' = s\<lparr>credential_policies := credential_policies s @ ps\<rparr>"
proof -
  let ?res = "resolveIdentityPolicyID pid now (ri_AccountID req) (ri_ProjectID req)
       (ri_CredentialPolicyID req)"
  obtain r s1 where r: "?res s = (r, s1)" by fastforce
  from assms have "s' = s \<or> s' = s1"
    using r by (auto simp: RegisterIdentity_def bind_def throw_def Let_def Identity_Create_def
        ret_def split: option.splits sum.splits if_splits)
  with resolveIdentityPolicyID_effect [OF r] no_new_policy [of s] show ?thesis by auto
qed

text \<open>
  A registered identity is active and well formed: its type, sub-type and risk fields are
  valid, every path segment of its WIMSE URI is SPIFFE-clean, the URI is the one built from its
  own tenant, type and external id, its policy exists in its own tenant, and its (tenant,
  external id) was free.
\<close>

theorem RegisterIdentity_spec:
  assumes "RegisterIdentity E iid pid now req s = (Inr i, s')"
  shows "i_Status i = IdentityStatusActive \<and> i_OwnerUserID i \<noteq> [] \<and>
     IdentityType_Valid (i_IdentityType i) \<and> TrustLevel_Valid (i_TrustLevel i) \<and>
     ValidForIdentityType (i_SubType i) (i_IdentityType i) \<and>
     list_all ValidateSPIFFEPathSegment
       [i_AccountID i, i_ProjectID i, i_IdentityType i, i_ExternalID i] \<and>
     BuildWIMSEURI (wimseDomain E) (i_AccountID i) (i_ProjectID i) (i_IdentityType i)
       (i_ExternalID i) = Some (i_WIMSEURI i) \<and>
     policy_of_tenant (i_CredentialPolicyID i) (i_AccountID i) (i_ProjectID i) s' \<and>
     Identity_GetByExternalID (i_ExternalID i) (i_AccountID i) (i_ProjectID i) s = (Inl ErrNoRows, s) \<and>
     Identity_GetByExternalID (i_ExternalID i) (i_AccountID i) (i_ProjectID i) s' = (Inr i, s')"
proof -
  from RegisterIdentity_Inr [OF assms] obtain ps policyID uri where
    ck: "register_checks E req = None" and
    u: "BuildWIMSEURI (wimseDomain E) (ri_AccountID req) (ri_ProjectID req) (reg_type req)
       (ri_ExternalID req) = Some uri" and
    i: "i = register_row iid now req policyID uri" and chk: "identity_check i" and
    s': "s' = s\<lparr>credential_policies := credential_policies s @ ps, identities := identities s @ [i]\<rparr>" and
    ins: "insert_row identity_conflict i (identities s) = Some (identities s @ [i])" and
    p: "policy_of_tenant policyID (ri_AccountID req) (ri_ProjectID req) s'" by blast
  let ?P = "\<lambda>x. i_ExternalID x = i_ExternalID i \<and> in_tenant_i (i_AccountID i) (i_ProjectID i) x"
  have none: "find ?P (identities s) = None"
    using ins by (auto simp: find_None_iff insert_row_Some identity_conflict_def)
  have "register_checks E req = None \<Longrightarrow> ri_OwnerUserID req \<noteq> [] \<and> IdentityType_Valid (reg_type req) \<and>
      ValidForIdentityType (reg_subtype req) (reg_type req) \<and>
      list_all ValidateSPIFFEPathSegment
        [ri_AccountID req, ri_ProjectID req, reg_type req, ri_ExternalID req]"
    by (auto simp: register_checks_def split: if_splits)
  with ck chk u p none s' show ?thesis
    by (simp add: i identity_check_def Identity_GetByExternalID_def find_append)
       (simp add: register_row_def)
qed

definition sample_reg :: register_req where
  "sample_reg = (service_req ''acme'' ''prod'' ''bot'' ''alice'')\<lparr>ri_CredentialPolicyID := ''p1''\<rparr>"

lemma sample_registered: "\<exists>i s'. RegisterIdentity sample_env ''i1'' ''fp'' 5 sample_reg policy_db = (Inr i, s')"
proof -
  have ck: "register_checks sample_env sample_reg = None"
    by (simp add: register_checks_def sample_reg_def service_req_def reg_type_def reg_subtype_def
        or_default_def IdentityType_Valid_def ValidateSPIFFEPathSegment_def spiffe_char_def
        ValidForIdentityType_def validateECPublicKeyPEM_def ValidCapabilityTier_def ValidRiskTier_def
        ValidIAL_def less_eq_char_def)
  have rs: "resolveIdentityPolicyID ''fp'' 5 ''acme'' ''prod'' ''p1'' policy_db = (Inr ''p1'', policy_db)"
    by (simp add: resolveIdentityPolicyID_def GetPolicy_def policy_db_def sample_policy_def bind_def
        ret_def)
  have uri: "BuildWIMSEURI (wimseDomain sample_env) ''acme'' ''prod'' IdentityTypeService ''bot'' =
      Some ''spiffe://z.dev/acme/prod/service/bot''"
    by (simp add: BuildWIMSEURI_def sample_env_def MaxSPIFFEIDBytes_def)
  have chk: "identity_check (register_row ''i1'' 5 sample_reg ''p1'' u)" for u
    by (simp add: identity_check_def register_row_def sample_reg_def service_req_def reg_type_def
        reg_subtype_def or_default_def IdentityType_Valid_def TrustLevel_Valid_def
        IdentityStatus_Valid_def ValidCapabilityTier_def ValidRiskTier_def ValidIAL_def)
  have f: "ri_AccountID sample_reg = ''acme''" "ri_ProjectID sample_reg = ''prod''"
      "ri_CredentialPolicyID sample_reg = ''p1''" "ri_ExternalID sample_reg = ''bot''"
      "reg_type sample_reg = IdentityTypeService" "identities policy_db = []"
    by (simp_all add: sample_reg_def service_req_def reg_type_def or_default_def policy_db_def
        empty_db_def)
  show ?thesis
    by (simp add: RegisterIdentity_def ck bind_def f rs uri Identity_Create_def chk insert_row_def
        ret_def Let_def)
qed

theorem RegisterIdentity_spec_witness:
  "\<exists>i s'. RegisterIdentity sample_env ''i1'' ''fp'' 5 sample_reg policy_db = (Inr i, s') \<and>
     i_Status i = IdentityStatusActive \<and>
     policy_of_tenant (i_CredentialPolicyID i) (i_AccountID i) (i_ProjectID i) s' \<and>
     Identity_GetByExternalID (i_ExternalID i) (i_AccountID i) (i_ProjectID i) s' = (Inr i, s')"
  using sample_registered RegisterIdentity_spec by blast

subsection \<open>Deactivation\<close>

text \<open>Everything an identity could still use is gone: no active key, no active credential.\<close>

definition retired :: "time \<Rightarrow> string \<Rightarrow> db \<Rightarrow> bool" where
  "retired now rid s \<longleftrightarrow>
     (\<forall>k \<in> set (service_keys s). k_IdentityID k = rid \<longrightarrow> k_State k \<noteq> APIKeyStateActive) \<and>
     (\<forall>c \<in> set (issued_credentials s). c_IdentityID c = Some rid \<longrightarrow> \<not> cred_active now c)"

lemma RevokeByIdentityID_rows [simp]:
  "identities (APIKey_RevokeByIdentityID now rid s) = identities s"
  "credential_policies (APIKey_RevokeByIdentityID now rid s) = credential_policies s"
  "issued_credentials (APIKey_RevokeByIdentityID now rid s) = issued_credentials s"
  by (simp_all add: APIKey_RevokeByIdentityID_def)

lemma RevokeAllActive_rows [simp]:
  "identities (RevokeAllActiveForIdentity now rid reason s) = identities s"
  "credential_policies (RevokeAllActiveForIdentity now rid reason s) = credential_policies s"
  "service_keys (RevokeAllActiveForIdentity now rid reason s) = service_keys s"
  by (simp_all add: RevokeAllActiveForIdentity_def Credential_RevokeAllActiveForIdentity_def)

lemma IngestSignal_rows [simp]:
  "identities (snd (IngestSignal sid now acct proj rid ty sev src pay s)) = identities s"
  "credential_policies (snd (IngestSignal sid now acct proj rid ty sev src pay s)) =
     credential_policies s"
  "service_keys (snd (IngestSignal sid now acct proj rid ty sev src pay s)) = service_keys s"
  using auto_revoke_rows [of now "new_signal sid now acct proj rid ty sev src pay"
      "s\<lparr>cae_signals := cae_signals s @ [new_signal sid now acct proj rid ty sev src pay]\<rparr>"]
  by (auto simp: IngestSignal_snd Let_def)

lemma cleanup_rows [simp]:
  "identities (runDeactivationCleanup now sid i reason s) = identities s"
  "credential_policies (runDeactivationCleanup now sid i reason s) = credential_policies s"
  by (simp_all add: runDeactivationCleanup_def Let_def)

interpretation cleanup_op: credential_op "runDeactivationCleanup now sid i reason" "{}"
proof -
  have keys: "credential_op (APIKey_RevokeByIdentityID now (i_ID i)) {}"
    by (rule credential_op_unchanged) simp
  show "credential_op (runDeactivationCleanup now sid i reason) {}"
    using credential_op_compose [OF credential_op_compose [OF keys
        revoke_all_op.credential_op_axioms [of now "i_ID i" reason]] ingest_op.credential_op_axioms]
    unfolding runDeactivationCleanup_def Let_def by simp
qed

text \<open>An evolution that mints nothing and keeps owners cannot reactivate a credential.\<close>

lemma retired_credentials_ingest:
  assumes "\<forall>c \<in> set (issued_credentials s). c_IdentityID c = Some rid \<longrightarrow> \<not> cred_active now c"
  shows "\<forall>c \<in> set (issued_credentials (snd (IngestSignal sid now acct proj rid' ty sev src pay s))).
    c_IdentityID c = Some rid \<longrightarrow> \<not> cred_active now c"
proof -
  let ?g = "new_signal sid now acct proj rid' ty sev src pay"
  have "issued_credentials (snd (IngestSignal sid now acct proj rid' ty sev src pay s)) =
      issued_credentials s \<or>
    issued_credentials (snd (IngestSignal sid now acct proj rid' ty sev src pay s)) =
      revoke_cascade now (signal_reason ?g) (\<lambda>c. c_IdentityID c = Some (sg_IdentityID ?g))
        (issued_credentials s)"
    using auto_revoke_rows [of now ?g "s\<lparr>cae_signals := cae_signals s @ [?g]\<rparr>"]
    by (auto simp: IngestSignal_snd Let_def)
  with assms show ?thesis
    by (auto simp: revoke_cascade_def Let_def table_simps cred_active_def mark_revoked_def
        split: if_splits)
qed

lemma cleanup_retires: "retired now (i_ID i) (runDeactivationCleanup now sid i reason s)"
proof -
  let ?s1 = "APIKey_RevokeByIdentityID now (i_ID i) s"
  let ?s2 = "RevokeAllActiveForIdentity now (i_ID i) reason ?s1"
  have keys: "\<forall>k \<in> set (service_keys ?s1). k_IdentityID k = i_ID i \<longrightarrow> k_State k \<noteq> APIKeyStateActive"
    by (auto simp: APIKey_RevokeByIdentityID_def table_simps)
  have creds: "\<forall>c \<in> set (issued_credentials ?s2). c_IdentityID c = Some (i_ID i) \<longrightarrow>
      \<not> cred_active now c"
    using cascade_anchor_inactive [of _ now _ "\<lambda>c. c_IdentityID c = Some (i_ID i)"]
    by (auto simp: RevokeAllActiveForIdentity_def Credential_RevokeAllActiveForIdentity_def
        mark_revoked_def)
  show ?thesis
    using keys retired_credentials_ingest [OF creds]
    by (simp add: retired_def runDeactivationCleanup_def Let_def)
qed

subsection \<open>Update\<close>

lemma update_part1_Inr:
  assumes "update_part1 E req i0 = Inr i4"
  shows "i_ID i4 = i_ID i0 \<and> i_AccountID i4 = i_AccountID i0 \<and> i_ProjectID i4 = i_ProjectID i0 \<and>
     i_ExternalID i4 = i_ExternalID i0 \<and> i_WIMSEURI i4 = i_WIMSEURI i0 \<and>
     i_CredentialPolicyID i4 = i_CredentialPolicyID i0 \<and>
     (i_Status i4 = i_Status i0 \<or> CanTransitionTo (i_Status i0) (i_Status i4)) \<and>
     (ui_Status req = Some st \<longrightarrow> i_Status i4 = st)"
  using assms by (auto simp: update_part1_def Let_def split: if_splits option.splits)

lemma update_part2_Inr:
  assumes "update_part2 parse now req i5 = Inr i6"
  shows "i_ID i6 = i_ID i5 \<and> i_AccountID i6 = i_AccountID i5 \<and> i_ProjectID i6 = i_ProjectID i5 \<and>
     i_ExternalID i6 = i_ExternalID i5 \<and> i_WIMSEURI i6 = i_WIMSEURI i5 \<and>
     i_CredentialPolicyID i6 = i_CredentialPolicyID i5 \<and> i_Status i6 = i_Status i5"
  using assms by (auto simp: update_part2_def Let_def split: if_splits option.splits sum.splits)

definition update_policy_step ::
  "string \<Rightarrow> time \<Rightarrow> update_req \<Rightarrow> identity \<Rightarrow> (db, err, identity) svc" where
  "update_policy_step pid now req i4 =
     (case ui_CredentialPolicyID req of
        None \<Rightarrow> ret i4
      | Some supplied \<Rightarrow>
          bind (resolveIdentityPolicyID pid now (i_AccountID i4) (i_ProjectID i4) supplied)
            (\<lambda>p. ret (i4\<lparr>i_CredentialPolicyID := p\<rparr>)))"

lemma update_policy_step_effect:
  assumes "update_policy_step pid now req i4 s = (r, s')"
  shows "\<exists>ps. s' = s\<lparr>credential_policies := credential_policies s @ ps\<rparr> \<and>
     (\<forall>i5. r = Inr i5 \<longrightarrow> (\<exists>p. i5 = i4\<lparr>i_CredentialPolicyID := p\<rparr> \<and>
        (policy_ref_ok s i4 \<longrightarrow> policy_ref_ok s' i5)))"
proof (cases "ui_CredentialPolicyID req")
  case None
  with assms have "r = Inr i4" "s' = s" by (auto simp: update_policy_step_def)
  then show ?thesis by (intro exI [of _ "[]"]) (auto intro: exI [of _ "i_CredentialPolicyID i4"])
next
  case (Some supplied)
  obtain r0 s0 where e: "resolveIdentityPolicyID pid now (i_AccountID i4) (i_ProjectID i4) supplied s
      = (r0, s0)" by fastforce
  with assms Some resolveIdentityPolicyID_effect [OF e] show ?thesis
    by (cases r0) (auto simp: update_policy_step_def bind_def ret_def policy_ref_ok_def)
qed

lemma UpdateIdentity_Inr:
  assumes "UpdateIdentity E parse caller pid sid now rid acct proj req s = (Inr i6, s')"
  obtains i0 i4 i5 ps p s1 where "Identity_GetByID rid acct proj s = (Inr i0, s)"
    "update_part1 E req i0 = Inr i4" "i5 = i4\<lparr>i_CredentialPolicyID := p\<rparr>"
    "s1 = s\<lparr>credential_policies := credential_policies s @ ps\<rparr>"
    "policy_ref_ok s i4 \<longrightarrow> policy_ref_ok s1 i5"
    "update_part2 parse now req i5 = Inr i6" "identity_check i6"
    "s' = (let s2 = s1\<lparr>identities := update_where (\<lambda>r. i_ID r = i_ID i6 \<and>
             in_tenant_i (i_AccountID i6) (i_ProjectID i6) r)
             (\<lambda>_. i6\<lparr>i_ModifiedBy := caller\<rparr>) (identities s)\<rparr>
           in if i_Status i0 \<noteq> IdentityStatusDeactivated \<and> i_Status i6 = IdentityStatusDeactivated
              then runDeactivationCleanup now sid i6 ''identity_deactivated'' s2 else s2)"
proof -
  from assms obtain i0 s0 i4 i5 s1 s2 where st:
    "Identity_GetByID rid acct proj s = (Inr i0, s0)" "update_part1 E req i0 = Inr i4"
    "update_policy_step pid now req i4 s0 = (Inr i5, s1)" "update_part2 parse now req i5 = Inr i6"
    "Identity_Update caller i6 s1 = (Inr (), s2)"
    "s' = (if i_Status i0 \<noteq> IdentityStatusDeactivated \<and> i_Status i6 = IdentityStatusDeactivated
           then runDeactivationCleanup now sid i6 ''identity_deactivated'' s2 else s2)"
    unfolding UpdateIdentity_def update_policy_step_def bind_Inr by auto
  have s0: "s0 = s" using st(1) by (auto simp: Identity_GetByID_def split: option.splits)
  from update_policy_step_effect [OF st(3)] obtain ps p where
    s1: "s1 = s\<lparr>credential_policies := credential_policies s @ ps\<rparr>"
    and p: "i5 = i4\<lparr>i_CredentialPolicyID := p\<rparr>" "policy_ref_ok s i4 \<longrightarrow> policy_ref_ok s1 i5"
    using s0 by auto
  from st(5) have "identity_check i6" "s2 = s1\<lparr>identities := update_where (\<lambda>r. i_ID r = i_ID i6 \<and>
      in_tenant_i (i_AccountID i6) (i_ProjectID i6) r) (\<lambda>_. i6\<lparr>i_ModifiedBy := caller\<rparr>) (identities s)\<rparr>"
    using s1 by (auto simp: Identity_Update_def split: if_splits)
  with that [OF _ st(2) p(1) s1 p(2) st(4)] st(1,6) s0 show thesis by (simp add: Let_def)
qed

text \<open>
  C11. An update changes an identity's status only along the lifecycle's transitions, never its
  tenant, external id or WIMSE URI; and one that deactivates an identity retires it: none of
  its API keys and none of its credentials stays active.
\<close>

theorem UpdateIdentity_status:
  assumes "UpdateIdentity E parse caller pid sid now rid acct proj req s = (Inr i, s')"
  shows "\<exists>i0. Identity_GetByID rid acct proj s = (Inr i0, s) \<and>
     (i_Status i = i_Status i0 \<or> CanTransitionTo (i_Status i0) (i_Status i)) \<and>
     i_ID i = i_ID i0 \<and> i_AccountID i = i_AccountID i0 \<and> i_ProjectID i = i_ProjectID i0 \<and>
     i_ExternalID i = i_ExternalID i0 \<and> i_WIMSEURI i = i_WIMSEURI i0 \<and>
     (i_Status i0 \<noteq> IdentityStatusDeactivated \<and> i_Status i = IdentityStatusDeactivated \<longrightarrow>
        retired now (i_ID i) s')"
  using assms
proof (rule UpdateIdentity_Inr)
  fix i0 i4 i5 ps p s1
  assume a: "Identity_GetByID rid acct proj s = (Inr i0, s)" "update_part1 E req i0 = Inr i4"
    "i5 = i4\<lparr>i_CredentialPolicyID := p\<rparr>" "update_part2 parse now req i5 = Inr i"
    "s' = (let s2 = s1\<lparr>identities := update_where (\<lambda>r. i_ID r = i_ID i \<and>
             in_tenant_i (i_AccountID i) (i_ProjectID i) r)
             (\<lambda>_. i\<lparr>i_ModifiedBy := caller\<rparr>) (identities s)\<rparr>
           in if i_Status i0 \<noteq> IdentityStatusDeactivated \<and> i_Status i = IdentityStatusDeactivated
              then runDeactivationCleanup now sid i ''identity_deactivated'' s2 else s2)"
  have "i_Status i0 \<noteq> IdentityStatusDeactivated \<and> i_Status i = IdentityStatusDeactivated \<longrightarrow>
      retired now (i_ID i) s'"
    using cleanup_retires by (simp add: a(5) Let_def)
  with a(1,3) update_part1_Inr [OF a(2)] update_part2_Inr [OF a(4)]
  show ?thesis by (intro exI [of _ i0]) simp
qed

text \<open>A closed update that deactivates the sample identity.\<close>

definition keep_all :: update_req where
  "keep_all = \<lparr>ui_Name = [], ui_TrustLevel = [], ui_IdentityType = [], ui_SubType = [],
     ui_OwnerUserID = [], ui_AllowedScopes = None, ui_PublicKeyPEM = [], ui_Framework = None,
     ui_Version = None, ui_Publisher = None, ui_Description = None, ui_Capabilities = None,
     ui_Labels = None, ui_Metadata = None, ui_Status = None, ui_CredentialPolicyID = None,
     ui_CapabilityTier = None, ui_RiskTier = None, ui_IAL = None, ui_ExpiresAt = None\<rparr>"

definition deactivate_req :: update_req where
  "deactivate_req = keep_all\<lparr>ui_Status := Some IdentityStatusDeactivated\<rparr>"

definition sample_deactivated :: identity where
  "sample_deactivated = sample_identity\<lparr>i_Status := IdentityStatusDeactivated, i_UpdatedAt := 5\<rparr>"

lemma sample_deactivate:
  "fst (UpdateIdentity sample_env (\<lambda>_. None) ''admin'' ''fp'' ''g'' 5 ''i1'' ''acme'' ''prod''
     deactivate_req signal_db) = Inr sample_deactivated"
proof -
  have get: "Identity_GetByID ''i1'' ''acme'' ''prod'' signal_db = (Inr sample_identity, signal_db)"
    by (simp add: Identity_GetByID_def signal_db_def sample_identity_def)
  have np: "ui_CredentialPolicyID deactivate_req = None"
    by (simp add: deactivate_req_def keep_all_def)
  have p1: "update_part1 sample_env deactivate_req
      sample_identity = Inr (sample_identity\<lparr>i_Status := IdentityStatusDeactivated\<rparr>)"
    by (simp add: update_part1_def keep_all_def deactivate_req_def or_default_def or_keep_def CanTransitionTo_def
        sample_identity_def zero_identity_def)
  have p2: "update_part2 p 5 deactivate_req
      (sample_identity\<lparr>i_Status := IdentityStatusDeactivated\<rparr>) = Inr sample_deactivated" for p
    by (simp add: update_part2_def keep_all_def deactivate_req_def or_keep_def sample_deactivated_def
        sample_identity_def zero_identity_def)
  have "identity_check sample_deactivated"
    by (simp add: identity_check_def sample_deactivated_def sample_identity_def zero_identity_def
        IdentityType_Valid_def TrustLevel_Valid_def IdentityStatus_Valid_def ValidCapabilityTier_def
        ValidRiskTier_def ValidIAL_def)
  then show ?thesis
    by (simp add: UpdateIdentity_def bind_def get lift_def p1 p2 Identity_Update_def ret_def np)
qed

theorem UpdateIdentity_status_witness:
  "\<exists>i s'. UpdateIdentity sample_env (\<lambda>_. None) ''admin'' ''fp'' ''g'' 5 ''i1'' ''acme'' ''prod''
     deactivate_req signal_db = (Inr i, s') \<and>
     i_Status i = IdentityStatusDeactivated \<and> retired 5 ''i1'' s'"
proof -
  obtain s' where u: "UpdateIdentity sample_env (\<lambda>_. None) ''admin'' ''fp'' ''g'' 5 ''i1'' ''acme''
     ''prod'' deactivate_req signal_db =
     (Inr sample_deactivated, s')"
    using sample_deactivate by (metis prod.collapse)
  have get: "Identity_GetByID ''i1'' ''acme'' ''prod'' signal_db = (Inr sample_identity, signal_db)"
    by (simp add: Identity_GetByID_def signal_db_def sample_identity_def)
  show ?thesis
    using UpdateIdentity_status [OF u] u get
    by (auto simp: sample_deactivated_def sample_identity_def intro!: exI [of _ s'])
qed

subsection \<open>The services as operations on the credential table\<close>

interpretation register_op:
  credential_op "\<lambda>s. snd (RegisterIdentity E iid pid now req s)" "{}"
proof (rule credential_op_unchanged)
  fix s
  obtain r s' where e: "RegisterIdentity E iid pid now req s = (r, s')" by fastforce
  then show "issued_credentials (snd (RegisterIdentity E iid pid now req s)) = issued_credentials s"
    using RegisterIdentity_Inr [of E iid pid now req s _ s']
      RegisterIdentity_Inl [of E iid pid now req s _ s'] by (cases r) fastforce+
qed

lemma UpdateIdentity_Inl:
  assumes "UpdateIdentity E parse caller pid sid now rid acct proj req s = (Inl e, s')"
  shows "\<exists>ps. s' = s\<lparr>credential_policies := credential_policies s @ ps\<rparr>"
proof -
  obtain r0 s0 where get: "Identity_GetByID rid acct proj s = (r0, s0)" by fastforce
  have s0: "s0 = s" using get by (auto simp: Identity_GetByID_def split: option.splits)
  have "s' = s \<or> (\<exists>i4 x. update_policy_step pid now req i4 s = (x, s'))"
    using assms get s0
    by (cases r0) (fastforce simp: UpdateIdentity_def update_policy_step_def [symmetric] bind_Inl
        Identity_Update_def split: if_splits)+
  then show ?thesis using update_policy_step_effect no_new_policy by blast
qed

lemma UpdateIdentity_effect:
  "\<exists>f ps i. snd (UpdateIdentity E parse caller pid sid now rid acct proj req s) =
     (let s2 = s\<lparr>credential_policies := credential_policies s @ ps, identities := f (identities s)\<rparr>
      in case i of None \<Rightarrow> s2
         | Some j \<Rightarrow> runDeactivationCleanup now sid j ''identity_deactivated'' s2)"
proof (cases "UpdateIdentity E parse caller pid sid now rid acct proj req s")
  case (Pair r s')
  show ?thesis
  proof (cases r)
    case (Inr i6)
    with Pair have "UpdateIdentity E parse caller pid sid now rid acct proj req s = (Inr i6, s')" by simp
    then show ?thesis
    proof (rule UpdateIdentity_Inr)
      fix i0 i4 i5 ps p s1
      let ?f = "update_where (\<lambda>r. i_ID r = i_ID i6 \<and> in_tenant_i (i_AccountID i6) (i_ProjectID i6) r)
        (\<lambda>_. i6\<lparr>i_ModifiedBy := caller\<rparr>)"
      assume "s1 = s\<lparr>credential_policies := credential_policies s @ ps\<rparr>"
        "s' = (let s2 = s1\<lparr>identities := ?f (identities s)\<rparr>
           in if i_Status i0 \<noteq> IdentityStatusDeactivated \<and> i_Status i6 = IdentityStatusDeactivated
              then runDeactivationCleanup now sid i6 ''identity_deactivated'' s2 else s2)"
      with Pair show ?thesis
        by (intro exI [of _ ?f] exI [of _ ps] exI [of _ "if i_Status i0 \<noteq> IdentityStatusDeactivated \<and>
            i_Status i6 = IdentityStatusDeactivated then Some i6 else None"]) (simp add: Let_def)
    qed
  next
    case (Inl e)
    with Pair UpdateIdentity_Inl have
      "\<exists>ps. s' = s\<lparr>credential_policies := credential_policies s @ ps\<rparr>" by blast
    then obtain ps where "s' = s\<lparr>credential_policies := credential_policies s @ ps\<rparr>" by blast
    with Pair show ?thesis
      by (intro exI [of _ id] exI [of _ ps] exI [of _ None]) simp
  qed
qed

interpretation update_op:
  credential_op "\<lambda>s. snd (UpdateIdentity E parse caller pid sid now rid acct proj req s)" "{}"
proof
  fix s
  let ?s' = "snd (UpdateIdentity E parse caller pid sid now rid acct proj req s)"
  obtain f ps i where e: "?s' =
     (let s2 = s\<lparr>credential_policies := credential_policies s @ ps, identities := f (identities s)\<rparr>
      in case i of None \<Rightarrow> s2
         | Some j \<Rightarrow> runDeactivationCleanup now sid j ''identity_deactivated'' s2)"
    using UpdateIdentity_effect by blast
  let ?s2 = "s\<lparr>credential_policies := credential_policies s @ ps, identities := f (identities s)\<rparr>"
  show "cred_evolves {} (issued_credentials s) (issued_credentials ?s')"
    using cleanup_op.evolves [of ?s2 now sid _ "''identity_deactivated''"]
    by (cases i) (simp_all add: e Let_def)
  show "unique_by credential_conflict (issued_credentials ?s')"
    if "unique_by credential_conflict (issued_credentials s)"
    using that cleanup_op.keeps_unique [of ?s2] by (cases i) (simp_all add: e Let_def)
qed

lemma Identity_Delete_credentials:
  "issued_credentials (Identity_Delete rid acct proj s) = issued_credentials s \<or>
   issued_credentials (Identity_Delete rid acct proj s) =
     update_where (\<lambda>c. c_IdentityID c = Some rid) (\<lambda>c. c\<lparr>c_IdentityID := None\<rparr>) (issued_credentials s)"
  by (simp add: Identity_Delete_def)

interpretation delete_op: credential_op "Identity_Delete rid acct proj" "{}"
proof
  fix s
  have same: "same_token c (c\<lparr>c_IdentityID := None\<rparr>)" for c by (simp add: same_token_def)
  show "cred_evolves {} (issued_credentials s) (issued_credentials (Identity_Delete rid acct proj s))"
    using Identity_Delete_credentials [of rid acct proj s] cred_evolves_update [OF same] by auto
  show "unique_by credential_conflict (issued_credentials (Identity_Delete rid acct proj s))"
    if "unique_by credential_conflict (issued_credentials s)"
  proof -
    have "unique_by credential_conflict (update_where P (\<lambda>c. c\<lparr>c_IdentityID := None\<rparr>)
        (issued_credentials s))" for P
      using that by (rule unique_by_update) (simp_all add: credential_conflict_def)
    with that Identity_Delete_credentials [of rid acct proj s] show ?thesis by auto
  qed
qed

interpretation delete_identity_op: credential_op "DeleteIdentity now sid rid acct proj" "{}"
proof
  fix s
  have op: "credential_op (\<lambda>s. Identity_Delete rid acct proj
      (runDeactivationCleanup now sid i ''identity_deleted'' s)) ({} \<union> {})" for i
    by (rule credential_op_compose [OF cleanup_op.credential_op_axioms delete_op.credential_op_axioms])
  show "cred_evolves {} (issued_credentials s) (issued_credentials (DeleteIdentity now sid rid acct proj s))"
    using credential_op.evolves [OF op] delete_op.evolves
    by (auto simp: DeleteIdentity_def split: prod.splits sum.splits)
  show "unique_by credential_conflict (issued_credentials (DeleteIdentity now sid rid acct proj s))"
    if "unique_by credential_conflict (issued_credentials s)"
    using that credential_op.keeps_unique [OF op] delete_op.keeps_unique
    by (auto simp: DeleteIdentity_def split: prod.splits sum.splits)
qed

lemma DeactivateIfActive_credentials [simp]:
  "issued_credentials (snd (DeactivateIfActive caller now rid acct proj s)) = issued_credentials s"
  by (simp add: DeactivateIfActive_def Let_def split: option.split)

lemma sweep_rows_evolves:
  "cred_evolves {} (issued_credentials s) (issued_credentials (snd (sweep_rows sid now rows s))) \<and>
   (unique_by credential_conflict (issued_credentials s) \<longrightarrow>
    unique_by credential_conflict (issued_credentials (snd (sweep_rows sid now rows s))))"
proof (induction rows arbitrary: s)
  case (Cons row rows)
  obtain r s1 where d: "DeactivateIfActive ''system:expired_sweep'' now (i_ID row)
      (i_AccountID row) (i_ProjectID row) s = (r, s1)" by fastforce
  have s1: "issued_credentials s1 = issued_credentials s"
    using DeactivateIfActive_credentials [of "''system:expired_sweep''" now "i_ID row" "i_AccountID row"
        "i_ProjectID row" s] d by simp
  show ?case
  proof (cases r)
    case None
    with d s1 Cons.IH [of s1] show ?thesis by simp
  next
    case (Some i)
    let ?s2 = "runDeactivationCleanup now (sid (i_ID i)) i ''expired'' s1"
    have a: "cred_evolves {} (issued_credentials s1) (issued_credentials ?s2)"
      by (rule cleanup_op.evolves)
    have u: "unique_by credential_conflict (issued_credentials s1) \<Longrightarrow>
        unique_by credential_conflict (issued_credentials ?s2)"
      by (rule cleanup_op.keeps_unique)
    have "cred_evolves {} (issued_credentials s)
        (issued_credentials (snd (sweep_rows sid now rows ?s2)))"
      using cred_evolves_trans [OF a, of "{}"] Cons.IH [of ?s2] s1 by simp
    moreover have "snd (sweep_rows sid now (row # rows) s) = snd (sweep_rows sid now rows ?s2)"
      by (simp add: d Some split_beta)
    ultimately show ?thesis using u s1 Cons.IH [of ?s2] by simp
  qed
qed simp

interpretation sweep_op: credential_op "\<lambda>s. snd (SweepExpiredIdentities sid now s)" "{}"
  by unfold_locales (simp_all add: SweepExpiredIdentities_def sweep_rows_evolves)

lemma EnsureServiceIdentity_snd:
  "snd (EnsureServiceIdentity E iid pid now acct proj ext createdBy s) = s \<or>
   snd (EnsureServiceIdentity E iid pid now acct proj ext createdBy s) =
     snd (RegisterIdentity E iid pid now (service_req acct proj ext createdBy) s)"
  by (auto simp: EnsureServiceIdentity_def Identity_GetByExternalID_def
      split: option.splits prod.splits sum.splits)

interpretation ensure_service_op:
  credential_op "\<lambda>s. snd (EnsureServiceIdentity E iid pid now acct proj ext createdBy s)" "{}"
proof
  fix s
  note eff = EnsureServiceIdentity_snd [of E iid pid now acct proj ext createdBy s]
  show "cred_evolves {} (issued_credentials s)
      (issued_credentials (snd (EnsureServiceIdentity E iid pid now acct proj ext createdBy s)))"
    using eff register_op.evolves by fastforce
  show "unique_by credential_conflict
      (issued_credentials (snd (EnsureServiceIdentity E iid pid now acct proj ext createdBy s)))"
    if "unique_by credential_conflict (issued_credentials s)"
    using that eff register_op.keeps_unique by fastforce
qed

subsection \<open>The expiry sweep\<close>

definition swept :: "time \<Rightarrow> identity \<Rightarrow> identity" where
  "swept now i = i\<lparr>i_Status := IdentityStatusDeactivated, i_UpdatedAt := now,
     i_ModifiedBy := ''system:expired_sweep''\<rparr>"

definition sweep_hits :: "identity \<Rightarrow> identity \<Rightarrow> bool" where
  "sweep_hits row i \<longleftrightarrow> i_ID i = i_ID row \<and> in_tenant_i (i_AccountID row) (i_ProjectID row) i \<and>
     i_Status i = IdentityStatusActive"

lemma DeactivateIfActive_sweep:
  "DeactivateIfActive ''system:expired_sweep'' now (i_ID row) (i_AccountID row) (i_ProjectID row) s =
   (map_option (swept now) (find (sweep_hits row) (identities s)),
    s\<lparr>identities := update_where (sweep_hits row) (swept now) (identities s)\<rparr>)"
proof -
  have none: "find P t = None \<Longrightarrow> update_where P f t = t" for P f and t :: "identity list"
    by (auto simp: find_None_iff update_where_def intro: map_idI)
  show ?thesis
    using none [of "sweep_hits row" "identities s" "swept now"]
    by (simp add: DeactivateIfActive_def Let_def sweep_hits_def [abs_def] swept_def [abs_def]
        split: option.split)
qed

lemma sweep_rows_snd:
  "snd (sweep_rows sid now (row # rows) s) =
     (let s1 = s\<lparr>identities := update_where (sweep_hits row) (swept now) (identities s)\<rparr>
      in case find (sweep_hits row) (identities s) of
           None \<Rightarrow> snd (sweep_rows sid now rows s1)
         | Some i \<Rightarrow> snd (sweep_rows sid now rows
             (runDeactivationCleanup now (sid (i_ID i)) (swept now i) ''expired'' s1)))"
  by (simp add: DeactivateIfActive_sweep split_beta split: option.split) (simp add: swept_def)

lemma sweep_identities:
  "identities (snd (sweep_rows sid now rows s)) =
     map (\<lambda>i. if \<exists>row \<in> set rows. sweep_hits row i then swept now i else i) (identities s)"
proof (induction rows arbitrary: s)
  case (Cons row rows)
  have inert: "\<not> sweep_hits r (swept now i)" for r i by (simp add: sweep_hits_def swept_def)
  show ?case
    by (simp only: sweep_rows_snd Let_def)
       (auto simp: Cons.IH update_where_def inert split: option.split)
qed simp

lemma cleanup_keeps_retired:
  assumes "retired now rid s"
  shows "retired now rid (runDeactivationCleanup now sid i reason s)"
proof -
  let ?s1 = "APIKey_RevokeByIdentityID now (i_ID i) s"
  let ?s2 = "RevokeAllActiveForIdentity now (i_ID i) reason ?s1"
  have keys: "\<forall>k \<in> set (service_keys ?s1). k_IdentityID k = rid \<longrightarrow> k_State k \<noteq> APIKeyStateActive"
    using assms by (auto simp: retired_def APIKey_RevokeByIdentityID_def table_simps)
  have creds: "\<forall>c \<in> set (issued_credentials ?s2). c_IdentityID c = Some rid \<longrightarrow> \<not> cred_active now c"
    using assms by (auto simp: retired_def RevokeAllActiveForIdentity_def
        Credential_RevokeAllActiveForIdentity_def revoke_cascade_def Let_def table_simps
        cred_active_def mark_revoked_def split: if_splits)
  show ?thesis
    using keys creds retired_credentials_ingest
    by (simp add: retired_def runDeactivationCleanup_def Let_def)
qed

lemma retired_identities [simp]: "retired now rid (s\<lparr>identities := t\<rparr>) = retired now rid s"
  by (simp add: retired_def)

lemma sweep_keeps_retired: "retired now rid s \<Longrightarrow> retired now rid (snd (sweep_rows sid now rows s))"
proof (induction rows arbitrary: s)
  case (Cons row rows)
  then show ?case
    unfolding sweep_rows_snd Let_def by (simp add: cleanup_keeps_retired split: option.split)
qed simp

lemma sweep_retires:
  "row \<in> set rows \<Longrightarrow> i \<in> set (identities s) \<Longrightarrow> sweep_hits row i \<Longrightarrow>
   retired now (i_ID i) (snd (sweep_rows sid now rows s))"
proof (induction rows arbitrary: s)
  case (Cons r rows)
  let ?s1 = "s\<lparr>identities := update_where (sweep_hits r) (swept now) (identities s)\<rparr>"
  show ?case
  proof (cases "sweep_hits r i")
    case True
    then obtain j where j: "find (sweep_hits r) (identities s) = Some j"
      using Cons.prems(2) by (metis find_None_iff not_None_eq)
    then have "i_ID j = i_ID i" using True by (auto dest!: find_SomeD simp: sweep_hits_def)
    then have "retired now (i_ID i)
        (runDeactivationCleanup now (sid (i_ID j)) (swept now j) ''expired'' ?s1)"
      using cleanup_retires [of now "swept now j" "sid (i_ID j)" "''expired''" ?s1]
      by (simp add: swept_def)
    then show ?thesis
      unfolding sweep_rows_snd Let_def using j by (simp add: sweep_keeps_retired)
  next
    case False
    then have "i \<in> set (identities ?s1)" "row \<in> set rows"
      using Cons.prems by (force simp: table_simps)+
    then show ?thesis
      unfolding sweep_rows_snd Let_def using Cons.IH [OF _ _ Cons.prems(3)]
      by (simp split: option.split)
  qed
qed simp

text \<open>
  The expiry sweep is complete: afterwards no active identity is past its expiry, each
  swept one is retired (no active key or credential), and every other identity is as it was.
\<close>

theorem SweepExpiredIdentities_complete:
  assumes "SweepExpiredIdentities sid now s = (n, s')"
  shows "ListExpiredActive now s' = [] \<and>
     (\<forall>i \<in> set (ListExpiredActive now s). retired now (i_ID i) s') \<and>
     length (identities s') = length (identities s) \<and>
     (\<forall>k < length (identities s). identities s' ! k = identities s ! k \<or>
        (i_Status (identities s ! k) = IdentityStatusActive \<and>
         identities s' ! k = swept now (identities s ! k)))"
proof -
  let ?rows = "ListExpiredActive now s"
  have s': "s' = snd (sweep_rows sid now ?rows s)"
    using assms by (simp add: SweepExpiredIdentities_def)
  have self: "sweep_hits i i" "i \<in> set (identities s)" if "i \<in> set ?rows" for i
    using that by (auto simp: ListExpiredActive_def sweep_hits_def)
  have ids: "identities s' =
      map (\<lambda>i. if \<exists>row \<in> set ?rows. sweep_hits row i then swept now i else i) (identities s)"
    unfolding s' by (rule sweep_identities)
  have "ListExpiredActive now s' = []"
  proof -
    have "\<not> (case i_ExpiresAt i of None \<Rightarrow> False | Some t \<Rightarrow> t < now) \<or> i_Status i \<noteq> IdentityStatusActive"
      if "i \<in> set (identities s')" for i
    proof -
      from that obtain j where j: "j \<in> set (identities s)"
        "i = (if \<exists>row \<in> set ?rows. sweep_hits row j then swept now j else j)"
        unfolding ids set_map image_iff by blast
      moreover have "j \<notin> set ?rows" if "\<not> (\<exists>row \<in> set ?rows. sweep_hits row j)"
        using that self by blast
      ultimately show ?thesis
        by (auto simp: swept_def ListExpiredActive_def split: if_splits)
    qed
    then show ?thesis by (auto simp: ListExpiredActive_def filter_empty_conv)
  qed
  moreover have "\<forall>i \<in> set ?rows. retired now (i_ID i) s'"
    unfolding s' using sweep_retires self by blast
  ultimately show ?thesis by (auto simp: ids sweep_hits_def)
qed

theorem SweepExpiredIdentities_complete_witness:
  "\<exists>n s'. SweepExpiredIdentities (\<lambda>x. x) (700 * second) signal_db = (n, s') \<and>
     retired (700 * second) ''i1'' s' \<and> ListExpiredActive (700 * second) s' = []"
proof -
  obtain n s' where e: "SweepExpiredIdentities (\<lambda>x. x) (700 * second) signal_db = (n, s')" by fastforce
  have "sample_identity \<in> set (ListExpiredActive (700 * second) signal_db)"
    by (simp add: ListExpiredActive_def signal_db_def sample_identity_def)
  with SweepExpiredIdentities_complete [OF e] e show ?thesis
    by (auto simp: sample_identity_def)
qed

subsection \<open>The identity table stays consistent\<close>

text \<open>\<open>same_key\<close>: what the uniqueness constraint and the policy reference depend on.\<close>

definition same_key :: "identity \<Rightarrow> identity \<Rightarrow> bool" where
  "same_key a b \<longleftrightarrow> i_ID a = i_ID b \<and> i_AccountID a = i_AccountID b \<and>
     i_ProjectID a = i_ProjectID b \<and> i_ExternalID a = i_ExternalID b"

lemma unique_identity_map:
  assumes "unique_by identity_conflict t" "\<And>a. a \<in> set t \<Longrightarrow> same_key a (f a)"
  shows "unique_by identity_conflict (map f t)"
  using assms by (intro unique_by_map_cong) (auto simp: same_key_def identity_conflict_def)

lemma unique_identity_id:
  "unique_by identity_conflict t \<Longrightarrow> a \<in> set t \<Longrightarrow> b \<in> set t \<Longrightarrow> i_ID a = i_ID b \<Longrightarrow> a = b"
proof (induction t)
  case (Cons x xs)
  then show ?case by (auto simp: unique_by_def identity_conflict_def)
qed simp

lemma policy_ref_grows:
  "policy_ref_ok s i \<Longrightarrow> set (credential_policies s) \<subseteq> set (credential_policies s') \<Longrightarrow>
   policy_ref_ok s' i"
  by (auto simp: policy_ref_ok_def policy_of_tenant_def)

lemma policy_ref_cong:
  "credential_policies s' = credential_policies s \<Longrightarrow> policy_ref_ok s' i = policy_ref_ok s i"
  by (simp add: policy_ref_ok_def policy_of_tenant_def)

lemma RegisterIdentity_ok:
  assumes "identities_ok s"
  shows "identities_ok (snd (RegisterIdentity E iid pid now req s))"
proof (cases "RegisterIdentity E iid pid now req s")
  case (Pair r s')
  show ?thesis
  proof (cases r)
    case (Inl e)
    with Pair RegisterIdentity_Inl obtain ps where
      "s' = s\<lparr>credential_policies := credential_policies s @ ps\<rparr>" by blast
    with assms Pair show ?thesis
      by (auto simp: identities_ok_def intro: policy_ref_grows)
  next
    case (Inr i)
    with Pair RegisterIdentity_Inr [of E iid pid now req s i s'] obtain ps policyID uri where
      i: "i = register_row iid now req policyID uri" "identity_check i" and
      s': "s' = s\<lparr>credential_policies := credential_policies s @ ps, identities := identities s @ [i]\<rparr>" and
      ins: "insert_row identity_conflict i (identities s) = Some (identities s @ [i])" and
      p: "policy_of_tenant policyID (ri_AccountID req) (ri_ProjectID req) s'" by blast
    have "policy_ref_ok s' i" using p by (simp add: policy_ref_ok_def i(1) register_row_def)
    moreover have "\<forall>j \<in> set (identities s). policy_ref_ok s' j"
      using assms s' by (auto simp: identities_ok_def intro: policy_ref_grows)
    ultimately show ?thesis
      using assms i(2) ins unique_by_insert s' Pair by (auto simp: identities_ok_def)
  qed
qed

lemma UpdateIdentity_ok:
  assumes ok: "identities_ok s"
  shows "identities_ok (snd (UpdateIdentity E parse caller pid sid now rid acct proj req s))"
proof (cases "UpdateIdentity E parse caller pid sid now rid acct proj req s")
  case (Pair r s')
  show ?thesis
  proof (cases r)
    case (Inl e)
    with Pair UpdateIdentity_Inl obtain ps where
      "s' = s\<lparr>credential_policies := credential_policies s @ ps\<rparr>" by blast
    with ok Pair show ?thesis by (auto simp: identities_ok_def intro: policy_ref_grows)
  next
    case (Inr i)
    with Pair have "UpdateIdentity E parse caller pid sid now rid acct proj req s = (Inr i, s')" by simp
    then have "identities_ok s'"
    proof (rule UpdateIdentity_Inr)
      fix i0 i4 i5 ps p s1
      let ?P = "\<lambda>r. i_ID r = i_ID i \<and> in_tenant_i (i_AccountID i) (i_ProjectID i) r"
      let ?i = "i\<lparr>i_ModifiedBy := caller\<rparr>" and ?t = "identities s"
      assume a: "Identity_GetByID rid acct proj s = (Inr i0, s)" "update_part1 E req i0 = Inr i4"
        "i5 = i4\<lparr>i_CredentialPolicyID := p\<rparr>" "s1 = s\<lparr>credential_policies := credential_policies s @ ps\<rparr>"
        "policy_ref_ok s i4 \<longrightarrow> policy_ref_ok s1 i5" "update_part2 parse now req i5 = Inr i"
        "identity_check i" "s' = (let s2 = s1\<lparr>identities := update_where ?P (\<lambda>_. ?i) ?t\<rparr>
           in if i_Status i0 \<noteq> IdentityStatusDeactivated \<and> i_Status i = IdentityStatusDeactivated
              then runDeactivationCleanup now sid i ''identity_deactivated'' s2 else s2)"
      have i0: "i0 \<in> set ?t"
        using a(1) by (auto simp: Identity_GetByID_def split: option.splits dest: find_SomeD)
      have key: "same_key i0 ?i" and pid: "i_CredentialPolicyID i = i_CredentialPolicyID i5"
        using update_part1_Inr [OF a(2)] update_part2_Inr [OF a(6)] a(3) by (auto simp: same_key_def)
      have ids: "identities s' = map (\<lambda>r. if ?P r then ?i else r) ?t"
        and pols: "credential_policies s' = credential_policies s @ ps"
        by (auto simp: a(4,8) Let_def update_where_def)
      have "same_key r (if ?P r then ?i else r)" if "r \<in> set ?t" for r
        using key unique_identity_id [of ?t r i0] that i0 ok
        by (auto simp: identities_ok_def same_key_def)
      then have u: "unique_by identity_conflict (identities s')"
        unfolding ids using ok by (intro unique_identity_map) (auto simp: identities_ok_def)
      have "policy_ref_ok s i4"
        using ok i0 update_part1_Inr [OF a(2)] by (auto simp: identities_ok_def policy_ref_ok_def)
      then have "policy_ref_ok s1 i5" using a(5) by blast
      then have ref: "policy_ref_ok s' ?i"
        using pid update_part2_Inr [OF a(6)] a(4) pols
        by (simp add: policy_ref_ok_def policy_of_tenant_def)
      have "policy_ref_ok s' r \<and> identity_check r" if "r \<in> set ?t" for r
        using ok that pols policy_ref_grows [of s r s'] by (auto simp: identities_ok_def)
      with u ref a(7) show "identities_ok s'"
        by (auto simp: identities_ok_def ids identity_check_def)
    qed
    with Pair show ?thesis by simp
  qed
qed

lemma DeleteIdentity_rows:
  "credential_policies (DeleteIdentity now sid rid acct proj s) = credential_policies s"
  "set (identities (DeleteIdentity now sid rid acct proj s)) \<subseteq> set (identities s)"
  "unique_by identity_conflict (identities s) \<Longrightarrow>
   unique_by identity_conflict (identities (DeleteIdentity now sid rid acct proj s))"
  by (auto simp: DeleteIdentity_def Identity_Delete_def unique_by_delete table_simps
      split: prod.splits sum.splits)

lemma sweep_policies: "credential_policies (snd (sweep_rows sid now rows s)) = credential_policies s"
  by (induction rows arbitrary: s) (simp_all only: sweep_rows_snd Let_def, auto split: option.split)

lemma Sweep_ok: "identities_ok s \<Longrightarrow> identities_ok (snd (SweepExpiredIdentities sid now s))"
proof -
  assume ok: "identities_ok s"
  let ?s' = "snd (SweepExpiredIdentities sid now s)"
  let ?f = "\<lambda>i. if \<exists>row \<in> set (ListExpiredActive now s). sweep_hits row i then swept now i else i"
  have ids: "identities ?s' = map ?f (identities s)"
    by (simp add: SweepExpiredIdentities_def sweep_identities)
  have pols: "credential_policies ?s' = credential_policies s"
    by (simp add: SweepExpiredIdentities_def sweep_policies)
  have "unique_by identity_conflict (map ?f (identities s))"
    using ok by (intro unique_identity_map) (auto simp: identities_ok_def same_key_def swept_def)
  moreover have "identity_check (swept now i) = identity_check i" if "identity_check i" for i
    using that by (auto simp: identity_check_def swept_def IdentityStatus_Valid_def)
  moreover have "policy_ref_ok ?s' (swept now i) = policy_ref_ok s i" for i
    using pols by (simp add: policy_ref_ok_def policy_of_tenant_def swept_def)
  ultimately show ?thesis
    using ok policy_ref_cong [OF pols] by (auto simp: identities_ok_def ids)
qed


definition identity_db :: db where
  "identity_db = policy_db\<lparr>identities := [sample_identity]\<rparr>"

lemma identity_db_ok: "identities_ok identity_db"
  by (simp add: identities_ok_def identity_db_def unique_by_def identity_check_def policy_ref_ok_def
      policy_of_tenant_def policy_db_def sample_policy_def sample_identity_def zero_identity_def
      IdentityType_Valid_def TrustLevel_Valid_def IdentityStatus_Valid_def ValidCapabilityTier_def
      ValidRiskTier_def ValidIAL_def)


subsection \<open>The lifecycle as a step relation\<close>

inductive status_step :: "string \<Rightarrow> string \<Rightarrow> bool" where
  move: "CanTransitionTo st st' \<Longrightarrow> status_step st st'"

inductive_simps status_step_iff: "status_step st st'"

lemma status_step_keeps:
  "status_step st st' \<Longrightarrow> st \<in> {IdentityStatusActive, IdentityStatusSuspended, IdentityStatusDeactivated} \<Longrightarrow>
   st' \<in> {IdentityStatusActive, IdentityStatusSuspended, IdentityStatusDeactivated}"
  by (auto simp: status_step_iff CanTransitionTo_def split: if_splits)

text \<open>
  Deactivation is not terminal: from \<open>deactivated\<close> exactly \<open>deactivated\<close>, \<open>active\<close> and
  \<open>suspended\<close> are reachable, and \<open>pending\<close> is never re-entered.
\<close>

theorem deactivated_not_terminal:
  "rtranclp status_step IdentityStatusDeactivated st =
     (st \<in> {IdentityStatusDeactivated, IdentityStatusActive, IdentityStatusSuspended})"
proof
  show "rtranclp status_step IdentityStatusDeactivated st \<Longrightarrow>
      st \<in> {IdentityStatusDeactivated, IdentityStatusActive, IdentityStatusSuspended}"
  proof (induction rule: rtranclp_induct)
    case (step y z)
    then show ?case using status_step_keeps [of y z] by auto
  qed simp
  have "status_step IdentityStatusDeactivated IdentityStatusActive"
    and "status_step IdentityStatusActive IdentityStatusSuspended"
    by (simp_all add: status_step_iff CanTransitionTo_def)
  then show "st \<in> {IdentityStatusDeactivated, IdentityStatusActive, IdentityStatusSuspended} \<Longrightarrow>
      rtranclp status_step IdentityStatusDeactivated st"
    by (auto intro: rtranclp.rtrancl_into_rtrancl)
qed

end
