(* ===== verification/Zeroid_Refresh.thy ===== *)
theory Zeroid_Refresh
  imports Zeroid_Identities
begin

text \<open>
  Refresh tokens (\<open>src/internal/service/refresh_token.go\<close> and its repository): issuance, single-use
  rotation with family-based reuse detection, the grace window for concurrent retries, and the
  sender constraint. Claim and successor insert run in one transaction; \<open>fault\<close> says that the
  insert fails, in which case the claim is rolled back.
\<close>

abbreviation RefreshTokenReuseGraceWindow :: int where
  "RefreshTokenReuseGraceWindow \<equiv> 10 * second"

abbreviation RefreshTokenTTLDays :: int where "RefreshTokenTTLDays \<equiv> 90"

subsection \<open>Repository\<close>

definition Refresh_Create :: "refresh_token \<Rightarrow> (db, err, unit) svc" where
  "Refresh_Create r = (\<lambda>s. case insert_row refresh_conflict r (refresh_tokens s) of
      None \<Rightarrow> (Inl (ErrMsg ''failed to create refresh token''), s)
    | Some t \<Rightarrow> (Inr (), s\<lparr>refresh_tokens := t\<rparr>))"

definition claimable :: "time \<Rightarrow> string \<Rightarrow> refresh_token \<Rightarrow> bool" where
  "claimable now tokenHash r \<longleftrightarrow> rt_TokenHash r = tokenHash \<and>
     rt_State r = RefreshTokenStateActive \<and> now < rt_ExpiresAt r"

definition revoke_rt :: "time \<Rightarrow> refresh_token \<Rightarrow> refresh_token" where
  "revoke_rt now r = r\<lparr>rt_State := RefreshTokenStateRevoked, rt_RevokedAt := Some now\<rparr>"

text \<open>One \<open>UPDATE ... RETURNING\<close>: the returned row is the updated one.\<close>

definition ClaimByTokenHash :: "time \<Rightarrow> string \<Rightarrow> (db, err, refresh_token) svc" where
  "ClaimByTokenHash now tokenHash = (\<lambda>s.
     case find (claimable now tokenHash) (refresh_tokens s) of
       None \<Rightarrow> (Inl ErrNoRows, s)
     | Some r \<Rightarrow> (Inr (revoke_rt now r),
         s\<lparr>refresh_tokens := update_where (claimable now tokenHash) (revoke_rt now)
             (refresh_tokens s)\<rparr>))"

definition GetByTokenHash :: "time \<Rightarrow> string \<Rightarrow> db \<Rightarrow> refresh_token option" where
  "GetByTokenHash now tokenHash s = find (claimable now tokenHash) (refresh_tokens s)"

definition GetByTokenHashIncludingRevoked :: "string \<Rightarrow> db \<Rightarrow> refresh_token option" where
  "GetByTokenHashIncludingRevoked tokenHash s =
     find (\<lambda>r. rt_TokenHash r = tokenHash) (refresh_tokens s)"

definition RevokeFamily :: "time \<Rightarrow> string \<Rightarrow> db \<Rightarrow> nat \<times> db" where
  "RevokeFamily now familyID s =
     (let hit = (\<lambda>r. rt_FamilyID r = familyID \<and> rt_State r = RefreshTokenStateActive)
      in (count_where hit (refresh_tokens s),
          s\<lparr>refresh_tokens := update_where hit (revoke_rt now) (refresh_tokens s)\<rparr>))"

subsection \<open>Service\<close>

record refresh_params =
  rp_ClientID :: string
  rp_AccountID :: string
  rp_ProjectID :: string
  rp_UserID :: string
  rp_IdentityID :: "string option"
  rp_Scopes :: string
  rp_TTL :: int
  rp_DPoPKeyThumbprint :: string

record refresh_result =
  rr_RawToken :: string
  rr_FamilyID :: string
  rr_ExpiresAt :: time

definition refreshTokenTTL :: "int \<Rightarrow> int" where
  "refreshTokenTTL ttlSeconds =
     (if ttlSeconds > 0 then dur_seconds ttlSeconds
      else int64 (RefreshTokenTTLDays * 24 * (3600 * second)))"

definition hashRefreshToken :: "env \<Rightarrow> string \<Rightarrow> string" where
  "hashRefreshToken E raw = sha256_hex E raw"

text \<open>\<open>fr_rt_raw w\<close> is the freshly generated token, \<open>fr_rt_id w\<close> the row's database-generated id.\<close>

definition IssueRefreshToken ::
  "env \<Rightarrow> inputs \<Rightarrow> refresh_params \<Rightarrow> (db, err, refresh_result) svc" where
  "IssueRefreshToken E w p =
     (let expiresAt = tk_after w + refreshTokenTTL (rp_TTL p);
          r = \<lparr>rt_ID = fr_rt_id w, rt_TokenHash = hashRefreshToken E (fr_rt_raw w),
               rt_ClientID = rp_ClientID p, rt_AccountID = rp_AccountID p,
               rt_ProjectID = rp_ProjectID p, rt_UserID = rp_UserID p,
               rt_IdentityID = rp_IdentityID p, rt_Scopes = rp_Scopes p,
               rt_FamilyID = fr_rt_family w, rt_State = RefreshTokenStateActive,
               rt_ExpiresAt = expiresAt, rt_RevokedAt = None, rt_CreatedAt = tk_after w,
               rt_DPoPKeyThumbprint = rp_DPoPKeyThumbprint p\<rparr>
      in bind (on_error (Refresh_Create r) (\<lambda>_. ErrMsg ''failed to store refresh token''))
           (\<lambda>_. ret \<lparr>rr_RawToken = fr_rt_raw w, rr_FamilyID = fr_rt_family w,
                     rr_ExpiresAt = expiresAt\<rparr>))"

definition successor_of ::
  "env \<Rightarrow> inputs \<Rightarrow> time \<Rightarrow> refresh_token \<Rightarrow> refresh_token" where
  "successor_of E w expiresAt c =
     c\<lparr>rt_ID := fr_rt_id w, rt_TokenHash := hashRefreshToken E (fr_rt_raw w),
       rt_State := RefreshTokenStateActive, rt_ExpiresAt := expiresAt, rt_RevokedAt := None,
       rt_CreatedAt := tk_auth w\<rparr>"

text \<open>The body of the transaction; any error rolls back to the state before it.\<close>

definition rotate_tx ::
  "env \<Rightarrow> inputs \<Rightarrow> bool \<Rightarrow> string \<Rightarrow> time \<Rightarrow> string \<Rightarrow> (db, err, refresh_token) svc" where
  "rotate_tx E w fault tokenHash expiresAt presented = (\<lambda>s.
     case bind (ClaimByTokenHash (tk_auth w) tokenHash) (\<lambda>c.
            if rt_DPoPKeyThumbprint c \<noteq> [] \<and> rt_DPoPKeyThumbprint c \<noteq> presented
            then throw ErrDPoPBindingMismatch
            else if fault then throw (ErrMsg ''failed to create refresh token'')
            else bind (Refresh_Create (successor_of E w expiresAt c)) (\<lambda>_. ret c)) s of
       (Inl e, _) \<Rightarrow> (Inl e, s)
     | (Inr c, s') \<Rightarrow> (Inr c, s'))"

definition handleFailedClaim :: "time \<Rightarrow> string \<Rightarrow> db \<Rightarrow> err \<times> db" where
  "handleFailedClaim now tokenHash s =
     (case GetByTokenHashIncludingRevoked tokenHash s of
        None \<Rightarrow> (ErrMsg ''refresh token not found'', s)
      | Some existing \<Rightarrow>
          if rt_State existing = RefreshTokenStateRevoked then
            (if (case rt_RevokedAt existing of None \<Rightarrow> False
                 | Some t \<Rightarrow> time_Sub now t < RefreshTokenReuseGraceWindow)
             then (ErrMsg ''refresh token already rotated'', s)
             else (ErrMsg ''refresh token reuse detected - family revoked'',
                   snd (RevokeFamily now (rt_FamilyID existing) s)))
          else if rt_ExpiresAt existing < now then (ErrMsg ''refresh token expired'', s)
          else (ErrMsg ''refresh token in unexpected state'', s))"

definition RotateRefreshToken ::
  "env \<Rightarrow> inputs \<Rightarrow> bool \<Rightarrow> string \<Rightarrow> int \<Rightarrow> string \<Rightarrow>
   (db, err, refresh_token \<times> refresh_result) svc" where
  "RotateRefreshToken E w fault rawToken ttl presented = (\<lambda>s.
     let tokenHash = hashRefreshToken E rawToken;
         expiresAt = tk_auth w + refreshTokenTTL ttl
     in case rotate_tx E w fault tokenHash expiresAt presented s of
          (Inr claimed, s') \<Rightarrow>
            (Inr (claimed, \<lparr>rr_RawToken = fr_rt_raw w, rr_FamilyID = rt_FamilyID claimed,
                            rr_ExpiresAt = expiresAt\<rparr>), s')
        | (Inl e, s') \<Rightarrow>
            if e = ErrDPoPBindingMismatch then (Inl ErrDPoPBindingMismatch, s')
            else if e = ErrNoRows then
              (let (e', s'') = handleFailedClaim (tk_grant w) tokenHash s' in (Inl e', s''))
            else (Inl (ErrMsg ''refresh token rotation failed''), s'))"

subsection \<open>Single use\<close>

type_synonym rotation = "inputs \<times> bool \<times> int \<times> string"

definition rotation_claim :: "env \<Rightarrow> string \<Rightarrow> rotation \<Rightarrow> db \<Rightarrow> bool \<times> db" where
  "rotation_claim E raw a s =
     (case a of (w, fault, ttl, presented) \<Rightarrow>
        (case RotateRefreshToken E w fault raw ttl presented s of
           (Inl _, s') \<Rightarrow> (False, s') | (Inr _, s') \<Rightarrow> (True, s')))"

definition rt_spent :: "string \<Rightarrow> db \<Rightarrow> bool" where
  "rt_spent h s \<longleftrightarrow> (\<exists>r \<in> set (refresh_tokens s). rt_TokenHash r = h) \<and>
     (\<forall>r \<in> set (refresh_tokens s). rt_TokenHash r = h \<longrightarrow> rt_State r \<noteq> RefreshTokenStateActive)"

lemma image_update_where:
  "(\<And>r. g (f r) = g r) \<Longrightarrow> g ` set (update_where P f t) = g ` set t"
  by (induction t) auto

lemma ball_update_where:
  "\<forall>r \<in> set t. Q r \<Longrightarrow> (\<And>r. Q r \<Longrightarrow> Q (f r)) \<Longrightarrow> \<forall>r \<in> set (update_where P f t). Q r"
  by (induction t) auto

lemma revoke_keeps_spent:
  assumes "rt_spent h s" "refresh_tokens s' = update_where P (revoke_rt now) (refresh_tokens s) @ new"
    and "\<forall>r \<in> set new. rt_TokenHash r \<noteq> h"
  shows "rt_spent h s'"
proof -
  have "h \<in> rt_TokenHash ` set (update_where P (revoke_rt now) (refresh_tokens s))"
    using assms(1) by (subst image_update_where) (auto simp: rt_spent_def revoke_rt_def)
  moreover have "\<forall>r \<in> set (update_where P (revoke_rt now) (refresh_tokens s)).
      rt_TokenHash r = h \<longrightarrow> rt_State r \<noteq> RefreshTokenStateActive"
    by (rule ball_update_where) (use assms(1) in \<open>auto simp: rt_spent_def revoke_rt_def\<close>)
  ultimately show ?thesis using assms(2,3) by (auto simp: rt_spent_def)
qed

lemma Refresh_Create_Inr:
  "Refresh_Create r s = (Inr u, s') \<longleftrightarrow>
     (\<forall>x \<in> set (refresh_tokens s). \<not> refresh_conflict x r) \<and>
     s' = s\<lparr>refresh_tokens := refresh_tokens s @ [r]\<rparr>"
  by (auto simp: Refresh_Create_def table_simps split: option.splits)

lemma rotate_tx_Inr:
  "rotate_tx E w fault h ex presented s = (Inr c, s') \<longleftrightarrow>
   (\<exists>r. find (claimable (tk_auth w) h) (refresh_tokens s) = Some r \<and> \<not> fault \<and>
      c = revoke_rt (tk_auth w) r \<and>
      (rt_DPoPKeyThumbprint r = [] \<or> rt_DPoPKeyThumbprint r = presented) \<and>
      (\<forall>x \<in> set (update_where (claimable (tk_auth w) h) (revoke_rt (tk_auth w)) (refresh_tokens s)).
         \<not> refresh_conflict x (successor_of E w ex c)) \<and>
      s' = s\<lparr>refresh_tokens :=
        update_where (claimable (tk_auth w) h) (revoke_rt (tk_auth w)) (refresh_tokens s) @
        [successor_of E w ex c]\<rparr>)"
proof -
  have "rt_DPoPKeyThumbprint (revoke_rt t r) = rt_DPoPKeyThumbprint r" for t r
    by (simp add: revoke_rt_def)
  then show ?thesis
    by (cases "find (claimable (tk_auth w) h) (refresh_tokens s)")
       (auto simp: rotate_tx_def ClaimByTokenHash_def bind_def ret_def throw_def Refresh_Create_def
          insert_row_def split: if_splits)
qed

lemma rotate_tx_Inl: "rotate_tx E w fault h ex presented s = (Inl e, s') \<Longrightarrow> s' = s"
  by (auto simp: rotate_tx_def split: prod.splits sum.splits)

lemma RotateRefreshToken_Inr:
  "RotateRefreshToken E w fault raw ttl presented s = (Inr (c, res), s') \<longleftrightarrow>
     rotate_tx E w fault (hashRefreshToken E raw) (tk_auth w + refreshTokenTTL ttl) presented s =
       (Inr c, s') \<and>
     res = \<lparr>rr_RawToken = fr_rt_raw w, rr_FamilyID = rt_FamilyID c,
            rr_ExpiresAt = tk_auth w + refreshTokenTTL ttl\<rparr>"
  by (auto simp: RotateRefreshToken_def Let_def split: prod.splits sum.splits)

lemma handleFailedClaim_snd:
  "snd (handleFailedClaim now h s) = s \<or> (\<exists>f. snd (handleFailedClaim now h s) = snd (RevokeFamily now f s))"
  by (auto simp: handleFailedClaim_def split: option.splits)

lemma RotateRefreshToken_Inl:
  "RotateRefreshToken E w fault raw ttl presented s = (Inl e, s') \<Longrightarrow>
   s' = s \<or> (\<exists>f. s' = snd (RevokeFamily (tk_grant w) f s))"
  using handleFailedClaim_snd [of "tk_grant w" "hashRefreshToken E raw" s]
  by (auto simp: RotateRefreshToken_def Let_def split: prod.splits sum.splits if_splits
      dest: rotate_tx_Inl)

lemma RevokeFamily_spent: "rt_spent h s \<Longrightarrow> rt_spent h (snd (RevokeFamily now f s))"
  by (rule revoke_keeps_spent [where new = "[]"]) (simp_all add: RevokeFamily_def Let_def)

lemma unique_refresh_hash:
  "unique_by refresh_conflict t \<Longrightarrow> a \<in> set t \<Longrightarrow> b \<in> set t \<Longrightarrow> rt_TokenHash a = rt_TokenHash b \<Longrightarrow>
   a = b"
proof (induction t)
  case (Cons x xs)
  then show ?case by (auto simp: unique_by_def refresh_conflict_def)
qed simp

lemma rotate_tx_spends:
  assumes "rotate_tx E w fault h ex presented s = (Inr c, s')"
  shows "unique_by refresh_conflict (refresh_tokens s) \<Longrightarrow> rt_spent h s'"
    "unique_by refresh_conflict (refresh_tokens s) \<Longrightarrow> unique_by refresh_conflict (refresh_tokens s')"
    "rt_spent k s \<Longrightarrow> rt_spent k s'"
proof -
  let ?t = "update_where (claimable (tk_auth w) h) (revoke_rt (tk_auth w)) (refresh_tokens s)"
  from assms obtain r where r: "r \<in> set (refresh_tokens s)" "claimable (tk_auth w) h r"
    and s': "refresh_tokens s' = ?t @ [successor_of E w ex c]"
    and free: "\<forall>x \<in> set ?t. \<not> refresh_conflict x (successor_of E w ex c)"
    by (auto simp: rotate_tx_Inr dest!: find_SomeD)
  have hashes: "rt_TokenHash ` set ?t = rt_TokenHash ` set (refresh_tokens s)"
    by (rule image_update_where) (simp add: revoke_rt_def)
  have new: "rt_TokenHash (successor_of E w ex c) \<notin> rt_TokenHash ` set (refresh_tokens s)"
    using free unfolding hashes [symmetric] by (auto simp: refresh_conflict_def)
  show "rt_spent k s \<Longrightarrow> rt_spent k s'"
    by (rule revoke_keeps_spent [OF _ s']) (use new in \<open>auto simp: rt_spent_def\<close>)
  assume u: "unique_by refresh_conflict (refresh_tokens s)"
  have "unique_by refresh_conflict ?t"
    using u by (rule unique_by_update) (simp_all add: refresh_conflict_def revoke_rt_def)
  then show "unique_by refresh_conflict (refresh_tokens s')"
    using unique_by_insert [of refresh_conflict ?t "successor_of E w ex c"] free s'
    by (simp add: insert_row_Some)
  have h: "rt_TokenHash r = h" using r(2) by (simp add: claimable_def)
  then have "y = r" if "y \<in> set (refresh_tokens s)" "rt_TokenHash y = h" for y
    using unique_refresh_hash [OF u that(1) r(1)] that(2) by simp
  then have "\<forall>x \<in> set ?t. rt_TokenHash x = h \<longrightarrow> rt_State x \<noteq> RefreshTokenStateActive"
    using r(2) by (auto simp: table_simps revoke_rt_def)
  moreover have "h \<in> rt_TokenHash ` set ?t" using r(1) h hashes by auto
  ultimately show "rt_spent h s'"
    using new h r(1) by (auto simp: rt_spent_def s')
qed

lemma rt_spent_unclaimable: "rt_spent h s \<Longrightarrow> find (claimable now h) (refresh_tokens s) = None"
  by (auto simp: find_None_iff rt_spent_def claimable_def)

lemma RevokeFamily_unique:
  "unique_by refresh_conflict (refresh_tokens s) \<Longrightarrow>
   unique_by refresh_conflict (refresh_tokens (snd (RevokeFamily now f s)))"
  unfolding RevokeFamily_def Let_def
  by simp (rule unique_by_update, auto simp: refresh_conflict_def revoke_rt_def)

interpretation rotation: single_use "rotation_claim E" "\<lambda>raw. rt_spent (hashRefreshToken E raw)"
  "\<lambda>s. unique_by refresh_conflict (refresh_tokens s)"
proof
  fix raw raw' :: string and a :: rotation and s s' :: db
  obtain w fault ttl presented where a: "a = (w, fault, ttl, presented)" by (cases a)
  let ?r = "\<lambda>raw. RotateRefreshToken E w fault raw ttl presented s"
  show "unique_by refresh_conflict (refresh_tokens (snd (rotation_claim E raw a s)))"
    if "unique_by refresh_conflict (refresh_tokens s)"
    using that rotate_tx_spends(2) RevokeFamily_unique
    by (auto simp: rotation_claim_def a split: prod.splits sum.splits
        simp: RotateRefreshToken_Inr dest!: RotateRefreshToken_Inl)
  show "rt_spent (hashRefreshToken E raw) s'"
    if "unique_by refresh_conflict (refresh_tokens s)" "rotation_claim E raw a s = (True, s')"
    using that rotate_tx_spends(1)
    by (auto simp: rotation_claim_def a RotateRefreshToken_Inr split: prod.splits sum.splits)
  show "\<not> fst (rotation_claim E raw a s)" if "rt_spent (hashRefreshToken E raw) s"
    using rt_spent_unclaimable [OF that]
    by (auto simp: rotation_claim_def a RotateRefreshToken_Inr rotate_tx_Inr
        split: prod.splits sum.splits)
  show "rt_spent (hashRefreshToken E raw) (snd (rotation_claim E raw' a s))"
    if "rt_spent (hashRefreshToken E raw) s"
    using that rotate_tx_spends(3) RevokeFamily_spent
    by (auto simp: rotation_claim_def a split: prod.splits sum.splits
        simp: RotateRefreshToken_Inr dest!: RotateRefreshToken_Inl)
qed

text \<open>
  C5. A refresh token rotates at most once: in any sequence of rotation requests, with
  arbitrary tokens, clocks, fresh values, proofs and insert failures, at most one succeeds for
  one presented token.
\<close>

theorem refresh_token_single_use:
  assumes "unique_by refresh_conflict (refresh_tokens s)"
  shows "wins raw (fst (run_claims (rotation_claim E) attempts s)) \<le> 1"
  using assms by (rule rotation.run_at_most_once)

text \<open>A closed table with one active token.\<close>

definition sample_rt :: refresh_token where
  "sample_rt = \<lparr>rt_ID = ''r0'', rt_TokenHash = ''hraw0'', rt_ClientID = ''app'', rt_AccountID = ''acme'',
     rt_ProjectID = ''prod'', rt_UserID = ''u1'', rt_IdentityID = None, rt_Scopes = ''read'',
     rt_FamilyID = ''f0'', rt_State = RefreshTokenStateActive, rt_ExpiresAt = 1000,
     rt_RevokedAt = None, rt_CreatedAt = 0, rt_DPoPKeyThumbprint = ''key1''\<rparr>"

definition refresh_db :: db where
  "refresh_db = empty_db\<lparr>refresh_tokens := [sample_rt]\<rparr>"

lemma refresh_db_unique: "unique_by refresh_conflict (refresh_tokens refresh_db)"
  by (simp add: refresh_db_def unique_by_def)

theorem refresh_token_single_use_witness:
  "unique_by refresh_conflict (refresh_tokens refresh_db) \<and>
   wins ''raw0'' (fst (run_claims (rotation_claim sample_env)
     [(''raw0'', sample_inputs, False, 60, ''key1''), (''raw0'', sample_inputs, False, 60, ''key1'')]
     refresh_db)) \<le> 1"
  using refresh_token_single_use [OF refresh_db_unique] refresh_db_unique by blast

subsection \<open>What rotation does\<close>

text \<open>
  A successful rotation hands the whole grant to a single successor: the presented token was
  active and unexpired and, where bound, was presented with its own DPoP key; it is revoked, and
  the new row keeps client, tenant, user, identity, scopes, family and key.
\<close>

theorem RotateRefreshToken_successor:
  assumes "RotateRefreshToken E w fault raw ttl presented s = (Inr (old, res), s')"
  shows "\<exists>r new. r \<in> set (refresh_tokens s) \<and> rt_TokenHash r = hashRefreshToken E raw \<and>
     rt_State r = RefreshTokenStateActive \<and> tk_auth w < rt_ExpiresAt r \<and>
     (rt_DPoPKeyThumbprint r = [] \<or> rt_DPoPKeyThumbprint r = presented) \<and>
     old = revoke_rt (tk_auth w) r \<and>
     refresh_tokens s' = update_where (claimable (tk_auth w) (hashRefreshToken E raw))
       (revoke_rt (tk_auth w)) (refresh_tokens s) @ [new] \<and>
     rt_TokenHash new = hashRefreshToken E (rr_RawToken res) \<and>
     rt_State new = RefreshTokenStateActive \<and> rt_ExpiresAt new = rr_ExpiresAt res \<and>
     rt_ClientID new = rt_ClientID r \<and> rt_AccountID new = rt_AccountID r \<and>
     rt_ProjectID new = rt_ProjectID r \<and> rt_UserID new = rt_UserID r \<and>
     rt_IdentityID new = rt_IdentityID r \<and> rt_Scopes new = rt_Scopes r \<and>
     rt_FamilyID new = rt_FamilyID r \<and> rt_DPoPKeyThumbprint new = rt_DPoPKeyThumbprint r"
proof -
  let ?ex = "tk_auth w + refreshTokenTTL ttl"
  from assms obtain r where r: "find (claimable (tk_auth w) (hashRefreshToken E raw)) (refresh_tokens s) = Some r"
    and old: "old = revoke_rt (tk_auth w) r"
    and d: "rt_DPoPKeyThumbprint r = [] \<or> rt_DPoPKeyThumbprint r = presented"
    and s': "refresh_tokens s' = update_where (claimable (tk_auth w) (hashRefreshToken E raw))
       (revoke_rt (tk_auth w)) (refresh_tokens s) @ [successor_of E w ?ex old]"
    and res: "rr_RawToken res = fr_rt_raw w" "rr_ExpiresAt res = ?ex"
    by (auto simp: RotateRefreshToken_Inr rotate_tx_Inr)
  from find_SomeD [OF r] old d s' res show ?thesis
    by (intro exI [of _ r] exI [of _ "successor_of E w ?ex old"])
       (auto simp: claimable_def successor_of_def revoke_rt_def)
qed

lemma sample_rotation:
  "\<exists>old res s'. RotateRefreshToken sample_env sample_inputs False ''raw0'' 60 ''key1'' refresh_db =
     (Inr (old, res), s')"
  by (simp add: RotateRefreshToken_def Let_def rotate_tx_def ClaimByTokenHash_def refresh_db_def
      sample_rt_def hashRefreshToken_def sample_env_def sample_inputs_def claimable_def bind_def
      revoke_rt_def Refresh_Create_def insert_row_def refresh_conflict_def successor_of_def ret_def)

theorem RotateRefreshToken_successor_witness:
  "\<exists>old res s'. RotateRefreshToken sample_env sample_inputs False ''raw0'' 60 ''key1'' refresh_db =
     (Inr (old, res), s') \<and> (\<exists>new. new \<in> set (refresh_tokens s') \<and> rt_FamilyID new = ''f0'' \<and>
       rt_State new = RefreshTokenStateActive)"
proof -
  obtain old res s' where r: "RotateRefreshToken sample_env sample_inputs False ''raw0'' 60 ''key1''
      refresh_db = (Inr (old, res), s')"
    using sample_rotation by blast
  have "r = sample_rt" if "r \<in> set (refresh_tokens refresh_db)" for r
    using that by (simp add: refresh_db_def)
  moreover have "rt_FamilyID sample_rt = ''f0''" by (simp add: sample_rt_def)
  ultimately show ?thesis using RotateRefreshToken_successor [OF r] r by fastforce
qed

lemma RevokeFamily_dead:
  "\<forall>x \<in> set (refresh_tokens (snd (RevokeFamily now f s))). rt_FamilyID x = f \<longrightarrow>
     rt_State x \<noteq> RefreshTokenStateActive"
proof -
  have "\<forall>x \<in> set (update_where (\<lambda>r. rt_FamilyID r = f \<and> rt_State r = RefreshTokenStateActive)
      (revoke_rt now) t). rt_FamilyID x = f \<longrightarrow> rt_State x \<noteq> RefreshTokenStateActive" for t
    by (induction t) (simp_all add: revoke_rt_def)
  then show ?thesis by (simp add: RevokeFamily_def Let_def)
qed



subsection \<open>One live token per family\<close>

definition one_live :: "refresh_token list \<Rightarrow> bool" where
  "one_live t \<longleftrightarrow> (\<forall>a \<in> set t. \<forall>b \<in> set t. rt_State a = RefreshTokenStateActive \<and>
     rt_State b = RefreshTokenStateActive \<and> rt_FamilyID a = rt_FamilyID b \<longrightarrow> a = b)"

definition families_ok :: "db \<Rightarrow> bool" where
  "families_ok s \<longleftrightarrow> unique_by refresh_conflict (refresh_tokens s) \<and> one_live (refresh_tokens s)"

lemma revoke_rt_live: "x \<in> set (update_where P (revoke_rt now) t) \<Longrightarrow>
   rt_State x = RefreshTokenStateActive \<Longrightarrow> x \<in> set t \<and> \<not> P x"
  by (induction t) (auto simp: revoke_rt_def split: if_splits)

lemma one_live_revoke: "one_live t \<Longrightarrow> one_live (update_where P (revoke_rt now) t)"
  unfolding one_live_def by (blast dest: revoke_rt_live)

lemma one_live_append:
  assumes "one_live t"
    and "\<And>x. x \<in> set t \<Longrightarrow> rt_State x = RefreshTokenStateActive \<Longrightarrow> rt_FamilyID x \<noteq> rt_FamilyID r"
  shows "one_live (t @ [r])"
  using assms unfolding one_live_def by auto metis

lemma RevokeFamily_ok: "families_ok s \<Longrightarrow> families_ok (snd (RevokeFamily now f s))"
  using RevokeFamily_unique [of s now f] one_live_revoke
  by (simp add: families_ok_def RevokeFamily_def Let_def)

lemma rotate_tx_ok:
  assumes ok: "families_ok s" and tx: "rotate_tx E w fault h ex presented s = (Inr c, s')"
  shows "families_ok s'"
proof -
  let ?t = "update_where (claimable (tk_auth w) h) (revoke_rt (tk_auth w)) (refresh_tokens s)"
  from tx obtain r where r: "r \<in> set (refresh_tokens s)" "claimable (tk_auth w) h r"
    and c: "c = revoke_rt (tk_auth w) r" and s': "refresh_tokens s' = ?t @ [successor_of E w ex c]"
    by (auto simp: rotate_tx_Inr dest!: find_SomeD)
  have "rt_FamilyID x \<noteq> rt_FamilyID (successor_of E w ex c)"
    if "x \<in> set ?t" "rt_State x = RefreshTokenStateActive" for x
  proof
    assume "rt_FamilyID x = rt_FamilyID (successor_of E w ex c)"
    then have "rt_FamilyID x = rt_FamilyID r" by (simp add: c successor_of_def revoke_rt_def)
    moreover have "x \<in> set (refresh_tokens s)" "\<not> claimable (tk_auth w) h x"
      using revoke_rt_live [OF that] by simp_all
    ultimately have "x = r"
      using ok r that(2) by (auto simp: families_ok_def one_live_def claimable_def)
    with r \<open>\<not> claimable (tk_auth w) h x\<close> show False by simp
  qed
  then have "one_live (refresh_tokens s')"
    unfolding s' using ok one_live_revoke by (intro one_live_append) (auto simp: families_ok_def)
  with ok rotate_tx_spends(2) [OF tx] show ?thesis by (simp add: families_ok_def)
qed

lemma IssueRefreshToken_ok:
  assumes "families_ok s" "fr_rt_family w \<notin> rt_FamilyID ` set (refresh_tokens s)"
  shows "families_ok (snd (IssueRefreshToken E w p s))"
proof (cases "IssueRefreshToken E w p s")
  case (Pair r s')
  then consider "s' = s" | rt where "refresh_tokens s' = refresh_tokens s @ [rt]"
      "insert_row refresh_conflict rt (refresh_tokens s) = Some (refresh_tokens s @ [rt])"
      "rt_FamilyID rt = fr_rt_family w"
    by (auto simp: IssueRefreshToken_def Let_def bind_def on_error_def Refresh_Create_def ret_def
        insert_row_Some split: option.splits)
  then show ?thesis
  proof cases
    case 2
    have "one_live (refresh_tokens s')"
      unfolding 2(1) using assms 2(3) by (intro one_live_append) (auto simp: families_ok_def image_iff)
    with 2 assms Pair show ?thesis using unique_by_insert by (fastforce simp: families_ok_def)
  qed (use assms Pair in simp)
qed

text \<open>
  C8. Every refresh operation keeps at most one live token per family (and the table's keys
  unique), so a stolen token and its successor are never both usable.
\<close>

theorem refresh_operations_one_live:
  assumes "families_ok s" and "fr_rt_family w \<notin> rt_FamilyID ` set (refresh_tokens s)"
  shows "families_ok (snd (IssueRefreshToken E w p s)) \<and>
    families_ok (snd (RotateRefreshToken E w fault raw ttl presented s)) \<and>
    families_ok (snd (RevokeFamily now f s))"
proof (intro conjI)
  show "families_ok (snd (RotateRefreshToken E w fault raw ttl presented s))"
  proof (cases "RotateRefreshToken E w fault raw ttl presented s")
    case (Pair r s')
    then show ?thesis
      using assms(1) RevokeFamily_ok rotate_tx_ok
      by (cases r) (auto simp: RotateRefreshToken_Inr dest!: RotateRefreshToken_Inl)
  qed
qed (use assms IssueRefreshToken_ok RevokeFamily_ok in blast)+

theorem refresh_operations_one_live_witness:
  "families_ok refresh_db \<and>
   families_ok (snd (RotateRefreshToken sample_env sample_inputs False ''raw0'' 60 ''key1'' refresh_db))"
proof -
  have ok: "families_ok refresh_db"
    using refresh_db_unique by (simp add: families_ok_def one_live_def refresh_db_def)
  have "fr_rt_family sample_inputs \<notin> rt_FamilyID ` set (refresh_tokens refresh_db)"
    by (simp add: refresh_db_def sample_rt_def sample_inputs_def)
  from refresh_operations_one_live [OF ok this, where E = sample_env and fault = False and
      raw = "''raw0''" and ttl = 60 and presented = "''key1''"] ok show ?thesis by blast
qed

lemma RevokeFamily_credentials [simp]:
  "issued_credentials (snd (RevokeFamily now f s)) = issued_credentials s"
  by (simp add: RevokeFamily_def Let_def)

interpretation issue_refresh_op: credential_op "\<lambda>s. snd (IssueRefreshToken E w p s)" "{}"
  by (rule credential_op_unchanged)
     (simp add: IssueRefreshToken_def Let_def bind_def on_error_def Refresh_Create_def ret_def
       split: option.split)

interpretation rotate_refresh_op:
  credential_op "\<lambda>s. snd (RotateRefreshToken E w fault raw ttl presented s)" "{}"
proof (rule credential_op_unchanged)
  fix s
  obtain r s' where e: "RotateRefreshToken E w fault raw ttl presented s = (r, s')" by fastforce
  then show "issued_credentials (snd (RotateRefreshToken E w fault raw ttl presented s)) =
      issued_credentials s"
    by (cases r) (auto simp: RotateRefreshToken_Inr rotate_tx_Inr dest!: RotateRefreshToken_Inl)
qed

end
