(* ===== verification/Zeroid_OAuth.thy ===== *)
theory Zeroid_OAuth
  imports Zeroid_Refresh
begin

text \<open>
  The token endpoint (\<open>src/internal/service/oauth.go\<close>, \<open>authcode.go\<close>, \<open>src/internal/jwtalg\<close> and
  the client lookups of \<open>oauth_client.go\<close>): one definition per grant, each ending in
  \<open>IssueCredential\<close>, and introspection and revocation by token. Tokens are verified by the
  parameters of \<open>env\<close>; what the grants require of the verified claims is written out.
\<close>

subsection \<open>Claims and algorithms\<close>

definition claim_str :: "claims \<Rightarrow> string \<Rightarrow> string" where
  "claim_str cl k = (case cl k of Some (CStr v) \<Rightarrow> v | _ \<Rightarrow> [])"

definition claim_present :: "claims \<Rightarrow> string \<Rightarrow> bool" where
  "claim_present cl k \<longleftrightarrow> cl k \<noteq> None"

definition claim_int :: "claims \<Rightarrow> string \<Rightarrow> int" where
  "claim_int cl k = (case cl k of Some (CInt n) \<Rightarrow> n | _ \<Rightarrow> 0)"

text \<open>\<open>time.Time{}\<close>, the first of January of year 1.\<close>

definition zero_time :: time where
  "zero_time = - 62135596800 * second"

definition claim_time :: "claims \<Rightarrow> string \<Rightarrow> time" where
  "claim_time cl k = (case cl k of Some (CTime t) \<Rightarrow> t | _ \<Rightarrow> zero_time)"

definition claim_strings :: "claims \<Rightarrow> string \<Rightarrow> string list" where
  "claim_strings cl k =
     (case cl k of Some (CStrs l) \<Rightarrow> l | Some (CArr l) \<Rightarrow> List.map_filter (\<lambda>x. x) l | _ \<Rightarrow> [])"

definition jwt_svid_algs :: "string list" where
  "jwt_svid_algs = [''ES256'', ''ES384'', ''ES512'', ''RS256'', ''RS384'', ''RS512'',
     ''PS256'', ''PS384'', ''PS512'']"

definition jwtalg_Validate :: "env \<Rightarrow> string \<Rightarrow> bool" where
  "jwtalg_Validate E tokenStr =
     (case cut_at CHR ''.'' tokenStr of
        None \<Rightarrow> False
      | Some (header, _) \<Rightarrow>
          (if header = [] then False
           else case header_alg E header of
                  None \<Rightarrow> False
                | Some alg \<Rightarrow> alg \<noteq> [] \<and> alg \<in> set jwt_svid_algs))"

definition parseToken :: "env \<Rightarrow> time \<Rightarrow> string \<Rightarrow> bool \<Rightarrow> claims option" where
  "parseToken E now tokenStr validate =
     (if \<not> jwtalg_Validate E tokenStr then None else parse_jwks E validate now tokenStr)"

definition parseECPublicKeyPEM :: "env \<Rightarrow> string \<Rightarrow> string option" where
  "parseECPublicKeyPEM E pemStr =
     (case pem_decode E pemStr of
        None \<Rightarrow> None
      | Some (_, bytes) \<Rightarrow>
          (case parse_pkix E bytes of
             Some (ECDSAKey curve key) \<Rightarrow> (if curve = ''P-256'' then Some key else None)
           | _ \<Rightarrow> None))"

subsection \<open>WIMSE URIs and scopes\<close>

definition parseWIMSEURI :: "env \<Rightarrow> string \<Rightarrow> (string \<times> string) option" where
  "parseWIMSEURI E wimseURI =
     (let prefix = ''spiffe://'' @ wimseDomain E @ ''/''
      in if \<not> has_prefix prefix wimseURI then None
         else case split_n 4 CHR ''/'' (trim_prefix prefix wimseURI) of
                [a, p, _, _] \<Rightarrow> if a = [] \<or> p = [] then None else Some (a, p)
              | _ \<Rightarrow> None)"

definition parseScopeString :: "string \<Rightarrow> string list" where
  "parseScopeString scope = (if scope = [] then [] else strings_Fields scope)"

definition effectiveAllowedScopes :: "policy option \<Rightarrow> identity option \<Rightarrow> string list" where
  "effectiveAllowedScopes p i =
     (case p of
        Some q \<Rightarrow> if p_AllowedScopes q \<noteq> [] then p_AllowedScopes q
                  else (case i of None \<Rightarrow> [] | Some j \<Rightarrow> i_AllowedScopes j)
      | None \<Rightarrow> (case i of None \<Rightarrow> [] | Some j \<Rightarrow> i_AllowedScopes j))"

definition intersectScopes :: "string list \<Rightarrow> string list \<Rightarrow> string list" where
  "intersectScopes requested allowed =
     (if allowed = [] then requested
      else if requested = [] then allowed
      else filter (\<lambda>s. s \<in> set allowed) requested)"

subsection \<open>Clients\<close>

definition GetPublicClient :: "string \<Rightarrow> db \<Rightarrow> oauth_client option" where
  "GetPublicClient clientID s =
     (case OAuthClient_GetPublicByClientID clientID s of
        None \<Rightarrow> None | Some c \<Rightarrow> if \<not> o_IsActive c then None else Some c)"

definition VerifyClientSecret :: "env \<Rightarrow> string \<Rightarrow> string \<Rightarrow> db \<Rightarrow> err + oauth_client" where
  "VerifyClientSecret E clientID secret s =
     (case OAuthClient_GetByClientID clientID s of
        None \<Rightarrow> Inl ErrOAuthClientNotFound
      | Some c \<Rightarrow>
          if \<not> o_IsActive c then Inl ErrOAuthClientNotFound
          else if \<not> bcrypt_ok E (o_ClientSecret c) secret then Inl ErrInvalidClientSecret
          else Inr c)"

subsection \<open>Requests\<close>

record token_request =
  tr_GrantType :: string
  tr_ClientID :: string
  tr_ClientSecret :: string
  tr_Scope :: string
  tr_AccountID :: string
  tr_ProjectID :: string
  tr_Subject :: string
  tr_APIKey :: string
  tr_SubjectToken :: string
  tr_SubjectTokenType :: string
  tr_ActorToken :: string
  tr_UserID :: string
  tr_UserEmail :: string
  tr_UserName :: string
  tr_ApplicationID :: string
  tr_AdditionalClaims :: "(string \<times> cval) list"
  tr_Code :: string
  tr_CodeVerifier :: string
  tr_RedirectURI :: string
  tr_RefreshTokenStr :: string
  tr_TrustedService :: bool
  tr_AuthReqID :: string
  tr_DPoPKeyThumbprint :: string

abbreviation bad :: "oauth_code \<Rightarrow> (db, err, 'a) svc" where
  "bad c \<equiv> throw (oauthBadRequest c)"

text \<open>The status and expiry gate that the grants apply to a looked-up identity.\<close>

definition gate_identity :: "inputs \<Rightarrow> identity \<Rightarrow> (db, err, unit) svc" where
  "gate_identity w i =
     (if \<not> IsUsable (i_Status i) then bad InvalidGrant
      else if Identity_IsExpired i (tk_grant w) then bad InvalidGrant
      else ret ())"

definition resolve_policy :: "inputs \<Rightarrow> identity \<Rightarrow> (db, err, policy) svc" where
  "resolve_policy w i =
     on_error (ResolveCredentialPolicy (fr_policy w) (tk_policy w) i) (\<lambda>_. oauthServerError)"

definition issue_token :: "env \<Rightarrow> inputs \<Rightarrow> issue_request \<Rightarrow> (db, err, access_token) svc" where
  "issue_token E w req = bind (IssueCredential E w req) (\<lambda>(tok, _). ret tok)"

subsection \<open>client\_credentials and jwt\_bearer\<close>

definition clientCredentials :: "env \<Rightarrow> inputs \<Rightarrow> token_request \<Rightarrow> (db, err, access_token) svc" where
  "clientCredentials E w req =
     (if tr_AccountID req = [] \<or> tr_ProjectID req = [] then bad InvalidRequest
      else
      bind (on_error (\<lambda>s. (VerifyClientSecret E (tr_ClientID req) (tr_ClientSecret req) s, s))
              (\<lambda>_. oauthUnauthorized)) (\<lambda>client.
      if GrantTypeClientCredentials \<notin> set (o_GrantTypes client) then bad UnauthorizedClient
      else
      let scopes = intersectScopes (parseScopeString (tr_Scope req)) (o_Scopes client) in
      bind (on_error (Identity_GetByExternalID (tr_ClientID req) (tr_AccountID req)
              (tr_ProjectID req)) (\<lambda>_. oauthUnauthorized)) (\<lambda>i.
      bind (gate_identity w i) (\<lambda>_.
      bind (resolve_policy w i) (\<lambda>p.
      issue_token E w ((empty_issue i)\<lparr>iq_IdentityPolicyID := p_ID p, iq_Scopes := scopes,
        iq_GrantType := GrantTypeClientCredentials,
        iq_DPoPKeyThumbprint := tr_DPoPKeyThumbprint req\<rparr>))))))"

text \<open>
  The assertion checks shared by \<open>jwtBearer\<close> and the actor token of \<open>tokenExchange\<close>: algorithm,
  unverified issuer, tenant from the URI, identity lookup and gate, registered key, verification
  against it, mandatory claims, issuer match. \<open>check_tenant\<close> is the extra test of the exchange.
\<close>

definition verify_assertion ::
  "env \<Rightarrow> inputs \<Rightarrow> (string \<times> string \<Rightarrow> bool) \<Rightarrow> string \<Rightarrow> (db, err, identity) svc" where
  "verify_assertion E w check_tenant assertion =
     (if \<not> jwtalg_Validate E assertion then bad InvalidGrant
      else case parse_insecure E assertion of None \<Rightarrow> bad InvalidGrant
      | Some peeked \<Rightarrow>
      let wimseURI = claim_str peeked ''iss'' in
      if wimseURI = [] then bad InvalidGrant
      else case parseWIMSEURI E wimseURI of None \<Rightarrow> bad InvalidGrant
      | Some (acct, proj) \<Rightarrow>
      if \<not> check_tenant (acct, proj) then bad InvalidGrant
      else
      bind (on_error (Identity_GetByWIMSEURI wimseURI acct proj)
              (\<lambda>_. oauthBadRequest InvalidGrant)) (\<lambda>i.
      bind (gate_identity w i) (\<lambda>_.
      if i_PublicKeyPEM i = [] then bad InvalidGrant
      else case parseECPublicKeyPEM E (i_PublicKeyPEM i) of None \<Rightarrow> bad InvalidGrant
      | Some key \<Rightarrow>
      case parse_es256 E key (issuer E) (tk_grant w) assertion of None \<Rightarrow> bad InvalidGrant
      | Some cl \<Rightarrow>
      if \<not> claim_present cl ''sub'' then bad InvalidGrant
      else if \<not> claim_present cl ''exp'' then bad InvalidGrant
      else if claim_str cl ''iss'' \<noteq> i_WIMSEURI i then bad InvalidGrant
      else ret i)))"

definition jwtBearer :: "env \<Rightarrow> inputs \<Rightarrow> token_request \<Rightarrow> (db, err, access_token) svc" where
  "jwtBearer E w req =
     (if tr_Subject req = [] then bad InvalidRequest
      else
      bind (verify_assertion E w (\<lambda>_. True) (tr_Subject req)) (\<lambda>i.
      bind (resolve_policy w i) (\<lambda>p.
      let scopes = intersectScopes (parseScopeString (tr_Scope req))
                     (effectiveAllowedScopes (Some p) (Some i)) in
      issue_token E w ((empty_issue i)\<lparr>iq_IdentityPolicyID := p_ID p, iq_Scopes := scopes,
        iq_GrantType := GrantTypeJWTBearer, iq_DPoPKeyThumbprint := tr_DPoPKeyThumbprint req\<rparr>))))"

subsection \<open>token\_exchange\<close>

text \<open>ZeroID claims that \<open>additional_claims\<close> may not set.\<close>

definition reservedClaims :: "string list" where
  "reservedClaims = [''iss'', ''sub'', ''aud'', ''exp'', ''nbf'', ''iat'', ''jti'',
     ''account_id'', ''project_id'', ''user_id'', ''owner_user_id'', ''external_id'',
     ''identity_type'', ''sub_type'', ''trust_level'', ''status'', ''name'', ''framework'',
     ''version'', ''publisher'', ''capabilities'', ''scopes'', ''grant_type'',
     ''delegation_depth'', ''user_email'', ''user_name'', ''act'', ''token_exchange'',
     ''trusted_by'', ''cnf'']"

definition external_claims :: "string \<Rightarrow> (string \<times> cval) list \<Rightarrow> (string \<times> cval) list" where
  "external_claims serviceName additional =
     [(''token_exchange'', CStr ''external_principal''), (''trusted_by'', CStr serviceName)] @
     filter (\<lambda>(k, _). k \<notin> set reservedClaims) additional"

definition external_identity :: "inputs \<Rightarrow> token_request \<Rightarrow> (db, err, identity) svc" where
  "external_identity w req =
     (if tr_ApplicationID req \<noteq> [] then
        bind (on_error (Identity_GetByID (tr_ApplicationID req) (tr_AccountID req) (tr_ProjectID req))
                (\<lambda>e. if e = ErrNoRows then oauthBadRequest InvalidRequest else oauthServerError))
          (\<lambda>i. bind (gate_identity w i) (\<lambda>_. ret i))
      else ret (zero_identity\<lparr>i_AccountID := tr_AccountID req, i_ProjectID := tr_ProjectID req,
                  i_IdentityType := IdentityTypeService, i_Status := IdentityStatusActive\<rparr>))"

definition policy_id_if_row :: "inputs \<Rightarrow> identity \<Rightarrow> (db, err, string) svc" where
  "policy_id_if_row w i =
     (if i_ID i \<noteq> [] then bind (resolve_policy w i) (\<lambda>p. ret (p_ID p)) else ret [])"

definition ExternalPrincipalExchange ::
  "env \<Rightarrow> inputs \<Rightarrow> token_request \<Rightarrow> (db, err, access_token) svc" where
  "ExternalPrincipalExchange E w req =
     (case trustedService E of None \<Rightarrow> bad InvalidGrant
      | Some None \<Rightarrow> bad InvalidGrant
      | Some (Some serviceName) \<Rightarrow>
      if tr_AccountID req = [] \<or> tr_ProjectID req = [] then bad InvalidRequest
      else if tr_UserID req = [] then bad InvalidRequest
      else
      bind (external_identity w req) (\<lambda>i.
      bind (policy_id_if_row w i) (\<lambda>pid.
      bind (on_error (issue_token E w ((empty_issue i)\<lparr>iq_IdentityPolicyID := pid,
              iq_GrantType := GrantTypeTokenExchange,
              iq_Scopes := parseScopeString (tr_Scope req), iq_UseRS256 := True,
              iq_SubjectOverride := tr_UserID req, iq_UserEmail := tr_UserEmail req,
              iq_UserName := tr_UserName req, iq_ApplicationID := tr_ApplicationID req,
              iq_TTL := 900,
              iq_CustomClaims := external_claims serviceName (tr_AdditionalClaims req),
              iq_DPoPKeyThumbprint := tr_DPoPKeyThumbprint req\<rparr>)) (\<lambda>_. oauthServerError)) (\<lambda>tok.
      ret (tok\<lparr>a_AccountID := tr_AccountID req, a_ProjectID := tr_ProjectID req,
               a_UserID := tr_UserID req\<rparr>)))))"

text \<open>requested \<open>\<inter>\<close> granted to the orchestrator \<open>\<inter>\<close> allowed for the actor (empty: unrestricted).\<close>

definition delegated_scopes :: "string list \<Rightarrow> string list \<Rightarrow> string list \<Rightarrow> string list" where
  "delegated_scopes requested orch actorAllowed =
     (if actorAllowed = [] then filter (\<lambda>s. s \<in> set orch) requested
      else filter (\<lambda>s. s \<in> set orch \<and> s \<in> set actorAllowed) requested)"

definition tokenExchange :: "env \<Rightarrow> inputs \<Rightarrow> token_request \<Rightarrow> (db, err, access_token) svc" where
  "tokenExchange E w req =
     (if tr_SubjectToken req = [] then bad InvalidRequest
      else if tr_ActorToken req = [] then ExternalPrincipalExchange E w req
      else case parseToken E (tk_auth w) (tr_SubjectToken req) True of None \<Rightarrow> bad InvalidGrant
      | Some subj \<Rightarrow>
      let subjectJTI = claim_str subj ''jti'' in
      if subjectJTI = [] then bad InvalidGrant
      else
      bind (\<lambda>s. case IntrospectToken (tk_auth w) subjectJTI s of
                  (Some c, True) \<Rightarrow> (Inr c, s)
                | _ \<Rightarrow> (Inl (oauthBadRequest InvalidGrant), s)) (\<lambda>subjectCred.
      bind (verify_assertion E w
              (\<lambda>(acct, proj). acct = c_AccountID subjectCred \<and> proj = c_ProjectID subjectCred)
              (tr_ActorToken req)) (\<lambda>actor.
      bind (resolve_policy w actor) (\<lambda>p.
      let scopes = delegated_scopes (parseScopeString (tr_Scope req)) (c_Scopes subjectCred)
                     (effectiveAllowedScopes (Some p) (Some actor)) in
      if scopes = [] then bad InvalidScope
      else
      let mission = claim_str subj ''mission_id'' in
      issue_token E w ((empty_issue actor)\<lparr>iq_IdentityPolicyID := p_ID p, iq_Scopes := scopes,
        iq_GrantType := GrantTypeTokenExchange, iq_DelegatedBy := claim_str subj ''sub'',
        iq_ParentJTI := subjectJTI, iq_DelegationDepth := claim_int subj ''delegation_depth'' + 1,
        iq_MissionID := (if mission = [] then subjectJTI else mission),
        iq_DPoPKeyThumbprint := tr_DPoPKeyThumbprint req\<rparr>)))))"

subsection \<open>api\_key\<close>

text \<open>An unknown identity behind a key is treated as absent: a minimal carrier takes its place.\<close>

definition api_key_identity :: "inputs \<Rightarrow> api_key \<Rightarrow> (db, err, identity) svc" where
  "api_key_identity w sk =
     (let carrier = zero_identity\<lparr>i_AccountID := k_AccountID sk, i_ProjectID := k_ProjectID sk,
                      i_Status := IdentityStatusActive\<rparr>
      in if k_IdentityID sk \<noteq> [] then
           (\<lambda>s. case Identity_GetByID (k_IdentityID sk) (k_AccountID sk) (k_ProjectID sk) s of
                  (Inl _, s') \<Rightarrow> (Inr carrier, s')
                | (Inr i, s') \<Rightarrow> bind (gate_identity w i) (\<lambda>_. ret i) s')
         else ret carrier)"

definition api_key_scopes ::
  "string list \<Rightarrow> api_key \<Rightarrow> policy option \<Rightarrow> string list \<Rightarrow> identity \<Rightarrow> string list" where
  "api_key_scopes requested sk keyPolicy identityPolicyScopes i =
     (let s1 = intersectScopes requested (k_Scopes sk);
          s2 = (case keyPolicy of None \<Rightarrow> s1 | Some kp \<Rightarrow> intersectScopes s1 (p_AllowedScopes kp));
          s3 = intersectScopes s2 identityPolicyScopes
      in if identityPolicyScopes = [] then intersectScopes s3 (i_AllowedScopes i) else s3)"

definition apiKeyGrant :: "env \<Rightarrow> inputs \<Rightarrow> token_request \<Rightarrow> (db, err, access_token) svc" where
  "apiKeyGrant E w req =
     (if tr_APIKey req = [] then bad InvalidRequest
      else if \<not> hasRSAKeys E then throw oauthServerError
      else
      bind (on_error (APIKey_GetByKeyHash (tk_auth w) (sha256_hex E (tr_APIKey req)))
              (\<lambda>_. oauthBadRequest InvalidGrant)) (\<lambda>sk.
      bind (api_key_identity w sk) (\<lambda>i.
      bind (if i_ID i \<noteq> [] then bind (resolve_policy w i) (\<lambda>p. ret (p_ID p, p_AllowedScopes p))
            else ret ([], [])) (\<lambda>(pid, pscopes).
      bind (if k_CredentialPolicyID sk \<noteq> []
            then bind (on_error (GetPolicy (k_CredentialPolicyID sk) (k_AccountID sk)
                    (k_ProjectID sk)) (\<lambda>_. oauthServerError)) (\<lambda>kp. ret (Some kp))
            else ret None) (\<lambda>kp.
      bind (issue_token E w ((empty_issue i)\<lparr>iq_IdentityPolicyID := pid,
              iq_CredentialPolicyID := k_CredentialPolicyID sk,
              iq_Scopes := api_key_scopes (parseScopeString (tr_Scope req)) sk kp pscopes i,
              iq_GrantType := GrantTypeAPIKey, iq_UseRS256 := True,
              iq_ActingUserID := k_CreatedBy sk, iq_CredentialExpiresAt := k_ExpiresAt sk,
              iq_DPoPKeyThumbprint := tr_DPoPKeyThumbprint req\<rparr>)) (\<lambda>tok s.
      (Inr (tok\<lparr>a_AccountID := k_AccountID sk, a_ProjectID := k_ProjectID sk,
                a_UserID := k_CreatedBy sk, a_ExternalID := i_ExternalID i\<rparr>),
       APIKey_UpdateLastUsed (tk_after w) (k_ID sk) [] s)))))))"

subsection \<open>authorization\_code\<close>

record auth_code_claims =
  acc_JTI :: string
  acc_ExpiresAt :: time
  acc_ClientID :: string
  acc_CodeChallenge :: string
  acc_RedirectURI :: string
  acc_Scopes :: "string list"
  acc_UserID :: string
  acc_OrgID :: string
  acc_AccountID :: string
  acc_ProjectID :: string

definition decodeAuthCodeJWT :: "env \<Rightarrow> time \<Rightarrow> string \<Rightarrow> auth_code_claims option" where
  "decodeAuthCodeJWT E now code =
     (case parse_hs256 E (hmacSecret E) now code of
        None \<Rightarrow> None
      | Some cl \<Rightarrow>
          if claim_str cl ''iss'' \<noteq> authCodeIssuer E then None
          else if claim_str cl ''sub'' \<noteq> ''auth-code'' then None
          else Some \<lparr>acc_JTI = (if claim_str cl ''jti'' = [] then ''derived:'' @ sha256_hex E code
                               else claim_str cl ''jti''),
                     acc_ExpiresAt = claim_time cl ''exp'', acc_ClientID = claim_str cl ''cid'',
                     acc_CodeChallenge = claim_str cl ''cc'',
                     acc_RedirectURI = claim_str cl ''ruri'', acc_Scopes = claim_strings cl ''scp'',
                     acc_UserID = claim_str cl ''uid'', acc_OrgID = claim_str cl ''oid'',
                     acc_AccountID = claim_str cl ''aid'', acc_ProjectID = claim_str cl ''pid''\<rparr>)"

definition verifyCodeChallenge :: "env \<Rightarrow> string \<Rightarrow> string \<Rightarrow> bool" where
  "verifyCodeChallenge E verifier challenge \<longleftrightarrow> sha256_b64url E verifier = challenge"

definition normalizeLoopback :: "string \<Rightarrow> string" where
  "normalizeLoopback uri = replace_first ''://127.0.0.1:'' ''://localhost:'' uri"

definition revokeAuthCodeTokens :: "inputs \<Rightarrow> string \<Rightarrow> db \<Rightarrow> db" where
  "revokeAuthCodeTokens w codeJTI s =
     (case AuthCode_GetByJTI codeJTI s of
        None \<Rightarrow> s
      | Some record \<Rightarrow>
          (let s1 = (case ac_CredentialJTI record of
                       None \<Rightarrow> s
                     | Some jti \<Rightarrow>
                         if jti = [] then s
                         else case fst (IntrospectToken (tk_grant w) jti s) of
                                None \<Rightarrow> s
                              | Some c \<Rightarrow> RevokeCredential (tk_grant w) (c_ID c) (c_AccountID c)
                                            (c_ProjectID c) ''auth_code_replay'' s)
           in case ac_RefreshFamilyID record of
                None \<Rightarrow> s1
              | Some f \<Rightarrow> if f = [] then s1 else snd (RevokeFamily (tk_grant w) f s1)))"

definition linked_identity ::
  "inputs \<Rightarrow> string option \<Rightarrow> string \<Rightarrow> string \<Rightarrow> (db, err, identity \<times> string) svc" where
  "linked_identity w link acct proj =
     (if (case link of None \<Rightarrow> False | Some x \<Rightarrow> x \<noteq> []) then
        bind (on_error (Identity_GetByID (the link) acct proj) (\<lambda>_. oauthBadRequest InvalidGrant))
          (\<lambda>i. bind (gate_identity w i) (\<lambda>_.
               bind (resolve_policy w i) (\<lambda>p. ret (i, p_ID p))))
      else ret (zero_identity\<lparr>i_AccountID := acct, i_ProjectID := proj,
                  i_Status := IdentityStatusActive\<rparr>, []))"

abbreviation defaultAccessTokenTTLWithRefresh :: int where
  "defaultAccessTokenTTLWithRefresh \<equiv> 3600"
abbreviation defaultAccessTokenTTLNoRefresh :: int where
  "defaultAccessTokenTTLNoRefresh \<equiv> 90 * 24 * 3600"

definition code_ttl :: "oauth_client \<Rightarrow> int" where
  "code_ttl c =
     (if o_AccessTokenTTL c \<le> 0 then
        (if GrantTypeRefreshToken \<in> set (o_GrantTypes c) then defaultAccessTokenTTLWithRefresh
         else defaultAccessTokenTTLNoRefresh)
      else o_AccessTokenTTL c)"

text \<open>Everything before the code is consumed.\<close>

definition check_auth_code ::
  "env \<Rightarrow> inputs \<Rightarrow> token_request \<Rightarrow> (db, err, auth_code_claims \<times> oauth_client) svc" where
  "check_auth_code E w req =
     (if tr_Code req = [] \<or> tr_CodeVerifier req = [] \<or> tr_ClientID req = [] \<or> tr_RedirectURI req = []
        then bad InvalidRequest
      else if hmacSecret E = [] then throw oauthServerError
      else case decodeAuthCodeJWT E (tk_auth w) (tr_Code req) of None \<Rightarrow> bad InvalidGrant
      | Some ac \<Rightarrow>
      if acc_ClientID ac \<noteq> tr_ClientID req then bad InvalidGrant
      else (\<lambda>s. case GetPublicClient (tr_ClientID req) s of
                  None \<Rightarrow> (Inl oauthUnauthorized, s)
                | Some client \<Rightarrow>
      (if GrantTypeAuthorizationCode \<notin> set (o_GrantTypes client) then bad UnauthorizedClient
       else if normalizeLoopback (acc_RedirectURI ac) \<noteq> normalizeLoopback (tr_RedirectURI req)
         then bad InvalidGrant
       else if \<not> verifyCodeChallenge E (tr_CodeVerifier req) (acc_CodeChallenge ac)
         then bad InvalidGrant
       else ret (ac, client)) s))"

definition consume_row :: "inputs \<Rightarrow> auth_code_claims \<Rightarrow> auth_code" where
  "consume_row w ac = \<lparr>ac_JTI = acc_JTI ac, ac_ClientID = acc_ClientID ac,
     ac_AccountID = acc_AccountID ac, ac_ProjectID = acc_ProjectID ac, ac_CredentialJTI = None,
     ac_RefreshFamilyID = None, ac_ConsumedAt = tk_auth w, ac_ExpiresAt = acc_ExpiresAt ac\<rparr>"

definition consume_code :: "inputs \<Rightarrow> auth_code_claims \<Rightarrow> (db, err, unit) svc" where
  "consume_code w ac = (\<lambda>s.
     case AuthCode_Consume (consume_row w ac) s of
       (True, s') \<Rightarrow> (Inr (), s')
     | (False, s') \<Rightarrow> (Inl (oauthBadRequest InvalidGrant), revokeAuthCodeTokens w (acc_JTI ac) s'))"

text \<open>After issuance: the refresh token, and the record for replay revocation.\<close>

definition finish_auth_code ::
  "env \<Rightarrow> inputs \<Rightarrow> token_request \<Rightarrow> auth_code_claims \<Rightarrow> oauth_client \<Rightarrow> access_token \<Rightarrow>
   (db, err, access_token) svc" where
  "finish_auth_code E w req ac client tok = (\<lambda>s.
     let tok1 = tok\<lparr>a_AccountID := acc_AccountID ac, a_ProjectID := acc_ProjectID ac,
                    a_UserID := acc_UserID ac\<rparr>;
         (raw, family, s1) =
           (if GrantTypeRefreshToken \<in> set (o_GrantTypes client) then
              (case IssueRefreshToken E w \<lparr>rp_ClientID = tr_ClientID req,
                      rp_AccountID = acc_AccountID ac, rp_ProjectID = acc_ProjectID ac,
                      rp_UserID = acc_UserID ac, rp_IdentityID = o_IdentityID client,
                      rp_Scopes = join_sp (acc_Scopes ac), rp_TTL = o_RefreshTokenTTL client,
                      rp_DPoPKeyThumbprint = tr_DPoPKeyThumbprint req\<rparr> s of
                 (Inl _, s') \<Rightarrow> ([], [], s')
               | (Inr res, s') \<Rightarrow> (rr_RawToken res, rr_FamilyID res, s'))
            else ([], [], s))
     in (Inr (tok1\<lparr>a_RefreshToken := raw\<rparr>),
         AuthCode_UpdateTokenInfo (acc_JTI ac) (a_JTI tok1) family s1))"

definition redeem_auth_code ::
  "env \<Rightarrow> inputs \<Rightarrow> token_request \<Rightarrow> auth_code_claims \<Rightarrow> oauth_client \<Rightarrow>
   (db, err, access_token) svc" where
  "redeem_auth_code E w req ac client =
     bind (linked_identity w (o_IdentityID client) (acc_AccountID ac) (acc_ProjectID ac))
       (\<lambda>(i, pid).
     bind (issue_token E w ((empty_issue i)\<lparr>iq_IdentityPolicyID := pid,
             iq_GrantType := GrantTypeAuthorizationCode, iq_UseRS256 := True,
             iq_SubjectOverride := acc_UserID ac, iq_ApplicationID := acc_ClientID ac,
             iq_TTL := code_ttl client, iq_Scopes := acc_Scopes ac,
             iq_DPoPKeyThumbprint := tr_DPoPKeyThumbprint req\<rparr>))
       (finish_auth_code E w req ac client))"

definition authorizationCode :: "env \<Rightarrow> inputs \<Rightarrow> token_request \<Rightarrow> (db, err, access_token) svc" where
  "authorizationCode E w req =
     bind (check_auth_code E w req) (\<lambda>(ac, client).
     bind (consume_code w ac) (\<lambda>_.
     redeem_auth_code E w req ac client))"

subsection \<open>refresh\_token\<close>

definition refresh_ttls :: "string \<Rightarrow> db \<Rightarrow> int \<times> int" where
  "refresh_ttls clientID s =
     (let (accessTTL, refreshTTL) =
            (case OAuthClient_GetByClientID clientID s of
               None \<Rightarrow> (0, 0) | Some c \<Rightarrow> (o_AccessTokenTTL c, o_RefreshTokenTTL c))
      in (if accessTTL \<le> 0 then defaultAccessTokenTTLWithRefresh else accessTTL, refreshTTL))"

definition refresh_with ::
  "env \<Rightarrow> inputs \<Rightarrow> bool \<Rightarrow> token_request \<Rightarrow> int \<Rightarrow> int \<Rightarrow> (db, err, access_token) svc" where
  "refresh_with E w fault req accessTTL refreshTTL =
     bind (on_error (RotateRefreshToken E w fault (tr_RefreshTokenStr req) refreshTTL
             (tr_DPoPKeyThumbprint req))
             (\<lambda>e. if e = ErrDPoPBindingMismatch then oauthBadRequest InvalidDPoPProof
                  else oauthBadRequest InvalidGrant)) (\<lambda>(old, new).
     if rt_ClientID old \<noteq> tr_ClientID req then bad InvalidGrant
     else
     bind (linked_identity w (rt_IdentityID old) (rt_AccountID old) (rt_ProjectID old))
       (\<lambda>(i, pid).
     bind (issue_token E w ((empty_issue i)\<lparr>iq_IdentityPolicyID := pid,
             iq_GrantType := GrantTypeRefreshToken, iq_UseRS256 := True,
             iq_SubjectOverride := rt_UserID old, iq_ApplicationID := rt_ClientID old,
             iq_TTL := accessTTL, iq_Scopes := parseScopeString (rt_Scopes old),
             iq_DPoPKeyThumbprint := tr_DPoPKeyThumbprint req\<rparr>)) (\<lambda>tok.
     ret (tok\<lparr>a_AccountID := rt_AccountID old, a_ProjectID := rt_ProjectID old,
              a_UserID := rt_UserID old, a_RefreshToken := rr_RawToken new\<rparr>))))"

definition refreshToken ::
  "env \<Rightarrow> inputs \<Rightarrow> bool \<Rightarrow> token_request \<Rightarrow> (db, err, access_token) svc" where
  "refreshToken E w fault req =
     (if tr_RefreshTokenStr req = [] \<or> tr_ClientID req = [] then bad InvalidRequest
      else (\<lambda>s. case refresh_ttls (tr_ClientID req) s of
                  (accessTTL, refreshTTL) \<Rightarrow> refresh_with E w fault req accessTTL refreshTTL s))"

subsection \<open>Introspection and revocation by token\<close>

datatype introspection =
    InactiveToken
  | ActiveToken (it_sub: string) (it_iss: string) (it_jti: string) (it_iat: int) (it_exp: int)
      (it_scope: string) (it_account: string) (it_project: string) (it_claims: claims)

definition surfaced_claims :: "string list" where
  "surfaced_claims = [''agent_id'', ''trust_level'', ''identity_type'', ''external_id'',
     ''delegation_depth'', ''act'', ''cnf'', ''authorization_details'']"

definition Introspect :: "env \<Rightarrow> time \<Rightarrow> string \<Rightarrow> db \<Rightarrow> introspection" where
  "Introspect E now tokenStr s =
     (case parseToken E now tokenStr True of
        None \<Rightarrow> InactiveToken
      | Some cl \<Rightarrow>
          (let jti = claim_str cl ''jti'' in
           if jti = [] then InactiveToken
           else case IntrospectToken now jti s of
                  (Some c, True) \<Rightarrow>
                    ActiveToken (claim_str cl ''sub'') (claim_str cl ''iss'') jti
                      (claim_time cl ''iat'' div second) (claim_time cl ''exp'' div second)
                      (join_sp (c_Scopes c)) (c_AccountID c) (c_ProjectID c)
                      (\<lambda>k. if k \<in> set surfaced_claims then cl k else None)
                | _ \<Rightarrow> InactiveToken))"

definition OAuth_Revoke :: "env \<Rightarrow> time \<Rightarrow> string \<Rightarrow> db \<Rightarrow> db" where
  "OAuth_Revoke E now tokenStr s =
     (case parseToken E now tokenStr False of
        None \<Rightarrow> s
      | Some cl \<Rightarrow>
          (let jti = claim_str cl ''jti'' in
           if jti = [] then s
           else case Credential_GetByJTI jti s of
                  None \<Rightarrow> s
                | Some c \<Rightarrow>
                    if c_IsRevoked c \<or> c_ExpiresAt c < now then s
                    else RevokeCredential now (c_ID c) (c_AccountID c) (c_ProjectID c)
                           ''oauth2_revocation'' s))"

subsection \<open>Round trips\<close>

lemma spiffe_no_slash: "ValidateSPIFFEPathSegment v \<Longrightarrow> CHR ''/'' \<notin> set v \<and> v \<noteq> []"
proof -
  have "\<not> spiffe_char CHR ''/''" by (simp add: spiffe_char_def less_eq_char_def)
  then show "ValidateSPIFFEPathSegment v \<Longrightarrow> CHR ''/'' \<notin> set v \<and> v \<noteq> []"
    by (auto simp: ValidateSPIFFEPathSegment_def list_all_iff)
qed

lemma split4:
  assumes "CHR ''/'' \<notin> set a" "CHR ''/'' \<notin> set b" "CHR ''/'' \<notin> set c"
  shows "split_n 4 CHR ''/'' (a @ CHR ''/'' # b @ CHR ''/'' # c @ CHR ''/'' # d) = [a, b, c, d]"
  using cut_at_append [OF assms(1), of "b @ CHR ''/'' # c @ CHR ''/'' # d"]
    cut_at_append [OF assms(2), of "c @ CHR ''/'' # d"] cut_at_append [OF assms(3), of d]
  by (simp add: eval_nat_numeral)

text \<open>
  The tenant survives the round trip through the WIMSE URI: parsing the URI of a registered
  identity returns the account and project it was registered under, so an assertion can only
  name the tenant its identity belongs to.
\<close>

theorem registered_URI_roundtrip:
  assumes "RegisterIdentity E iid pid now req s = (Inr i, s')"
  shows "parseWIMSEURI E (i_WIMSEURI i) = Some (i_AccountID i, i_ProjectID i)"
proof -
  from RegisterIdentity_Inr [OF assms] obtain ps policyID uri where
    ck: "register_checks E req = None" and
    u: "BuildWIMSEURI (wimseDomain E) (ri_AccountID req) (ri_ProjectID req) (reg_type req)
       (ri_ExternalID req) = Some uri" and
    i: "i = register_row iid now req policyID uri" by blast
  from ck have seg: "ValidateSPIFFEPathSegment (ri_AccountID req)"
      "ValidateSPIFFEPathSegment (ri_ProjectID req)" "ValidateSPIFFEPathSegment (reg_type req)"
    by (auto simp: register_checks_def split: if_splits)
  let ?tail = "ri_AccountID req @ CHR ''/'' # ri_ProjectID req @ CHR ''/'' # reg_type req @
    CHR ''/'' # ri_ExternalID req"
  have "uri = (''spiffe://'' @ wimseDomain E @ ''/'') @ ?tail"
    using u by (auto simp: BuildWIMSEURI_def Let_def split: if_splits)
  moreover have "split_n 4 CHR ''/'' ?tail =
      [ri_AccountID req, ri_ProjectID req, reg_type req, ri_ExternalID req]"
    using seg spiffe_no_slash by (intro split4) auto
  ultimately have "parseWIMSEURI E uri = Some (ri_AccountID req, ri_ProjectID req)"
    using seg spiffe_no_slash has_prefix_append [of "''spiffe://'' @ wimseDomain E @ ''/''" ?tail]
      trim_prefix_append [of "''spiffe://'' @ wimseDomain E @ ''/''" ?tail]
    by (simp add: parseWIMSEURI_def Let_def)
  then show ?thesis by (simp add: i register_row_def)
qed

theorem registered_URI_roundtrip_witness:
  "\<exists>i s'. RegisterIdentity sample_env ''i1'' ''fp'' 5 sample_reg policy_db = (Inr i, s') \<and>
     parseWIMSEURI sample_env (i_WIMSEURI i) = Some (i_AccountID i, i_ProjectID i)"
  using sample_registered registered_URI_roundtrip by blast

text \<open>
  Scopes survive the refresh token: the scope string stored with a refresh token parses back
  to the granted list, when no scope is empty or contains white space.
\<close>

theorem scope_string_roundtrip:
  assumes "\<forall>sc \<in> set scopes. word_ok sc"
  shows "parseScopeString (join_sp scopes) = scopes"
  using strings_Fields_join [OF assms]
  by (cases "join_sp scopes = []") (auto simp: parseScopeString_def strings_Fields_def)

theorem scope_string_roundtrip_witness:
  "parseScopeString (join_sp [''read'', ''write'']) = [''read'', ''write'']"
  by (rule scope_string_roundtrip) (simp add: word_ok_def is_space_def)

subsection \<open>Delegation only narrows\<close>

lemma delegated_scopes_subset:
  "set (delegated_scopes req orch allowed) \<subseteq> set req \<inter> set orch \<and>
   (allowed \<noteq> [] \<longrightarrow> set (delegated_scopes req orch allowed) \<subseteq> set allowed)"
  by (auto simp: delegated_scopes_def)

lemma issue_token_Inr:
  "issue_token E w req s = (Inr tok, s') \<longleftrightarrow> (\<exists>c. IssueCredential E w req s = (Inr (tok, c), s'))"
  by (auto simp: issue_token_def bind_Inr)

lemma gate_identity_Inr:
  "gate_identity w i s = (Inr u, s') \<longleftrightarrow>
     s' = s \<and> i_Status i = IdentityStatusActive \<and> \<not> Identity_IsExpired i (tk_grant w)"
  by (auto simp: gate_identity_def IsUsable_def)

lemma gate_identity_Inl: "gate_identity w i s = (Inl e, s') \<Longrightarrow> s' = s"
  by (auto simp: gate_identity_def split: if_splits)

lemma resolve_policy_effect:
  assumes "resolve_policy w i s = (r, s')"
  shows "\<exists>ps. s' = s\<lparr>credential_policies := credential_policies s @ ps\<rparr>"
proof -
  obtain r0 s0 where e: "ResolveCredentialPolicy (fr_policy w) (tk_policy w) i s = (r0, s0)" by fastforce
  then have "s' = s0" using assms by (auto simp: resolve_policy_def on_error_def split: sum.splits)
  with ResolveCredentialPolicy_effect [OF e] show ?thesis by blast
qed

lemma Identity_GetByWIMSEURI_Inr:
  "Identity_GetByWIMSEURI u a p s = (Inr i, s') \<Longrightarrow>
   s' = s \<and> i \<in> set (identities s) \<and> i_WIMSEURI i = u \<and> i_AccountID i = a \<and> i_ProjectID i = p"
  by (auto simp: Identity_GetByWIMSEURI_def split: option.splits dest: find_SomeD)

text \<open>What a verified assertion establishes about the identity it returns.\<close>

lemma verify_assertion_Inr:
  assumes "verify_assertion E w check a s = (Inr i, s')"
  shows "s' = s \<and> i \<in> set (identities s) \<and> i_Status i = IdentityStatusActive \<and>
     check (i_AccountID i, i_ProjectID i) \<and>
     parseWIMSEURI E (i_WIMSEURI i) = Some (i_AccountID i, i_ProjectID i) \<and>
     (\<exists>key cl. parseECPublicKeyPEM E (i_PublicKeyPEM i) = Some key \<and>
        parse_es256 E key (issuer E) (tk_grant w) a = Some cl \<and> claim_str cl ''iss'' = i_WIMSEURI i \<and>
        claim_present cl ''exp'' \<and> claim_present cl ''sub'')"
  using assms
  by (auto simp: verify_assertion_def Let_def bind_Inr on_error_Inr gate_identity_Inr
      split: if_splits option.splits dest!: Identity_GetByWIMSEURI_Inr)

lemma tokenExchange_Inr:
  assumes "tokenExchange E w req s = (Inr tok, s')" "tr_ActorToken req \<noteq> []"
  obtains subj parent actor p ps s1 c scopes where
    "parseToken E (tk_auth w) (tr_SubjectToken req) True = Some subj"
    "IntrospectToken (tk_auth w) (claim_str subj ''jti'') s = (Some parent, True)"
    "verify_assertion E w (\<lambda>(acct, proj). acct = c_AccountID parent \<and> proj = c_ProjectID parent)
       (tr_ActorToken req) s = (Inr actor, s)"
    "s1 = s\<lparr>credential_policies := credential_policies s @ ps\<rparr>"
    "scopes = delegated_scopes (parseScopeString (tr_Scope req)) (c_Scopes parent)
       (effectiveAllowedScopes (Some p) (Some actor))" "scopes \<noteq> []"
    "claim_str subj ''jti'' \<noteq> []"
    "IssueCredential E w ((empty_issue actor)\<lparr>iq_IdentityPolicyID := p_ID p, iq_Scopes := scopes,
       iq_GrantType := GrantTypeTokenExchange, iq_DelegatedBy := claim_str subj ''sub'',
       iq_ParentJTI := claim_str subj ''jti'',
       iq_DelegationDepth := claim_int subj ''delegation_depth'' + 1,
       iq_MissionID := (if claim_str subj ''mission_id'' = [] then claim_str subj ''jti''
                        else claim_str subj ''mission_id''),
       iq_DPoPKeyThumbprint := tr_DPoPKeyThumbprint req\<rparr>) s1 = (Inr (tok, c), s')"
proof -
  from assms obtain subj where sub: "parseToken E (tk_auth w) (tr_SubjectToken req) True = Some subj"
      "claim_str subj ''jti'' \<noteq> []"
    by (auto simp: tokenExchange_def Let_def split: if_splits option.splits)
  from assms sub obtain parent sA actor p s1 c where par:
    "IntrospectToken (tk_auth w) (claim_str subj ''jti'') s = (Some parent, True)"
    and act: "verify_assertion E w (\<lambda>(acct, proj). acct = c_AccountID parent \<and> proj = c_ProjectID parent)
       (tr_ActorToken req) s = (Inr actor, sA)"
    and pol: "resolve_policy w actor sA = (Inr p, s1)" and
    iss: "delegated_scopes (parseScopeString (tr_Scope req)) (c_Scopes parent)
       (effectiveAllowedScopes (Some p) (Some actor)) \<noteq> []"
    "IssueCredential E w ((empty_issue actor)\<lparr>iq_IdentityPolicyID := p_ID p,
       iq_Scopes := delegated_scopes (parseScopeString (tr_Scope req)) (c_Scopes parent)
         (effectiveAllowedScopes (Some p) (Some actor)),
       iq_GrantType := GrantTypeTokenExchange, iq_DelegatedBy := claim_str subj ''sub'',
       iq_ParentJTI := claim_str subj ''jti'',
       iq_DelegationDepth := claim_int subj ''delegation_depth'' + 1,
       iq_MissionID := (if claim_str subj ''mission_id'' = [] then claim_str subj ''jti''
                        else claim_str subj ''mission_id''),
       iq_DPoPKeyThumbprint := tr_DPoPKeyThumbprint req\<rparr>) s1 = (Inr (tok, c), s')"
    by (auto simp: tokenExchange_def Let_def bind_Inr issue_token_Inr
        split: if_splits option.splits prod.splits bool.splits)
  have sA: "sA = s" using verify_assertion_Inr [OF act] by simp
  obtain ps where "s1 = s\<lparr>credential_policies := credential_policies s @ ps\<rparr>"
    using resolve_policy_effect [OF pol] sA by blast
  with that sub par act iss sA show thesis by blast
qed

text \<open>
  C3. Delegation attenuates: a token obtained by agent-to-agent exchange hangs under an active
  credential of the same tenant, carries only scopes that this credential holds and that were
  requested, never none, belongs to the active identity whose key signed the actor token, is one
  level deeper than the presented token says and stays in its mission.
\<close>

theorem tokenExchange_attenuates:
  assumes "tokenExchange E w req s = (Inr tok, s')" and "tr_ActorToken req \<noteq> []"
  shows "\<exists>parent c subj actor. parseToken E (tk_auth w) (tr_SubjectToken req) True = Some subj \<and>
     IntrospectToken (tk_auth w) (c_JTI parent) s = (Some parent, True) \<and>
     issued_credentials s' = issued_credentials s @ [c] \<and> c_JTI c = a_JTI tok \<and>
     c_ParentJTI c = c_JTI parent \<and> c_AccountID c = c_AccountID parent \<and>
     c_ProjectID c = c_ProjectID parent \<and> c_Scopes c \<noteq> [] \<and>
     set (c_Scopes c) \<subseteq> set (c_Scopes parent) \<inter> set (parseScopeString (tr_Scope req)) \<and>
     c_DelegationDepth c = claim_int subj ''delegation_depth'' + 1 \<and>
     c_MissionID c = (if claim_str subj ''mission_id'' = [] then c_JTI parent
                      else claim_str subj ''mission_id'') \<and>
     actor \<in> set (identities s) \<and> c_Subject c = i_WIMSEURI actor \<and>
     i_Status actor = IdentityStatusActive \<and>
     (\<exists>key cl. parseECPublicKeyPEM E (i_PublicKeyPEM actor) = Some key \<and>
        parse_es256 E key (issuer E) (tk_grant w) (tr_ActorToken req) = Some cl)"
  using assms
proof (rule tokenExchange_Inr)
  fix subj parent actor p ps s1 c scopes
  assume a: "parseToken E (tk_auth w) (tr_SubjectToken req) True = Some subj"
    "IntrospectToken (tk_auth w) (claim_str subj ''jti'') s = (Some parent, True)"
    and v: "verify_assertion E w (\<lambda>(acct, proj). acct = c_AccountID parent \<and> proj = c_ProjectID parent)
       (tr_ActorToken req) s = (Inr actor, s)"
    and b: "s1 = s\<lparr>credential_policies := credential_policies s @ ps\<rparr>"
    "scopes = delegated_scopes (parseScopeString (tr_Scope req)) (c_Scopes parent)
       (effectiveAllowedScopes (Some p) (Some actor))" "scopes \<noteq> []"
    "claim_str subj ''jti'' \<noteq> []"
    and iss: "IssueCredential E w ((empty_issue actor)\<lparr>iq_IdentityPolicyID := p_ID p, iq_Scopes := scopes,
       iq_GrantType := GrantTypeTokenExchange, iq_DelegatedBy := claim_str subj ''sub'',
       iq_ParentJTI := claim_str subj ''jti'',
       iq_DelegationDepth := claim_int subj ''delegation_depth'' + 1,
       iq_MissionID := (if claim_str subj ''mission_id'' = [] then claim_str subj ''jti''
                        else claim_str subj ''mission_id''),
       iq_DPoPKeyThumbprint := tr_DPoPKeyThumbprint req\<rparr>) s1 = (Inr (tok, c), s')"
  have jti: "c_JTI parent = claim_str subj ''jti''"
    using a(2) by (auto simp: IntrospectToken_active Credential_GetByJTI_def dest!: find_SomeD)
  note act = verify_assertion_Inr [OF v]
  have sc: "set scopes \<subseteq> set (c_Scopes parent) \<inter> set (parseScopeString (tr_Scope req))"
    unfolding b(2) using delegated_scopes_subset by blast
  have row: "issued_credentials s' = issued_credentials s @ [c]" "c_JTI c = a_JTI tok"
      "c_ParentJTI c = claim_str subj ''jti''" "c_Scopes c = scopes"
      "c_AccountID c = i_AccountID actor" "c_ProjectID c = i_ProjectID actor"
      "c_DelegationDepth c = claim_int subj ''delegation_depth'' + 1"
      "c_MissionID c = (if claim_str subj ''mission_id'' = [] then claim_str subj ''jti''
                        else claim_str subj ''mission_id'')" "c_Subject c = i_WIMSEURI actor"
    using iss b(1,4) unfolding IssueCredential_Inr
    by (auto simp: empty_issue_def issued_row_def issued_token_def token_mission_def)
  show ?thesis
    using a act jti sc row b(3)
    by (intro exI [of _ parent] exI [of _ c] exI [of _ subj] exI [of _ actor]) auto
qed

text \<open>A closed exchange: an orchestrator's token with scopes read and write, an actor that asks
  for read and admin.\<close>

abbreviation sample_uri :: string where "sample_uri \<equiv> ''spiffe://z.dev/acme/prod/agent/bot''"

definition exchange_env :: env where
  "exchange_env = sample_env\<lparr>
     parse_jwks := (\<lambda>v t x. Some [''jti'' \<mapsto> CStr ''j0'', ''sub'' \<mapsto> CStr ''orch'']),
     parse_insecure := (\<lambda>x. Some [''iss'' \<mapsto> CStr sample_uri]),
     parse_es256 := (\<lambda>k a t x. Some [''iss'' \<mapsto> CStr sample_uri, ''sub'' \<mapsto> CStr ''s'',
       ''exp'' \<mapsto> CTime 100])\<rparr>"

definition exchange_actor :: identity where
  "exchange_actor = sample_identity\<lparr>i_PublicKeyPEM := ''K''\<rparr>"

definition exchange_parent :: credential where
  "exchange_parent = zero_credential\<lparr>c_ID := ''c0'', c_JTI := ''j0'', c_AccountID := ''acme'',
     c_ProjectID := ''prod'', c_Scopes := [''read'', ''write''], c_ExpiresAt := 1000\<rparr>"

definition exchange_db :: db where
  "exchange_db = policy_db\<lparr>identities := [exchange_actor], issued_credentials := [exchange_parent]\<rparr>"

definition empty_request :: token_request where
  "empty_request = \<lparr>tr_GrantType = [], tr_ClientID = [], tr_ClientSecret = [], tr_Scope = [],
     tr_AccountID = [], tr_ProjectID = [], tr_Subject = [], tr_APIKey = [], tr_SubjectToken = [],
     tr_SubjectTokenType = [], tr_ActorToken = [], tr_UserID = [], tr_UserEmail = [],
     tr_UserName = [], tr_ApplicationID = [], tr_AdditionalClaims = [], tr_Code = [],
     tr_CodeVerifier = [], tr_RedirectURI = [], tr_RefreshTokenStr = [], tr_TrustedService = False,
     tr_AuthReqID = [], tr_DPoPKeyThumbprint = []\<rparr>"

definition exchange_req :: token_request where
  "exchange_req = empty_request\<lparr>tr_SubjectToken := ''e.t'', tr_ActorToken := ''a.t'',
     tr_Scope := ''read admin''\<rparr>"

lemma exchange_valid:
  "jwtalg_Validate exchange_env ''e.t''" "jwtalg_Validate exchange_env ''a.t''"
  by (simp_all add: jwtalg_Validate_def exchange_env_def sample_env_def jwt_svid_algs_def)

lemma exchange_introspect:
  "IntrospectToken (tk_auth sample_inputs) ''j0'' exchange_db = (Some exchange_parent, True)"
  by (simp add: IntrospectToken_def Credential_GetByJTI_def exchange_db_def exchange_parent_def
      zero_credential_def sample_inputs_def)

lemma exchange_uri: "parseWIMSEURI exchange_env sample_uri = Some (''acme'', ''prod'')"
  using split4 [of "''acme''" "''prod''" "''agent''" "''bot''"]
  by (simp add: parseWIMSEURI_def exchange_env_def sample_env_def has_prefix_def trim_prefix_def)

lemma exchange_get:
  "Identity_GetByWIMSEURI sample_uri ''acme'' ''prod'' exchange_db = (Inr exchange_actor, exchange_db)"
  by (simp add: Identity_GetByWIMSEURI_def exchange_db_def exchange_actor_def sample_identity_def)

lemma exchange_key: "parseECPublicKeyPEM exchange_env ''K'' = Some ''K''"
  by (simp add: parseECPublicKeyPEM_def exchange_env_def sample_env_def)

lemma exchange_actor_fields:
  "i_PublicKeyPEM exchange_actor = ''K''" "i_WIMSEURI exchange_actor = sample_uri"
  "i_AccountID exchange_actor = ''acme''" "i_ProjectID exchange_actor = ''prod''"
  "i_CredentialPolicyID exchange_actor = ''p1''" "i_AllowedScopes exchange_actor = []"
  "i_ID exchange_actor = ''i1''"
  by (simp_all add: exchange_actor_def sample_identity_def zero_identity_def)

lemma exchange_gate: "gate_identity sample_inputs exchange_actor s = (Inr (), s)"
  by (simp add: gate_identity_Inr exchange_actor_def sample_identity_def sample_inputs_def
      Identity_IsExpired_def expired_at_def)

lemma exchange_assertion:
  "verify_assertion exchange_env sample_inputs
     (\<lambda>(acct, proj). acct = c_AccountID exchange_parent \<and> proj = c_ProjectID exchange_parent)
     ''a.t'' exchange_db = (Inr exchange_actor, exchange_db)"
proof -
  have p: "parse_insecure exchange_env ''a.t'' = Some [''iss'' \<mapsto> CStr sample_uri]"
    "parse_es256 exchange_env ''K'' (issuer exchange_env) t ''a.t'' =
       Some [''iss'' \<mapsto> CStr sample_uri, ''sub'' \<mapsto> CStr ''s'', ''exp'' \<mapsto> CTime 100]" for t
    by (simp_all add: exchange_env_def)
  have t: "c_AccountID exchange_parent = ''acme''" "c_ProjectID exchange_parent = ''prod''"
    by (simp_all add: exchange_parent_def)
  show ?thesis
    by (simp add: verify_assertion_def exchange_valid p claim_str_def exchange_uri t bind_def
        on_error_def exchange_get exchange_gate exchange_actor_fields exchange_key
        claim_present_def ret_def)
qed

lemma exchange_policy: "resolve_policy sample_inputs exchange_actor exchange_db = (Inr sample_policy, exchange_db)"
  by (simp add: resolve_policy_def on_error_def ResolveCredentialPolicy_def exchange_actor_fields
      GetPolicy_def exchange_db_def policy_db_def) (simp add: sample_policy_def)

lemma exchange_succeeds:
  "\<exists>tok s'. tokenExchange exchange_env sample_inputs exchange_req exchange_db = (Inr tok, s')"
proof -
  define ireq where "ireq = (empty_issue exchange_actor)\<lparr>iq_IdentityPolicyID := ''p1'',
    iq_Scopes := [''read''], iq_GrantType := GrantTypeTokenExchange, iq_DelegatedBy := ''orch'',
    iq_ParentJTI := ''j0'', iq_DelegationDepth := 1, iq_MissionID := ''j0'',
    iq_DPoPKeyThumbprint := []\<rparr>"
  have ttl: "issue_ttl exchange_env sample_inputs ireq exchange_actor = Inr 600"
    by (simp add: issue_ttl_def clamp_ttl_def base_ttl_def ireq_def empty_issue_def exchange_env_def
        exchange_actor_def sample_env_def sample_inputs_def sample_identity_def time_Sub_def
        whole_seconds_def)
  have "layer_admits 1 ''p1'' exchange_actor (issue_enforce ireq exchange_actor 600 exchange_db)
      exchange_db"
    by (simp add: layer_admits_def GetPolicy_def exchange_db_def policy_db_def sample_policy_def
        exchange_actor_fields policy_admits_def issue_enforce_def issue_grant_def ireq_def
        empty_issue_def NormalizeGrantType_def urnToShortGrantType_def)
       (simp add: exchange_actor_def sample_identity_def TrustLevelRank_def)
  then have "authorised exchange_env sample_inputs ireq exchange_actor 600 exchange_db"
    using ttl by (simp add: authorised_def exchange_actor_fields)
      (simp add: ireq_def empty_issue_def sample_inputs_def exchange_actor_def sample_identity_def
        expired_at_def)
  then have "\<exists>tok c s'. IssueCredential exchange_env sample_inputs ireq exchange_db = (Inr (tok, c), s')"
    by (rule IssueCredential_serves [rotated])
       (simp_all add: ireq_def empty_issue_def exchange_env_def sample_env_def exchange_db_def
         exchange_parent_def sample_inputs_def)
  then obtain tok c s' where iss:
    "IssueCredential exchange_env sample_inputs ireq exchange_db = (Inr (tok, c), s')" by blast
  have subj: "parseToken exchange_env t ''e.t'' True = Some [''jti'' \<mapsto> CStr ''j0'', ''sub'' \<mapsto> CStr ''orch'']"
    for t by (simp add: parseToken_def exchange_valid) (simp add: exchange_env_def)
  have sc: "delegated_scopes (parseScopeString ''read admin'') (c_Scopes exchange_parent)
      (effectiveAllowedScopes (Some sample_policy) (Some exchange_actor)) = [''read'']"
    by (simp add: delegated_scopes_def parseScopeString_def strings_Fields_def is_space_def
        exchange_parent_def effectiveAllowedScopes_def sample_policy_def)
  have r: "tr_SubjectToken exchange_req = ''e.t''" "tr_ActorToken exchange_req = ''a.t''"
      "tr_Scope exchange_req = ''read admin''" "tr_DPoPKeyThumbprint exchange_req = []"
      "p_ID sample_policy = ''p1''"
    by (simp_all add: exchange_req_def empty_request_def sample_policy_def)
  have "tokenExchange exchange_env sample_inputs exchange_req exchange_db = (Inr tok, s')"
    using iss unfolding ireq_def
    by (simp add: tokenExchange_def Let_def r subj claim_str_def claim_int_def bind_def exchange_introspect
        exchange_assertion exchange_policy sc issue_token_def ret_def)
  then show ?thesis by blast
qed

theorem tokenExchange_attenuates_witness:
  "\<exists>tok s' (parent :: credential) c. tokenExchange exchange_env sample_inputs exchange_req exchange_db = (Inr tok, s') \<and>
     issued_credentials s' = issued_credentials exchange_db @ [c] \<and> c_ParentJTI c = c_JTI parent \<and>
     set (c_Scopes c) \<subseteq> set (c_Scopes parent)"
proof -
  obtain tok s' where e: "tokenExchange exchange_env sample_inputs exchange_req exchange_db = (Inr tok, s')"
    using exchange_succeeds by blast
  have "tr_ActorToken exchange_req \<noteq> []" by (simp add: exchange_req_def)
  from tokenExchange_attenuates [OF e this] obtain parent c :: credential where
    "issued_credentials s' = issued_credentials exchange_db @ [c]" "c_ParentJTI c = c_JTI parent"
    "set (c_Scopes c) \<subseteq> set (c_Scopes parent) \<inter> set (parseScopeString (tr_Scope exchange_req))"
    by blast
  with e show ?thesis by blast
qed

subsection \<open>The scope chain of API keys\<close>

lemma intersectScopes_subset:
  "allowed \<noteq> [] \<Longrightarrow> set (intersectScopes requested allowed) \<subseteq> set allowed"
  by (auto simp: intersectScopes_def)

lemma intersectScopes_keeps:
  "requested \<noteq> [] \<Longrightarrow> set (intersectScopes requested allowed) \<subseteq> set requested"
  by (auto simp: intersectScopes_def)

text \<open>
  The scope chain of the API-key grant stays within every layer as long as no layer empties
  it: if the key's scopes, then the key policy's, then the identity policy's leave at least one
  scope, the result lies within each of the restricting layers and the request.
\<close>

theorem api_key_scopes_within:
  assumes "requested \<noteq> []" and "intersectScopes requested (k_Scopes sk) \<noteq> []"
    and "intersectScopes (intersectScopes requested (k_Scopes sk)) (p_AllowedScopes kp) \<noteq> []"
    and "intersectScopes (intersectScopes (intersectScopes requested (k_Scopes sk))
           (p_AllowedScopes kp)) pscopes \<noteq> []"
  shows "let granted = set (api_key_scopes requested sk (Some kp) pscopes i) in
     granted \<subseteq> set requested \<and> (k_Scopes sk \<noteq> [] \<longrightarrow> granted \<subseteq> set (k_Scopes sk)) \<and>
     (p_AllowedScopes kp \<noteq> [] \<longrightarrow> granted \<subseteq> set (p_AllowedScopes kp)) \<and>
     (pscopes \<noteq> [] \<longrightarrow> granted \<subseteq> set pscopes)"
proof -
  define s1 s2 s3 s4 where s: "s1 = intersectScopes requested (k_Scopes sk)"
    "s2 = intersectScopes s1 (p_AllowedScopes kp)" "s3 = intersectScopes s2 pscopes"
    "s4 = api_key_scopes requested sk (Some kp) pscopes i"
  have eq: "s4 = (if pscopes = [] then intersectScopes s3 (i_AllowedScopes i) else s3)"
    by (simp add: s api_key_scopes_def Let_def)
  have sub: "set s1 \<subseteq> set requested" "set s2 \<subseteq> set s1" "set s3 \<subseteq> set s2" "set s4 \<subseteq> set s3"
    using assms intersectScopes_keeps unfolding s(1-3) eq by auto
  have "k_Scopes sk \<noteq> [] \<Longrightarrow> set s1 \<subseteq> set (k_Scopes sk)"
      "p_AllowedScopes kp \<noteq> [] \<Longrightarrow> set s2 \<subseteq> set (p_AllowedScopes kp)"
      "pscopes \<noteq> [] \<Longrightarrow> set s3 \<subseteq> set pscopes"
    using intersectScopes_subset unfolding s(1-3) by blast+
  with sub show ?thesis unfolding Let_def s(4) [symmetric] by blast
qed

definition sample_key :: api_key where
  "sample_key = \<lparr>k_ID = ''k1'', k_Name = [], k_Description = [], k_KeyPrefix = [], k_KeyHash = ''hk'',
     k_KeyVersion = 1, k_AccountID = ''acme'', k_ProjectID = ''prod'', k_IdentityID = ''i1'',
     k_CreatedBy = ''alice'', k_Scopes = [''read''], k_Product = [], k_Environment = [],
     k_ExpiresAt = None, k_State = APIKeyStateActive, k_RevokedAt = None, k_RevokedBy = [],
     k_RevokeReason = [], k_LastUsedAt = None, k_LastUsedIP = [], k_UsageCount = 0,
     k_Metadata = [], k_IPAllowlist = [], k_CredentialPolicyID = [], k_RateLimitRPS = 0,
     k_ReplacedBy = [], k_CreatedAt = 0, k_UpdatedAt = 0\<rparr>"

theorem api_key_scopes_within_witness:
  "set (api_key_scopes [''read'', ''admin''] sample_key (Some sample_policy) [''read''] sample_identity)
     \<subseteq> set (k_Scopes sample_key)"
  using api_key_scopes_within [of "[''read'', ''admin'']" sample_key sample_policy "[''read'']" sample_identity]
  by (simp add: intersectScopes_def sample_key_def sample_policy_def Let_def)

text \<open>
  When a layer does empty the chain, the next one widens it again: a key restricted to
  \<open>read\<close> asked for \<open>write\<close> is given every scope of the identity's policy, among them \<open>write\<close>
  and \<open>admin\<close>, which neither the key nor, for \<open>admin\<close>, the request names.
\<close>

theorem api_key_scopes_widen:
  "\<exists>sk. k_Scopes sk = [''read''] \<and>
     api_key_scopes [''write''] sk None [''write'', ''admin''] sample_identity = [''write'', ''admin'']"
  by (rule exI [of _ sample_key]) (simp add: api_key_scopes_def intersectScopes_def sample_key_def)

subsection \<open>Claims of external principals\<close>

definition jwt_set_local :: "env \<Rightarrow> bool" where
  "jwt_set_local E \<longleftrightarrow> (\<forall>k v cl k'. k' \<noteq> k \<longrightarrow> jwt_set E k v cl k' = cl k')"

lemma fold_jwt_set:
  assumes "jwt_set_local E" "k \<notin> fst ` set cs"
  shows "fold (\<lambda>(k, v). jwt_set E k v) cs cl k = cl k"
  using assms(2)
proof (induction cs arbitrary: cl)
  case (Cons x xs)
  obtain k1 v1 where x: "x = (k1, v1)" by (cases x)
  with Cons.prems have "k \<noteq> k1" "k \<notin> fst ` set xs" by auto
  with Cons.IH [of "jwt_set E k1 v1 cl"] assms(1) x show ?case
    by (simp add: jwt_set_local_def)
qed simp

text \<open>
  Additional claims of a trusted service cannot overwrite what the server states about the
  principal: every reserved claim of the signed token (other than \<open>act\<close> and \<open>cnf\<close>, which are set
  afterwards, and the two markers of the exchange) has the value the server set, whatever
  the caller supplies. The hypothesis is that the setter of the JWT library changes no other
  claim than the one it is given.
\<close>

theorem external_claims_reserved:
  assumes "jwt_set_local E" and "k \<in> set reservedClaims"
    and "k \<notin> {''act'', ''cnf'', ''token_exchange'', ''trusted_by''}"
    and "iq_CustomClaims req = external_claims svcName additional"
  shows "issue_claims E w req i g t k = server_claims E w req i g t k"
proof -
  have "k \<notin> fst ` set (iq_CustomClaims req)"
    using assms(2-4) by (auto simp: external_claims_def)
  with fold_jwt_set [OF assms(1) this] assms(3) show ?thesis
    by (simp add: issue_claims_def Let_def set_if_def)
qed

theorem external_claims_reserved_witness:
  "issue_claims sample_env sample_inputs
     (sample_issue\<lparr>iq_CustomClaims := external_claims ''gw'' [(''sub'', CStr ''root'')]\<rparr>)
     sample_identity GrantTypeTokenExchange 9 ''sub'' = Some (CStr (i_WIMSEURI sample_identity))"
proof -
  let ?req = "sample_issue\<lparr>iq_CustomClaims := external_claims ''gw'' [(''sub'', CStr ''root'')]\<rparr>"
  have l: "jwt_set_local sample_env" by (simp add: jwt_set_local_def sample_env_def)
  have "issue_claims sample_env sample_inputs ?req sample_identity GrantTypeTokenExchange 9 ''sub'' =
      server_claims sample_env sample_inputs ?req sample_identity GrantTypeTokenExchange 9 ''sub''"
    by (rule external_claims_reserved [OF l]) (simp_all add: reservedClaims_def)
  also have "\<dots> = Some (CStr (i_WIMSEURI sample_identity))"
    by (simp add: server_claims_def Let_def set_if_def token_subject_def sample_issue_def
        empty_issue_def)
  finally show ?thesis .
qed

text \<open>
  The mission identifier is not reserved: a trusted service can have a token signed whose
  \<open>mission_id\<close> claim names another delegation tree than the stored credential.
\<close>

theorem mission_claim_overridable:
  "\<exists>req. iq_CustomClaims req = external_claims ''gw'' [(''mission_id'', CStr ''other'')] \<and>
     issue_claims sample_env sample_inputs req sample_identity GrantTypeTokenExchange 9 ''mission_id'' =
       Some (CStr ''other'') \<and>
     c_MissionID (issued_row sample_inputs req sample_identity GrantTypeTokenExchange 60 9) = ''j1''"
  by (rule exI [of _ "(empty_issue sample_identity)\<lparr>iq_CustomClaims :=
        external_claims ''gw'' [(''mission_id'', CStr ''other'')]\<rparr>"])
     (simp add: external_claims_def reservedClaims_def issue_claims_def Let_def set_if_def
       sample_env_def issued_row_def token_mission_def sample_inputs_def empty_issue_def)

subsection \<open>Revocation by token\<close>

text \<open>
  Revocation by token works on live tokens: whoever presents a token whose credential is
  active makes introspection report it inactive from then on, for every time and every later
  presentation of a token with that identifier; a token past its expiry is left as it is.
\<close>

theorem OAuth_Revoke_spec:
  assumes "parseToken E now tokenStr False = Some cl" and "claim_str cl ''jti'' = jti" and "jti \<noteq> []"
    and "Credential_GetByJTI jti s = Some c"
  shows "(cred_active now c \<longrightarrow> (\<forall>t tok cl'. parseToken E t tok True = Some cl' \<and>
      claim_str cl' ''jti'' = jti \<longrightarrow> Introspect E t tok (OAuth_Revoke E now tokenStr s) = InactiveToken)) \<and>
    (c_ExpiresAt c < now \<longrightarrow> OAuth_Revoke E now tokenStr s = s)"
proof (intro conjI impI allI)
  assume act: "cred_active now c"
  then have "\<not> c_IsRevoked c" "\<not> c_ExpiresAt c < now" by (auto simp: cred_active_def)
  with assms have eq: "OAuth_Revoke E now tokenStr s =
      RevokeCredential now (c_ID c) (c_AccountID c) (c_ProjectID c) ''oauth2_revocation'' s"
    by (simp add: OAuth_Revoke_def Let_def)
  fix t tok cl' assume "parseToken E t tok True = Some cl' \<and> claim_str cl' ''jti'' = jti"
  moreover have "\<not> snd (IntrospectToken t jti (OAuth_Revoke E now tokenStr s))"
    unfolding eq RevokeCredential_def using revoked_inactive [OF assms(4) act] by simp
  ultimately show "Introspect E t tok (OAuth_Revoke E now tokenStr s) = InactiveToken"
    by (cases "IntrospectToken t jti (OAuth_Revoke E now tokenStr s)")
       (auto simp: Introspect_def Let_def split: option.splits)
next
  assume "c_ExpiresAt c < now"
  with assms show "OAuth_Revoke E now tokenStr s = s" by (simp add: OAuth_Revoke_def Let_def)
qed

theorem OAuth_Revoke_spec_witness:
  "Introspect exchange_env 6 ''e.t'' (OAuth_Revoke exchange_env 5 ''e.t'' exchange_db) = InactiveToken \<and>
   OAuth_Revoke exchange_env 2000 ''e.t'' exchange_db = exchange_db"
proof -
  have p: "parseToken exchange_env t ''e.t'' v = Some [''jti'' \<mapsto> CStr ''j0'', ''sub'' \<mapsto> CStr ''orch'']" for t v
    by (simp add: parseToken_def exchange_valid) (simp add: exchange_env_def)
  have j: "claim_str [''jti'' \<mapsto> CStr ''j0'', ''sub'' \<mapsto> CStr ''orch''] ''jti'' = ''j0''"
    by (simp add: claim_str_def)
  have g: "Credential_GetByJTI ''j0'' exchange_db = Some exchange_parent"
    by (simp add: Credential_GetByJTI_def exchange_db_def exchange_parent_def)
  have f: "cred_active 5 exchange_parent" "c_ExpiresAt exchange_parent < 2000"
    by (simp_all add: cred_active_def exchange_parent_def zero_credential_def)
  show ?thesis
    using OAuth_Revoke_spec [OF p j _ g, of 5] OAuth_Revoke_spec [OF p j _ g, of 2000] f p j by blast
qed

end
