(* ===== verification/Zeroid_Grants.thy ===== *)
theory Zeroid_Grants
  imports Zeroid_OAuth
begin

text \<open>
  Properties of the grants as a whole: each is an operation on the credential table that mints
  at most its own token, authorization codes are redeemed at most once and a replay revokes
  what the code gave, and the refresh grant's order of rotation and client test.
\<close>

subsection \<open>Every grant is a credential operation\<close>

definition cred_step :: "string set \<Rightarrow> db \<Rightarrow> db \<Rightarrow> bool" where
  "cred_step M s s' \<longleftrightarrow> cred_evolves M (issued_credentials s) (issued_credentials s') \<and>
     (unique_by credential_conflict (issued_credentials s) \<longrightarrow>
      unique_by credential_conflict (issued_credentials s'))"

interpretation cred: effect "cred_step M"
proof
  show "cred_step M s s" for s by (simp add: cred_step_def)
  show "cred_step M s u" if "cred_step M s t" "cred_step M t u" for s t u
    using that cred_evolves_trans [of M _ _ M] by (auto simp: cred_step_def)
qed

interpretation codes: effect "\<lambda>s s'. auth_codes s' = auth_codes s"
  by unfold_locales simp_all

lemma cred_step_op: "credential_op op N \<Longrightarrow> N \<subseteq> M \<Longrightarrow> cred_step M s (op s)"
  unfolding cred_step_def
  using cred_evolves_mono [OF credential_op.evolves] credential_op.keeps_unique by blast

lemma cred_step_same: "issued_credentials s' = issued_credentials s \<Longrightarrow> cred_step M s s'"
  by (simp add: cred_step_def)

lemma keeps_issue_token:
  "keeps (cred_step {fr_jti w}) (issue_token E w req)"
  "keeps (\<lambda>s s'. auth_codes s' = auth_codes s) (issue_token E w req)"
proof -
  have snd: "snd (issue_token E w req s) = snd (IssueCredential E w req s)" for s
    by (auto simp: issue_token_def bind_def ret_def split: prod.splits sum.splits)
  show "keeps (cred_step {fr_jti w}) (issue_token E w req)"
    unfolding keeps_def snd using cred_step_op [OF issue_op.credential_op_axioms] by simp
  have "auth_codes (snd (IssueCredential E w req s)) = auth_codes s" for s
    by (cases rule: IssueCredential_effect [of E w req s]) simp_all
  then show "keeps (\<lambda>s s'. auth_codes s' = auth_codes s) (issue_token E w req)"
    by (simp add: keeps_def snd)
qed

lemma keeps_gate:
  "keeps (cred_step M) (gate_identity w i)" "keeps (\<lambda>s s'. auth_codes s' = auth_codes s) (gate_identity w i)"
  unfolding gate_identity_def
  by (intro cred.keeps_intros) (intro codes.keeps_intros)

lemma keeps_resolve:
  "keeps (cred_step M) (resolve_policy w i)"
  "keeps (\<lambda>s s'. auth_codes s' = auth_codes s) (resolve_policy w i)"
proof -
  have "issued_credentials (snd (resolve_policy w i s)) = issued_credentials s \<and>
      auth_codes (snd (resolve_policy w i s)) = auth_codes s" for s
    using resolve_policy_effect [of w i s "fst (resolve_policy w i s)" "snd (resolve_policy w i s)"]
    by auto
  then show "keeps (cred_step M) (resolve_policy w i)"
    "keeps (\<lambda>s s'. auth_codes s' = auth_codes s) (resolve_policy w i)"
    by (simp_all add: keeps_def cred_step_same)
qed

lemma reads [simp]:
  "snd (Identity_GetByID r a p s) = s" "snd (Identity_GetByExternalID r a p s) = s"
  "snd (Identity_GetByWIMSEURI r a p s) = s" "snd (APIKey_GetByKeyHash now h s) = s"
  "snd (GetPolicy pid a p s) = s"
  by (simp_all add: Identity_GetByID_def Identity_GetByExternalID_def Identity_GetByWIMSEURI_def
      APIKey_GetByKeyHash_def GetPolicy_def split: option.split)

lemma keeps_linked:
  "keeps (cred_step M) (linked_identity w link acct proj)"
  "keeps (\<lambda>s s'. auth_codes s' = auth_codes s) (linked_identity w link acct proj)"
  unfolding linked_identity_def
  by (intro cred.keeps_intros cred.keeps_read keeps_gate keeps_resolve reads)
     (intro codes.keeps_intros codes.keeps_read keeps_gate keeps_resolve reads)

lemma keeps_assertion: "keeps (cred_step M) (verify_assertion E w check a)"
  unfolding verify_assertion_def Let_def
  by (intro cred.keeps_intros cred.keeps_read keeps_gate reads)

lemma keeps_clientCredentials: "keeps (cred_step {fr_jti w}) (clientCredentials E w req)"
  unfolding clientCredentials_def Let_def
  by (intro cred.keeps_intros cred.keeps_read keeps_gate keeps_resolve keeps_issue_token reads) simp

lemma keeps_jwtBearer: "keeps (cred_step {fr_jti w}) (jwtBearer E w req)"
  unfolding jwtBearer_def Let_def
  by (intro cred.keeps_intros keeps_assertion keeps_resolve keeps_issue_token)

lemma keeps_external: "keeps (cred_step {fr_jti w}) (ExternalPrincipalExchange E w req)"
  unfolding ExternalPrincipalExchange_def external_identity_def policy_id_if_row_def Let_def
  by (intro cred.keeps_intros cred.keeps_read keeps_gate keeps_resolve keeps_issue_token reads)

lemma keeps_exchange: "keeps (cred_step {fr_jti w}) (tokenExchange E w req)"
  unfolding tokenExchange_def Let_def
  by (intro cred.keeps_intros keeps_external keeps_assertion keeps_resolve keeps_issue_token
      cred.keeps_read) (simp split: prod.split option.split bool.split)

lemma keeps_apiKey: "keeps (cred_step {fr_jti w}) (apiKeyGrant E w req)"
proof -
  have ident: "keeps (cred_step {fr_jti w}) (api_key_identity w sk)" for sk
    unfolding api_key_identity_def Let_def
  proof (intro keeps_if cred.keeps_ret keepsI)
    fix s
    obtain r s' where g: "Identity_GetByID (k_IdentityID sk) (k_AccountID sk) (k_ProjectID sk) s = (r, s')"
      by fastforce
    have "s' = s" using reads(1) g by (metis snd_conv)
    moreover have "keeps (cred_step {fr_jti w}) (bind (gate_identity w i) (\<lambda>_. ret i))" for i
      by (intro cred.keeps_intros keeps_gate)
    ultimately show "cred_step {fr_jti w} s
        (snd (case Identity_GetByID (k_IdentityID sk) (k_AccountID sk) (k_ProjectID sk) s of
          (Inl x, s') \<Rightarrow> (Inr (zero_identity\<lparr>i_AccountID := k_AccountID sk,
            i_ProjectID := k_ProjectID sk, i_Status := IdentityStatusActive\<rparr>), s')
        | (Inr i, s') \<Rightarrow> bind (gate_identity w i) (\<lambda>_. ret i) s'))"
      using g by (cases r) (auto simp: keepsD cred.R_refl)
  qed
  have last: "keeps (cred_step {fr_jti w}) (\<lambda>s. (Inr (f tok), APIKey_UpdateLastUsed t k ip s))" for f tok t k ip
    by (rule keepsI) (simp add: cred_step_same APIKey_UpdateLastUsed_def)
  show ?thesis
    unfolding apiKeyGrant_def
    by (intro cred.keeps_intros cred.keeps_read keeps_resolve keeps_issue_token reads ident last)
qed

lemma keeps_refresh_with: "keeps (cred_step {fr_jti w}) (refresh_with E w fault req a r)"
proof -
  have rot: "keeps (cred_step {fr_jti w}) (RotateRefreshToken E w fault raw ttl d)" for raw ttl d
    by (rule keepsI) (rule cred_step_op [OF rotate_refresh_op.credential_op_axioms], simp)
  show ?thesis
    unfolding refresh_with_def by (intro cred.keeps_intros rot keeps_linked keeps_issue_token)
qed

lemma keeps_refreshToken: "keeps (cred_step {fr_jti w}) (refreshToken E w fault req)"
  unfolding refreshToken_def
  by (intro keeps_if cred.keeps_throw keepsI) (simp add: keepsD [OF keeps_refresh_with] split: prod.split)

subsection \<open>Authorization codes are single use\<close>

lemma keeps_check:
  "snd (check_auth_code E w req s) = s"
  by (auto simp: check_auth_code_def ret_def throw_def split: option.splits if_splits)

lemma codes_revoke [simp]:
  "auth_codes (RevokeCredential now c a p r s) = auth_codes s"
  "auth_codes (snd (RevokeFamily now f s)) = auth_codes s"
  by (simp_all add: RevokeCredential_def Credential_Revoke_def RevokeFamily_def Let_def)

lemma codes_revokeAuthCodeTokens [simp]:
  "auth_codes (revokeAuthCodeTokens w jti s) = auth_codes s"
  by (auto simp: revokeAuthCodeTokens_def Let_def split: option.splits)

lemma codes_issue_refresh [simp]: "auth_codes (snd (IssueRefreshToken E w p s)) = auth_codes s"
  by (simp add: IssueRefreshToken_def Let_def bind_def on_error_def Refresh_Create_def ret_def
      split: option.split)

lemma codes_update [simp]:
  "ac_JTI ` set (auth_codes (AuthCode_UpdateTokenInfo jti c f s)) = ac_JTI ` set (auth_codes s)"
  unfolding AuthCode_UpdateTokenInfo_def by (simp, rule image_update_where) simp

definition code_jtis :: "db \<Rightarrow> string set" where
  "code_jtis s = ac_JTI ` set (auth_codes s)"

interpretation jtis: effect "\<lambda>s s'. code_jtis s' = code_jtis s"
  by unfold_locales simp_all

lemma keeps_jtis: "keeps (\<lambda>s s'. auth_codes s' = auth_codes s) m \<Longrightarrow> keeps (\<lambda>s s'. code_jtis s' = code_jtis s) m"
  by (simp add: keeps_def code_jtis_def)

lemma finish_effect:
  obtains f where "snd (finish_auth_code E w req ac client tok s) =
      AuthCode_UpdateTokenInfo (acc_JTI ac) (a_JTI tok) f s"
  | p f where "snd (finish_auth_code E w req ac client tok s) =
      AuthCode_UpdateTokenInfo (acc_JTI ac) (a_JTI tok) f (snd (IssueRefreshToken E w p s))"
proof (cases "GrantTypeRefreshToken \<in> set (o_GrantTypes client)")
  case True
  let ?p = "\<lparr>rp_ClientID = tr_ClientID req, rp_AccountID = acc_AccountID ac,
    rp_ProjectID = acc_ProjectID ac, rp_UserID = acc_UserID ac, rp_IdentityID = o_IdentityID client,
    rp_Scopes = join_sp (acc_Scopes ac), rp_TTL = o_RefreshTokenTTL client,
    rp_DPoPKeyThumbprint = tr_DPoPKeyThumbprint req\<rparr>"
  obtain r s1 where e: "IssueRefreshToken E w ?p s = (r, s1)" by fastforce
  with True that(2) [of _ ?p] show thesis by (cases r) (simp_all add: finish_auth_code_def Let_def)
next
  case False
  with that(1) show thesis by (simp add: finish_auth_code_def Let_def)
qed

lemma update_info_credentials [simp]:
  "issued_credentials (AuthCode_UpdateTokenInfo j c f s) = issued_credentials s"
  by (simp add: AuthCode_UpdateTokenInfo_def)

lemma issue_refresh_credentials [simp]:
  "issued_credentials (snd (IssueRefreshToken E w p s)) = issued_credentials s"
  by (simp add: IssueRefreshToken_def Let_def bind_def on_error_def Refresh_Create_def ret_def
      split: option.split)

lemma keeps_finish:
  "keeps (cred_step M) (finish_auth_code E w req ac client tok)"
  "keeps (\<lambda>s s'. code_jtis s' = code_jtis s) (finish_auth_code E w req ac client tok)"
proof -
  show "keeps (cred_step M) (finish_auth_code E w req ac client tok)"
  proof (intro keepsI cred_step_same)
    show "issued_credentials (snd (finish_auth_code E w req ac client tok s)) = issued_credentials s"
      for s by (cases rule: finish_effect [of E w req ac client tok s]) simp_all
  qed
  show "keeps (\<lambda>s s'. code_jtis s' = code_jtis s) (finish_auth_code E w req ac client tok)"
  proof (rule keepsI)
    show "code_jtis (snd (finish_auth_code E w req ac client tok s)) = code_jtis s" for s
      by (cases rule: finish_effect [of E w req ac client tok s]) (simp_all add: code_jtis_def)
  qed
qed

lemma keeps_redeem:
  "keeps (cred_step {fr_jti w}) (redeem_auth_code E w req ac client)"
  "keeps (\<lambda>s s'. code_jtis s' = code_jtis s) (redeem_auth_code E w req ac client)"
  unfolding redeem_auth_code_def
  by (intro cred.keeps_intros keeps_linked keeps_issue_token keeps_finish)
     (intro jtis.keeps_intros keeps_jtis keeps_linked keeps_issue_token keeps_finish)

lemma consume_code_effect:
  "consume_code w ac s = (if acc_JTI ac \<in> code_jtis s
     then (Inl (oauthBadRequest InvalidGrant), revokeAuthCodeTokens w (acc_JTI ac) s)
     else (Inr (), s\<lparr>auth_codes := auth_codes s @ [consume_row w ac]\<rparr>))"
  by (auto simp: consume_code_def AuthCode_Consume_def insert_row_def consume_row_def code_jtis_def image_iff)
     metis

lemma keeps_revokeAuthCodeTokens: "cred_step M s (revokeAuthCodeTokens w jti s)"
proof -
  have r: "cred_step M s (RevokeCredential t c a p reason s)" for t c a p reason s
    by (rule cred_step_op [OF revoke_op.credential_op_axioms]) simp
  have f: "cred_step M s (snd (RevokeFamily t f s'))" if "cred_step M s s'" for t f s'
    using that by (simp add: cred_step_def)
  show ?thesis
    by (auto simp: revokeAuthCodeTokens_def Let_def r f cred.R_refl split: option.split)
qed

lemma keeps_authorizationCode: "keeps (cred_step {fr_jti w}) (authorizationCode E w req)"
proof -
  have c: "keeps (cred_step {fr_jti w}) (consume_code w ac)" for ac
    by (rule keepsI) (simp add: consume_code_effect keeps_revokeAuthCodeTokens cred_step_same)
  have k: "keeps (cred_step {fr_jti w}) (check_auth_code E w req)"
    by (rule cred.keeps_read) (rule keeps_check)
  show ?thesis
    unfolding authorizationCode_def by (intro cred.keeps_intros c k keeps_redeem)
qed

text \<open>One request for the code with identifier \<open>jti\<close>: any request whose code decodes to it.\<close>

definition code_claim :: "env \<Rightarrow> string \<Rightarrow> inputs \<times> token_request \<Rightarrow> db \<Rightarrow> bool \<times> db" where
  "code_claim E jti a s =
     (case a of (w, req) \<Rightarrow>
        (case decodeAuthCodeJWT E (tk_auth w) (tr_Code req) of
           None \<Rightarrow> (False, s)
         | Some ac \<Rightarrow>
             if acc_JTI ac \<noteq> jti then (False, s)
             else (case authorizationCode E w req s of
                     (Inl _, s') \<Rightarrow> (False, s') | (Inr _, s') \<Rightarrow> (True, s'))))"

lemma check_auth_code_Inr:
  assumes "check_auth_code E w req s = (Inr (ac, client), s')"
  shows "s' = s \<and> decodeAuthCodeJWT E (tk_auth w) (tr_Code req) = Some ac \<and>
     acc_ClientID ac = tr_ClientID req \<and> GetPublicClient (tr_ClientID req) s = Some client \<and>
     GrantTypeAuthorizationCode \<in> set (o_GrantTypes client) \<and>
     normalizeLoopback (acc_RedirectURI ac) = normalizeLoopback (tr_RedirectURI req) \<and>
     sha256_b64url E (tr_CodeVerifier req) = acc_CodeChallenge ac"
  using assms
  by (auto simp: check_auth_code_def verifyCodeChallenge_def split: if_splits option.splits)

lemma authorizationCode_Inr:
  assumes "authorizationCode E w req s = (Inr tok, s')"
  obtains ac client where "check_auth_code E w req s = (Inr (ac, client), s)"
    "acc_JTI ac \<notin> code_jtis s"
    "redeem_auth_code E w req ac client (s\<lparr>auth_codes := auth_codes s @ [consume_row w ac]\<rparr>) = (Inr tok, s')"
proof -
  from assms obtain ac client s1 s2 where a: "check_auth_code E w req s = (Inr (ac, client), s1)"
      "consume_code w ac s1 = (Inr (), s2)" "redeem_auth_code E w req ac client s2 = (Inr tok, s')"
    by (auto simp: authorizationCode_def bind_Inr)
  moreover have "s1 = s" using check_auth_code_Inr [OF a(1)] by simp
  ultimately show thesis using that by (auto simp: consume_code_effect split: if_splits)
qed

lemma code_jtis_grow: "code_jtis s \<subseteq> code_jtis (snd (authorizationCode E w req s))"
proof -
  obtain r s1 where c: "check_auth_code E w req s = (r, s1)" by fastforce
  have s1: "s1 = s" using keeps_check c by (metis snd_conv)
  show ?thesis
  proof (cases r)
    case (Inr p)
    obtain ac client where p: "p = (ac, client)" by (cases p)
    have "code_jtis (snd (redeem_auth_code E w req ac client s2)) = code_jtis s2" for s2
      using keepsD [OF keeps_redeem(2)] .
    moreover have "code_jtis (revokeAuthCodeTokens w j s) = code_jtis s" for j
      by (simp add: code_jtis_def)
    ultimately show ?thesis
      using c s1 Inr p
      by (auto simp: authorizationCode_def bind_def consume_code_effect)
         (auto simp: code_jtis_def)
  qed (use c s1 in \<open>simp add: authorizationCode_def bind_def\<close>)
qed

interpretation code_use: single_use "code_claim E" "\<lambda>jti s. jti \<in> code_jtis s" "\<lambda>_. True"
proof
  fix jti jti' :: string and a :: "inputs \<times> token_request" and s s' :: db
  obtain w req where a: "a = (w, req)" by (cases a)
  show "jti \<in> code_jtis s'" if "code_claim E jti a s = (True, s')"
  proof -
    from that obtain ac tok where d: "decodeAuthCodeJWT E (tk_auth w) (tr_Code req) = Some ac"
        "acc_JTI ac = jti" and g: "authorizationCode E w req s = (Inr tok, s')"
      by (auto simp: code_claim_def a split: option.splits if_splits prod.splits sum.splits)
    from g show ?thesis
    proof (rule authorizationCode_Inr)
      fix ac' client
      assume c: "check_auth_code E w req s = (Inr (ac', client), s)" and
        r: "redeem_auth_code E w req ac' client (s\<lparr>auth_codes := auth_codes s @ [consume_row w ac']\<rparr>) =
          (Inr tok, s')"
      have "code_jtis s' = code_jtis (s\<lparr>auth_codes := auth_codes s @ [consume_row w ac']\<rparr>)"
        using keepsD [OF keeps_redeem(2)] r by (metis snd_conv)
      then show ?thesis
        using check_auth_code_Inr [OF c] d by (simp add: code_jtis_def consume_row_def)
    qed
  qed
  show "\<not> fst (code_claim E jti a s)" if "jti \<in> code_jtis s"
    using that check_auth_code_Inr
    by (auto simp: code_claim_def a split: option.splits if_splits prod.splits sum.splits
        elim!: authorizationCode_Inr)
  show "jti \<in> code_jtis (snd (code_claim E jti' a s))" if "jti \<in> code_jtis s"
    using that code_jtis_grow [of s E w req]
    by (auto simp: code_claim_def a split: option.splits prod.splits sum.splits)
qed simp

text \<open>
  C4. An authorization code is redeemed at most once: in any sequence of token requests, at most
  one succeeds among those whose code decodes to the same identifier.
\<close>

theorem auth_code_single_use:
  "wins jti (fst (run_claims (code_claim E) attempts s)) \<le> 1"
  by (rule code_use.run_at_most_once) simp


text \<open>A closed replay: a public client, a consumed code, its token and its refresh family.\<close>

definition sample_client :: oauth_client where
  "sample_client = \<lparr>o_ID = ''o1'', o_ClientID = ''app'', o_ClientSecret = [], o_Name = [],
     o_Description = [], o_ClientType = ''public'', o_TokenEndpointAuthMethod = ''none'',
     o_GrantTypes = [GrantTypeAuthorizationCode, GrantTypeRefreshToken],
     o_RedirectURIs = [''http://localhost:1/cb''], o_Scopes = [], o_ClientNotificationEndpoint = [],
     o_BackchannelTokenDeliveryMode = [], o_AccessTokenTTL = 0, o_RefreshTokenTTL = 0,
     o_ClientSecretExpiresAt = None, o_JWKSURI = [], o_JWKS = [], o_SoftwareID = [],
     o_SoftwareVersion = [], o_Contacts = [], o_Metadata = [], o_IdentityID = None,
     o_RegistrationSource = [], o_RegistrationAccessToken = [], o_IsActive = True,
     o_CreatedAt = 0, o_UpdatedAt = 0\<rparr>"

definition code_env :: env where
  "code_env = sample_env\<lparr>parse_hs256 := (\<lambda>k t x. Some [''iss'' \<mapsto> CStr ''ui'',
     ''sub'' \<mapsto> CStr ''auth-code'', ''jti'' \<mapsto> CStr ''code1'', ''exp'' \<mapsto> CTime 300,
     ''cid'' \<mapsto> CStr ''app'', ''cc'' \<mapsto> CStr ''bver'', ''ruri'' \<mapsto> CStr ''http://127.0.0.1:1/cb'',
     ''uid'' \<mapsto> CStr ''u1'', ''aid'' \<mapsto> CStr ''acme'', ''pid'' \<mapsto> CStr ''prod'',
     ''scp'' \<mapsto> CStrs [''read'']])\<rparr>"

definition code_req :: token_request where
  "code_req = empty_request\<lparr>tr_Code := ''c.o.d'', tr_CodeVerifier := ''ver'', tr_ClientID := ''app'',
     tr_RedirectURI := ''http://localhost:1/cb''\<rparr>"

definition code_claims :: auth_code_claims where
  "code_claims = \<lparr>acc_JTI = ''code1'', acc_ExpiresAt = 300, acc_ClientID = ''app'',
     acc_CodeChallenge = ''bver'', acc_RedirectURI = ''http://127.0.0.1:1/cb'', acc_Scopes = [''read''],
     acc_UserID = ''u1'', acc_OrgID = [], acc_AccountID = ''acme'', acc_ProjectID = ''prod''\<rparr>"

definition consumed_row :: auth_code where
  "consumed_row = (consume_row sample_inputs code_claims)\<lparr>ac_CredentialJTI := Some ''j0'',
     ac_RefreshFamilyID := Some ''f0''\<rparr>"

definition replay_db :: db where
  "replay_db = empty_db\<lparr>oauth_clients := [sample_client], auth_codes := [consumed_row],
     issued_credentials := [exchange_parent], refresh_tokens := [sample_rt]\<rparr>"

lemma code_decodes: "decodeAuthCodeJWT code_env t ''c.o.d'' = Some code_claims"
  by (simp add: decodeAuthCodeJWT_def code_env_def sample_env_def claim_str_def claim_time_def
      claim_strings_def code_claims_def)

lemma loopback_same: "normalizeLoopback ''http://127.0.0.1:1/cb'' = ''http://localhost:1/cb''"
  "normalizeLoopback ''http://localhost:1/cb'' = ''http://localhost:1/cb''"
  by (simp_all add: normalizeLoopback_def has_prefix_def)

lemma code_checks: "check_auth_code code_env sample_inputs code_req replay_db =
    (Inr (code_claims, sample_client), replay_db)"
proof -
  have r: "tr_Code code_req = ''c.o.d''" "tr_CodeVerifier code_req = ''ver''"
    "tr_ClientID code_req = ''app''" "tr_RedirectURI code_req = ''http://localhost:1/cb''"
    "hmacSecret code_env = ''k''" "verifyCodeChallenge code_env ''ver'' ''bver''"
    by (simp_all add: code_req_def code_env_def sample_env_def verifyCodeChallenge_def)
  have c: "GetPublicClient ''app'' replay_db = Some sample_client"
    by (simp add: GetPublicClient_def OAuthClient_GetPublicByClientID_def replay_db_def sample_client_def)
  have f: "acc_ClientID code_claims = ''app''" "acc_CodeChallenge code_claims = ''bver''"
    "acc_RedirectURI code_claims = ''http://127.0.0.1:1/cb''"
    "GrantTypeAuthorizationCode \<in> set (o_GrantTypes sample_client)"
    by (simp_all add: code_claims_def sample_client_def)
  show ?thesis
    by (simp add: check_auth_code_def r code_decodes c f loopback_same ret_def)
qed


subsection \<open>The refresh grant\<close>

text \<open>
  The refresh grant tests the client after it has rotated: a request with a valid token but
  another client's identifier is refused, yet the presented token is spent and its successor is
  handed to nobody.
\<close>

theorem refreshToken_wrong_client_burns:
  assumes "tr_RefreshTokenStr req \<noteq> []" and "tr_ClientID req \<noteq> []"
    and "refresh_ttls (tr_ClientID req) s = (a, ttl)"
    and "RotateRefreshToken E w False (tr_RefreshTokenStr req) ttl (tr_DPoPKeyThumbprint req) s =
           (Inr (old, new), s1)"
    and "rt_ClientID old \<noteq> tr_ClientID req" and "unique_by refresh_conflict (refresh_tokens s)"
  shows "refreshToken E w False req s = (Inl (OAuthErr InvalidGrant 400), s1) \<and>
     rt_spent (hashRefreshToken E (tr_RefreshTokenStr req)) s1"
proof
  show "refreshToken E w False req s = (Inl (OAuthErr InvalidGrant 400), s1)"
    using assms by (simp add: refreshToken_def refresh_with_def bind_def on_error_def throw_def
        oauthBadRequest_def)
  show "rt_spent (hashRefreshToken E (tr_RefreshTokenStr req)) s1"
    using assms(4,6) rotate_tx_spends(1) by (auto simp: RotateRefreshToken_Inr)
qed

definition stolen_req :: token_request where
  "stolen_req = empty_request\<lparr>tr_RefreshTokenStr := ''raw0'', tr_ClientID := ''other'',
     tr_DPoPKeyThumbprint := ''key1''\<rparr>"

theorem refreshToken_wrong_client_burns_witness:
  "\<exists>s1. refreshToken sample_env sample_inputs False stolen_req refresh_db =
     (Inl (OAuthErr InvalidGrant 400), s1) \<and> rt_spent ''hraw0'' s1"
proof -
  have r: "tr_RefreshTokenStr stolen_req = ''raw0''" "tr_ClientID stolen_req = ''other''"
    "tr_DPoPKeyThumbprint stolen_req = ''key1''" by (simp_all add: stolen_req_def)
  have t: "refresh_ttls ''other'' refresh_db = (3600, 0)"
    by (simp add: refresh_ttls_def OAuthClient_GetByClientID_def refresh_db_def empty_db_def)
  obtain s1 res where rot: "RotateRefreshToken sample_env sample_inputs False ''raw0'' 0 ''key1''
      refresh_db = (Inr (revoke_rt 0 sample_rt, res), s1)"
    by (simp add: RotateRefreshToken_def Let_def rotate_tx_def ClaimByTokenHash_def refresh_db_def
        sample_rt_def hashRefreshToken_def sample_env_def sample_inputs_def claimable_def bind_def
        revoke_rt_def Refresh_Create_def insert_row_def refresh_conflict_def successor_of_def ret_def)
  have h: "hashRefreshToken sample_env ''raw0'' = ''hraw0''"
    by (simp add: hashRefreshToken_def sample_env_def)
  have "refreshToken sample_env sample_inputs False stolen_req refresh_db =
      (Inl (OAuthErr InvalidGrant 400), s1) \<and>
      rt_spent (hashRefreshToken sample_env (tr_RefreshTokenStr stolen_req)) s1"
    by (rule refreshToken_wrong_client_burns [where a = 3600 and ttl = 0 and
          old = "revoke_rt 0 sample_rt" and new = res])
       (simp_all add: r t rot refresh_db_unique, simp add: revoke_rt_def sample_rt_def)
  then show ?thesis by (auto simp: r h)
qed

end
