(* ===== verification/Zeroid_Endpoint.thy ===== *)
theory Zeroid_Endpoint
  imports Zeroid_Records "HOL-Library.Word"
begin

unbundle bit_operations_syntax

text \<open>
  The guard on outbound notification endpoints (\<open>validateNotificationEndpoint\<close> and below in
  \<open>src/internal/service/oauth_client.go\<close>): HTTPS only, and no address of a private or reserved
  range. URL parsing and name resolution are parameters; addresses are byte lists as in \<open>net.IP\<close>.
  The guard's bit tests are shown to be the documented list of address ranges.
\<close>

subsection \<open>Addresses that must not be called\<close>

type_synonym net_ip = "8 word list"

record net_env =
  url_parse :: "string \<Rightarrow> (string \<times> string \<times> string) option"
  lookupIPs :: "string \<Rightarrow> net_ip list option"
  bcrypt_hash :: "string \<Rightarrow> string \<Rightarrow> string option"

text \<open>
  \<open>url_parse\<close> gives scheme, host and host name; \<open>bcrypt_hash salt p\<close> is \<open>GenerateFromPassword\<close>. The
  next definitions are the methods of \<open>net.IP\<close> that the guard calls.
\<close>

definition To4 :: "net_ip \<Rightarrow> net_ip option" where
  "To4 ip =
     (if length ip = 4 then Some ip
      else if length ip = 16 \<and> take 10 ip = replicate 10 0 \<and> ip ! 10 = 0xFF \<and> ip ! 11 = 0xFF
      then Some (drop 12 ip) else None)"

definition IsPrivate :: "net_ip \<Rightarrow> bool" where
  "IsPrivate ip =
     (case To4 ip of
        Some v4 \<Rightarrow> v4 ! 0 = 10 \<or> (v4 ! 0 = 172 \<and> v4 ! 1 AND 0xF0 = 16) \<or>
                   (v4 ! 0 = 192 \<and> v4 ! 1 = 168)
      | None \<Rightarrow> length ip = 16 \<and> ip ! 0 AND 0xFE = 0xFC)"

definition IsLoopback :: "net_ip \<Rightarrow> bool" where
  "IsLoopback ip =
     (case To4 ip of Some v4 \<Rightarrow> v4 ! 0 = 127 | None \<Rightarrow> ip = replicate 15 0 @ [1])"

definition IsLinkLocalUnicast :: "net_ip \<Rightarrow> bool" where
  "IsLinkLocalUnicast ip =
     (case To4 ip of
        Some v4 \<Rightarrow> v4 ! 0 = 169 \<and> v4 ! 1 = 254
      | None \<Rightarrow> length ip = 16 \<and> ip ! 0 = 0xFE \<and> ip ! 1 AND 0xC0 = 0x80)"

definition IsMulticast :: "net_ip \<Rightarrow> bool" where
  "IsMulticast ip =
     (case To4 ip of Some v4 \<Rightarrow> v4 ! 0 AND 0xF0 = 0xE0 | None \<Rightarrow> length ip = 16 \<and> ip ! 0 = 0xFF)"

definition IsUnspecified :: "net_ip \<Rightarrow> bool" where
  "IsUnspecified ip =
     (case To4 ip of Some v4 \<Rightarrow> v4 = [0, 0, 0, 0] | None \<Rightarrow> ip = replicate 16 0)"

definition isBlockedIP :: "net_ip \<Rightarrow> bool" where
  "isBlockedIP ip =
     (if IsPrivate ip \<or> IsLoopback ip \<or> IsLinkLocalUnicast ip \<or> IsMulticast ip \<or> IsUnspecified ip
      then True
      else case To4 ip of
             None \<Rightarrow> False
           | Some v4 \<Rightarrow>
               v4 ! 0 = 0 \<or> (v4 ! 0 = 100 \<and> v4 ! 1 AND 0xC0 = 0x40) \<or>
               (v4 ! 0 = 192 \<and> v4 ! 1 = 0 \<and> v4 ! 2 = 2) \<or>
               (v4 ! 0 = 198 \<and> v4 ! 1 = 51 \<and> v4 ! 2 = 100) \<or>
               (v4 ! 0 = 203 \<and> v4 ! 1 = 0 \<and> v4 ! 2 = 113) \<or>
               (v4 ! 0 = 198 \<and> v4 ! 1 AND 0xFE = 18) \<or>
               v4 ! 0 AND 0xF0 = 0xF0)"

definition resolveAndCheckHost :: "net_env \<Rightarrow> string \<Rightarrow> bool \<Rightarrow> err option" where
  "resolveAndCheckHost N host allowPrivate =
     (if allowPrivate then None
      else case lookupIPs N host of
             None \<Rightarrow> Some (ErrMsg ''host does not resolve'')
           | Some ips \<Rightarrow>
               if ips = [] then Some (ErrMsg ''host returned no IPs'')
               else if list_ex isBlockedIP ips then Some ErrPrivateNotificationEndpoint else None)"

definition validateNotificationEndpoint :: "net_env \<Rightarrow> string \<Rightarrow> bool \<Rightarrow> err option" where
  "validateNotificationEndpoint N raw allowPrivate =
     (case url_parse N raw of
        None \<Rightarrow> Some (ErrMsg ''invalid client_notification_endpoint'')
      | Some (scheme, host, hostname) \<Rightarrow>
          if scheme \<noteq> ''https'' then Some (ErrMsg ''client_notification_endpoint must be https'')
          else if host = [] then Some (ErrMsg ''client_notification_endpoint must include a host'')
          else resolveAndCheckHost N hostname allowPrivate)"

subsection \<open>The blocklist as address ranges\<close>

text \<open>
  The reference: an address as a number, a range as its first address and prefix length. The
  lists are the ranges the guard's documentation names.
\<close>

definition ip_num :: "net_ip \<Rightarrow> nat" where
  "ip_num ip = foldl (\<lambda>n b. n * 256 + unat b) 0 ip"

definition in_range :: "nat \<Rightarrow> nat \<Rightarrow> nat \<times> nat \<Rightarrow> bool" where
  "in_range bits n r = (n div 2 ^ (bits - snd r) = fst r div 2 ^ (bits - snd r))"

definition quad :: "nat \<Rightarrow> nat \<Rightarrow> nat \<Rightarrow> nat \<Rightarrow> nat" where
  "quad a b c d = ((a * 256 + b) * 256 + c) * 256 + d"

definition blocked_v4 :: "(nat \<times> nat) list" where
  "blocked_v4 =
     [(quad 10 0 0 0, 8), (quad 172 16 0 0, 12), (quad 192 168 0 0, 16), (quad 127 0 0 0, 8),
      (quad 169 254 0 0, 16), (quad 224 0 0 0, 4), (quad 0 0 0 0, 8), (quad 100 64 0 0, 10),
      (quad 192 0 2 0, 24), (quad 198 51 100 0, 24), (quad 203 0 113 0, 24), (quad 198 18 0 0, 15),
      (quad 240 0 0 0, 4)]"

definition blocked_v6 :: "(nat \<times> nat) list" where
  "blocked_v6 = [(0, 128), (1, 128), (0xFC * 2 ^ 120, 7), (0xFE80 * 2 ^ 112, 10), (0xFF * 2 ^ 120, 8)]"

lemma byte_less: "unat (b :: 8 word) < 256"
proof -
  have "unat b < 256" using unsigned_less [of b] by simp
  then show ?thesis .
qed

lemma high_bits:
  fixes b c :: "8 word"
  assumes "take_bit k c = 0"
  shows "(b AND NOT (mask k) = c) = (unat b div 2 ^ k = unat c div 2 ^ k)"
proof -
  have "b AND NOT (mask k) = push_bit k (drop_bit k b)"
    by (rule bit_eqI) (auto simp: bit_simps)
  moreover have "c = push_bit k (drop_bit k c)"
    using assms bits_ident [of k c] by simp
  moreover have "push_bit k (drop_bit k b) = push_bit k (drop_bit k c) \<longleftrightarrow> drop_bit k b = drop_bit k c"
  proof
    assume "push_bit k (drop_bit k b) = push_bit k (drop_bit k c)"
    then have "drop_bit k (push_bit k (drop_bit k b)) = drop_bit k (push_bit k (drop_bit k c))" by simp
    moreover have "drop_bit k (push_bit k (drop_bit k x)) = drop_bit k x" for x :: "8 word"
      by (rule bit_eqI) (auto simp: bit_simps dest: bit_imp_le_length)
    ultimately show "drop_bit k b = drop_bit k c" by simp
  qed simp
  ultimately have "(b AND NOT (mask k) = c) = (drop_bit k b = drop_bit k c)" by metis
  also have "\<dots> = (unat (drop_bit k b) = unat (drop_bit k c))"
    by (simp add: word_unat_eq_iff)
  finally show ?thesis by (simp only: unat_drop_bit_eq) (simp only: drop_bit_eq_div)
qed

lemma masks:
  "NOT (mask 4) = (0xF0 :: 8 word)" "NOT (mask 1) = (0xFE :: 8 word)" "NOT (mask 6) = (0xC0 :: 8 word)"
  by (simp_all add: mask_eq_exp_minus_1 word_unat_eq_iff)

lemma byte_masks:
  fixes b :: "8 word"
  shows "(b AND 0xF0 = 16) = (unat b div 16 = 1)" "(b AND 0xF0 = 0xE0) = (unat b div 16 = 14)"
    "(b AND 0xF0 = 0xF0) = (unat b div 16 = 15)" "(b AND 0xFE = 0xFC) = (unat b div 2 = 126)"
    "(b AND 0xC0 = 0x80) = (unat b div 64 = 2)" "(b AND 0xC0 = 0x40) = (unat b div 64 = 1)"
    "(b AND 0xFE = 18) = (unat b div 2 = 9)"
  using high_bits [of 4 "16" b] high_bits [of 4 "0xE0" b] high_bits [of 4 "0xF0" b]
    high_bits [of 1 "0xFC" b] high_bits [of 6 "0x80" b] high_bits [of 6 "0x40" b] high_bits [of 1 "18" b]
  unfolding masks by simp_all

lemma digit_eq:
  fixes x y u v m :: nat
  assumes lt: "y < m" "v < m"
  shows "(x * m + y = u * m + v) = (x = u \<and> y = v)"
proof
  assume eq: "x * m + y = u * m + v"
  have "(x * m + y) div m = x" "(u * m + v) div m = u" using lt by simp_all
  with eq show "x = u \<and> y = v" by simp
qed simp

lemma ip_num_append: "ip_num (xs @ ys) = ip_num xs * 256 ^ length ys + ip_num ys"
proof (induction ys rule: rev_induct)
  case (snoc y ys)
  then show ?case by (simp add: ip_num_def algebra_simps)
qed (simp add: ip_num_def)

lemma ip_num_bound: "ip_num xs < 256 ^ length xs"
proof (induction xs rule: rev_induct)
  case (snoc x xs)
  have "unat x < 256" by (rule byte_less)
  then have "ip_num (xs @ [x]) < (ip_num xs + 1) * 256" by (simp add: ip_num_def)
  also have "\<dots> \<le> 256 ^ length xs * 256" using snoc by (intro mult_right_mono) simp_all
  finally show ?case by simp
qed (simp add: ip_num_def)

lemma ip_num_inj: "length xs = length ys \<Longrightarrow> ip_num xs = ip_num ys \<longleftrightarrow> xs = ys"
proof (induction xs ys rule: rev_induct2)
  case (4 x xs y ys)
  then have "ip_num (xs @ [x]) = ip_num (ys @ [y]) \<longleftrightarrow> ip_num xs = ip_num ys \<and> unat x = unat y"
    using digit_eq [OF byte_less byte_less, of "ip_num xs" x "ip_num ys" y] by (simp add: ip_num_def)
  with 4 show ?case by (simp add: word_unat_eq_iff)
qed simp_all

lemma ip_num_prefix: "ip_num (xs @ ys) div 256 ^ length ys = ip_num xs"
  using ip_num_bound [of ys] by (simp add: ip_num_append div_mult_self3)

lemma blocked_v4_bytes:
  fixes a b c d :: "8 word"
  shows "isBlockedIP [a, b, c, d] = list_ex (in_range 32 (ip_num [a, b, c, d])) blocked_v4"
proof -
  let ?n = "ip_num [a, b, c, d]"
  have n8: "?n div 256 = (unat a * 256 + unat b) * 256 + unat c"
    using ip_num_prefix [of "[a, b, c]" "[d]"] by (simp add: ip_num_def)
  have n16: "?n div 65536 = unat a * 256 + unat b"
    using ip_num_prefix [of "[a, b]" "[c, d]"] by (simp add: ip_num_def)
  have n24: "?n div 16777216 = unat a"
    using ip_num_prefix [of "[a]" "[b, c, d]"] by (simp add: ip_num_def)
  have n17: "?n div 131072 = unat a * 128 + unat b div 2"
    using arg_cong [OF n16, of "\<lambda>x. x div 2"] by (simp flip: div_mult2_eq)
  have n20: "?n div 1048576 = unat a * 16 + unat b div 16"
    using arg_cong [OF n16, of "\<lambda>x. x div 16"] by (simp flip: div_mult2_eq)
  have n22: "?n div 4194304 = unat a * 4 + unat b div 64"
    using arg_cong [OF n16, of "\<lambda>x. x div 64"] by (simp flip: div_mult2_eq)
  have n28: "?n div 268435456 = unat a div 16"
    using arg_cong [OF n24, of "\<lambda>x. x div 16"] by (simp flip: div_mult2_eq)
  have lt: "unat b < 256" "unat c < 256" "unat b div 16 < 16" "unat b div 64 < 4" "unat b div 2 < 128"
    using byte_less [of b] byte_less [of c] by auto
  have r8: "in_range 32 ?n (quad 10 0 0 0, 8) = (unat a = 10)"
    "in_range 32 ?n (quad 127 0 0 0, 8) = (unat a = 127)"
    "in_range 32 ?n (quad 0 0 0 0, 8) = (unat a = 0)"
    "in_range 32 ?n (quad 224 0 0 0, 4) = (unat a div 16 = 14)"
    "in_range 32 ?n (quad 240 0 0 0, 4) = (unat a div 16 = 15)"
    by (simp_all add: in_range_def quad_def n24 n28)
  have r12: "in_range 32 ?n (quad 172 16 0 0, 12) = (unat a = 172 \<and> unat b div 16 = 1)"
    using digit_eq [OF lt(3), of 1 "unat a" 172] by (simp add: in_range_def quad_def n20)
  have r10: "in_range 32 ?n (quad 100 64 0 0, 10) = (unat a = 100 \<and> unat b div 64 = 1)"
    using digit_eq [OF lt(4), of 1 "unat a" 100] by (simp add: in_range_def quad_def n22)
  have r15: "in_range 32 ?n (quad 198 18 0 0, 15) = (unat a = 198 \<and> unat b div 2 = 9)"
    using digit_eq [OF lt(5), of 9 "unat a" 198] by (simp add: in_range_def quad_def n17)
  have r16: "in_range 32 ?n (quad 192 168 0 0, 16) = (unat a = 192 \<and> unat b = 168)"
    "in_range 32 ?n (quad 169 254 0 0, 16) = (unat a = 169 \<and> unat b = 254)"
    using digit_eq [OF lt(1), of 168 "unat a" 192] digit_eq [OF lt(1), of 254 "unat a" 169]
    by (simp_all add: in_range_def quad_def n16)
  have r24: "in_range 32 ?n (quad 192 0 2 0, 24) = (unat a = 192 \<and> unat b = 0 \<and> unat c = 2)"
    "in_range 32 ?n (quad 198 51 100 0, 24) = (unat a = 198 \<and> unat b = 51 \<and> unat c = 100)"
    "in_range 32 ?n (quad 203 0 113 0, 24) = (unat a = 203 \<and> unat b = 0 \<and> unat c = 113)"
    using digit_eq [OF lt(2), of 2 "unat a * 256 + unat b" "192 * 256"]
      digit_eq [OF lt(2), of 100 "unat a * 256 + unat b" "198 * 256 + 51"]
      digit_eq [OF lt(2), of 113 "unat a * 256 + unat b" "203 * 256"]
      digit_eq [OF lt(1), of 0 "unat a" 192] digit_eq [OF lt(1), of 51 "unat a" 198]
      digit_eq [OF lt(1), of 0 "unat a" 203]
    by (simp_all add: in_range_def quad_def n8)
  show ?thesis
    by (simp add: blocked_v4_def r8 r12 r10 r15 r16 r24 isBlockedIP_def To4_def IsPrivate_def IsLoopback_def IsLinkLocalUnicast_def
        IsMulticast_def IsUnspecified_def byte_masks, simp add: word_unat_eq_iff) satx
qed

lemma blocked_v6_bytes:
  assumes len: "length ip = 16" and v6: "To4 ip = None"
  shows "isBlockedIP ip = list_ex (in_range 128 (ip_num ip)) blocked_v6"
proof -
  obtain a b r where ip: "ip = a # b # r" and r: "length r = 14"
    using len by (auto simp: length_Suc_conv numeral_eq_Suc)
  have n120: "ip_num ip div 2 ^ 120 = unat a"
    using ip_num_prefix [of "[a]" "b # r"] r by (simp add: ip ip_num_def)
  have n112: "ip_num ip div 2 ^ 112 = unat a * 256 + unat b"
    using ip_num_prefix [of "[a, b]" r] r by (simp add: ip ip_num_def)
  have n121: "ip_num ip div 2 ^ 121 = unat a div 2"
    using arg_cong [OF n120, of "\<lambda>x. x div 2"] by (simp flip: div_mult2_eq)
  have n118: "ip_num ip div 2 ^ 118 = unat a * 4 + unat b div 64"
    using arg_cong [OF n112, of "\<lambda>x. x div 64"] by (simp flip: div_mult2_eq)
  have nth: "ip ! 0 = a" "ip ! 1 = b" "ip ! Suc 0 = b" by (simp_all add: ip)
  have byte_eq: "a = 254 \<longleftrightarrow> unat a = 254" "a = 255 \<longleftrightarrow> unat a = 255" by (simp_all add: word_unat_eq_iff)
  have "unat b div 64 < 4" using byte_less [of b] by auto
  then have r10: "in_range 128 (ip_num ip) (0xFE80 * 2 ^ 112, 10) = (unat a = 254 \<and> unat b div 64 = 2)"
    using digit_eq [of "unat b div 64" 4 2 "unat a" 254] n118 by (simp add: in_range_def)
  have r: "in_range 128 (ip_num ip) (0xFC * 2 ^ 120, 7) = (unat a div 2 = 126)"
    "in_range 128 (ip_num ip) (0xFF * 2 ^ 120, 8) = (unat a = 255)"
    using n121 n120 by (simp_all add: in_range_def)
  have z: "in_range 128 (ip_num ip) (0, 128) = (ip = replicate 16 0)"
    "in_range 128 (ip_num ip) (1, 128) = (ip = replicate 15 0 @ [1])"
    using ip_num_inj [of ip "replicate 16 0"] ip_num_inj [of ip "replicate 15 0 @ [1]"] len
    by (simp_all add: in_range_def ip_num_def numeral_eq_Suc)
  have "list_ex (in_range 128 (ip_num ip)) blocked_v6 \<longleftrightarrow> ip = replicate 16 0 \<or>
      ip = replicate 15 0 @ [1] \<or> unat a div 2 = 126 \<or> (unat a = 254 \<and> unat b div 64 = 2) \<or> unat a = 255"
    unfolding blocked_v6_def list_ex_iff by (simp only: list.set bex_simps insert_iff empty_iff r10 r z) blast
  then show ?thesis
    using v6 len
    by (auto simp: isBlockedIP_def IsPrivate_def IsLoopback_def
        IsLinkLocalUnicast_def IsMulticast_def IsUnspecified_def byte_masks nth byte_eq)
qed

text \<open>
  The endpoint guard is the documented blocklist: for the addresses a resolver returns (four or
  sixteen bytes), \<open>isBlockedIP\<close> answers yes exactly on the listed ranges, an IPv4-mapped IPv6
  address being treated as the IPv4 address it carries.
\<close>

theorem isBlockedIP_ranges:
  assumes "length ip = 4 \<or> length ip = 16"
  shows "isBlockedIP ip =
     (case To4 ip of Some v4 \<Rightarrow> list_ex (in_range 32 (ip_num v4)) blocked_v4
      | None \<Rightarrow> list_ex (in_range 128 (ip_num ip)) blocked_v6)"
proof (cases "To4 ip")
  case None
  with assms show ?thesis using blocked_v6_bytes by (auto simp: To4_def)
next
  case (Some v4)
  then have len: "length v4 = 4" by (auto simp: To4_def split: if_splits)
  then obtain a b c d where v4: "v4 = [a, b, c, d]" by (auto simp: length_Suc_conv numeral_eq_Suc)
  have "isBlockedIP ip = isBlockedIP v4"
    using Some len by (simp add: isBlockedIP_def IsPrivate_def IsLoopback_def IsLinkLocalUnicast_def
        IsMulticast_def IsUnspecified_def To4_def)
  with Some show ?thesis by (simp add: v4 blocked_v4_bytes)
qed

theorem isBlockedIP_ranges_witness:
  "isBlockedIP (replicate 10 0 @ [0xFF, 0xFF, 169, 254, 169, 254]) \<and> \<not> isBlockedIP [8, 8, 8, 8]"
proof
  have "To4 (replicate 10 0 @ [0xFF, 0xFF, 169, 254, 169, 254]) = Some [169, 254, 169, 254]"
    by (simp add: To4_def nth_append)
  then show "isBlockedIP (replicate 10 0 @ [0xFF, 0xFF, 169, 254, 169, 254])"
    using isBlockedIP_ranges [of "replicate 10 0 @ [0xFF, 0xFF, 169, 254, 169, 254]"]
    by (simp add: ip_num_def in_range_def blocked_v4_def quad_def)
  have "To4 [8, 8, 8, 8] = Some [8, 8, 8, 8]" by (simp add: To4_def)
  then show "\<not> isBlockedIP [8, 8, 8, 8]"
    using isBlockedIP_ranges [of "[8, 8, 8, 8]"]
    by (simp add: ip_num_def in_range_def blocked_v4_def quad_def)
qed

end
