(* ===== verification/Zeroid_Clients.thy ===== *)
theory Zeroid_Clients
  imports Zeroid_OAuth Zeroid_Endpoint
begin

text \<open>
  OAuth clients: registration, secrets, startup reconciliation and dynamic registration
  (\<open>src/internal/service/oauth_client.go\<close>, \<open>src/internal/handler/oauth_client.go\<close>,
  \<open>src/internal/handler/dynamic_registration.go\<close>, \<open>EnsureClient\<close> of \<open>src/server.go\<close>). Hashing
  with bcrypt is a parameter.
\<close>

subsection \<open>Registered clients\<close>

text \<open>The unique indexes of the table, the \<open>CHECK\<close> on the delivery mode and the foreign key.\<close>

definition client_conflict :: "oauth_client \<Rightarrow> oauth_client \<Rightarrow> bool" where
  "client_conflict a b \<longleftrightarrow> o_ID a = o_ID b \<or> o_ClientID a = o_ClientID b"

definition delivery_mode_check :: "oauth_client \<Rightarrow> bool" where
  "delivery_mode_check c \<longleftrightarrow> o_BackchannelTokenDeliveryMode c \<in>
     {BackchannelNotificationPoll, BackchannelNotificationPing, BackchannelNotificationPush}"

definition client_identity_exists :: "oauth_client \<Rightarrow> db \<Rightarrow> bool" where
  "client_identity_exists c s =
     (case o_IdentityID c of None \<Rightarrow> True | Some i \<Rightarrow> list_ex (\<lambda>r. i_ID r = i) (identities s))"

definition OAuthClient_Create :: "oauth_client \<Rightarrow> (db, err, unit) svc" where
  "OAuthClient_Create c = (\<lambda>s.
     if \<not> delivery_mode_check c then (Inl (ErrMsg ''failed to create oauth client''), s)
     else case insert_row client_conflict c (oauth_clients s) of
            None \<Rightarrow> (Inl ErrOAuthClientAlreadyExists, s)
          | Some t \<Rightarrow>
              if \<not> client_identity_exists c s
              then (Inl (ErrMsg ''failed to create oauth client''), s)
              else (Inr (), s\<lparr>oauth_clients := t\<rparr>))"

definition OAuthClient_GetByID :: "string \<Rightarrow> db \<Rightarrow> oauth_client option" where
  "OAuthClient_GetByID rid s = find (\<lambda>c. o_ID c = rid) (oauth_clients s)"

definition OAuthClient_Update :: "oauth_client \<Rightarrow> (db, err, unit) svc" where
  "OAuthClient_Update c = (\<lambda>s.
     if \<not> delivery_mode_check c \<or> \<not> client_identity_exists c s \<or>
        list_ex (\<lambda>x. o_ID x \<noteq> o_ID c \<and> o_ClientID x = o_ClientID c) (oauth_clients s)
     then (Inl (ErrMsg ''failed to update oauth client''), s)
     else (Inr (), s\<lparr>oauth_clients :=
             update_where (\<lambda>x. o_ID x = o_ID c) (\<lambda>_. c) (oauth_clients s)\<rparr>))"

definition OAuthClient_Delete :: "string \<Rightarrow> db \<Rightarrow> db" where
  "OAuthClient_Delete rid s =
     s\<lparr>oauth_clients := delete_where (\<lambda>c. o_ID c = rid) (oauth_clients s)\<rparr>"

definition OAuthClient_DeleteByClientID :: "string \<Rightarrow> db \<Rightarrow> db" where
  "OAuthClient_DeleteByClientID clientID s =
     s\<lparr>oauth_clients := delete_where
         (\<lambda>c. o_ClientID c = clientID \<and> o_RegistrationSource c = ''dynamic'') (oauth_clients s)\<rparr>"

text \<open>A nil slice of a request is \<open>None\<close>.\<close>

record register_client_req =
  rc_ClientID :: string
  rc_Name :: string
  rc_Description :: string
  rc_Confidential :: bool
  rc_TokenEndpointAuthMethod :: string
  rc_GrantTypes :: "string list option"
  rc_Scopes :: "string list option"
  rc_RedirectURIs :: "string list option"
  rc_AccessTokenTTL :: int
  rc_RefreshTokenTTL :: int
  rc_JWKSURI :: string
  rc_JWKS :: string
  rc_SoftwareID :: string
  rc_SoftwareVersion :: string
  rc_Contacts :: "string list option"
  rc_Metadata :: string
  rc_IdentityID :: string
  rc_ClientNotificationEndpoint :: string
  rc_BackchannelTokenDeliveryMode :: string

text \<open>The values a registration draws: identifiers, secrets, salts, and the clock.\<close>

record client_fresh =
  cf_now :: time
  cf_ID :: string
  cf_ClientID :: string
  cf_Secret :: string
  cf_Salt :: string
  cf_RegToken :: string
  cf_RegSalt :: string

definition or_nil :: "string list option \<Rightarrow> string list" where
  "or_nil x = (case x of None \<Rightarrow> [] | Some l \<Rightarrow> l)"

definition client_grant_types :: "register_client_req \<Rightarrow> string list" where
  "client_grant_types req =
     (if or_nil (rc_GrantTypes req) \<noteq> [] then or_nil (rc_GrantTypes req)
      else if rc_Confidential req then [''client_credentials''] else [''authorization_code''])"

definition client_row :: "client_fresh \<Rightarrow> register_client_req \<Rightarrow> string \<Rightarrow> string \<Rightarrow> oauth_client" where
  "client_row w req deliveryMode hashedSecret =
     \<lparr>o_ID = cf_ID w, o_ClientID = rc_ClientID req, o_ClientSecret = hashedSecret,
      o_Name = rc_Name req, o_Description = rc_Description req,
      o_ClientType = (if rc_Confidential req then ''confidential'' else ''public''),
      o_TokenEndpointAuthMethod =
        (if rc_TokenEndpointAuthMethod req \<noteq> [] then rc_TokenEndpointAuthMethod req
         else if rc_Confidential req then ''client_secret_basic'' else ''none''),
      o_GrantTypes = client_grant_types req, o_RedirectURIs = or_nil (rc_RedirectURIs req),
      o_Scopes = or_nil (rc_Scopes req),
      o_ClientNotificationEndpoint = rc_ClientNotificationEndpoint req,
      o_BackchannelTokenDeliveryMode = deliveryMode, o_AccessTokenTTL = rc_AccessTokenTTL req,
      o_RefreshTokenTTL = rc_RefreshTokenTTL req, o_ClientSecretExpiresAt = None,
      o_JWKSURI = rc_JWKSURI req, o_JWKS = rc_JWKS req, o_SoftwareID = rc_SoftwareID req,
      o_SoftwareVersion = rc_SoftwareVersion req, o_Contacts = or_nil (rc_Contacts req),
      o_Metadata = rc_Metadata req,
      o_IdentityID = stringPtrOrNil (rc_IdentityID req), o_RegistrationSource = ''internal'',
      o_RegistrationAccessToken = [], o_IsActive = True, o_CreatedAt = cf_now w,
      o_UpdatedAt = cf_now w\<rparr>"

definition delivery_mode :: "string \<Rightarrow> string" where
  "delivery_mode mode = (if mode = [] then BackchannelNotificationPoll else mode)"

definition RegisterClient ::
  "net_env \<Rightarrow> bool \<Rightarrow> client_fresh \<Rightarrow> register_client_req \<Rightarrow> (db, err, oauth_client \<times> string) svc" where
  "RegisterClient N allowPrivate w req =
     (let mode = delivery_mode (rc_BackchannelTokenDeliveryMode req) in
      if rc_ClientID req = [] \<or> rc_Name req = []
      then throw (ErrMsg ''clientID and name are required'')
      else case (if rc_ClientNotificationEndpoint req \<noteq> []
                 then validateNotificationEndpoint N (rc_ClientNotificationEndpoint req) allowPrivate
                 else None) of
        Some e \<Rightarrow> throw e
      | None \<Rightarrow>
      if \<not> IsValidBackchannelDeliveryMode mode
      then throw (ErrMsg ''invalid backchannel_token_delivery_mode'')
      else if (mode = BackchannelNotificationPing \<or> mode = BackchannelNotificationPush) \<and>
              rc_ClientNotificationEndpoint req = []
      then throw (ErrMsg ''mode requires client_notification_endpoint'')
      else case (if rc_Confidential req then bcrypt_hash N (cf_Salt w) (cf_Secret w) else Some []) of
        None \<Rightarrow> throw (ErrMsg ''failed to hash client secret'')
      | Some hashed \<Rightarrow>
      (let client = client_row w req mode hashed in
       bind (OAuthClient_Create client) (\<lambda>_.
       ret (client, if rc_Confidential req then cf_Secret w else []))))"

definition RotateSecret ::
  "net_env \<Rightarrow> client_fresh \<Rightarrow> string \<Rightarrow> (db, err, oauth_client \<times> string) svc" where
  "RotateSecret N w rid = (\<lambda>s.
     case OAuthClient_GetByID rid s of
       None \<Rightarrow> (Inl ErrOAuthClientNotFound, s)
     | Some client \<Rightarrow>
         (case bcrypt_hash N (cf_Salt w) (cf_Secret w) of
            None \<Rightarrow> (Inl (ErrMsg ''failed to hash secret''), s)
          | Some hashed \<Rightarrow>
              (let c = client\<lparr>o_ClientSecret := hashed, o_UpdatedAt := cf_now w\<rparr>
               in bind (OAuthClient_Update c) (\<lambda>_. ret (c, cf_Secret w)) s)))"

text \<open>The handler's tenant guard on the identity a new client is bound to.\<close>

definition createOAuthClientOp ::
  "net_env \<Rightarrow> bool \<Rightarrow> client_fresh \<Rightarrow> (string \<times> string) option \<Rightarrow> register_client_req \<Rightarrow>
   (db, err, oauth_client \<times> string) svc" where
  "createOAuthClientOp N allowPrivate w tenant req =
     bind (if rc_IdentityID req = [] then ret ()
           else case tenant of
                  None \<Rightarrow> throw (HTTPErr 401)
                | Some (acct, proj) \<Rightarrow>
                    bind (on_error (Identity_GetByID (rc_IdentityID req) acct proj)
                            (\<lambda>e. if e = ErrNoRows then HTTPErr 400 else HTTPErr 500)) (\<lambda>_. ret ()))
       (\<lambda>_. on_error (RegisterClient N allowPrivate w req)
              (\<lambda>e. if e = ErrOAuthClientAlreadyExists then HTTPErr 409 else HTTPErr 500))"

subsection \<open>Startup reconciliation\<close>

definition ensure_patch :: "register_client_req \<Rightarrow> oauth_client \<Rightarrow> oauth_client" where
  "ensure_patch cfg c =
     c\<lparr>o_Name := (if rc_Name cfg \<noteq> [] then rc_Name cfg else o_Name c),
       o_Description := (if rc_Description cfg \<noteq> [] then rc_Description cfg else o_Description c),
       o_GrantTypes := (case rc_GrantTypes cfg of None \<Rightarrow> o_GrantTypes c | Some l \<Rightarrow> l),
       o_Scopes := (case rc_Scopes cfg of None \<Rightarrow> o_Scopes c | Some l \<Rightarrow> l),
       o_RedirectURIs := (case rc_RedirectURIs cfg of None \<Rightarrow> o_RedirectURIs c | Some l \<Rightarrow> l),
       o_AccessTokenTTL :=
         (if rc_AccessTokenTTL cfg > 0 then rc_AccessTokenTTL cfg else o_AccessTokenTTL c),
       o_RefreshTokenTTL :=
         (if rc_RefreshTokenTTL cfg > 0 then rc_RefreshTokenTTL cfg else o_RefreshTokenTTL c),
       o_ClientNotificationEndpoint :=
         (if rc_ClientNotificationEndpoint cfg \<noteq> [] then rc_ClientNotificationEndpoint cfg
          else o_ClientNotificationEndpoint c),
       o_BackchannelTokenDeliveryMode :=
         (if rc_BackchannelTokenDeliveryMode cfg \<noteq> [] then rc_BackchannelTokenDeliveryMode cfg
          else o_BackchannelTokenDeliveryMode c)\<rparr>"

text \<open>
  \<open>updated\<close> is set exactly when an assignment changes the field, so it says whether the patched
  client differs. The configuration has no identity.
\<close>

definition EnsureClient ::
  "net_env \<Rightarrow> bool \<Rightarrow> client_fresh \<Rightarrow> register_client_req \<Rightarrow> (db, err, unit) svc" where
  "EnsureClient N allowPrivate w cfg = (\<lambda>s.
     case OAuthClient_GetByClientID (rc_ClientID cfg) s of
       None \<Rightarrow> bind (RegisterClient N allowPrivate w (cfg\<lparr>rc_IdentityID := []\<rparr>)) (\<lambda>_. ret ()) s
     | Some existing \<Rightarrow>
         if ensure_patch cfg existing = existing then (Inr (), s)
         else OAuthClient_Update ((ensure_patch cfg existing)\<lparr>o_UpdatedAt := cf_now w\<rparr>) s)"

subsection \<open>Dynamic registration (RFC 7591, RFC 7592)\<close>

definition dcrAllowedAuthMethods :: "string list" where
  "dcrAllowedAuthMethods = [''client_secret_post'', ''client_secret_basic'']"

definition dcrAllowedGrantTypes :: "string list" where
  "dcrAllowedGrantTypes = [''client_credentials'', urnJWTBearer]"

definition validateDCRSubmittedFields :: "string list \<Rightarrow> string \<Rightarrow> err + string" where
  "validateDCRSubmittedFields grantTypes authMethod =
     (if \<not> list_all (\<lambda>g. g \<in> set dcrAllowedGrantTypes) grantTypes
      then Inl (ErrMsg ''grant_type is not permitted for dynamically-registered clients'')
      else if authMethod = [] then Inr ''client_secret_basic''
      else if authMethod \<notin> set dcrAllowedAuthMethods
      then Inl (ErrMsg ''token_endpoint_auth_method is not permitted for dynamically-registered clients'')
      else Inr authMethod)"

record dcr_req =
  dr_Name :: string
  dr_GrantTypes :: "string list option"
  dr_Scopes :: "string list option"
  dr_RedirectURIs :: "string list option"
  dr_TokenEndpointAuthMethod :: string
  dr_SoftwareID :: string
  dr_SoftwareVersion :: string
  dr_Contacts :: "string list option"
  dr_Metadata :: string

definition dcr_row ::
  "client_fresh \<Rightarrow> dcr_req \<Rightarrow> string list \<Rightarrow> string \<Rightarrow> string \<Rightarrow> string \<Rightarrow> oauth_client" where
  "dcr_row w req grantTypes authMethod hashedSecret hashedRegToken =
     \<lparr>o_ID = cf_ID w, o_ClientID = cf_ClientID w, o_ClientSecret = hashedSecret,
      o_Name = dr_Name req, o_Description = [], o_ClientType = ''confidential'',
      o_TokenEndpointAuthMethod = authMethod, o_GrantTypes = grantTypes,
      o_RedirectURIs = or_nil (dr_RedirectURIs req), o_Scopes = or_nil (dr_Scopes req),
      o_ClientNotificationEndpoint = [],
      o_BackchannelTokenDeliveryMode = BackchannelNotificationPoll, o_AccessTokenTTL = 0,
      o_RefreshTokenTTL = 0, o_ClientSecretExpiresAt = None, o_JWKSURI = [], o_JWKS = [],
      o_SoftwareID = dr_SoftwareID req, o_SoftwareVersion = dr_SoftwareVersion req,
      o_Contacts = or_nil (dr_Contacts req), o_Metadata = dr_Metadata req, o_IdentityID = None,
      o_RegistrationSource = ''dynamic'', o_RegistrationAccessToken = hashedRegToken,
      o_IsActive = True, o_CreatedAt = cf_now w, o_UpdatedAt = cf_now w\<rparr>"

definition DynamicRegisterClient ::
  "net_env \<Rightarrow> client_fresh \<Rightarrow> dcr_req \<Rightarrow> (db, err, oauth_client \<times> string \<times> string) svc" where
  "DynamicRegisterClient N w req =
     (if dr_Name req = [] then throw (ErrMsg ''name is required'')
      else case bcrypt_hash N (cf_Salt w) (cf_Secret w) of
        None \<Rightarrow> throw (ErrMsg ''failed to hash client secret'')
      | Some hashedSecret \<Rightarrow>
      (case bcrypt_hash N (cf_RegSalt w) (cf_RegToken w) of
        None \<Rightarrow> throw (ErrMsg ''failed to hash registration token'')
      | Some hashedRegToken \<Rightarrow>
      (let grantTypes = (if or_nil (dr_GrantTypes req) = [] then [''client_credentials'']
                         else or_nil (dr_GrantTypes req)) in
       case validateDCRSubmittedFields grantTypes (dr_TokenEndpointAuthMethod req) of
         Inl e \<Rightarrow> throw e
       | Inr authMethod \<Rightarrow>
       (let client = dcr_row w req grantTypes authMethod hashedSecret hashedRegToken in
        bind (OAuthClient_Create client) (\<lambda>_. ret (client, cf_Secret w, cf_RegToken w))))))"

definition VerifyRegistrationToken :: "env \<Rightarrow> string \<Rightarrow> string \<Rightarrow> db \<Rightarrow> err + oauth_client" where
  "VerifyRegistrationToken E clientID regToken s =
     (case OAuthClient_GetByClientID clientID s of
        None \<Rightarrow> Inl ErrOAuthClientNotFound
      | Some client \<Rightarrow>
          if o_RegistrationSource client \<noteq> ''dynamic'' then Inl ErrOAuthClientNotFound
          else if \<not> bcrypt_ok E (o_RegistrationAccessToken client) regToken
          then Inl ErrOAuthClientNotFound
          else Inr client)"

definition UpdateDynamicClient :: "time \<Rightarrow> string \<Rightarrow> dcr_req \<Rightarrow> (db, err, oauth_client) svc" where
  "UpdateDynamicClient now clientID req = (\<lambda>s.
     case OAuthClient_GetByClientID clientID s of
       None \<Rightarrow> (Inl ErrOAuthClientNotFound, s)
     | Some client \<Rightarrow>
     if o_RegistrationSource client \<noteq> ''dynamic'' then (Inl ErrOAuthClientNotFound, s)
     else
     (let grantTypes = (case dr_GrantTypes req of None \<Rightarrow> [''client_credentials''] | Some l \<Rightarrow> l) in
      case validateDCRSubmittedFields grantTypes (dr_TokenEndpointAuthMethod req) of
        Inl e \<Rightarrow> (Inl e, s)
      | Inr authMethod \<Rightarrow>
      (let c = client\<lparr>o_Name := dr_Name req, o_GrantTypes := grantTypes,
                 o_Scopes := or_nil (dr_Scopes req), o_RedirectURIs := or_nil (dr_RedirectURIs req),
                 o_TokenEndpointAuthMethod := authMethod, o_SoftwareID := dr_SoftwareID req,
                 o_SoftwareVersion := dr_SoftwareVersion req, o_Contacts := or_nil (dr_Contacts req),
                 o_Metadata := dr_Metadata req, o_UpdatedAt := now\<rparr> in
       bind (OAuthClient_Update c) (\<lambda>_. ret c) s)))"

subsection \<open>Dynamic registration over HTTP\<close>

abbreviation dcrClientRegisterScope :: string where "dcrClientRegisterScope \<equiv> ''client:register''"

definition validateDCRClientMetadata ::
  "string \<Rightarrow> string \<Rightarrow> string \<Rightarrow> string list \<Rightarrow> err + string list \<times> string list \<times> string" where
  "validateDCRClientMetadata clientName scopeStr authMethodIn grantTypesIn =
     (let grantTypes = (if grantTypesIn = [] then [''client_credentials''] else grantTypesIn) in
      if clientName = [] then Inl (OAuthErr InvalidClientMetadata 400)
      else if \<not> list_all (\<lambda>g. g \<in> set dcrAllowedGrantTypes) grantTypes
      then Inl (OAuthErr InvalidClientMetadata 400)
      else if authMethodIn \<notin> {[], ''client_secret_post'', ''client_secret_basic''}
      then Inl (OAuthErr InvalidClientMetadata 400)
      else Inr (grantTypes, (if scopeStr \<noteq> [] then strings_Fields scopeStr else []),
                (if authMethodIn = [] then ''client_secret_basic'' else authMethodIn)))"

text \<open>The tenant claims of an initial access token that may register clients.\<close>

definition validateInitialAccessToken ::
  "env \<Rightarrow> time \<Rightarrow> string \<Rightarrow> err + string \<times> string \<times> string" where
  "validateInitialAccessToken E now authHeader =
     (if \<not> has_prefix ''Bearer '' authHeader then Inl (OAuthErr InvalidRequest 401)
      else case parse_jwks E True now (trim_prefix ''Bearer '' authHeader) of
        None \<Rightarrow> Inl (OAuthErr InvalidToken 401)
      | Some cl \<Rightarrow>
          if claim_str cl ''iss'' \<noteq> issuer E \<or> issuer E \<notin> set (claim_strings cl ''aud'')
          then Inl (OAuthErr InvalidToken 401)
          else if dcrClientRegisterScope \<notin> set (claim_strings cl ''scopes'')
          then Inl (OAuthErr InsufficientScope 403)
          else if claim_str cl ''account_id'' = [] \<or> claim_str cl ''project_id'' = []
          then Inl (OAuthErr InvalidToken 403)
          else Inr (claim_str cl ''sub'', claim_str cl ''account_id'', claim_str cl ''project_id''))"

definition authorizeDCRManagement :: "env \<Rightarrow> string \<Rightarrow> string \<Rightarrow> db \<Rightarrow> err + oauth_client" where
  "authorizeDCRManagement E authHeader clientID s =
     (if \<not> has_prefix ''Bearer '' authHeader then Inl (OAuthErr InvalidRequest 401)
      else case VerifyRegistrationToken E clientID (trim_prefix ''Bearer '' authHeader) s of
             Inl _ \<Rightarrow> Inl (OAuthErr InvalidToken 401)
           | Inr client \<Rightarrow> Inr client)"

definition dcr_service_req :: "dcr_req \<Rightarrow> string list \<times> string list \<times> string \<Rightarrow> dcr_req" where
  "dcr_service_req body v =
     (case v of (grantTypes, scopes, authMethod) \<Rightarrow>
        body\<lparr>dr_GrantTypes := Some grantTypes, dr_Scopes := Some scopes,
             dr_TokenEndpointAuthMethod := authMethod, dr_Metadata := []\<rparr>)"

text \<open>The body carries its scopes as one string; \<open>dr_Scopes\<close> and \<open>dr_Metadata\<close> are not part of it.\<close>

definition dcrRegisterOp ::
  "env \<Rightarrow> net_env \<Rightarrow> client_fresh \<Rightarrow> string \<Rightarrow> dcr_req \<Rightarrow> string \<Rightarrow>
   (db, err, oauth_client \<times> string \<times> string) svc" where
  "dcrRegisterOp E N w authHeader body scopeStr =
     bind (lift (validateInitialAccessToken E (cf_now w) authHeader)) (\<lambda>_.
     bind (lift (validateDCRClientMetadata (dr_Name body) scopeStr (dr_TokenEndpointAuthMethod body)
                   (or_nil (dr_GrantTypes body)))) (\<lambda>v.
     on_error (DynamicRegisterClient N w (dcr_service_req body v))
       (\<lambda>e. if e = ErrOAuthClientAlreadyExists then OAuthErr InvalidClientMetadata 409
            else OAuthErr ServerError 500)))"

definition dcrGetOp :: "env \<Rightarrow> string \<Rightarrow> string \<Rightarrow> (db, err, oauth_client) svc" where
  "dcrGetOp E authHeader clientID = (\<lambda>s. (authorizeDCRManagement E authHeader clientID s, s))"

definition dcrUpdateOp ::
  "env \<Rightarrow> time \<Rightarrow> string \<Rightarrow> string \<Rightarrow> dcr_req \<Rightarrow> string \<Rightarrow> (db, err, oauth_client) svc" where
  "dcrUpdateOp E now authHeader clientID body scopeStr =
     bind (\<lambda>s. (authorizeDCRManagement E authHeader clientID s, s)) (\<lambda>_.
     bind (lift (validateDCRClientMetadata (dr_Name body) scopeStr (dr_TokenEndpointAuthMethod body)
                   (or_nil (dr_GrantTypes body)))) (\<lambda>v.
     on_error (UpdateDynamicClient now clientID (dcr_service_req body v))
       (\<lambda>e. if e = ErrOAuthClientNotFound then OAuthErr InvalidToken 401
            else OAuthErr ServerError 500)))"

definition dcrDeleteOp :: "env \<Rightarrow> string \<Rightarrow> string \<Rightarrow> (db, err, unit) svc" where
  "dcrDeleteOp E authHeader clientID =
     bind (\<lambda>s. (authorizeDCRManagement E authHeader clientID s, s)) (\<lambda>_ s.
       (Inr (), OAuthClient_DeleteByClientID clientID s))"

subsection \<open>Invariant of the client table\<close>

definition client_wf :: "oauth_client \<Rightarrow> bool" where
  "client_wf c \<longleftrightarrow> delivery_mode_check c \<and>
     (o_BackchannelTokenDeliveryMode c \<noteq> BackchannelNotificationPoll \<longrightarrow>
        o_ClientNotificationEndpoint c \<noteq> []) \<and>
     (o_RegistrationSource c = ''dynamic'' \<longrightarrow>
        o_ClientType c = ''confidential'' \<and> o_IdentityID c = None \<and>
        o_TokenEndpointAuthMethod c \<in> set dcrAllowedAuthMethods \<and>
        set (o_GrantTypes c) \<subseteq> set dcrAllowedGrantTypes)"

definition clients_ok :: "db \<Rightarrow> bool" where
  "clients_ok s \<longleftrightarrow> unique_by client_conflict (oauth_clients s) \<and> list_all client_wf (oauth_clients s)"

lemma unique_clients:
  "unique_by client_conflict t \<longleftrightarrow> distinct (map o_ID t) \<and> distinct (map o_ClientID t)"
  by (induction t) (auto simp: unique_by_def client_conflict_def)

lemma client_by_id:
  "unique_by client_conflict t \<Longrightarrow> x \<in> set t \<Longrightarrow> y \<in> set t \<Longrightarrow> o_ID x = o_ID y \<Longrightarrow> x = y"
  by (simp add: unique_clients distinct_map inj_on_def)

lemma client_by_client_id:
  "unique_by client_conflict t \<Longrightarrow> x \<in> set t \<Longrightarrow> y \<in> set t \<Longrightarrow> o_ClientID x = o_ClientID y \<Longrightarrow> x = y"
  by (simp add: unique_clients distinct_map inj_on_def)

lemma client_found:
  "OAuthClient_GetByClientID cid s = Some c \<Longrightarrow> c \<in> set (oauth_clients s) \<and> o_ClientID c = cid"
  by (auto simp: OAuthClient_GetByClientID_def dest: find_SomeD)

lemma find_unique_client:
  assumes "unique_by client_conflict (oauth_clients s)" "c \<in> set (oauth_clients s)" "o_ClientID c = cid"
  shows "OAuthClient_GetByClientID cid s = Some c"
proof (cases "OAuthClient_GetByClientID cid s")
  case None
  with assms(2,3) show ?thesis by (auto simp: OAuthClient_GetByClientID_def find_None_iff)
next
  case (Some d)
  with client_found [OF this] client_by_client_id [OF assms(1,2)] assms(3) show ?thesis by metis
qed

lemma create_client_ok:
  assumes "clients_ok s" "client_wf c" "OAuthClient_Create c s = (r, s')"
  shows "clients_ok s'"
  using assms unique_by_insert [of client_conflict "oauth_clients s" c]
  by (auto simp: OAuthClient_Create_def clients_ok_def insert_row_Some split: if_splits option.splits)

lemma update_same_keys:
  assumes "unique_by client_conflict t" "d \<in> set t" "o_ID c = o_ID d" "o_ClientID c = o_ClientID d"
  shows "unique_by client_conflict (update_where (\<lambda>x. o_ID x = o_ID c) (\<lambda>_. c) t)"
proof -
  have "map o_ClientID (update_where (\<lambda>x. o_ID x = o_ID c) (\<lambda>_. c) t) = map o_ClientID t"
    using client_by_id [OF assms(1,2)] assms(3,4) by (auto simp: update_where_def) metis
  moreover have "map o_ID (update_where (\<lambda>x. o_ID x = o_ID c) (\<lambda>_. c) t) = map o_ID t"
    by (auto simp: update_where_def)
  ultimately show ?thesis using assms(1) by (simp add: unique_clients)
qed

lemma update_client_ok:
  assumes "clients_ok s" "client_wf c" "d \<in> set (oauth_clients s)" "o_ID c = o_ID d"
    "o_ClientID c = o_ClientID d" "OAuthClient_Update c s = (r, s')"
  shows "clients_ok s'"
  using assms update_same_keys [of "oauth_clients s" d c]
  by (auto simp: OAuthClient_Update_def clients_ok_def list_all_iff table_simps split: if_splits)

lemma keeps_delete_client: "clients_ok s \<Longrightarrow> clients_ok (s\<lparr>oauth_clients := delete_where P (oauth_clients s)\<rparr>)"
  by (simp add: clients_ok_def unique_by_delete list_all_iff table_simps)

lemma register_client_wf:
  assumes "IsValidBackchannelDeliveryMode (delivery_mode (rc_BackchannelTokenDeliveryMode req))"
    and "\<not> ((delivery_mode (rc_BackchannelTokenDeliveryMode req) = BackchannelNotificationPing \<or>
       delivery_mode (rc_BackchannelTokenDeliveryMode req) = BackchannelNotificationPush) \<and>
       rc_ClientNotificationEndpoint req = [])"
  shows "client_wf (client_row w req (delivery_mode (rc_BackchannelTokenDeliveryMode req)) h)"
  using assms by (auto simp: client_wf_def client_row_def delivery_mode_check_def delivery_mode_def
      IsValidBackchannelDeliveryMode_def split: if_splits)

lemma RegisterClient_ok:
  assumes "clients_ok s" "RegisterClient N ap w req s = (r, s')"
  shows "clients_ok s'"
proof -
  from assms(2) have "s' = s \<or> (\<exists>h r1. OAuthClient_Create
      (client_row w req (delivery_mode (rc_BackchannelTokenDeliveryMode req)) h) s = (r1, s') \<and>
      client_wf (client_row w req (delivery_mode (rc_BackchannelTokenDeliveryMode req)) h))"
    using register_client_wf
    by (auto simp: RegisterClient_def Let_def bind_def ret_def throw_def
        split: if_splits option.splits prod.splits sum.splits)
  with assms(1) create_client_ok show ?thesis by blast
qed

lemma RotateSecret_ok:
  assumes "clients_ok s" "RotateSecret N w rid s = (r, s')"
  shows "clients_ok s'"
proof -
  from assms(2) consider "s' = s" | c h r1 where "OAuthClient_GetByID rid s = Some c"
      "OAuthClient_Update (c\<lparr>o_ClientSecret := h, o_UpdatedAt := cf_now w\<rparr>) s = (r1, s')"
    by (auto simp: RotateSecret_def Let_def bind_def ret_def
        split: option.splits prod.splits sum.splits)
  then show ?thesis
  proof cases
    case 2
    then have c: "c \<in> set (oauth_clients s)" by (auto simp: OAuthClient_GetByID_def dest: find_SomeD)
    then have "client_wf (c\<lparr>o_ClientSecret := h, o_UpdatedAt := cf_now w\<rparr>)"
      using assms(1) by (auto simp: clients_ok_def list_all_iff client_wf_def delivery_mode_check_def)
    with 2 c update_client_ok [OF assms(1)] show ?thesis by fastforce
  qed (use assms in simp)
qed

lemma dcr_fields_ok:
  "validateDCRSubmittedFields g a = Inr m \<Longrightarrow>
     set g \<subseteq> set dcrAllowedGrantTypes \<and> m \<in> set dcrAllowedAuthMethods"
  by (auto simp: validateDCRSubmittedFields_def dcrAllowedAuthMethods_def list_all_iff split: if_splits)

lemma dcr_row_wf:
  "validateDCRSubmittedFields g a = Inr m \<Longrightarrow> client_wf (dcr_row w req g m h h')"
  using dcr_fields_ok [of g a m] by (auto simp: client_wf_def dcr_row_def delivery_mode_check_def)

lemma DynamicRegisterClient_ok:
  assumes "clients_ok s" "DynamicRegisterClient N w req s = (r, s')"
  shows "clients_ok s'"
proof -
  from assms(2) have "s' = s \<or> (\<exists>c r1. OAuthClient_Create c s = (r1, s') \<and> client_wf c)"
    using dcr_row_wf
    by (auto simp: DynamicRegisterClient_def Let_def bind_def ret_def throw_def
        split: if_splits option.splits prod.splits sum.splits)
  with assms(1) create_client_ok show ?thesis by blast
qed

text \<open>An update of a dynamic client replaces its row by one with the same keys and secrets.\<close>

lemma UpdateDynamicClient_effect:
  assumes "UpdateDynamicClient now cid req s = (r, s')"
  obtains (unchanged) e where "r = Inl e" "s' = s"
  | (replaced) d c where "OAuthClient_GetByClientID cid s = Some d" "o_RegistrationSource d = ''dynamic''"
      "o_ID c = o_ID d" "o_ClientID c = cid" "o_ClientSecret c = o_ClientSecret d"
      "o_RegistrationAccessToken c = o_RegistrationAccessToken d" "o_IsActive c = o_IsActive d"
      "o_RegistrationSource c = ''dynamic''" "r = Inr c" "client_wf d \<longrightarrow> client_wf c"
      "s' = s\<lparr>oauth_clients := update_where (\<lambda>x. o_ID x = o_ID d) (\<lambda>_. c) (oauth_clients s)\<rparr>"
proof (cases "OAuthClient_GetByClientID cid s")
  case None
  with assms unchanged show ?thesis by (auto simp: UpdateDynamicClient_def)
next
  case (Some d)
  let ?g = "case dr_GrantTypes req of None \<Rightarrow> [''client_credentials''] | Some l \<Rightarrow> l"
  show ?thesis
  proof (cases "o_RegistrationSource d = ''dynamic''")
    case True
    show ?thesis
    proof (cases "validateDCRSubmittedFields ?g (dr_TokenEndpointAuthMethod req)")
      case (Inl e)
      with assms True Some unchanged show ?thesis by (auto simp: UpdateDynamicClient_def)
    next
      case (Inr m)
      let ?c = "d\<lparr>o_Name := dr_Name req, o_GrantTypes := ?g, o_Scopes := or_nil (dr_Scopes req),
        o_RedirectURIs := or_nil (dr_RedirectURIs req), o_TokenEndpointAuthMethod := m,
        o_SoftwareID := dr_SoftwareID req, o_SoftwareVersion := dr_SoftwareVersion req,
        o_Contacts := or_nil (dr_Contacts req), o_Metadata := dr_Metadata req, o_UpdatedAt := now\<rparr>"
      have "client_wf d \<longrightarrow> client_wf ?c"
        using dcr_fields_ok [OF Inr] by (auto simp: client_wf_def delivery_mode_check_def)
      moreover have "bind (OAuthClient_Update ?c) (\<lambda>_. ret ?c) s = (r, s')"
        using assms True Some Inr by (simp add: UpdateDynamicClient_def Let_def)
      ultimately show ?thesis
        using unchanged replaced [of d ?c] True Some client_found [OF Some]
        by (auto simp: bind_def ret_def OAuthClient_Update_def split: if_splits)
    qed
  qed (use assms Some unchanged in \<open>auto simp: UpdateDynamicClient_def\<close>)
qed

lemma UpdateDynamicClient_ok:
  assumes "clients_ok s" "UpdateDynamicClient now cid req s = (r, s')"
  shows "clients_ok s'"
  using assms(2)
proof (cases rule: UpdateDynamicClient_effect)
  case (replaced d c)
  have d: "d \<in> set (oauth_clients s)" "o_ClientID d = cid" using client_found [OF replaced(1)] by simp_all
  then show ?thesis
    using assms(1) replaced update_same_keys [of "oauth_clients s" d c]
    by (auto simp: clients_ok_def list_all_iff table_simps)
qed (use assms in simp)

text \<open>
  Every client operation keeps the client table well formed: identifiers and client ids are
  unique, a ping or push client has an endpoint, and a dynamically registered client stays
  confidential, bound to no identity, with an allowed authentication method and no grant beyond
  \<open>client_credentials\<close> and \<open>jwt-bearer\<close>.
\<close>

theorem client_operations_keep_ok:
  assumes "clients_ok s"
  shows "clients_ok (snd (RegisterClient N ap w req s)) \<and> clients_ok (snd (RotateSecret N w rid s)) \<and>
     clients_ok (snd (DynamicRegisterClient N w dreq s)) \<and>
     clients_ok (snd (UpdateDynamicClient now cid dreq s)) \<and>
     clients_ok (OAuthClient_Delete rid s) \<and> clients_ok (OAuthClient_DeleteByClientID cid s)"
proof (intro conjI)
  show "clients_ok (snd (RegisterClient N ap w req s))"
    using RegisterClient_ok [OF assms] by (metis prod.collapse)
  show "clients_ok (snd (RotateSecret N w rid s))"
    using RotateSecret_ok [OF assms] by (metis prod.collapse)
  show "clients_ok (snd (DynamicRegisterClient N w dreq s))"
    using DynamicRegisterClient_ok [OF assms] by (metis prod.collapse)
  show "clients_ok (snd (UpdateDynamicClient now cid dreq s))"
    using UpdateDynamicClient_ok [OF assms] by (metis prod.collapse)
qed (simp_all add: OAuthClient_Delete_def OAuthClient_DeleteByClientID_def keeps_delete_client [OF assms])

definition sample_net :: net_env where
  "sample_net = \<lparr>url_parse = (\<lambda>u. if u = ''https://c.example/cb'' then Some (''https'', ''c.example'', ''c.example'')
       else None), lookupIPs = (\<lambda>h. Some [[93, 184, 216, 34]]),
     bcrypt_hash = (\<lambda>salt p. Some p)\<rparr>"

definition sample_fresh :: client_fresh where
  "sample_fresh = \<lparr>cf_now = 7, cf_ID = ''u1'', cf_ClientID = ''cid1'', cf_Secret = ''sec'', cf_Salt = ''a'',
     cf_RegToken = ''reg'', cf_RegSalt = ''b''\<rparr>"

definition sample_dcr :: dcr_req where
  "sample_dcr = \<lparr>dr_Name = ''tool'', dr_GrantTypes = None, dr_Scopes = Some [''read''],
     dr_RedirectURIs = None, dr_TokenEndpointAuthMethod = [], dr_SoftwareID = [],
     dr_SoftwareVersion = [], dr_Contacts = None, dr_Metadata = []\<rparr>"

lemma empty_clients_ok: "clients_ok empty_db"
  by (simp add: clients_ok_def empty_db_def unique_by_def)

theorem client_operations_keep_ok_witness:
  "clients_ok (snd (DynamicRegisterClient sample_net sample_fresh sample_dcr empty_db))"
  using client_operations_keep_ok [OF empty_clients_ok] by blast

subsection \<open>Dynamic registration hands out working secrets\<close>

lemma DynamicRegisterClient_Inr:
  assumes "DynamicRegisterClient N w req s = (Inr (c, sec, tok), s')"
  shows "\<exists>h h'. bcrypt_hash N (cf_Salt w) (cf_Secret w) = Some h \<and> o_ClientSecret c = h \<and> sec = cf_Secret w \<and>
     bcrypt_hash N (cf_RegSalt w) (cf_RegToken w) = Some h' \<and> o_RegistrationAccessToken c = h' \<and>
     tok = cf_RegToken w \<and> o_RegistrationSource c = ''dynamic'' \<and> o_IsActive c \<and>
     (\<forall>x \<in> set (oauth_clients s). \<not> client_conflict x c) \<and>
     s' = s\<lparr>oauth_clients := oauth_clients s @ [c]\<rparr>"
  using assms
  by (auto simp: DynamicRegisterClient_def Let_def bind_Inr OAuthClient_Create_def insert_row_Some
      dcr_row_def split: if_splits option.splits sum.splits)

lemma replaced_client_found:
  assumes "unique_by client_conflict (oauth_clients s)" "d \<in> set (oauth_clients s)" "o_ID c = o_ID d"
    "o_ClientID c = o_ClientID d"
  shows "OAuthClient_GetByClientID (o_ClientID d)
      (s\<lparr>oauth_clients := update_where (\<lambda>x. o_ID x = o_ID d) (\<lambda>_. c) (oauth_clients s)\<rparr>) = Some c"
proof (rule find_unique_client)
  show "unique_by client_conflict (oauth_clients
      (s\<lparr>oauth_clients := update_where (\<lambda>x. o_ID x = o_ID d) (\<lambda>_. c) (oauth_clients s)\<rparr>))"
    using update_same_keys [OF assms] assms(3) by simp
  show "c \<in> set (oauth_clients
      (s\<lparr>oauth_clients := update_where (\<lambda>x. o_ID x = o_ID d) (\<lambda>_. c) (oauth_clients s)\<rparr>))"
    using assms(2) by (force simp: table_simps)
qed (use assms in simp)

text \<open>
  The secrets of a dynamic registration work and survive updates: given that bcrypt accepts a
  password against its own hash, the returned client secret authenticates the client and the
  returned registration token authorises its management, right after the registration and after
  any later update of the client's metadata.
\<close>

theorem dcr_secrets_roundtrip:
  assumes reg: "DynamicRegisterClient N w req s = (Inr (c, sec, tok), s1)"
    and ok: "clients_ok s"
    and bcrypt: "\<And>salt p h. bcrypt_hash N salt p = Some h \<Longrightarrow> bcrypt_ok E h p"
    and upd: "UpdateDynamicClient now (o_ClientID c) req' s1 = (r, s2)"
  shows "VerifyRegistrationToken E (o_ClientID c) tok s1 = Inr c \<and>
     VerifyClientSecret E (o_ClientID c) sec s1 = Inr c \<and>
     (\<exists>c2. o_ClientID c2 = o_ClientID c \<and> VerifyRegistrationToken E (o_ClientID c) tok s2 = Inr c2 \<and>
        VerifyClientSecret E (o_ClientID c) sec s2 = Inr c2)"
proof -
  from DynamicRegisterClient_Inr [OF reg] bcrypt have b:
      "bcrypt_ok E (o_ClientSecret c) sec" "bcrypt_ok E (o_RegistrationAccessToken c) tok"
      "o_RegistrationSource c = ''dynamic''" "o_IsActive c" and
      s1: "s1 = s\<lparr>oauth_clients := oauth_clients s @ [c]\<rparr>" by blast+
  have ok1: "clients_ok s1" using DynamicRegisterClient_ok [OF ok reg] .
  then have u1: "unique_by client_conflict (oauth_clients s1)" by (simp add: clients_ok_def)
  have f1: "OAuthClient_GetByClientID (o_ClientID c) s1 = Some c"
    by (rule find_unique_client [OF u1]) (simp_all add: s1)
  have works: "VerifyRegistrationToken E (o_ClientID c) tok s' = Inr c' \<and>
      VerifyClientSecret E (o_ClientID c) sec s' = Inr c'"
    if "OAuthClient_GetByClientID (o_ClientID c) s' = Some c'" "o_ClientSecret c' = o_ClientSecret c"
      "o_RegistrationAccessToken c' = o_RegistrationAccessToken c"
      "o_RegistrationSource c' = ''dynamic''" "o_IsActive c'" for s' c'
    using that b by (simp add: VerifyRegistrationToken_def VerifyClientSecret_def)
  from upd have "\<exists>c2. OAuthClient_GetByClientID (o_ClientID c) s2 = Some c2 \<and>
      o_ClientSecret c2 = o_ClientSecret c \<and> o_RegistrationAccessToken c2 = o_RegistrationAccessToken c \<and>
      o_RegistrationSource c2 = ''dynamic'' \<and> o_IsActive c2 \<and> o_ClientID c2 = o_ClientID c"
  proof (cases rule: UpdateDynamicClient_effect)
    case (replaced d c2)
    then have d: "d = c" using f1 by simp
    have "c \<in> set (oauth_clients s1)" by (simp add: s1)
    then show ?thesis using replaced replaced_client_found [OF u1, of c c2] b(4) by (auto simp: d)
  qed (use f1 b in auto)
  then show ?thesis using works [OF f1] works b by fastforce
qed

theorem dcr_secrets_roundtrip_witness:
  "\<exists>c s1. DynamicRegisterClient sample_net sample_fresh sample_dcr empty_db = (Inr (c, ''sec'', ''reg''), s1) \<and>
     VerifyRegistrationToken sample_env ''cid1'' ''reg'' s1 = Inr c \<and>
     VerifyClientSecret sample_env ''cid1'' ''sec'' s1 = Inr c"
proof -
  obtain c s1 where reg: "DynamicRegisterClient sample_net sample_fresh sample_dcr empty_db =
      (Inr (c, ''sec'', ''reg''), s1)" and cid: "o_ClientID c = ''cid1''"
    by (simp add: DynamicRegisterClient_def sample_net_def sample_fresh_def sample_dcr_def or_nil_def
        validateDCRSubmittedFields_def dcrAllowedGrantTypes_def OAuthClient_Create_def
        delivery_mode_check_def dcr_row_def insert_row_def empty_db_def client_identity_exists_def
        bind_def ret_def Let_def)
  obtain r s2 where upd: "UpdateDynamicClient 9 (o_ClientID c) sample_dcr s1 = (r, s2)" by fastforce
  have "VerifyRegistrationToken sample_env (o_ClientID c) ''reg'' s1 = Inr c \<and>
      VerifyClientSecret sample_env (o_ClientID c) ''sec'' s1 = Inr c"
    using dcr_secrets_roundtrip [OF reg empty_clients_ok _ upd, of sample_env]
    by (simp add: sample_net_def sample_env_def)
  with reg cid show ?thesis by auto
qed

subsection \<open>Management reaches the own client only\<close>

lemma update_other_clients:
  assumes "unique_by client_conflict t" "d \<in> set t" "o_ClientID d = cid" "o_ClientID c = cid"
  shows "filter (\<lambda>x. o_ClientID x \<noteq> cid) (update_where (\<lambda>x. o_ID x = o_ID d) (\<lambda>_. c) t) =
     filter (\<lambda>x. o_ClientID x \<noteq> cid) t"
proof -
  have "\<forall>x \<in> set t. o_ID x = o_ID d \<longrightarrow> o_ClientID x = cid"
    using client_by_id [OF assms(1)] assms(2,3) by metis
  then show ?thesis using assms(4) by (induction t) auto
qed

lemma delete_other_clients:
  "filter (\<lambda>x. o_ClientID x \<noteq> cid) (delete_where (\<lambda>c. o_ClientID c = cid \<and> P c) t) =
     filter (\<lambda>x. o_ClientID x \<noteq> cid) t"
  by (simp add: delete_where_def) (meson)

lemma UpdateDynamicClient_others:
  assumes "clients_ok s" "UpdateDynamicClient now cid req s = (r, s')"
  shows "filter (\<lambda>x. o_ClientID x \<noteq> cid) (oauth_clients s') =
     filter (\<lambda>x. o_ClientID x \<noteq> cid) (oauth_clients s)"
  using assms(2)
proof (cases rule: UpdateDynamicClient_effect)
  case (replaced d c)
  then show ?thesis
    using assms(1) client_found [OF replaced(1)] update_other_clients [of "oauth_clients s" d cid c]
    by (simp add: clients_ok_def)
qed simp

text \<open>
  A registration token manages its own client and nothing else: without a token that verifies
  for the client, update and deletion answer 401 and change nothing; with one, every other
  client keeps its row, and a deletion leaves no dynamic client under the client id.
\<close>

theorem dcr_management_isolated:
  assumes "clients_ok s"
  shows "(case authorizeDCRManagement E hdr cid s of
      Inl e \<Rightarrow> dcrUpdateOp E now hdr cid body sc s = (Inl e, s) \<and> dcrDeleteOp E hdr cid s = (Inl e, s) \<and>
        (\<exists>code. e = OAuthErr code 401)
    | Inr c \<Rightarrow>
        filter (\<lambda>x. o_ClientID x \<noteq> cid) (oauth_clients (snd (dcrUpdateOp E now hdr cid body sc s))) =
          filter (\<lambda>x. o_ClientID x \<noteq> cid) (oauth_clients s) \<and>
        filter (\<lambda>x. o_ClientID x \<noteq> cid) (oauth_clients (snd (dcrDeleteOp E hdr cid s))) =
          filter (\<lambda>x. o_ClientID x \<noteq> cid) (oauth_clients s) \<and>
        (\<forall>tok. VerifyRegistrationToken E cid tok (snd (dcrDeleteOp E hdr cid s)) = Inl ErrOAuthClientNotFound))"
proof (cases "authorizeDCRManagement E hdr cid s")
  case (Inl e)
  then show ?thesis
    by (auto simp: dcrUpdateOp_def dcrDeleteOp_def bind_def authorizeDCRManagement_def
        split: if_splits sum.splits)
next
  case (Inr c)
  have "snd (dcrUpdateOp E now hdr cid body sc s) = s \<or>
      (\<exists>req. snd (dcrUpdateOp E now hdr cid body sc s) = snd (UpdateDynamicClient now cid req s))"
    using Inr by (auto simp: dcrUpdateOp_def bind_def lift_def on_error_def split: sum.splits prod.splits)
      (metis snd_conv)+
  moreover have "filter (\<lambda>x. o_ClientID x \<noteq> cid) (oauth_clients (snd (UpdateDynamicClient now cid req s))) =
      filter (\<lambda>x. o_ClientID x \<noteq> cid) (oauth_clients s)" for req
    using UpdateDynamicClient_others [OF assms] by (metis prod.collapse)
  ultimately have u: "filter (\<lambda>x. o_ClientID x \<noteq> cid)
      (oauth_clients (snd (dcrUpdateOp E now hdr cid body sc s))) =
      filter (\<lambda>x. o_ClientID x \<noteq> cid) (oauth_clients s)" by auto
  have d: "snd (dcrDeleteOp E hdr cid s) = OAuthClient_DeleteByClientID cid s"
    using Inr by (simp add: dcrDeleteOp_def bind_def)
  have "VerifyRegistrationToken E cid tok (OAuthClient_DeleteByClientID cid s) = Inl ErrOAuthClientNotFound" for tok
    by (auto simp: VerifyRegistrationToken_def OAuthClient_DeleteByClientID_def
        OAuthClient_GetByClientID_def table_simps split: option.splits dest!: find_SomeD)
  with Inr u show ?thesis
    unfolding d by (simp add: OAuthClient_DeleteByClientID_def delete_other_clients)
qed

theorem dcr_management_isolated_witness:
  "dcrDeleteOp sample_env ''Bearer nope'' ''cid1'' empty_db = (Inl (OAuthErr InvalidToken 401), empty_db)"
proof -
  have "authorizeDCRManagement sample_env ''Bearer nope'' ''cid1'' empty_db = Inl (OAuthErr InvalidToken 401)"
    by (simp add: authorizeDCRManagement_def has_prefix_def VerifyRegistrationToken_def
        OAuthClient_GetByClientID_def empty_db_def)
  then show ?thesis
    using dcr_management_isolated [OF empty_clients_ok, where E = sample_env and hdr = "''Bearer nope''" and cid = "''cid1''"] by simp
qed

subsection \<open>Reconciliation at startup\<close>

lemma ensure_patch_idem:
  "ensure_patch cfg ((ensure_patch cfg c)\<lparr>o_UpdatedAt := t\<rparr>) = (ensure_patch cfg c)\<lparr>o_UpdatedAt := t\<rparr>"
  by (simp add: ensure_patch_def split: option.splits)

lemma ensure_patch_registered:
  assumes "rc_Name cfg \<noteq> []" "rc_GrantTypes cfg \<noteq> Some []"
  shows "ensure_patch cfg (client_row w (cfg\<lparr>rc_IdentityID := []\<rparr>)
      (delivery_mode (rc_BackchannelTokenDeliveryMode cfg)) h) =
    client_row w (cfg\<lparr>rc_IdentityID := []\<rparr>) (delivery_mode (rc_BackchannelTokenDeliveryMode cfg)) h"
  using assms by (auto simp: ensure_patch_def client_row_def client_grant_types_def or_nil_def
      delivery_mode_def split: option.splits)

lemma RegisterClient_Inr:
  assumes "RegisterClient N ap w req s = (Inr (c, sec), s')"
  shows "\<exists>h. c = client_row w req (delivery_mode (rc_BackchannelTokenDeliveryMode req)) h \<and>
     rc_Name req \<noteq> [] \<and> (\<forall>x \<in> set (oauth_clients s). \<not> client_conflict x c) \<and>
     s' = s\<lparr>oauth_clients := oauth_clients s @ [c]\<rparr>"
  using assms
  by (auto simp: RegisterClient_def Let_def bind_Inr OAuthClient_Create_def insert_row_Some
      split: if_splits option.splits)

text \<open>
  Reconciling the same configuration twice changes nothing the second time, as long as the
  configuration does not carry an empty, non-nil list of grant types.
\<close>

theorem EnsureClient_idempotent:
  assumes run: "EnsureClient N ap w cfg s = (Inr (), s1)"
    and ok: "unique_by client_conflict (oauth_clients s)" and g: "rc_GrantTypes cfg \<noteq> Some []"
  shows "EnsureClient N ap w' cfg s1 = (Inr (), s1)"
proof (cases "OAuthClient_GetByClientID (rc_ClientID cfg) s")
  case None
  with run obtain c sec where "RegisterClient N ap w (cfg\<lparr>rc_IdentityID := []\<rparr>) s = (Inr (c, sec), s1)"
    by (auto simp: EnsureClient_def bind_Inr)
  from RegisterClient_Inr [OF this] obtain h where
    c: "c = client_row w (cfg\<lparr>rc_IdentityID := []\<rparr>) (delivery_mode (rc_BackchannelTokenDeliveryMode cfg)) h" and
    n: "rc_Name cfg \<noteq> []" and s1: "s1 = s\<lparr>oauth_clients := oauth_clients s @ [c]\<rparr>" by auto
  have "OAuthClient_GetByClientID (rc_ClientID cfg) s1 = Some c"
    using None by (simp add: OAuthClient_GetByClientID_def s1 find_append c client_row_def)
  then show ?thesis using ensure_patch_registered [OF n g] by (simp add: EnsureClient_def c)
next
  case (Some d)
  let ?c = "(ensure_patch cfg d)\<lparr>o_UpdatedAt := cf_now w\<rparr>"
  have keys: "o_ID ?c = o_ID d" "o_ClientID ?c = o_ClientID d" by (simp_all add: ensure_patch_def)
  show ?thesis
  proof (cases "ensure_patch cfg d = d")
    case True
    with run Some show ?thesis by (auto simp: EnsureClient_def)
  next
    case False
    with run Some have "s1 = s\<lparr>oauth_clients := update_where (\<lambda>x. o_ID x = o_ID d) (\<lambda>_. ?c) (oauth_clients s)\<rparr>"
      using keys by (auto simp: EnsureClient_def OAuthClient_Update_def split: if_splits)
    then have "OAuthClient_GetByClientID (rc_ClientID cfg) s1 = Some ?c"
      using replaced_client_found [OF ok _ keys] client_found [OF Some] by auto
    then show ?thesis by (simp add: EnsureClient_def ensure_patch_idem)
  qed
qed

definition sample_cfg :: register_client_req where
  "sample_cfg = \<lparr>rc_ClientID = ''app'', rc_Name = ''App'', rc_Description = [], rc_Confidential = True,
     rc_TokenEndpointAuthMethod = [], rc_GrantTypes = None, rc_Scopes = Some [''read''],
     rc_RedirectURIs = None, rc_AccessTokenTTL = 60, rc_RefreshTokenTTL = 0, rc_JWKSURI = [],
     rc_JWKS = [], rc_SoftwareID = [], rc_SoftwareVersion = [], rc_Contacts = None, rc_Metadata = [],
     rc_IdentityID = [], rc_ClientNotificationEndpoint = [], rc_BackchannelTokenDeliveryMode = []\<rparr>"

lemma ensure_first_run:
  assumes "rc_ClientID cfg \<noteq> []" "rc_Name cfg \<noteq> []" "rc_ClientNotificationEndpoint cfg = []"
    "rc_BackchannelTokenDeliveryMode cfg = []"
  shows "EnsureClient sample_net False sample_fresh cfg empty_db = (Inr (), empty_db\<lparr>oauth_clients :=
     [client_row sample_fresh (cfg\<lparr>rc_IdentityID := []\<rparr>) BackchannelNotificationPoll
        (if rc_Confidential cfg then ''sec'' else [])]\<rparr>)"
  using assms
  by (simp add: EnsureClient_def RegisterClient_def sample_net_def sample_fresh_def delivery_mode_def
      IsValidBackchannelDeliveryMode_def OAuthClient_Create_def delivery_mode_check_def client_row_def
      insert_row_def empty_db_def client_identity_exists_def stringPtrOrNil_def bind_def ret_def Let_def
      OAuthClient_GetByClientID_def)

theorem EnsureClient_idempotent_witness:
  "\<exists>s1. EnsureClient sample_net False sample_fresh sample_cfg empty_db = (Inr (), s1) \<and>
     EnsureClient sample_net False sample_fresh sample_cfg s1 = (Inr (), s1)"
proof -
  obtain s1 where s1: "EnsureClient sample_net False sample_fresh sample_cfg empty_db = (Inr (), s1)"
    using ensure_first_run [of sample_cfg] by (auto simp: sample_cfg_def)
  then show ?thesis
    using EnsureClient_idempotent [OF s1, of sample_fresh]
    by (simp add: empty_db_def unique_by_def sample_cfg_def)
qed

text \<open>
  The excluded case: an empty list of grant types means the default at registration but is taken
  literally by the next run, which leaves the client without any grant.
\<close>

lemma EnsureClient_second_run_strips_grants:
  "\<exists>s1 s2 c1 c2. EnsureClient sample_net False sample_fresh (sample_cfg\<lparr>rc_GrantTypes := Some []\<rparr>) empty_db =
       (Inr (), s1) \<and>
     EnsureClient sample_net False sample_fresh (sample_cfg\<lparr>rc_GrantTypes := Some []\<rparr>) s1 = (Inr (), s2) \<and>
     OAuthClient_GetByClientID ''app'' s1 = Some c1 \<and> o_GrantTypes c1 = [GrantTypeClientCredentials] \<and>
     OAuthClient_GetByClientID ''app'' s2 = Some c2 \<and> o_GrantTypes c2 = []"
proof -
  let ?cfg = "sample_cfg\<lparr>rc_GrantTypes := Some []\<rparr>"
  let ?c1 = "client_row sample_fresh (?cfg\<lparr>rc_IdentityID := []\<rparr>) BackchannelNotificationPoll ''sec''"
  let ?s1 = "empty_db\<lparr>oauth_clients := [?c1]\<rparr>"
  let ?c2 = "(ensure_patch ?cfg ?c1)\<lparr>o_UpdatedAt := cf_now sample_fresh\<rparr>"
  have c1: "o_ClientID ?c1 = ''app''" "o_GrantTypes ?c1 = [GrantTypeClientCredentials]"
    "o_IdentityID ?c1 = None" "o_BackchannelTokenDeliveryMode ?c1 = BackchannelNotificationPoll"
    by (simp_all add: client_row_def sample_cfg_def client_grant_types_def or_nil_def stringPtrOrNil_def)
  have c2: "o_GrantTypes ?c2 = []" "o_ID ?c2 = o_ID ?c1" "o_ClientID ?c2 = ''app''" "o_IdentityID ?c2 = None"
    "o_BackchannelTokenDeliveryMode ?c2 = BackchannelNotificationPoll" "ensure_patch ?cfg ?c1 \<noteq> ?c1"
    by (simp_all add: ensure_patch_def client_row_def sample_cfg_def client_grant_types_def or_nil_def
        stringPtrOrNil_def)
  have r1: "EnsureClient sample_net False sample_fresh ?cfg empty_db = (Inr (), ?s1)"
    using ensure_first_run [of ?cfg] by (simp add: sample_cfg_def)
  have f1: "OAuthClient_GetByClientID ''app'' ?s1 = Some ?c1"
    by (simp add: OAuthClient_GetByClientID_def c1)
  have r2: "EnsureClient sample_net False sample_fresh ?cfg ?s1 = (Inr (), ?s1\<lparr>oauth_clients := [?c2]\<rparr>)"
  proof -
    have "rc_ClientID ?cfg = ''app''" by (simp add: sample_cfg_def)
    then show ?thesis
      unfolding EnsureClient_def using f1 c2
      by (simp add: OAuthClient_Update_def delivery_mode_check_def client_identity_exists_def)
  qed
  have f2: "OAuthClient_GetByClientID ''app'' (?s1\<lparr>oauth_clients := [?c2]\<rparr>) = Some ?c2"
    by (simp add: OAuthClient_GetByClientID_def c2)
  from r1 r2 f1 f2 c1(2) c2(1) show ?thesis by blast
qed

end
