(* ===== verification/Zeroid_Backchannel.thy ===== *)
theory Zeroid_Backchannel
  imports Zeroid_Clients Zeroid_Grants
begin

text \<open>
  Backchannel authentication, OpenID CIBA (\<open>src/internal/service/backchannel.go\<close>,
  \<open>src/internal/store/postgres/backchannel_request.go\<close>, \<open>src/domain/backchannel_auth.go\<close>): a
  client asks, the user approves or denies on another device, and the client gets one token by
  polling or by a push callback. The decoder of JSON, the deployer's hooks and the answers of
  the callback's HTTP server are parameters.
\<close>

subsection \<open>Configuration and parameters\<close>

record bc_config =
  DefaultExpiry :: int
  MaxExpiry :: int
  MinPollInterval :: int
  DefaultPollInterval :: int
  MaxBindingMessageBytes :: int
  PingMaxRetries :: int
  AllowPrivateNotificationEndpoints :: bool

definition DefaultBackchannelConfig :: bc_config where
  "DefaultBackchannelConfig =
     \<lparr>DefaultExpiry = 300 * second, MaxExpiry = 900 * second, MinPollInterval = 2 * second,
      DefaultPollInterval = 5, MaxBindingMessageBytes = 280, PingMaxRetries = 3,
      AllowPrivateNotificationEndpoints = False\<rparr>"

text \<open>The constructor fills in defaults for zero fields (\<open>PingMaxRetries\<close> zero means no retry).\<close>

definition NewBackchannelConfig :: "bc_config \<Rightarrow> bc_config" where
  "NewBackchannelConfig cfg =
     cfg\<lparr>DefaultExpiry := (if DefaultExpiry cfg = 0 then 300 * second else DefaultExpiry cfg),
         MaxExpiry := (if MaxExpiry cfg = 0 then 900 * second else MaxExpiry cfg),
         MinPollInterval := (if MinPollInterval cfg = 0 then 2 * second else MinPollInterval cfg),
         DefaultPollInterval := (if DefaultPollInterval cfg = 0 then 5 else DefaultPollInterval cfg),
         MaxBindingMessageBytes :=
           (if MaxBindingMessageBytes cfg = 0 then 280 else MaxBindingMessageBytes cfg)\<rparr>"

text \<open>What a deployer's validator does with one entry.\<close>

datatype verdict = Accepts | Rejects string | Panics string

type_synonym detail = "string \<times> string"

record bc_env =
  bc_cfg :: bc_config
  bc_net :: net_env
  json_array :: "string \<Rightarrow> string list option"
  json_type :: "string \<Rightarrow> string option option"
  rarValidators :: "string \<rightharpoonup> (string \<Rightarrow> verdict)"
  notifier :: "(bc_request \<Rightarrow> detail list \<Rightarrow> string option) option"
  running :: bool

text \<open>
  \<open>json_array\<close> decodes a JSON array into its raw elements; \<open>json_type\<close> decodes an object and gives
  its \<open>type\<close> field if it has one (a non-object, or a \<open>type\<close> that is not a string, is an error). A
  detail is its type and its raw text. \<open>running\<close> is false once \<open>Stop\<close> has been called.
\<close>

abbreviation MaxAuthorizationDetailsBytes :: nat where "MaxAuthorizationDetailsBytes \<equiv> 4096"
abbreviation MaxGroupHintChars :: nat where "MaxGroupHintChars \<equiv> 255"

subsection \<open>Rune counting\<close>

text \<open>
  \<open>utf8.RuneCountInString\<close> of Go: a well-formed sequence is one rune, every other byte counts as
  one. The second byte's range depends on the first.
\<close>

definition byte_in :: "nat \<Rightarrow> nat \<Rightarrow> char \<Rightarrow> bool" where
  "byte_in lo hi c \<longleftrightarrow> lo \<le> of_char c \<and> of_char c \<le> hi"

definition second_range :: "nat \<Rightarrow> nat \<times> nat" where
  "second_range b =
     (if b = 0xE0 then (0xA0, 0xBF) else if b = 0xED then (0x80, 0x9F)
      else if b = 0xF0 then (0x90, 0xBF) else if b = 0xF4 then (0x80, 0x8F) else (0x80, 0xBF))"

definition rune_size :: "nat \<Rightarrow> nat" where
  "rune_size b =
     (if 0xC2 \<le> b \<and> b \<le> 0xDF then 2 else if 0xE0 \<le> b \<and> b \<le> 0xEF then 3
      else if 0xF0 \<le> b \<and> b \<le> 0xF4 then 4 else 1)"

definition first_rune :: "char \<Rightarrow> string \<Rightarrow> nat" where
  "first_rune c cs =
     (let b = of_char c; n = rune_size b; tail = take (n - 1) cs; (lo, hi) = second_range b
      in if n = 1 \<or> length tail < n - 1 \<or> \<not> byte_in lo hi (hd tail) \<or>
            \<not> list_all (byte_in 0x80 0xBF) (tl tail)
         then 1 else n)"

function RuneCountInString :: "string \<Rightarrow> nat" where
  "RuneCountInString [] = 0"
| "RuneCountInString (c # cs) = 1 + RuneCountInString (drop (first_rune c cs - 1) cs)"
  by pat_completeness auto
termination by (relation "measure length") auto

subsection \<open>Authorization details (RFC 9396)\<close>

definition TrimSpace :: "string \<Rightarrow> string" where
  "TrimSpace s = rev (dropWhile is_space (rev (dropWhile is_space s)))"

fun parse_details :: "bc_env \<Rightarrow> string list \<Rightarrow> detail list option" where
  "parse_details B [] = Some []"
| "parse_details B (el # els) =
     (case json_type B el of
        None \<Rightarrow> None
      | Some None \<Rightarrow> None
      | Some (Some t) \<Rightarrow>
          if t = [] then None
          else (case parse_details B els of None \<Rightarrow> None | Some ds \<Rightarrow> Some ((t, el) # ds)))"

definition ParseAuthorizationDetails :: "bc_env \<Rightarrow> string \<Rightarrow> detail list option" where
  "ParseAuthorizationDetails B raw =
     (let trimmed = TrimSpace raw
      in if trimmed = [] \<or> trimmed = ''null'' then Some []
         else case json_array B trimmed of None \<Rightarrow> None | Some els \<Rightarrow> parse_details B els)"

definition detail_ok :: "bc_env \<Rightarrow> detail \<Rightarrow> bool" where
  "detail_ok B d =
     (case rarValidators B (fst d) of None \<Rightarrow> True | Some fn \<Rightarrow> fn (snd d) = Accepts)"

definition parseAndValidateAuthorizationDetails ::
  "bc_env \<Rightarrow> string \<Rightarrow> err + detail list \<times> string" where
  "parseAndValidateAuthorizationDetails B raw =
     (if raw = [] then Inr ([], ''[]'')
      else if length raw > MaxAuthorizationDetailsBytes
      then Inl (oauthBadRequest InvalidAuthorizationDetails)
      else case ParseAuthorizationDetails B raw of
             None \<Rightarrow> Inl (oauthBadRequest InvalidAuthorizationDetails)
           | Some parsed \<Rightarrow>
               if parsed = [] then Inr ([], ''[]'')
               else if list_all (detail_ok B) parsed then Inr (parsed, raw)
               else Inl (oauthBadRequest InvalidAuthorizationDetails))"

subsection \<open>The table of requests\<close>

abbreviation bc_update :: "(bc_request \<Rightarrow> bool) \<Rightarrow> (bc_request \<Rightarrow> bc_request) \<Rightarrow> db \<Rightarrow> db" where
  "bc_update P f s \<equiv> s\<lparr>backchannel_auth_requests := update_where P f (backchannel_auth_requests s)\<rparr>"

definition bc_conflict :: "bc_request \<Rightarrow> bc_request \<Rightarrow> bool" where
  "bc_conflict a b \<longleftrightarrow> b_AuthReqID a = b_AuthReqID b"

definition BC_Create :: "bc_request \<Rightarrow> (db, err, unit) svc" where
  "BC_Create r = (\<lambda>s. case insert_row bc_conflict r (backchannel_auth_requests s) of
      None \<Rightarrow> (Inl (ErrMsg ''failed to insert backchannel auth request''), s)
    | Some t \<Rightarrow> (Inr (), s\<lparr>backchannel_auth_requests := t\<rparr>))"

definition GetByAuthReqID :: "string \<Rightarrow> db \<Rightarrow> bc_request option" where
  "GetByAuthReqID aid s = find (\<lambda>r. b_AuthReqID r = aid) (backchannel_auth_requests s)"

definition approvable :: "time \<Rightarrow> string \<Rightarrow> bc_request \<Rightarrow> bool" where
  "approvable now aid r \<longleftrightarrow>
     b_AuthReqID r = aid \<and> b_Status r = BackchannelStatusPending \<and> now < b_ExpiresAt r"

definition MarkApproved :: "time \<Rightarrow> string \<Rightarrow> string \<Rightarrow> string \<Rightarrow> string \<Rightarrow> db \<Rightarrow> nat \<times> db" where
  "MarkApproved now aid subj email name s =
     (count_where (approvable now aid) (backchannel_auth_requests s),
      bc_update (approvable now aid)
        (\<lambda>r. r\<lparr>b_Status := BackchannelStatusApproved, b_ApprovedSubjectID := subj,
               b_ApprovedSubjectEmail := email, b_ApprovedSubjectName := name,
               b_ApprovedAt := Some now\<rparr>) s)"

definition MarkDenied :: "time \<Rightarrow> string \<Rightarrow> db \<Rightarrow> nat \<times> db" where
  "MarkDenied now aid s =
     (count_where (approvable now aid) (backchannel_auth_requests s),
      bc_update (approvable now aid) (\<lambda>r. r\<lparr>b_Status := BackchannelStatusDenied\<rparr>) s)"

definition issuable :: "string \<Rightarrow> bc_request \<Rightarrow> bool" where
  "issuable aid r \<longleftrightarrow> b_AuthReqID r = aid \<and> b_Status r = BackchannelStatusApproved"

definition MarkIssued :: "string \<Rightarrow> db \<Rightarrow> nat \<times> db" where
  "MarkIssued aid s =
     (count_where (issuable aid) (backchannel_auth_requests s),
      bc_update (issuable aid) (\<lambda>r. r\<lparr>b_Status := BackchannelStatusIssued\<rparr>) s)"

definition TouchPoll :: "string \<Rightarrow> time \<Rightarrow> db \<Rightarrow> db" where
  "TouchPoll aid at s =
     bc_update (\<lambda>r. b_AuthReqID r = aid) (\<lambda>r. r\<lparr>b_LastPolledAt := Some at\<rparr>) s"

definition SetLastNotifyError :: "string \<Rightarrow> string \<Rightarrow> db \<Rightarrow> db" where
  "SetLastNotifyError aid msg s =
     bc_update (\<lambda>r. b_AuthReqID r = aid) (\<lambda>r. r\<lparr>b_LastNotifyError := msg\<rparr>) s"

definition BC_SweepExpired :: "time \<Rightarrow> db \<Rightarrow> db" where
  "BC_SweepExpired now s =
     bc_update (\<lambda>r. b_Status r = BackchannelStatusPending \<and> b_ExpiresAt r < now)
       (\<lambda>r. r\<lparr>b_Status := BackchannelStatusExpired\<rparr>) s"

definition BC_DeleteExpired :: "time \<Rightarrow> db \<Rightarrow> db" where
  "BC_DeleteExpired now s = s\<lparr>backchannel_auth_requests :=
     delete_where (\<lambda>r. b_ExpiresAt r < now \<and> b_Status r \<in>
         {BackchannelStatusExpired, BackchannelStatusDenied, BackchannelStatusIssued})
       (backchannel_auth_requests s)\<rparr>"

subsection \<open>Asking\<close>

record create_auth_input =
  ca_ClientID :: string
  ca_AccountID :: string
  ca_ProjectID :: string
  ca_LoginHint :: string
  ca_GroupHint :: string
  ca_Scope :: string
  ca_BindingMessage :: string
  ca_RequestedExpiry :: int
  ca_ClientNotificationToken :: string
  ca_AuthorizationDetailsRaw :: string

definition declared_mode :: "oauth_client \<Rightarrow> string" where
  "declared_mode c = (if o_BackchannelTokenDeliveryMode c = [] then BackchannelNotificationPoll
     else o_BackchannelTokenDeliveryMode c)"

text \<open>Mode and endpoint of the request, from the client's registration.\<close>

definition notification_mode :: "bc_env \<Rightarrow> create_auth_input \<Rightarrow> oauth_client \<Rightarrow> err + string \<times> string" where
  "notification_mode B inp client =
     (if declared_mode client = BackchannelNotificationPing \<or>
         declared_mode client = BackchannelNotificationPush
      then if ca_ClientNotificationToken inp = [] then Inl (oauthBadRequest InvalidRequest)
           else if o_ClientNotificationEndpoint client = [] then Inl (oauthBadRequest InvalidRequest)
           else case validateNotificationEndpoint (bc_net B) (o_ClientNotificationEndpoint client)
                       (AllowPrivateNotificationEndpoints (bc_cfg B)) of
                  Some _ \<Rightarrow> Inl (oauthBadRequest InvalidRequest)
                | None \<Rightarrow> Inr (declared_mode client, o_ClientNotificationEndpoint client)
      else Inr (BackchannelNotificationPoll, []))"

definition request_expiry :: "bc_config \<Rightarrow> int \<Rightarrow> int" where
  "request_expiry cfg requested =
     (let d = dur_seconds requested; e = (if d \<le> 0 then DefaultExpiry cfg else d)
      in if e > MaxExpiry cfg then MaxExpiry cfg else e)"

definition new_request ::
  "bc_config \<Rightarrow> string \<Rightarrow> time \<Rightarrow> create_auth_input \<Rightarrow> string \<Rightarrow> string \<Rightarrow> string \<Rightarrow> bc_request" where
  "new_request cfg aid now inp rarRaw mode endpoint =
     \<lparr>b_AuthReqID = aid, b_AccountID = ca_AccountID inp, b_ProjectID = ca_ProjectID inp,
      b_ClientID = ca_ClientID inp, b_LoginHint = ca_LoginHint inp, b_GroupHint = ca_GroupHint inp,
      b_Scope = ca_Scope inp, b_BindingMessage = ca_BindingMessage inp,
      b_AuthorizationDetailsRaw = rarRaw, b_NotificationMode = mode,
      b_ClientNotificationEndpoint = endpoint,
      b_ClientNotificationToken = ca_ClientNotificationToken inp,
      b_Status = BackchannelStatusPending, b_ApprovedSubjectID = [], b_ApprovedSubjectEmail = [],
      b_ApprovedSubjectName = [], b_IntervalSeconds = DefaultPollInterval cfg,
      b_LastPolledAt = None, b_LastNotifyError = [],
      b_ExpiresAt = now + request_expiry cfg (ca_RequestedExpiry inp), b_CreatedAt = now,
      b_ApprovedAt = None\<rparr>"

definition dispatchNotifierWithRAR :: "bc_env \<Rightarrow> bc_request \<Rightarrow> detail list \<Rightarrow> db \<Rightarrow> db" where
  "dispatchNotifierWithRAR B row details s =
     (case notifier B of
        None \<Rightarrow> s
      | Some fn \<Rightarrow>
          if \<not> running B then s
          else case fn row details of
                 None \<Rightarrow> s | Some msg \<Rightarrow> SetLastNotifyError (b_AuthReqID row) msg s)"

text \<open>The output: identifier, lifetime in seconds, polling interval.\<close>

definition CreateAuthRequest ::
  "bc_env \<Rightarrow> string \<Rightarrow> time \<Rightarrow> create_auth_input \<Rightarrow> (db, err, string \<times> int \<times> int) svc" where
  "CreateAuthRequest B aid now inp = (\<lambda>s.
     if ca_ClientID inp = [] then (Inl (oauthBadRequest InvalidRequest), s)
     else if ca_AccountID inp = [] \<or> ca_ProjectID inp = [] then (Inl (oauthBadRequest InvalidRequest), s)
     else if ca_LoginHint inp = [] \<and> ca_GroupHint inp = [] then (Inl (oauthBadRequest InvalidRequest), s)
     else if RuneCountInString (ca_GroupHint inp) > MaxGroupHintChars
     then (Inl (oauthBadRequest InvalidRequest), s)
     else case OAuthClient_GetByClientID (ca_ClientID inp) s of
       None \<Rightarrow> (Inl (oauthBadRequest InvalidClient), s)
     | Some client \<Rightarrow>
     (case notification_mode B inp client of
       Inl e \<Rightarrow> (Inl e, s)
     | Inr (mode, endpoint) \<Rightarrow>
     if MaxBindingMessageBytes (bc_cfg B) > 0 \<and>
        int (length (ca_BindingMessage inp)) > MaxBindingMessageBytes (bc_cfg B)
     then (Inl (oauthBadRequest InvalidRequest), s)
     else case parseAndValidateAuthorizationDetails B (ca_AuthorizationDetailsRaw inp) of
       Inl e \<Rightarrow> (Inl e, s)
     | Inr (details, rarRaw) \<Rightarrow>
     (let row = new_request (bc_cfg B) aid now inp rarRaw mode endpoint in
      case BC_Create row s of
        (Inl _, s1) \<Rightarrow> (Inl oauthServerError, s1)
      | (Inr _, s1) \<Rightarrow>
          (Inr (aid, whole_seconds (request_expiry (bc_cfg B) (ca_RequestedExpiry inp)),
                DefaultPollInterval (bc_cfg B)),
           dispatchNotifierWithRAR B row details s1))))"

subsection \<open>Minting\<close>

text \<open>
  The token for an approved row. The row is the caller's copy, which may be stale; the claim on
  the table comes first.
\<close>

definition ciba_request :: "bc_request \<Rightarrow> string \<Rightarrow> issue_request" where
  "ciba_request row thumb =
     (empty_issue (zero_identity\<lparr>i_AccountID := b_AccountID row, i_ProjectID := b_ProjectID row,
        i_IdentityType := IdentityTypeService, i_Status := IdentityStatusActive\<rparr>))
     \<lparr>iq_Scopes := parseScopeString (b_Scope row), iq_GrantType := GrantTypeCIBA, iq_TTL := 900,
      iq_UseRS256 := True, iq_SubjectOverride := b_ApprovedSubjectID row,
      iq_UserEmail := b_ApprovedSubjectEmail row, iq_UserName := b_ApprovedSubjectName row,
      iq_CustomClaims :=
        [(''token_exchange'', CStr ''ciba''), (''backchannel_client_id'', CStr (b_ClientID row))] @
        (if b_BindingMessage row \<noteq> [] then [(''binding_message'', CStr (b_BindingMessage row))]
         else []) @
        [(''authorization_details'', CRaw (b_AuthorizationDetailsRaw row))],
      iq_DPoPKeyThumbprint := thumb\<rparr>"

definition issueTokenForApprovedRow ::
  "env \<Rightarrow> inputs \<Rightarrow> bc_request \<Rightarrow> string \<Rightarrow> (db, err, access_token) svc" where
  "issueTokenForApprovedRow E w row thumb = (\<lambda>s.
     let (affected, s1) = MarkIssued (b_AuthReqID row) s in
     if affected = 0 then (Inl (oauthBadRequest AccessDenied), s1)
     else bind (on_error (IssueCredential E w (ciba_request row thumb)) (\<lambda>_. oauthServerError))
            (\<lambda>(tok, _). ret (tok\<lparr>a_AccountID := b_AccountID row, a_ProjectID := b_ProjectID row,
               a_AuthorizationDetails := b_AuthorizationDetailsRaw row\<rparr>)) s1)"

subsection \<open>Callbacks\<close>

text \<open>
  One attempt of the POST loop: the answer of \<open>client.Do\<close> (a status or a transport error), a
  request that cannot be built, or a context that ends during the backoff before the attempt.
\<close>

datatype attempt = Status nat | NetError string | BadRequest string | ContextDone string

datatype delivery = Delivered | Undelivered "string option"

text \<open>
  The loop with \<open>n\<close> attempts left at attempt number \<open>k\<close>, with its last error; it gives the outcome
  and the number of requests sent. Before attempt 0 there is no backoff, so a context that is
  already done shows up as a transport error there. \<open>what\<close> names the callback in the message, which
  is kept without the status code.
\<close>

fun post_loop ::
  "string \<Rightarrow> (nat \<Rightarrow> attempt) \<Rightarrow> nat \<Rightarrow> nat \<Rightarrow> string option \<Rightarrow> delivery \<times> nat" where
  "post_loop what answer 0 k lastErr = (Undelivered lastErr, 0)"
| "post_loop what answer (Suc n) k lastErr =
     (case answer k of
        ContextDone e \<Rightarrow>
          if k = 0 then (case post_loop what answer n (Suc k) (Some e) of (d, m) \<Rightarrow> (d, Suc m))
          else (Undelivered (Some e), 0)
      | BadRequest e \<Rightarrow> (Undelivered (Some e), 0)
      | NetError e \<Rightarrow>
          (case post_loop what answer n (Suc k) (Some e) of (d, m) \<Rightarrow> (d, Suc m))
      | Status code \<Rightarrow>
          if 200 \<le> code \<and> code < 300 then (Delivered, 1)
          else if 400 \<le> code \<and> code < 500 then (Undelivered (Some (what @ '' callback returned HTTP error'')), 1)
          else (case post_loop what answer n (Suc k) (Some (what @ '' callback returned HTTP error'')) of
                  (d, m) \<Rightarrow> (d, Suc m)))"

text \<open>What is posted: the bare identifier, the token response, or the error body.\<close>

datatype body = PingBody string | TokenBody access_token string | DeniedBody string

record callback =
  cb_Endpoint :: string
  cb_Bearer :: string
  cb_Body :: body
  cb_Outcome :: delivery
  cb_Posts :: nat

definition postCallback ::
  "bc_env \<Rightarrow> (nat \<Rightarrow> attempt) \<Rightarrow> string \<Rightarrow> bc_request \<Rightarrow> body \<Rightarrow> db \<Rightarrow> callback list \<times> db" where
  "postCallback B answer what row payload s =
     (if \<not> running B then ([], s)
      else (let (d, n) = post_loop what answer (nat (PingMaxRetries (bc_cfg B) + 1)) 0 None
            in ([\<lparr>cb_Endpoint = b_ClientNotificationEndpoint row,
                  cb_Bearer = b_ClientNotificationToken row, cb_Body = payload, cb_Outcome = d,
                  cb_Posts = n\<rparr>],
                case d of
                  Delivered \<Rightarrow> SetLastNotifyError (b_AuthReqID row) [] s
                | Undelivered None \<Rightarrow> s
                | Undelivered (Some e) \<Rightarrow> SetLastNotifyError (b_AuthReqID row) e s)))"

definition has_callback :: "bc_request \<Rightarrow> bool" where
  "has_callback row \<longleftrightarrow> b_ClientNotificationEndpoint row \<noteq> [] \<and> b_ClientNotificationToken row \<noteq> []"

definition dispatchPing :: "bc_env \<Rightarrow> (nat \<Rightarrow> attempt) \<Rightarrow> bc_request \<Rightarrow> db \<Rightarrow> callback list \<times> db" where
  "dispatchPing B answer row s =
     (if b_NotificationMode row \<noteq> BackchannelNotificationPing \<or> \<not> has_callback row then ([], s)
      else postCallback B answer ''ping'' row (PingBody (b_AuthReqID row)) s)"

definition dispatchPushApproval ::
  "env \<Rightarrow> bc_env \<Rightarrow> inputs \<Rightarrow> (nat \<Rightarrow> attempt) \<Rightarrow> bc_request \<Rightarrow> db \<Rightarrow> callback list \<times> db" where
  "dispatchPushApproval E B w answer row s =
     (if b_NotificationMode row \<noteq> BackchannelNotificationPush \<or> \<not> has_callback row then ([], s)
      else case issueTokenForApprovedRow E w row [] s of
             (Inl _, s1) \<Rightarrow> ([], SetLastNotifyError (b_AuthReqID row) ''push approval mint failed'' s1)
           | (Inr tok, s1) \<Rightarrow> postCallback B answer ''push'' row (TokenBody tok (b_AuthReqID row)) s1)"

definition dispatchPushDenial :: "bc_env \<Rightarrow> (nat \<Rightarrow> attempt) \<Rightarrow> bc_request \<Rightarrow> db \<Rightarrow> callback list \<times> db" where
  "dispatchPushDenial B answer row s =
     (if b_NotificationMode row \<noteq> BackchannelNotificationPush \<or> \<not> has_callback row then ([], s)
      else postCallback B answer ''push'' row (DeniedBody (b_AuthReqID row)) s)"

definition dispatchResolution ::
  "env \<Rightarrow> bc_env \<Rightarrow> inputs \<Rightarrow> (nat \<Rightarrow> attempt) \<Rightarrow> bool \<Rightarrow> bc_request \<Rightarrow> db \<Rightarrow> callback list \<times> db" where
  "dispatchResolution E B w answer approved row s =
     (if b_NotificationMode row = BackchannelNotificationPing then dispatchPing B answer row s
      else if b_NotificationMode row = BackchannelNotificationPush
      then if approved then dispatchPushApproval E B w answer row s
           else dispatchPushDenial B answer row s
      else ([], s))"

subsection \<open>Approving, denying, polling\<close>

record approve_input =
  ap_AuthReqID :: string
  ap_AccountID :: string
  ap_ProjectID :: string
  ap_SubjectID :: string
  ap_SubjectEmail :: string
  ap_SubjectName :: string

definition resolve_and_dispatch ::
  "env \<Rightarrow> bc_env \<Rightarrow> inputs \<Rightarrow> (nat \<Rightarrow> attempt) \<Rightarrow> bool \<Rightarrow> string \<Rightarrow> nat \<times> db \<Rightarrow>
   (err + callback list) \<times> db" where
  "resolve_and_dispatch E B w answer approved aid m =
     (case m of (affected, s) \<Rightarrow>
        if affected = 0 then (Inl (oauthBadRequest AccessDenied), s)
        else case GetByAuthReqID aid s of
               None \<Rightarrow> (Inr [], s)
             | Some row \<Rightarrow>
                 (case dispatchResolution E B w answer approved row s of (cbs, s') \<Rightarrow> (Inr cbs, s')))"

text \<open>The value is the list of callbacks sent; the clock of the claim is read after the checks.\<close>

definition Approve ::
  "env \<Rightarrow> bc_env \<Rightarrow> inputs \<Rightarrow> (nat \<Rightarrow> attempt) \<Rightarrow> approve_input \<Rightarrow> (db, err, callback list) svc" where
  "Approve E B w answer inp = (\<lambda>s.
     if ap_AuthReqID inp = [] \<or> ap_AccountID inp = [] \<or> ap_ProjectID inp = [] \<or> ap_SubjectID inp = []
     then (Inl (oauthBadRequest InvalidRequest), s)
     else case GetByAuthReqID (ap_AuthReqID inp) s of
       None \<Rightarrow> (Inl (oauthBadRequest InvalidRequest), s)
     | Some row \<Rightarrow>
     if b_AccountID row \<noteq> ap_AccountID inp \<or> b_ProjectID row \<noteq> ap_ProjectID inp
     then (Inl (oauthBadRequest InvalidRequest), s)
     else if b_Status row \<noteq> BackchannelStatusPending then (Inl (oauthBadRequest AccessDenied), s)
     else if b_ExpiresAt row < tk_auth w then (Inl (oauthBadRequest AccessDenied), s)
     else resolve_and_dispatch E B w answer True (ap_AuthReqID inp)
            (MarkApproved (tk_grant w) (ap_AuthReqID inp) (ap_SubjectID inp) (ap_SubjectEmail inp)
               (ap_SubjectName inp) s))"

definition Deny ::
  "env \<Rightarrow> bc_env \<Rightarrow> inputs \<Rightarrow> (nat \<Rightarrow> attempt) \<Rightarrow> string \<Rightarrow> string \<Rightarrow> string \<Rightarrow>
   (db, err, callback list) svc" where
  "Deny E B w answer aid acct proj = (\<lambda>s.
     if aid = [] \<or> acct = [] \<or> proj = [] then (Inl (oauthBadRequest InvalidRequest), s)
     else case GetByAuthReqID aid s of
       None \<Rightarrow> (Inl (oauthBadRequest InvalidRequest), s)
     | Some row \<Rightarrow>
     if b_AccountID row \<noteq> acct \<or> b_ProjectID row \<noteq> proj
     then (Inl (oauthBadRequest InvalidRequest), s)
     else if b_Status row \<noteq> BackchannelStatusPending then (Inl (oauthBadRequest AccessDenied), s)
     else resolve_and_dispatch E B w answer False aid (MarkDenied (tk_grant w) aid s))"

definition Redeem ::
  "env \<Rightarrow> bc_env \<Rightarrow> inputs \<Rightarrow> string \<Rightarrow> string \<Rightarrow> string \<Rightarrow> (db, err, access_token) svc" where
  "Redeem E B w aid clientID thumb = (\<lambda>s.
     if aid = [] then (Inl (oauthBadRequest InvalidGrant), s)
     else case GetByAuthReqID aid s of
       None \<Rightarrow> (Inl (oauthBadRequest InvalidGrant), s)
     | Some row \<Rightarrow>
     if clientID \<noteq> [] \<and> b_ClientID row \<noteq> clientID then (Inl (oauthBadRequest InvalidGrant), s)
     else if b_NotificationMode row = BackchannelNotificationPush
     then (Inl (oauthBadRequest AccessDenied), s)
     else if b_ExpiresAt row < tk_auth w \<and> b_Status row = BackchannelStatusPending
     then (Inl (oauthBadRequest ExpiredToken), s)
     else if b_Status row = BackchannelStatusPending
     then if (case b_LastPolledAt row of
                None \<Rightarrow> False | Some t \<Rightarrow> time_Sub (tk_auth w) t < MinPollInterval (bc_cfg B))
          then (Inl (oauthBadRequest SlowDown), s)
          else (Inl (oauthBadRequest AuthorizationPending), TouchPoll aid (tk_auth w) s)
     else if b_Status row = BackchannelStatusDenied then (Inl (oauthBadRequest AccessDenied), s)
     else if b_Status row = BackchannelStatusExpired then (Inl (oauthBadRequest ExpiredToken), s)
     else if b_Status row = BackchannelStatusIssued then (Inl (oauthBadRequest AccessDenied), s)
     else if b_Status row = BackchannelStatusApproved
     then issueTokenForApprovedRow E w row thumb s
     else (Inl (oauthBadRequest InvalidGrant), s))"

end
