(* ===== verification/Zeroid_CIBA.thy ===== *)
theory Zeroid_CIBA
  imports Zeroid_Backchannel
begin

text \<open>
  What the backchannel service guarantees: requests move forward through their lifecycle and keep
  the invariant of their table, a request gives at most one token whatever the interleaving of
  polls, approvals and push deliveries, and the effects of asking, polling, approving and calling
  back are bounded.
\<close>

subsection \<open>Life of a request\<close>

text \<open>
  The lifecycle as a step relation on statuses, and what an operation may do to a row: the request
  itself never changes, and once it is not pending neither does the approved subject.
\<close>

inductive bc_next :: "string \<Rightarrow> string \<Rightarrow> bool" where
  approve: "bc_next BackchannelStatusPending BackchannelStatusApproved"
| deny: "bc_next BackchannelStatusPending BackchannelStatusDenied"
| expire: "bc_next BackchannelStatusPending BackchannelStatusExpired"
| issue: "bc_next BackchannelStatusApproved BackchannelStatusIssued"

inductive_cases bc_next_from_pending: "bc_next BackchannelStatusPending x"
inductive_cases bc_next_from_approved: "bc_next BackchannelStatusApproved x"
inductive_cases bc_next_from_issued: "bc_next BackchannelStatusIssued x"
inductive_cases bc_next_from_denied: "bc_next BackchannelStatusDenied x"
inductive_cases bc_next_from_expired: "bc_next BackchannelStatusExpired x"

abbreviation closed_status :: "string \<Rightarrow> bool" where
  "closed_status x \<equiv> x \<noteq> BackchannelStatusPending \<and> x \<noteq> BackchannelStatusApproved"

lemma closed_status_stays: "bc_next\<^sup>*\<^sup>* x y \<Longrightarrow> closed_status x \<Longrightarrow> y = x"
  by (induction rule: rtranclp_induct) (auto elim: bc_next.cases)

definition same_request :: "bc_request \<Rightarrow> bc_request \<Rightarrow> bool" where
  "same_request r r' \<longleftrightarrow> b_AuthReqID r' = b_AuthReqID r \<and> b_AccountID r' = b_AccountID r \<and>
     b_ProjectID r' = b_ProjectID r \<and> b_ClientID r' = b_ClientID r \<and> b_Scope r' = b_Scope r \<and>
     b_BindingMessage r' = b_BindingMessage r \<and>
     b_AuthorizationDetailsRaw r' = b_AuthorizationDetailsRaw r \<and>
     b_NotificationMode r' = b_NotificationMode r \<and>
     b_ClientNotificationEndpoint r' = b_ClientNotificationEndpoint r \<and>
     b_ClientNotificationToken r' = b_ClientNotificationToken r \<and> b_ExpiresAt r' = b_ExpiresAt r"

definition row_evolves :: "bc_request \<Rightarrow> bc_request \<Rightarrow> bool" where
  "row_evolves r r' \<longleftrightarrow> same_request r r' \<and> bc_next\<^sup>*\<^sup>* (b_Status r) (b_Status r') \<and>
     (b_Status r \<noteq> BackchannelStatusPending \<longrightarrow> b_ApprovedSubjectID r' = b_ApprovedSubjectID r) \<and>
     (b_Status r' = BackchannelStatusPending \<longrightarrow> b_Status r = BackchannelStatusPending)"

definition req_evolves :: "string set \<Rightarrow> bc_request list \<Rightarrow> bc_request list \<Rightarrow> bool" where
  "req_evolves M t t' \<longleftrightarrow> (\<forall>r' \<in> set t'. b_AuthReqID r' \<in> M \<or> (\<exists>r \<in> set t. row_evolves r r'))"

lemma row_evolves_refl [simp]: "row_evolves r r"
  by (simp add: row_evolves_def same_request_def)

lemma row_evolves_trans: "row_evolves a b \<Longrightarrow> row_evolves b c \<Longrightarrow> row_evolves a c"
  by (auto simp: row_evolves_def same_request_def)

lemma row_evolves_id: "row_evolves r r' \<Longrightarrow> b_AuthReqID r' = b_AuthReqID r"
  by (simp add: row_evolves_def same_request_def)

lemma req_evolves_refl [simp]: "req_evolves M t t"
  unfolding req_evolves_def using row_evolves_refl by blast

lemma req_evolves_trans:
  "req_evolves M t t' \<Longrightarrow> req_evolves M t' t'' \<Longrightarrow> req_evolves M t t''"
  unfolding req_evolves_def using row_evolves_trans row_evolves_id by metis

lemma req_evolves_update:
  "(\<And>r. P r \<Longrightarrow> row_evolves r (f r)) \<Longrightarrow> req_evolves M t (update_where P f t)"
  unfolding req_evolves_def set_update_where using row_evolves_refl by fastforce

lemma req_evolves_delete: "req_evolves M t (delete_where P t)"
  unfolding req_evolves_def set_delete_where using row_evolves_refl by blast

lemma unique_bc_update:
  "unique_by bc_conflict t \<Longrightarrow> (\<And>r. b_AuthReqID (f r) = b_AuthReqID r) \<Longrightarrow>
   unique_by bc_conflict (update_where P f t)"
  by (rule unique_by_update) (simp_all add: bc_conflict_def)

lemma unique_bc: "unique_by bc_conflict t \<longleftrightarrow> distinct (map b_AuthReqID t)"
  by (induction t) (auto simp: unique_by_def bc_conflict_def)

lemma bc_by_id:
  "unique_by bc_conflict t \<Longrightarrow> r \<in> set t \<Longrightarrow> r' \<in> set t \<Longrightarrow> b_AuthReqID r = b_AuthReqID r' \<Longrightarrow> r = r'"
  by (simp add: unique_bc distinct_map inj_on_def)

subsection \<open>Invariant of the table\<close>

definition request_wf :: "bc_request \<Rightarrow> bool" where
  "request_wf r \<longleftrightarrow>
     b_Status r \<in> {BackchannelStatusPending, BackchannelStatusApproved, BackchannelStatusIssued,
       BackchannelStatusDenied, BackchannelStatusExpired} \<and>
     (b_Status r \<in> {BackchannelStatusApproved, BackchannelStatusIssued} \<longrightarrow> b_ApprovedSubjectID r \<noteq> []) \<and>
     (b_NotificationMode r \<noteq> BackchannelNotificationPoll \<longrightarrow> has_callback r)"

definition requests_ok :: "bc_request list \<Rightarrow> bool" where
  "requests_ok t \<longleftrightarrow> unique_by bc_conflict t \<and> list_all request_wf t"

text \<open>
  What every statement on the table does: it evolves the rows (new ones have their identifier in
  \<open>M\<close>) and keeps the invariant. Operations are compositions of such statements.
\<close>

definition bc_stmt :: "string set \<Rightarrow> bc_request list \<Rightarrow> bc_request list \<Rightarrow> bool" where
  "bc_stmt M t t' \<longleftrightarrow> req_evolves M t t' \<and> (requests_ok t \<longrightarrow> requests_ok t')"

lemma bc_stmt_refl [simp]: "bc_stmt M t t"
  by (simp add: bc_stmt_def)

lemma bc_stmt_trans: "bc_stmt M t t' \<Longrightarrow> bc_stmt M t' t'' \<Longrightarrow> bc_stmt M t t''"
  using req_evolves_trans by (auto simp: bc_stmt_def)

lemma bc_stmt_update:
  assumes "\<And>r. P r \<Longrightarrow> row_evolves r (f r)" "\<And>r. P r \<Longrightarrow> request_wf r \<Longrightarrow> request_wf (f r)"
    "\<And>r. b_AuthReqID (f r) = b_AuthReqID r"
  shows "bc_stmt M t (update_where P f t)"
  unfolding bc_stmt_def requests_ok_def
  using req_evolves_update [of P f M t] assms unique_bc_update [of t f P]
  by (auto simp: list_all_iff set_update_where)

lemma bc_stmt_delete: "bc_stmt M t (delete_where P t)"
  by (simp add: bc_stmt_def requests_ok_def req_evolves_delete unique_by_delete list_all_iff table_simps)

lemma bc_stmts:
  "bc_stmt M t (update_where (\<lambda>r. b_AuthReqID r = aid) (\<lambda>r. r\<lparr>b_LastPolledAt := x\<rparr>) t)"
  "bc_stmt M t (update_where (\<lambda>r. b_AuthReqID r = aid) (\<lambda>r. r\<lparr>b_LastNotifyError := m\<rparr>) t)"
  "bc_stmt M t (update_where (issuable aid) (\<lambda>r. r\<lparr>b_Status := BackchannelStatusIssued\<rparr>) t)"
  "bc_stmt M t (update_where (approvable now aid) (\<lambda>r. r\<lparr>b_Status := BackchannelStatusDenied\<rparr>) t)"
  "bc_stmt M t (update_where (\<lambda>r. b_Status r = BackchannelStatusPending \<and> b_ExpiresAt r < now)
     (\<lambda>r. r\<lparr>b_Status := BackchannelStatusExpired\<rparr>) t)"
  by (rule bc_stmt_update;
      auto simp: row_evolves_def same_request_def request_wf_def has_callback_def issuable_def
        approvable_def intro: bc_next.intros)+

lemma bc_stmt_approve:
  "subj \<noteq> [] \<Longrightarrow> bc_stmt M t (update_where (approvable now aid)
     (\<lambda>r. r\<lparr>b_Status := BackchannelStatusApproved, b_ApprovedSubjectID := subj,
            b_ApprovedSubjectEmail := email, b_ApprovedSubjectName := name, b_ApprovedAt := x\<rparr>) t)"
  by (rule bc_stmt_update;
      auto simp: row_evolves_def same_request_def request_wf_def has_callback_def
        approvable_def intro: bc_next.intros)

lemma bc_stmt_insert:
  assumes "request_wf r" "insert_row bc_conflict r t = Some t'"
  shows "bc_stmt {b_AuthReqID r} t t'"
  using assms unique_by_insert [of bc_conflict t r t']
  by (auto simp: bc_stmt_def requests_ok_def req_evolves_def insert_row_Some)
     (metis row_evolves_refl)

subsection \<open>Effects of the operations\<close>

abbreviation reqs :: "db \<Rightarrow> bc_request list" where "reqs s \<equiv> backchannel_auth_requests s"

lemma issue_keeps_reqs: "reqs (snd (IssueCredential E w req s)) = reqs s"
  by (cases rule: IssueCredential_effect [of E w req s]) simp_all

text \<open>The claim comes first; a credential is appended only after a won claim.\<close>

lemma mint_effect:
  assumes "issueTokenForApprovedRow E w row th s = (r, s')"
  shows "reqs s' = update_where (issuable (b_AuthReqID row)) (\<lambda>r. r\<lparr>b_Status := BackchannelStatusIssued\<rparr>) (reqs s)"
    "(issued_credentials s' = issued_credentials s \<and> (\<exists>e. r = Inl e)) \<or>
     ((\<exists>q \<in> set (reqs s). issuable (b_AuthReqID row) q) \<and>
      (\<exists>c. issued_credentials s' = issued_credentials s @ [c] \<and> c_JTI c = fr_jti w \<and>
        insert_row credential_conflict c (issued_credentials s) = Some (issued_credentials s @ [c])) \<and>
      (\<exists>tok. r = Inr tok))"
proof -
  obtain s1 where m: "MarkIssued (b_AuthReqID row) s = (count_where (issuable (b_AuthReqID row)) (reqs s), s1)"
    "issued_credentials s1 = issued_credentials s" and
    r1: "reqs s1 = update_where (issuable (b_AuthReqID row))
      (\<lambda>r. r\<lparr>b_Status := BackchannelStatusIssued\<rparr>) (reqs s)" by (simp add: MarkIssued_def)
  have ex: "count_where P t \<noteq> 0 \<Longrightarrow> \<exists>q \<in> set t. P q" for P and t :: "bc_request list"
    by (auto simp: count_where_def filter_empty_conv)
  show "reqs s' = update_where (issuable (b_AuthReqID row)) (\<lambda>r. r\<lparr>b_Status := BackchannelStatusIssued\<rparr>) (reqs s)"
    using assms m r1 issue_keeps_reqs [of E w "ciba_request row th" s1]
    by (auto simp: issueTokenForApprovedRow_def Let_def bind_def on_error_def ret_def
        split: if_splits prod.splits sum.splits)
  show "(issued_credentials s' = issued_credentials s \<and> (\<exists>e. r = Inl e)) \<or>
     ((\<exists>q \<in> set (reqs s). issuable (b_AuthReqID row) q) \<and>
      (\<exists>c. issued_credentials s' = issued_credentials s @ [c] \<and> c_JTI c = fr_jti w \<and>
        insert_row credential_conflict c (issued_credentials s) = Some (issued_credentials s @ [c])) \<and>
      (\<exists>tok. r = Inr tok))"
  proof (cases "count_where (issuable (b_AuthReqID row)) (reqs s) = 0")
    case True
    with assms m show ?thesis by (auto simp: issueTokenForApprovedRow_def)
  next
    case False
    with assms m(1) have b: "bind (on_error (IssueCredential E w (ciba_request row th)) (\<lambda>_. oauthServerError))
        (\<lambda>(tok, _). ret (tok\<lparr>a_AccountID := b_AccountID row, a_ProjectID := b_ProjectID row,
           a_AuthorizationDetails := b_AuthorizationDetailsRaw row\<rparr>)) s1 = (r, s')"
      by (simp add: issueTokenForApprovedRow_def)
    show ?thesis
    proof (cases rule: IssueCredential_effect [of E w "ciba_request row th" s1])
      case (error e)
      with b m(2) show ?thesis by (auto simp: bind_def on_error_def)
    next
      case (minted tok c)
      with b m(2) ex [OF False] show ?thesis by (auto simp: bind_def on_error_def ret_def)
    qed
  qed
qed

lemma notify_error_keeps: "bc_stmt M (reqs s) (reqs (SetLastNotifyError aid m s))"
  "issued_credentials (SetLastNotifyError aid m s) = issued_credentials s"
  by (simp_all add: SetLastNotifyError_def bc_stmts)

lemma postCallback_effect:
  "bc_stmt M (reqs s) (reqs (snd (postCallback B answer what row payload s)))"
  "issued_credentials (snd (postCallback B answer what row payload s)) = issued_credentials s"
  by (simp_all add: postCallback_def Let_def notify_error_keeps
      split: prod.split delivery.split option.split)

lemma mint_stmt: "bc_stmt M (reqs s) (reqs (snd (issueTokenForApprovedRow E w row th s)))"
  using mint_effect(1) [of E w row th s] bc_stmts(3) by (metis prod.collapse)

lemma dispatchResolution_stmt:
  "bc_stmt M (reqs s) (reqs (snd (dispatchResolution E B w answer ok row s)))"
proof -
  have "bc_stmt M (reqs s) (reqs (snd (dispatchPushApproval E B w answer row s)))"
    using mint_stmt [of M s E w row "[]"] bc_stmt_trans notify_error_keeps(1) postCallback_effect(1)
    by (auto simp: dispatchPushApproval_def split: prod.split sum.split)
  then show ?thesis
    by (simp add: dispatchResolution_def dispatchPing_def dispatchPushDenial_def postCallback_effect)
qed

lemma Approve_stmt: "bc_stmt M (reqs s) (reqs (snd (Approve E B w answer inp s)))"
proof -
  let ?m = "MarkApproved (tk_grant w) (ap_AuthReqID inp) (ap_SubjectID inp) (ap_SubjectEmail inp)
    (ap_SubjectName inp) s"
  have "bc_stmt M (reqs s) (reqs (snd ?m))" if "ap_SubjectID inp \<noteq> []"
    using bc_stmt_approve [OF that] by (simp add: MarkApproved_def)
  moreover have "bc_stmt M (reqs t) (reqs (snd (resolve_and_dispatch E B w answer True aid (n, t))))" for aid n t
    using dispatchResolution_stmt [of M t E B w answer True]
    by (auto simp: resolve_and_dispatch_def split: option.split prod.split) (metis snd_conv)
  ultimately show ?thesis
    using bc_stmt_trans by (auto simp: Approve_def split: option.split) (metis prod.collapse)
qed

lemma Deny_stmt: "bc_stmt M (reqs s) (reqs (snd (Deny E B w answer aid acct proj s)))"
proof -
  have "bc_stmt M (reqs s) (reqs (snd (MarkDenied (tk_grant w) aid s)))"
    by (simp add: MarkDenied_def bc_stmts)
  moreover have "bc_stmt M (reqs t) (reqs (snd (resolve_and_dispatch E B w answer False aid (n, t))))" for n t
    using dispatchResolution_stmt [of M t E B w answer False]
    by (auto simp: resolve_and_dispatch_def split: option.split prod.split) (metis snd_conv)
  ultimately show ?thesis
    using bc_stmt_trans by (auto simp: Deny_def split: option.split) (metis prod.collapse)
qed

lemma Redeem_stmt: "bc_stmt M (reqs s) (reqs (snd (Redeem E B w aid cid th s)))"
  using mint_stmt by (auto simp: Redeem_def TouchPoll_def bc_stmts split: option.split)

lemma notification_mode_callback:
  "notification_mode B inp client = Inr (mode, endpoint) \<Longrightarrow>
     mode \<in> {BackchannelNotificationPoll, BackchannelNotificationPing, BackchannelNotificationPush} \<and>
     (mode \<noteq> BackchannelNotificationPoll \<longrightarrow> endpoint \<noteq> [] \<and> ca_ClientNotificationToken inp \<noteq> [] \<and>
        validateNotificationEndpoint (bc_net B) endpoint (AllowPrivateNotificationEndpoints (bc_cfg B)) = None)"
  by (auto simp: notification_mode_def split: if_splits option.splits)

lemma CreateAuthRequest_Inr:
  assumes "CreateAuthRequest B aid now inp s = (Inr out, s')"
  obtains mode endpoint rarRaw client details t where
    "notification_mode B inp client = Inr (mode, endpoint)"
    "OAuthClient_GetByClientID (ca_ClientID inp) s = Some client"
    "ca_AccountID inp \<noteq> []" "ca_ProjectID inp \<noteq> []" "ca_LoginHint inp \<noteq> [] \<or> ca_GroupHint inp \<noteq> []"
    "RuneCountInString (ca_GroupHint inp) \<le> MaxGroupHintChars"
    "parseAndValidateAuthorizationDetails B (ca_AuthorizationDetailsRaw inp) = Inr (details, rarRaw)"
    "insert_row bc_conflict (new_request (bc_cfg B) aid now inp rarRaw mode endpoint) (reqs s) = Some t"
    "out = (aid, whole_seconds (request_expiry (bc_cfg B) (ca_RequestedExpiry inp)), DefaultPollInterval (bc_cfg B))"
    "s' = dispatchNotifierWithRAR B (new_request (bc_cfg B) aid now inp rarRaw mode endpoint) details
       (s\<lparr>backchannel_auth_requests := t\<rparr>)"
  using assms
  by (auto simp: CreateAuthRequest_def Let_def BC_Create_def
      split: if_splits option.splits sum.splits prod.splits)

lemma CreateAuthRequest_Inl: "CreateAuthRequest B aid now inp s = (Inl e, s') \<Longrightarrow> s' = s"
  by (auto simp: CreateAuthRequest_def Let_def BC_Create_def
      split: if_splits option.splits sum.splits prod.splits)

lemma notifier_keeps: "bc_stmt M (reqs s) (reqs (dispatchNotifierWithRAR B row details s))"
  "issued_credentials (dispatchNotifierWithRAR B row details s) = issued_credentials s"
  by (simp_all add: dispatchNotifierWithRAR_def notify_error_keeps split: option.split)

lemma new_request_wf:
  "notification_mode B inp client = Inr (mode, endpoint) \<Longrightarrow>
   request_wf (new_request cfg aid now inp rarRaw mode endpoint)"
  using notification_mode_callback [of B inp client mode endpoint]
  by (auto simp: request_wf_def new_request_def has_callback_def)

lemma Create_stmt: "bc_stmt {aid} (reqs s) (reqs (snd (CreateAuthRequest B aid now inp s)))"
proof (cases "CreateAuthRequest B aid now inp s")
  case (Pair r s')
  show ?thesis
  proof (cases r)
    case (Inl e)
    with Pair CreateAuthRequest_Inl show ?thesis by fastforce
  next
    case (Inr out)
    from Pair Inr have "CreateAuthRequest B aid now inp s = (Inr out, s')" by simp
    then show ?thesis
    proof (rule CreateAuthRequest_Inr)
      fix mode endpoint rarRaw client details t
      let ?row = "new_request (bc_cfg B) aid now inp rarRaw mode endpoint"
      assume "notification_mode B inp client = Inr (mode, endpoint)"
        "insert_row bc_conflict ?row (reqs s) = Some t"
        and s': "s' = dispatchNotifierWithRAR B ?row details (s\<lparr>backchannel_auth_requests := t\<rparr>)"
      then have "bc_stmt {b_AuthReqID ?row} (reqs s) t"
        using bc_stmt_insert new_request_wf by blast
      moreover have "b_AuthReqID ?row = aid" by (simp add: new_request_def)
      ultimately show ?thesis
        using Pair bc_stmt_trans notifier_keeps(1) [of "{aid}" "s\<lparr>backchannel_auth_requests := t\<rparr>"]
        by (simp add: s')
    qed
  qed
qed

subsection \<open>One token per request\<close>

text \<open>
  The calls of the service, in any order and number. \<open>MintCall\<close> is the minting step on a copy of a row
  that some handler read earlier, at whatever time: it covers every interleaving of concurrent
  polls and push deliveries.
\<close>

datatype bc_call =
    CreateCall string time create_auth_input
  | ApproveCall inputs "nat \<Rightarrow> attempt" approve_input
  | DenyCall inputs "nat \<Rightarrow> attempt" string string string
  | RedeemCall inputs string string string
  | MintCall inputs bc_request string
  | SweepCall time
  | DeleteCall time

fun bc_exec :: "env \<Rightarrow> bc_env \<Rightarrow> bc_call \<Rightarrow> db \<Rightarrow> db" where
  "bc_exec E B (CreateCall aid now inp) s = snd (CreateAuthRequest B aid now inp s)"
| "bc_exec E B (ApproveCall w answer inp) s = snd (Approve E B w answer inp s)"
| "bc_exec E B (DenyCall w answer aid acct proj) s = snd (Deny E B w answer aid acct proj s)"
| "bc_exec E B (RedeemCall w aid cid thumb) s = snd (Redeem E B w aid cid thumb s)"
| "bc_exec E B (MintCall w row thumb) s = snd (issueTokenForApprovedRow E w row thumb s)"
| "bc_exec E B (SweepCall now) s = BC_SweepExpired now s"
| "bc_exec E B (DeleteCall now) s = BC_DeleteExpired now s"

fun call_request :: "bc_call \<Rightarrow> string" where
  "call_request (CreateCall aid now inp) = aid"
| "call_request (ApproveCall w answer inp) = ap_AuthReqID inp"
| "call_request (DenyCall w answer aid acct proj) = aid"
| "call_request (RedeemCall w aid cid thumb) = aid"
| "call_request (MintCall w row thumb) = b_AuthReqID row"
| "call_request (SweepCall now) = []"
| "call_request (DeleteCall now) = []"

fun created :: "bc_call \<Rightarrow> string set" where
  "created (CreateCall aid now inp) = {aid}"
| "created _ = {}"

lemma bc_exec_stmt: "bc_stmt (created c) (reqs s) (reqs (bc_exec E B c s))"
proof (cases c)
  case (SweepCall now)
  then show ?thesis by (simp add: BC_SweepExpired_def bc_stmts)
next
  case (DeleteCall now)
  then show ?thesis by (simp add: BC_DeleteExpired_def bc_stmt_delete)
qed (simp_all add: Create_stmt Approve_stmt Deny_stmt Redeem_stmt mint_stmt)

definition with_status :: "(string \<Rightarrow> bool) \<Rightarrow> string \<Rightarrow> bc_request list \<Rightarrow> bool" where
  "with_status P k t \<longleftrightarrow> (\<forall>r \<in> set t. b_AuthReqID r = k \<longrightarrow> P (b_Status r))"

lemma closed_stays:
  assumes "req_evolves M t t'" "k \<notin> M" "with_status P k t" "\<And>x. P x \<Longrightarrow> closed_status x"
  shows "with_status P k t'"
  unfolding with_status_def
proof (intro ballI impI)
  fix r' assume r': "r' \<in> set t'" "b_AuthReqID r' = k"
  then obtain r where r: "r \<in> set t" "row_evolves r r'" using assms(1,2) by (auto simp: req_evolves_def)
  then have "P (b_Status r)" using assms(3) r'(2) row_evolves_id by (auto simp: with_status_def)
  moreover from this have "b_Status r' = b_Status r"
    using closed_status_stays assms(4) r(2) by (simp add: row_evolves_def)
  ultimately show "P (b_Status r')" by simp
qed

abbreviation all_issued :: "string \<Rightarrow> bc_request list \<Rightarrow> bool" where
  "all_issued \<equiv> with_status (\<lambda>x. x = BackchannelStatusIssued)"

abbreviation all_closed :: "string \<Rightarrow> bc_request list \<Rightarrow> bool" where
  "all_closed \<equiv> with_status closed_status"

lemma all_issued_closed: "all_issued k t \<Longrightarrow> all_closed k t"
  by (auto simp: with_status_def)

lemma mint_closes:
  assumes "issued_credentials (snd (issueTokenForApprovedRow E w row th s)) \<noteq> issued_credentials s"
  shows "\<exists>q \<in> set (reqs s). issuable (b_AuthReqID row) q"
    "unique_by bc_conflict (reqs s) \<Longrightarrow>
     all_issued (b_AuthReqID row) (reqs (snd (issueTokenForApprovedRow E w row th s)))"
proof -
  let ?s' = "snd (issueTokenForApprovedRow E w row th s)"
  have e: "issueTokenForApprovedRow E w row th s = (fst (issueTokenForApprovedRow E w row th s), ?s')" by simp
  show q: "\<exists>q \<in> set (reqs s). issuable (b_AuthReqID row) q" using mint_effect(2) [OF e] assms by auto
  assume u: "unique_by bc_conflict (reqs s)"
  from q have "\<forall>r \<in> set (reqs s). b_AuthReqID r = b_AuthReqID row \<longrightarrow> issuable (b_AuthReqID row) r"
    using bc_by_id [OF u] unfolding issuable_def by metis
  then show "all_issued (b_AuthReqID row) (reqs ?s')"
    unfolding mint_effect(1) [OF e] with_status_def set_update_where by (auto simp: issuable_def)
qed

lemma push_approval_mints:
  assumes "issued_credentials (snd (dispatchPushApproval E B w answer row s)) \<noteq> issued_credentials s"
    "unique_by bc_conflict (reqs s)"
  shows "all_issued (b_AuthReqID row) (reqs (snd (dispatchPushApproval E B w answer row s)))"
proof -
  let ?m = "issueTokenForApprovedRow E w row [] s"
  from assms(1) have eq: "dispatchPushApproval E B w answer row s =
      (case ?m of (Inl _, s1) \<Rightarrow> ([], SetLastNotifyError (b_AuthReqID row) ''push approval mint failed'' s1)
       | (Inr tok, s1) \<Rightarrow> postCallback B answer ''push'' row (TokenBody tok (b_AuthReqID row)) s1)"
    by (simp add: dispatchPushApproval_def split: if_splits)
  have "issued_credentials (snd ?m) \<noteq> issued_credentials s"
    using assms(1) unfolding eq
    by (auto simp: notify_error_keeps postCallback_effect split: prod.splits sum.splits)
  then have "all_issued (b_AuthReqID row) (reqs (snd ?m))" using mint_closes(2) assms(2) by blast
  moreover have "bc_stmt {} (reqs (snd ?m)) (reqs (snd (dispatchPushApproval E B w answer row s)))"
    unfolding eq by (simp add: notify_error_keeps postCallback_effect split: prod.split sum.split)
  ultimately show ?thesis using closed_stays by (force simp: bc_stmt_def)
qed

lemma dispatchResolution_mints:
  assumes "issued_credentials (snd (dispatchResolution E B w answer ok row s)) \<noteq> issued_credentials s"
    "unique_by bc_conflict (reqs s)"
  shows "ok \<and> all_issued (b_AuthReqID row) (reqs (snd (dispatchResolution E B w answer ok row s)))"
  using assms push_approval_mints [of E B w answer row s]
  by (auto simp: dispatchResolution_def dispatchPing_def dispatchPushDenial_def postCallback_effect
      split: if_splits)

lemma GetByAuthReqID_Some:
  "GetByAuthReqID aid s = Some r \<Longrightarrow> r \<in> set (reqs s) \<and> b_AuthReqID r = aid"
  by (auto simp: GetByAuthReqID_def dest: find_SomeD)

lemma resolve_mints:
  assumes "issued_credentials (snd (resolve_and_dispatch E B w answer ok aid (n, s))) \<noteq> issued_credentials s"
    "unique_by bc_conflict (reqs s)"
  shows "ok \<and> all_issued aid (reqs (snd (resolve_and_dispatch E B w answer ok aid (n, s))))"
proof -
  from assms(1) obtain row where row: "GetByAuthReqID aid s = Some row" "n \<noteq> 0"
    by (auto simp: resolve_and_dispatch_def split: if_splits option.splits prod.splits)
  then have eq: "snd (resolve_and_dispatch E B w answer ok aid (n, s)) =
      snd (dispatchResolution E B w answer ok row s)"
    by (simp add: resolve_and_dispatch_def split: prod.split)
  show ?thesis
    using assms dispatchResolution_mints [of E B w answer ok row s] GetByAuthReqID_Some [OF row(1)]
    unfolding eq by auto
qed

lemma Approve_mints:
  assumes "issued_credentials (snd (Approve E B w answer inp s)) \<noteq> issued_credentials s"
    "requests_ok (reqs s)"
  shows "\<not> all_closed (ap_AuthReqID inp) (reqs s) \<and>
     all_issued (ap_AuthReqID inp) (reqs (snd (Approve E B w answer inp s)))"
proof -
  let ?m = "MarkApproved (tk_grant w) (ap_AuthReqID inp) (ap_SubjectID inp) (ap_SubjectEmail inp)
    (ap_SubjectName inp) s"
  from assms(1) obtain row where row: "GetByAuthReqID (ap_AuthReqID inp) s = Some row"
      "b_Status row = BackchannelStatusPending" "ap_SubjectID inp \<noteq> []" and
    eq: "Approve E B w answer inp s = resolve_and_dispatch E B w answer True (ap_AuthReqID inp) ?m"
    by (auto simp: Approve_def split: if_splits option.splits)
  have "unique_by bc_conflict (reqs (snd ?m))" "issued_credentials (snd ?m) = issued_credentials s"
    using assms(2) by (simp_all add: MarkApproved_def requests_ok_def unique_bc_update)
  then have "all_issued (ap_AuthReqID inp) (reqs (snd (Approve E B w answer inp s)))"
    using assms(1) resolve_mints [of E B w answer True "ap_AuthReqID inp" "fst ?m" "snd ?m"]
    unfolding eq by simp
  moreover have "\<not> all_closed (ap_AuthReqID inp) (reqs s)"
    using GetByAuthReqID_Some [OF row(1)] row(2) by (auto simp: with_status_def)
  ultimately show ?thesis by blast
qed

lemma denial_mints_nothing:
  "issued_credentials (snd (resolve_and_dispatch E B w answer False aid (n, s))) = issued_credentials s"
proof -
  have "issued_credentials (snd (dispatchResolution E B w answer False row s)) = issued_credentials s" for row
    by (simp add: dispatchResolution_def dispatchPing_def dispatchPushDenial_def postCallback_effect)
  then show ?thesis
    by (auto simp: resolve_and_dispatch_def split: option.split prod.split) (metis snd_conv)
qed

lemma Deny_mints_nothing: "issued_credentials (snd (Deny E B w answer aid acct proj s)) = issued_credentials s"
proof -
  have "issued_credentials (snd (resolve_and_dispatch E B w answer False aid (MarkDenied (tk_grant w) aid s))) =
      issued_credentials s"
    using denial_mints_nothing [of E B w answer aid "fst (MarkDenied (tk_grant w) aid s)"
        "snd (MarkDenied (tk_grant w) aid s)"] by (simp add: MarkDenied_def)
  then show ?thesis by (simp add: Deny_def split: option.split)
qed

lemma Redeem_mints:
  assumes "issued_credentials (snd (Redeem E B w aid cid th s)) \<noteq> issued_credentials s"
    "requests_ok (reqs s)"
  shows "\<not> all_closed aid (reqs s) \<and> all_issued aid (reqs (snd (Redeem E B w aid cid th s)))"
proof -
  from assms(1) obtain row where row: "GetByAuthReqID aid s = Some row" and
    eq: "Redeem E B w aid cid th s = issueTokenForApprovedRow E w row th s"
    by (auto simp: Redeem_def TouchPoll_def split: if_splits option.splits)
  have "b_AuthReqID row = aid" using GetByAuthReqID_Some [OF row] by simp
  with assms show ?thesis
    using mint_closes [of E w row th s] unfolding eq
    by (auto simp: requests_ok_def with_status_def issuable_def)
qed

lemma bc_exec_mints:
  assumes "issued_credentials (bc_exec E B c s) \<noteq> issued_credentials s" "requests_ok (reqs s)"
  shows "\<not> all_closed (call_request c) (reqs s) \<and> all_issued (call_request c) (reqs (bc_exec E B c s))"
proof (cases c)
  case (CreateCall aid now inp)
  have "issued_credentials (snd (CreateAuthRequest B aid now inp s)) = issued_credentials s"
  proof (cases "CreateAuthRequest B aid now inp s")
    case (Pair r s')
    then show ?thesis
      by (cases r) (auto dest: CreateAuthRequest_Inl elim!: CreateAuthRequest_Inr simp: notifier_keeps)
  qed
  with assms CreateCall show ?thesis by simp
next
  case (MintCall w row th)
  with assms mint_closes [of E w row th s] show ?thesis
    by (auto simp: requests_ok_def with_status_def issuable_def)
qed (use assms Approve_mints Redeem_mints Deny_mints_nothing in
  \<open>simp_all add: BC_SweepExpired_def BC_DeleteExpired_def\<close>)

text \<open>
  The claim: one call, and whether it put a credential into the table for the request \<open>k\<close>. The state
  remembers the identifiers drawn so far; they come from 32 random bytes, so a creation that draws
  an identifier again is left out of the runs.
\<close>

definition ciba_claim :: "env \<Rightarrow> bc_env \<Rightarrow> string \<Rightarrow> bc_call \<Rightarrow> db \<times> string set \<Rightarrow> bool \<times> db \<times> string set" where
  "ciba_claim E B k c st =
     (case st of (s, used) \<Rightarrow>
        if created c \<inter> used \<noteq> {} then (False, s, used)
        else (call_request c = k \<and> issued_credentials (bc_exec E B c s) \<noteq> issued_credentials s,
              bc_exec E B c s, used \<union> created c))"

definition ciba_state_ok :: "db \<times> string set \<Rightarrow> bool" where
  "ciba_state_ok st \<longleftrightarrow> requests_ok (reqs (fst st)) \<and> b_AuthReqID ` set (reqs (fst st)) \<subseteq> snd st"

interpretation ciba_use: single_use "ciba_claim E B"
  "\<lambda>k st. all_closed k (reqs (fst st)) \<and> k \<in> snd st \<and> ciba_state_ok st" ciba_state_ok
proof
  fix k k' :: string and c :: bc_call and st st' :: "db \<times> string set"
  obtain s used where st: "st = (s, used)" by (cases st)
  let ?t = "reqs (bc_exec E B c s)"
  have stmt: "bc_stmt (created c) (reqs s) ?t" by (rule bc_exec_stmt)
  have ids: "b_AuthReqID ` set ?t \<subseteq> b_AuthReqID ` set (reqs s) \<union> created c"
    using stmt row_evolves_id unfolding bc_stmt_def req_evolves_def by fastforce
  show inv: "ciba_state_ok (snd (ciba_claim E B k c st))" if "ciba_state_ok st" for k
    using that stmt ids by (auto simp: ciba_claim_def ciba_state_ok_def st bc_stmt_def)
  show "all_closed k (reqs (fst st')) \<and> k \<in> snd st' \<and> ciba_state_ok st'"
    if ok: "ciba_state_ok st" and won: "ciba_claim E B k c st = (True, st')"
  proof -
    from won have c: "call_request c = k" "issued_credentials (bc_exec E B c s) \<noteq> issued_credentials s"
        "st' = (bc_exec E B c s, used \<union> created c)" by (auto simp: ciba_claim_def st split: if_splits)
    have ok': "requests_ok (reqs s)" "b_AuthReqID ` set (reqs s) \<subseteq> used"
      using ok by (simp_all add: ciba_state_ok_def st)
    from bc_exec_mints [OF c(2) ok'(1)] have m: "\<not> all_closed k (reqs s)" "all_issued k ?t" by (simp_all add: c(1))
    from m(1) have "k \<in> used" using ok'(2) by (auto simp: with_status_def)
    with m(2) all_issued_closed inv [OF ok, of k] won show ?thesis by (auto simp: c(3))
  qed
  show "\<not> fst (ciba_claim E B k c st)" if "all_closed k (reqs (fst st)) \<and> k \<in> snd st \<and> ciba_state_ok st"
    using that bc_exec_mints [of E B c s] by (auto simp: ciba_claim_def st ciba_state_ok_def)
  show "all_closed k (reqs (fst (snd (ciba_claim E B k' c st)))) \<and> k \<in> snd (snd (ciba_claim E B k' c st)) \<and>
      ciba_state_ok (snd (ciba_claim E B k' c st))"
    if "all_closed k (reqs (fst st)) \<and> k \<in> snd st \<and> ciba_state_ok st"
  proof -
    have "all_closed k ?t" if "created c \<inter> used = {}" "k \<in> used" "all_closed k (reqs s)"
      using closed_stays [of "created c" "reqs s" ?t k closed_status] stmt that by (auto simp: bc_stmt_def)
    with that inv [of k'] show ?thesis by (auto simp: ciba_claim_def st)
  qed
qed

text \<open>
  C6. A backchannel request yields at most one token: over any sequence of creations, approvals,
  denials, polls, push deliveries, sweeps and minting steps on stale copies of a row, at most one
  call puts a credential into the table for the same request.
\<close>

theorem ciba_request_single_token:
  assumes "ciba_state_ok (s, used)"
  shows "wins k (fst (run_claims (ciba_claim E B) (map (Pair k) calls) (s, used))) \<le> 1"
  using ciba_use.run_at_most_once [OF assms] .

definition sample_bc :: bc_env where
  "sample_bc = \<lparr>bc_cfg = DefaultBackchannelConfig, bc_net = sample_net, json_array = (\<lambda>x. None),
     json_type = (\<lambda>x. None), rarValidators = (\<lambda>x. None), notifier = None, running = True\<rparr>"

definition sample_request :: bc_request where
  "sample_request = \<lparr>b_AuthReqID = ''q1'', b_AccountID = ''acme'', b_ProjectID = ''prod'', b_ClientID = ''app'',
     b_LoginHint = ''alice'', b_GroupHint = [], b_Scope = ''read'', b_BindingMessage = [],
     b_AuthorizationDetailsRaw = ''[]'', b_NotificationMode = BackchannelNotificationPoll,
     b_ClientNotificationEndpoint = [], b_ClientNotificationToken = [],
     b_Status = BackchannelStatusPending, b_ApprovedSubjectID = [], b_ApprovedSubjectEmail = [],
     b_ApprovedSubjectName = [], b_IntervalSeconds = 5, b_LastPolledAt = None, b_LastNotifyError = [],
     b_ExpiresAt = 300 * second, b_CreatedAt = 0, b_ApprovedAt = None\<rparr>"

definition bc_db :: db where
  "bc_db = empty_db\<lparr>backchannel_auth_requests := [sample_request]\<rparr>"

lemma sample_requests_ok: "requests_ok (reqs bc_db)"
  by (simp add: requests_ok_def bc_db_def unique_by_def request_wf_def sample_request_def)

theorem ciba_request_single_token_witness:
  "wins ''q1'' (fst (run_claims (ciba_claim sample_env sample_bc)
     (map (Pair ''q1'') [RedeemCall sample_inputs ''q1'' ''app'' [], RedeemCall sample_inputs ''q1'' ''app'' []])
     (bc_db, {''q1''}))) \<le> 1"
proof (rule ciba_request_single_token)
  show "ciba_state_ok (bc_db, {''q1''})"
    using sample_requests_ok by (simp add: ciba_state_ok_def bc_db_def sample_request_def)
qed



subsection \<open>Asking is bounded\<close>

lemma endpoint_guard:
  assumes "validateNotificationEndpoint N raw allow = None" "\<not> allow"
  shows "\<exists>host hostname ips. url_parse N raw = Some (''https'', host, hostname) \<and>
     lookupIPs N hostname = Some ips \<and> ips \<noteq> [] \<and> list_all (\<lambda>ip. \<not> isBlockedIP ip) ips"
  using assms
  by (auto simp: validateNotificationEndpoint_def resolveAndCheckHost_def list_ex_iff list_all_iff
      split: option.splits if_splits prod.splits)

lemma that_row_stays:
  assumes "r \<in> set (reqs s)"
  shows "\<exists>m. r\<lparr>b_LastNotifyError := m\<rparr> \<in> set (reqs (dispatchNotifierWithRAR B row details s))"
proof -
  have same: "r\<lparr>b_LastNotifyError := b_LastNotifyError r\<rparr> = r" by simp
  then have none: "\<exists>m. r\<lparr>b_LastNotifyError := m\<rparr> \<in> set (reqs s)" using assms by metis
  have "\<exists>m. r\<lparr>b_LastNotifyError := m\<rparr> \<in> set (reqs (SetLastNotifyError aid e s))" for aid e
  proof (cases "b_AuthReqID r = aid")
    case True
    with assms show ?thesis by (force simp: SetLastNotifyError_def set_update_where)
  next
    case False
    with assms have "r \<in> set (reqs (SetLastNotifyError aid e s))"
      by (auto simp: SetLastNotifyError_def set_update_where)
    with same show ?thesis by metis
  qed
  with none show ?thesis by (simp add: dispatchNotifierWithRAR_def split: option.split)
qed

lemma request_expiry_bounds:
  "0 < DefaultExpiry cfg \<Longrightarrow> 0 < MaxExpiry cfg \<Longrightarrow>
   0 < request_expiry cfg n \<and> request_expiry cfg n \<le> MaxExpiry cfg"
  by (simp add: request_expiry_def Let_def)

text \<open>
  An accepted request is pending, belongs to a registered client and lives between now and the
  configured maximum, whatever lifetime was asked for (the product with a second may wrap around);
  a ping or push request has passed the endpoint guard at this moment, so its host resolves only
  to addresses outside the blocked ranges unless the deployer allowed private ones.
\<close>

theorem CreateAuthRequest_spec:
  assumes "CreateAuthRequest B aid now inp s = (Inr out, s')"
    and "0 < DefaultExpiry (bc_cfg B)" and "0 < MaxExpiry (bc_cfg B)"
  shows "\<exists>r. r \<in> set (backchannel_auth_requests s') \<and> b_AuthReqID r = aid \<and> GetByAuthReqID aid s = None \<and>
     b_Status r = BackchannelStatusPending \<and> b_ClientID r = ca_ClientID inp \<and>
     OAuthClient_GetByClientID (ca_ClientID inp) s \<noteq> None \<and>
     now < b_ExpiresAt r \<and> b_ExpiresAt r \<le> now + MaxExpiry (bc_cfg B) \<and>
     (b_NotificationMode r = BackchannelNotificationPoll \<or>
      (has_callback r \<and> (AllowPrivateNotificationEndpoints (bc_cfg B) \<or>
         (\<exists>host hostname ips. url_parse (bc_net B) (b_ClientNotificationEndpoint r) = Some (''https'', host, hostname) \<and>
            lookupIPs (bc_net B) hostname = Some ips \<and> ips \<noteq> [] \<and> list_all (\<lambda>ip. \<not> isBlockedIP ip) ips))))"
  using assms(1)
proof (rule CreateAuthRequest_Inr)
  fix mode endpoint rarRaw client details t
  let ?row = "new_request (bc_cfg B) aid now inp rarRaw mode endpoint"
  assume mode: "notification_mode B inp client = Inr (mode, endpoint)"
    and client: "OAuthClient_GetByClientID (ca_ClientID inp) s = Some client"
    and ins: "insert_row bc_conflict ?row (reqs s) = Some t"
    and s': "s' = dispatchNotifierWithRAR B ?row details (s\<lparr>backchannel_auth_requests := t\<rparr>)"
  have "?row \<in> set t" using ins by (simp add: insert_row_Some)
  then obtain m where r: "?row\<lparr>b_LastNotifyError := m\<rparr> \<in> set (reqs s')"
    using that_row_stays [of ?row "s\<lparr>backchannel_auth_requests := t\<rparr>" B ?row details] by (auto simp: s')
  have none: "GetByAuthReqID aid s = None"
    using ins by (auto simp: GetByAuthReqID_def find_None_iff insert_row_Some bc_conflict_def new_request_def)
  have ex: "now < b_ExpiresAt ?row" "b_ExpiresAt ?row \<le> now + MaxExpiry (bc_cfg B)"
    using request_expiry_bounds [OF assms(2,3), of "ca_RequestedExpiry inp"] by (simp_all add: new_request_def)
  have guard: "b_NotificationMode ?row = BackchannelNotificationPoll \<or>
      (has_callback ?row \<and> (AllowPrivateNotificationEndpoints (bc_cfg B) \<or>
         (\<exists>host hostname ips. url_parse (bc_net B) (b_ClientNotificationEndpoint ?row) = Some (''https'', host, hostname) \<and>
            lookupIPs (bc_net B) hostname = Some ips \<and> ips \<noteq> [] \<and> list_all (\<lambda>ip. \<not> isBlockedIP ip) ips)))"
  proof (cases "mode = BackchannelNotificationPoll")
    case False
    with notification_mode_callback [OF mode] have c: "endpoint \<noteq> []" "ca_ClientNotificationToken inp \<noteq> []"
      "validateNotificationEndpoint (bc_net B) endpoint (AllowPrivateNotificationEndpoints (bc_cfg B)) = None"
      by auto
    then show ?thesis using endpoint_guard [OF c(3)] by (auto simp: new_request_def has_callback_def)
  qed (simp add: new_request_def)
  show ?thesis
    using r none ex guard client
    by (intro exI [of _ "?row\<lparr>b_LastNotifyError := m\<rparr>"]) (simp add: new_request_def has_callback_def)
qed

definition sample_ask :: create_auth_input where
  "sample_ask = \<lparr>ca_ClientID = ''app'', ca_AccountID = ''acme'', ca_ProjectID = ''prod'', ca_LoginHint = ''alice'',
     ca_GroupHint = [], ca_Scope = ''read'', ca_BindingMessage = [], ca_RequestedExpiry = 0,
     ca_ClientNotificationToken = [], ca_AuthorizationDetailsRaw = []\<rparr>"

theorem CreateAuthRequest_spec_witness:
  "\<exists>s' r. CreateAuthRequest sample_bc ''q9'' 5 sample_ask (empty_db\<lparr>oauth_clients := [sample_client]\<rparr>) =
       (Inr (''q9'', 300, 5), s') \<and> r \<in> set (backchannel_auth_requests s') \<and>
     b_AuthReqID r = ''q9'' \<and> b_Status r = BackchannelStatusPending \<and> b_ExpiresAt r \<le> 5 + 900 * second"
proof -
  let ?s = "empty_db\<lparr>oauth_clients := [sample_client]\<rparr>"
  obtain s' where run: "CreateAuthRequest sample_bc ''q9'' 5 sample_ask ?s = (Inr (''q9'', 300, 5), s')"
    by (simp add: CreateAuthRequest_def sample_ask_def sample_bc_def OAuthClient_GetByClientID_def
        sample_client_def notification_mode_def declared_mode_def DefaultBackchannelConfig_def
        parseAndValidateAuthorizationDetails_def Let_def BC_Create_def empty_db_def insert_row_def
        request_expiry_def dur_seconds_def whole_seconds_def int64_def)
  have "0 < DefaultExpiry (bc_cfg sample_bc)" "0 < MaxExpiry (bc_cfg sample_bc)"
    "MaxExpiry (bc_cfg sample_bc) = 900 * second"
    by (simp_all add: sample_bc_def DefaultBackchannelConfig_def)
  then show ?thesis using CreateAuthRequest_spec [OF run] run by auto
qed

subsection \<open>Polling is paced\<close>

lemma lookup_after_touch:
  "GetByAuthReqID aid (TouchPoll aid now s) = map_option (\<lambda>r. r\<lparr>b_LastPolledAt := Some now\<rparr>) (GetByAuthReqID aid s)"
  by (cases "GetByAuthReqID aid s")
     (auto simp: GetByAuthReqID_def TouchPoll_def find_update_where dest: find_SomeD)

lemma lookup_after_claim:
  "GetByAuthReqID aid (snd (MarkIssued k s)) =
     map_option (\<lambda>r. if issuable k r then r\<lparr>b_Status := BackchannelStatusIssued\<rparr> else r) (GetByAuthReqID aid s)"
  by (simp add: GetByAuthReqID_def MarkIssued_def find_update_where)

lemma lookup_after_mint:
  "GetByAuthReqID aid (snd (issueTokenForApprovedRow E w row th s)) = GetByAuthReqID aid (snd (MarkIssued (b_AuthReqID row) s))"
  using mint_effect(1) [of E w row th s "fst (issueTokenForApprovedRow E w row th s)"]
  by (simp add: GetByAuthReqID_def MarkIssued_def)

lemma mint_never_pending: "fst (issueTokenForApprovedRow E w row th s) \<noteq> Inl (oauthBadRequest AuthorizationPending)"
  by (auto simp: issueTokenForApprovedRow_def Let_def bind_def on_error_def ret_def oauthBadRequest_def
      oauthServerError_def split: prod.splits sum.splits if_splits)

lemma Redeem_pending:
  assumes "Redeem E B w aid cid th s = (Inl (oauthBadRequest AuthorizationPending), s')"
  obtains r where "GetByAuthReqID aid s = Some r" "b_Status r = BackchannelStatusPending"
    "tk_auth w \<le> b_ExpiresAt r" "s' = TouchPoll aid (tk_auth w) s"
    "\<And>t. b_LastPolledAt r = Some t \<Longrightarrow> MinPollInterval (bc_cfg B) \<le> time_Sub (tk_auth w) t"
  using assms mint_never_pending [of E w _ th s]
  by (auto simp: Redeem_def not_less oauthBadRequest_def split: option.splits if_splits) (metis fst_conv)+

text \<open>An answer other than \<open>authorization_pending\<close> leaves the row alone or finds it approved.\<close>

lemma Redeem_other:
  assumes "Redeem E B w aid cid th s = (x, s')" "x \<noteq> Inl (oauthBadRequest AuthorizationPending)"
  shows "GetByAuthReqID aid s' = GetByAuthReqID aid s \<or>
    (\<exists>r. GetByAuthReqID aid s = Some r \<and> b_Status r \<noteq> BackchannelStatusPending)"
  using assms by (auto simp: Redeem_def split: option.splits if_splits)

fun poll_run :: "env \<Rightarrow> bc_env \<Rightarrow> string \<Rightarrow> (inputs \<times> string \<times> string) list \<Rightarrow> db \<Rightarrow> time list" where
  "poll_run E B aid [] s = []"
| "poll_run E B aid ((w, cid, th) # ps) s =
     (case Redeem E B w aid cid th s of (x, s') \<Rightarrow>
        if x = Inl (oauthBadRequest AuthorizationPending) then tk_auth w # poll_run E B aid ps s'
        else poll_run E B aid ps s')"

text \<open>The state of the request that the answers depend on, and that polling carries along.\<close>

definition poll_bound :: "bc_config \<Rightarrow> bc_request \<Rightarrow> time \<Rightarrow> bool" where
  "poll_bound cfg r t \<longleftrightarrow> t \<le> b_ExpiresAt r \<and>
     (\<forall>u. b_LastPolledAt r = Some u \<longrightarrow> u + MinPollInterval cfg \<le> t)"

lemma time_Sub_ge: "0 \<le> m \<Longrightarrow> m \<le> time_Sub t u \<Longrightarrow> u + m \<le> t"
  by (auto simp: time_Sub_def max_def min_def split: if_splits)

lemma closed_row_no_answers:
  "GetByAuthReqID aid s = Some r \<Longrightarrow> b_Status r \<noteq> BackchannelStatusPending \<Longrightarrow> poll_run E B aid ps s = []"
proof (induction ps arbitrary: s r)
  case (Cons p ps)
  obtain w cid th where p: "p = (w, cid, th)" by (cases p)
  obtain x s' where run: "Redeem E B w aid cid th s = (x, s')" by (cases "Redeem E B w aid cid th s")
  have "x \<noteq> Inl (oauthBadRequest AuthorizationPending)"
    using run Cons.prems by (auto elim!: Redeem_pending)
  moreover have "\<exists>r'. GetByAuthReqID aid s' = Some r' \<and> b_Status r' \<noteq> BackchannelStatusPending"
  proof -
    have "s' = s \<or> s' = snd (issueTokenForApprovedRow E w r th s)"
      using run Cons.prems by (auto simp: Redeem_def split: if_splits)
    then show ?thesis using Cons.prems by (auto simp: lookup_after_mint lookup_after_claim)
  qed
  ultimately show ?case using Cons.IH by (auto simp: p run)
qed simp

lemma poll_run_bound:
  assumes "0 \<le> MinPollInterval (bc_cfg B)"
  shows "sorted_wrt (\<lambda>t u. t + MinPollInterval (bc_cfg B) \<le> u) (poll_run E B aid ps s) \<and>
    (poll_run E B aid ps s = [] \<or>
      (\<exists>r. GetByAuthReqID aid s = Some r \<and> list_all (poll_bound (bc_cfg B) r) (poll_run E B aid ps s)))"
proof (induction ps arbitrary: s)
  case (Cons p ps)
  obtain w cid th where p: "p = (w, cid, th)" by (cases p)
  obtain x s' where run: "Redeem E B w aid cid th s = (x, s')" by (cases "Redeem E B w aid cid th s")
  note IH = Cons [of s']
  show ?case
  proof (cases "x = Inl (oauthBadRequest AuthorizationPending)")
    case False
    with Redeem_other [OF run] IH closed_row_no_answers [of aid s _ E B "p # ps"] show ?thesis
      by (auto simp: p run)
  next
    case True
    with run obtain r where r: "GetByAuthReqID aid s = Some r" "tk_auth w \<le> b_ExpiresAt r"
        "s' = TouchPoll aid (tk_auth w) s"
        "\<And>t. b_LastPolledAt r = Some t \<Longrightarrow> MinPollInterval (bc_cfg B) \<le> time_Sub (tk_auth w) t"
      by (auto elim!: Redeem_pending)
    let ?r' = "r\<lparr>b_LastPolledAt := Some (tk_auth w)\<rparr>"
    have r': "GetByAuthReqID aid s' = Some ?r'" by (simp add: r lookup_after_touch)
    have now: "poll_bound (bc_cfg B) r (tk_auth w)"
      using r(2,4) time_Sub_ge [OF assms] by (simp add: poll_bound_def)
    have step: "poll_bound (bc_cfg B) ?r' t \<Longrightarrow> tk_auth w + MinPollInterval (bc_cfg B) \<le> t \<and> poll_bound (bc_cfg B) r t" for t
      using now assms by (auto simp: poll_bound_def)
    have "list_all (poll_bound (bc_cfg B) ?r') (poll_run E B aid ps s')"
      using IH r' by (auto simp: list_all_iff)
    with step now IH True r(1) show ?thesis by (auto simp: p run list_all_iff)
  qed
qed simp

text \<open>
  A client cannot be told to keep waiting faster than the configured rate or beyond the life of
  its request: in any sequence of polls of one request, at any readings of the clock and from any
  client, the \<open>authorization_pending\<close> answers are at least the minimum interval apart, and none comes
  after the request's expiry; everything in between is answered \<open>slow_down\<close> or an error.
\<close>

theorem polls_are_paced:
  assumes "0 \<le> MinPollInterval (bc_cfg B)"
  shows "sorted_wrt (\<lambda>t u. t + MinPollInterval (bc_cfg B) \<le> u) (poll_run E B aid polls s) \<and>
    (poll_run E B aid polls s = [] \<or>
      (\<exists>r. GetByAuthReqID aid s = Some r \<and> list_all (\<lambda>t. t \<le> b_ExpiresAt r) (poll_run E B aid polls s)))"
  using poll_run_bound [OF assms, of E aid polls s] by (auto simp: list_all_iff poll_bound_def)

theorem polls_are_paced_witness:
  "poll_run sample_env sample_bc ''q1'' (map (\<lambda>t. (sample_inputs\<lparr>tk_auth := t\<rparr>, ''app'', [])) [0, second, 3 * second]) bc_db =
     [0, 3 * second] \<and>
   sorted_wrt (\<lambda>t u. t + 2 * second \<le> u)
     (poll_run sample_env sample_bc ''q1'' (map (\<lambda>t. (sample_inputs\<lparr>tk_auth := t\<rparr>, ''app'', [])) [0, second, 3 * second]) bc_db)"
proof -
  have m: "MinPollInterval (bc_cfg sample_bc) = 2 * second" by (simp add: sample_bc_def DefaultBackchannelConfig_def)
  show ?thesis
    using polls_are_paced [of sample_bc sample_env "''q1''"
        "map (\<lambda>t. (sample_inputs\<lparr>tk_auth := t\<rparr>, ''app'', [])) [0, second, 3 * second]" bc_db]
    unfolding m
    by (simp add: Redeem_def bc_db_def GetByAuthReqID_def sample_request_def TouchPoll_def time_Sub_def m
        oauthBadRequest_def)
qed

subsection \<open>Callbacks are bounded\<close>

fun accepted :: "attempt \<Rightarrow> bool" where
  "accepted (Status code) \<longleftrightarrow> 200 \<le> code \<and> code < 300"
| "accepted _ \<longleftrightarrow> False"

text \<open>The answers after which the loop tries again: 1xx, 3xx, 5xx and transport errors.\<close>

fun retried :: "nat \<Rightarrow> attempt \<Rightarrow> bool" where
  "retried k (Status code) \<longleftrightarrow> code < 200 \<or> (300 \<le> code \<and> code < 400) \<or> 500 \<le> code"
| "retried k (NetError e) \<longleftrightarrow> True"
| "retried k (ContextDone e) \<longleftrightarrow> k = 0"
| "retried k (BadRequest e) \<longleftrightarrow> False"

lemma ex_less_Suc: "(\<exists>j < Suc n. P j) \<longleftrightarrow> P 0 \<or> (\<exists>j < n. P (Suc j))"
  using less_Suc_eq_0_disj by auto

lemma all_less_Suc: "(\<forall>j < Suc n. P j) \<longleftrightarrow> P 0 \<and> (\<forall>j < n. P (Suc j))"
  using less_Suc_eq_0_disj by auto

lemma post_loop_spec:
  "post_loop what answer n k l = (d, m) \<Longrightarrow>
   m \<le> n \<and> (d = Delivered \<longleftrightarrow>
     (\<exists>j < n. accepted (answer (k + j)) \<and> (\<forall>i < j. retried (k + i) (answer (k + i)))))"
proof (induction n arbitrary: k l d m)
  case (Suc n)
  show ?case
  proof (cases "retried k (answer k)")
    case True
    then obtain l' where "post_loop what answer (Suc n) k l =
        (case post_loop what answer n (Suc k) l' of (d, m) \<Rightarrow> (d, Suc m))" "\<not> accepted (answer k)"
      by (cases "answer k") auto
    moreover obtain d' m' where "post_loop what answer n (Suc k) l' = (d', m')"
      by (cases "post_loop what answer n (Suc k) l'")
    ultimately show ?thesis
      using Suc.IH [of "Suc k" l' d' m'] Suc.prems True by (auto simp: ex_less_Suc all_less_Suc)
  next
    case False
    then show ?thesis
      using Suc.prems by (cases "answer k") (auto simp: ex_less_Suc all_less_Suc split: if_splits)
  qed
qed simp

text \<open>
  C29. A callback goes to the request's registered endpoint with its registered bearer and makes at
  most \<open>PingMaxRetries + 1\<close> posts, whatever the receiver answers. It is delivered exactly when one
  of these attempts gets a 2xx and every attempt before it got a transport error or a status other
  than 4xx; in particular a 4xx answer is final.
\<close>

theorem postCallback_bounded:
  assumes "running B"
  shows "\<exists>cb s'. postCallback B answer what row payload s = ([cb], s') \<and>
     cb_Endpoint cb = b_ClientNotificationEndpoint row \<and> cb_Bearer cb = b_ClientNotificationToken row \<and>
     cb_Body cb = payload \<and> int (cb_Posts cb) \<le> max 0 (PingMaxRetries (bc_cfg B) + 1) \<and>
     (cb_Outcome cb = Delivered) =
       (\<exists>j. int j \<le> PingMaxRetries (bc_cfg B) \<and> accepted (answer j) \<and> (\<forall>i < j. retried i (answer i)))"
proof -
  let ?n = "nat (PingMaxRetries (bc_cfg B) + 1)"
  obtain d m where dm: "post_loop what answer ?n 0 None = (d, m)" by (cases "post_loop what answer ?n 0 None")
  have n: "j < ?n \<longleftrightarrow> int j \<le> PingMaxRetries (bc_cfg B)" for j by linarith
  from post_loop_spec [OF dm] show ?thesis
    using assms by (auto simp: postCallback_def dm n)
qed

theorem postCallback_bounded_witness:
  "running sample_bc \<and>
   (\<exists>cb s'. postCallback sample_bc (\<lambda>k. if k < 2 then Status 503 else Status 204) ''ping'' sample_request
       (PingBody ''q1'') bc_db = ([cb], s') \<and> cb_Outcome cb = Delivered \<and> cb_Posts cb = 3 \<and>
     int (cb_Posts cb) \<le> max 0 (PingMaxRetries (bc_cfg sample_bc) + 1))"
proof -
  have r: "running sample_bc" "nat (PingMaxRetries (bc_cfg sample_bc) + 1) = Suc (Suc (Suc (Suc 0)))"
    by (simp_all add: sample_bc_def DefaultBackchannelConfig_def)
  from postCallback_bounded [OF r(1), of "\<lambda>k. if k < 2 then Status 503 else Status 204" "''ping''"
      sample_request "PingBody ''q1''" bc_db]
  show ?thesis using r by (auto simp: postCallback_def)
qed

subsection \<open>Redemption\<close>

lemma mint_Inr:
  assumes "issueTokenForApprovedRow E w row th s = (Inr tok, s')"
  shows "\<exists>c. insert_row credential_conflict c (issued_credentials s) = Some (issued_credentials s') \<and>
     c_JTI c = a_JTI tok \<and> c_AccountID c = b_AccountID row \<and> c_ProjectID c = b_ProjectID row \<and>
     c_GrantType c = GrantTypeCIBA \<and> c_Scopes c = parseScopeString (b_Scope row) \<and>
     c_DPoPKeyThumbprint c = th \<and> c_IdentityID c = None \<and>
     a_AccountID tok = b_AccountID row \<and> a_ProjectID tok = b_ProjectID row \<and>
     a_AuthorizationDetails tok = b_AuthorizationDetailsRaw row"
proof -
  let ?s1 = "snd (MarkIssued (b_AuthReqID row) s)"
  from assms obtain tok' c where iss: "IssueCredential E w (ciba_request row th) ?s1 = (Inr (tok', c), s')"
    and tok: "tok = tok'\<lparr>a_AccountID := b_AccountID row, a_ProjectID := b_ProjectID row,
       a_AuthorizationDetails := b_AuthorizationDetailsRaw row\<rparr>"
    by (auto simp: issueTokenForApprovedRow_def Let_def bind_def on_error_def ret_def
        split: prod.splits sum.splits if_splits)
  from iss have "insert_row credential_conflict c (issued_credentials s) = Some (issued_credentials s')"
    by (auto simp: IssueCredential_Inr insert_row_Some MarkIssued_def)
  moreover from iss have "c_JTI c = a_JTI tok" "c_AccountID c = b_AccountID row" "c_ProjectID c = b_ProjectID row"
    "c_GrantType c = GrantTypeCIBA" "c_Scopes c = parseScopeString (b_Scope row)" "c_DPoPKeyThumbprint c = th"
    "c_IdentityID c = None"
    by (auto simp: IssueCredential_Inr issued_row_def issued_token_def ciba_request_def issue_grant_def tok
        empty_issue_def zero_identity_def stringPtrOrNil_def)
  ultimately show ?thesis by (auto simp: tok)
qed

text \<open>
  A token by polling: the request was approved for a subject, is not a push request and, when a
  client identifier was given, belongs to that client; the stored credential has the request's
  tenant and scopes, and the DPoP key of the poll; the request is closed afterwards.
\<close>

theorem Redeem_token:
  assumes "Redeem E B w aid cid th s = (Inr tok, s')" and "requests_ok (backchannel_auth_requests s)"
  shows "\<exists>r c. GetByAuthReqID aid s = Some r \<and> b_Status r = BackchannelStatusApproved \<and>
     b_ApprovedSubjectID r \<noteq> [] \<and> b_NotificationMode r \<noteq> BackchannelNotificationPush \<and>
     cid \<in> {[], b_ClientID r} \<and>
     insert_row credential_conflict c (issued_credentials s) = Some (issued_credentials s') \<and>
     c_JTI c = a_JTI tok \<and> c_AccountID c = b_AccountID r \<and> c_ProjectID c = b_ProjectID r \<and>
     c_GrantType c = GrantTypeCIBA \<and> c_Scopes c = parseScopeString (b_Scope r) \<and>
     c_DPoPKeyThumbprint c = th \<and>
     GetByAuthReqID aid s' = Some (r\<lparr>b_Status := BackchannelStatusIssued\<rparr>)"
proof -
  from assms(1) obtain r where r: "GetByAuthReqID aid s = Some r" "b_Status r = BackchannelStatusApproved"
      "b_NotificationMode r \<noteq> BackchannelNotificationPush" "cid \<in> {[], b_ClientID r}"
    and mint: "issueTokenForApprovedRow E w r th s = (Inr tok, s')"
    by (auto simp: Redeem_def split: option.splits if_splits)
  have id: "r \<in> set (reqs s)" "b_AuthReqID r = aid" using GetByAuthReqID_Some [OF r(1)] by auto
  then have "b_ApprovedSubjectID r \<noteq> []"
    using assms(2) r(2) by (auto simp: requests_ok_def list_all_iff request_wf_def)
  moreover have "GetByAuthReqID aid s' = Some (r\<lparr>b_Status := BackchannelStatusIssued\<rparr>)"
    using lookup_after_mint [of aid E w r th s] lookup_after_claim [of aid aid s] r(1,2) id mint
    by (simp add: issuable_def)
  ultimately show ?thesis using r mint_Inr [OF mint] by blast
qed

lemma ciba_served:
  assumes "count_where (issuable (b_AuthReqID row)) (reqs s) \<noteq> 0" "\<And>rs cl. sign_jwt E rs cl \<noteq> None"
    "fr_jti w \<notin> c_JTI ` set (issued_credentials s)" "fr_cred w \<notin> c_ID ` set (issued_credentials s)"
  shows "\<exists>tok s'. issueTokenForApprovedRow E w row th s = (Inr tok, s')"
proof -
  let ?s1 = "snd (MarkIssued (b_AuthReqID row) s)"
  let ?i = "zero_identity\<lparr>i_AccountID := b_AccountID row, i_ProjectID := b_ProjectID row,
    i_IdentityType := IdentityTypeService, i_Status := IdentityStatusActive\<rparr>"
  have i: "iq_Identity (ciba_request row th) = Some ?i"
    by (simp add: ciba_request_def empty_issue_def)
  have "authorised E w (ciba_request row th) ?i (base_ttl E 900) ?s1"
    by (simp add: authorised_def ciba_request_def empty_issue_def zero_identity_def issue_ttl_def clamp_ttl_def
        expired_at_def)
  from IssueCredential_serves [OF i this assms(2)] assms(3,4)
  obtain tok c s' where "IssueCredential E w (ciba_request row th) ?s1 = (Inr (tok, c), s')"
    by (auto simp: MarkIssued_def)
  then show ?thesis
    using assms(1) by (auto simp: issueTokenForApprovedRow_def MarkIssued_def bind_def on_error_def ret_def)
qed

lemma lookup_after_approval:
  "GetByAuthReqID aid (snd (MarkApproved now k subj email name s)) =
     map_option (\<lambda>r. if approvable now k r then r\<lparr>b_Status := BackchannelStatusApproved,
       b_ApprovedSubjectID := subj, b_ApprovedSubjectEmail := email, b_ApprovedSubjectName := name,
       b_ApprovedAt := Some now\<rparr> else r) (GetByAuthReqID aid s)"
  by (simp add: GetByAuthReqID_def MarkApproved_def find_update_where)


definition late_inputs :: inputs where
  "late_inputs = sample_inputs\<lparr>tk_auth := 4000 * second, tk_issue := 4000 * second\<rparr>"


theorem Redeem_token_witness:
  "\<exists>s1 tok s2 c. Redeem sample_env sample_bc late_inputs ''q1'' ''app'' ''jkt'' s1 = (Inr tok, s2) \<and>
     insert_row credential_conflict c [] = Some (issued_credentials s2) \<and> c_AccountID c = ''acme'' \<and>
     c_Scopes c = parseScopeString ''read'' \<and> c_DPoPKeyThumbprint c = ''jkt''"
proof -
  let ?r = "sample_request\<lparr>b_Status := BackchannelStatusApproved, b_ApprovedSubjectID := ''alice''\<rparr>"
  let ?s = "empty_db\<lparr>backchannel_auth_requests := [?r]\<rparr>"
  have ok: "requests_ok (backchannel_auth_requests ?s)"
    by (simp add: requests_ok_def unique_by_def request_wf_def sample_request_def)
  have get: "GetByAuthReqID ''q1'' ?s = Some ?r" by (simp add: GetByAuthReqID_def sample_request_def)
  have "\<exists>tok s2. issueTokenForApprovedRow sample_env late_inputs ?r ''jkt'' ?s = (Inr tok, s2)"
    by (rule ciba_served) (simp_all add: count_where_def issuable_def sample_request_def sample_env_def empty_db_def)
  then obtain tok s2 where run: "Redeem sample_env sample_bc late_inputs ''q1'' ''app'' ''jkt'' ?s = (Inr tok, s2)"
    using get by (auto simp: Redeem_def sample_request_def)
  have "issued_credentials ?s = []" "b_AccountID ?r = ''acme''" "b_Scope ?r = ''read''"
    by (simp_all add: empty_db_def sample_request_def)
  with Redeem_token [OF run ok] get run show ?thesis by (auto simp del: insert_row_Some)
qed

end
