(* ===== verification/Zeroid_Proofs.thy ===== *)
theory Zeroid_Proofs
  imports Zeroid_OAuth
begin

text \<open>
  Proof of possession: DPoP proofs with their replay table (\<open>src/internal/service/dpop.go\<close>) and WIMSE
  proof tokens (\<open>src/internal/service/proof.go\<close>, \<open>src/internal/store/postgres/proof.go\<close>,
  \<open>src/internal/handler/proof.go\<close>). An accepted DPoP proof meets the whole contract of RFC 9449, a
  rejected one leaves no trace, and the comparison of target URIs is insensitive to what a proxy
  may rewrite.
\<close>

subsection \<open>Parameters of the DPoP service\<close>

text \<open>
  What \<open>jws.Parse\<close> gives of one signature's protected header: \<open>typ\<close>, \<open>alg\<close> and the embedded key with
  its kind. \<open>jws_verify alg key proof\<close> is signature verification, \<open>Thumbprint\<close> the RFC 7638 thumbprint
  in base64url, \<open>parse_url\<close> and \<open>url_String\<close> are the parser and the printer of \<open>net/url\<close>. The fields of
  a URL that the code does not touch are kept together in \<open>u_Rest\<close>.
\<close>

datatype jwk_kind = PublicKey | PrivateKey | SymmetricKey

record jwk =
  jwk_Kind :: jwk_kind
  jwk_Data :: string

record jws_header =
  h_Type :: string
  h_Algorithm :: "string option"
  h_JWK :: "jwk option"

record go_url =
  u_Scheme :: string
  u_Host :: string
  u_RawQuery :: string
  u_Fragment :: string
  u_Rest :: string

record dpop_env =
  jws_parse :: "string \<Rightarrow> jws_header list option"
  jws_verify :: "string \<Rightarrow> jwk \<Rightarrow> string \<Rightarrow> bool"
  Thumbprint :: "jwk \<Rightarrow> string option"
  parse_url :: "string \<Rightarrow> go_url option"
  url_String :: "go_url \<Rightarrow> string"

abbreviation dpopFreshnessWindow :: int where "dpopFreshnessWindow \<equiv> 60 * second"
abbreviation dpopClockSkewTolerance :: int where "dpopClockSkewTolerance \<equiv> 5 * second"
abbreviation dpopMaxJTILen :: nat where "dpopMaxJTILen \<equiv> 512"

subsection \<open>The target URI\<close>

text \<open>
  \<open>Hostname\<close> and \<open>Port\<close> of \<open>net/url\<close>: the port is what follows the last colon if it is all digits, and
  square brackets around the host are dropped. \<open>ToLower\<close> is \<open>strings.ToLower\<close> on ASCII letters.
\<close>

definition is_digit :: "char \<Rightarrow> bool" where
  "is_digit c \<longleftrightarrow> 48 \<le> (of_char c :: nat) \<and> (of_char c :: nat) \<le> 57"

definition splitHostPort :: "string \<Rightarrow> string \<times> string" where
  "splitHostPort hostPort =
     (let port = takeWhile (\<lambda>c. c \<noteq> CHR '':'') (rev hostPort);
          (host, p) = (if CHR '':'' \<in> set hostPort \<and> list_all is_digit port
             then (take (length hostPort - length port - 1) hostPort, rev port) else (hostPort, []))
      in (if host \<noteq> [] \<and> hd host = CHR ''['' \<and> last host = CHR '']'' then butlast (tl host) else host, p))"

definition lower :: "char \<Rightarrow> char" where
  "lower c = (if 65 \<le> (of_char c :: nat) \<and> (of_char c :: nat) \<le> 90 then char_of ((of_char c :: nat) + 32) else c)"

definition ToLower :: "string \<Rightarrow> string" where
  "ToLower s = map lower s"

definition isDefaultPort :: "string \<Rightarrow> string \<Rightarrow> bool" where
  "isDefaultPort scheme port \<longleftrightarrow> (scheme = ''https'' \<and> port = ''443'') \<or> (scheme = ''http'' \<and> port = ''80'')"

definition normalizeHTU :: "dpop_env \<Rightarrow> string \<Rightarrow> string" where
  "normalizeHTU D rawURL =
     (case parse_url D rawURL of
        None \<Rightarrow> rawURL
      | Some u \<Rightarrow>
          (let scheme = ToLower (u_Scheme u); host = ToLower (fst (splitHostPort (u_Host u)));
               port = snd (splitHostPort (u_Host u))
           in url_String D (u\<lparr>u_Scheme := scheme,
                u_Host := (if port \<noteq> [] \<and> \<not> isDefaultPort scheme port then host @ '':'' @ port else host),
                u_RawQuery := [], u_Fragment := []\<rparr>)))"

definition computeATH :: "env \<Rightarrow> string \<Rightarrow> string" where
  "computeATH E accessToken = sha256_b64url E accessToken"

subsection \<open>Validation\<close>

definition consumeJTI :: "string \<Rightarrow> time \<Rightarrow> (db, err, unit) svc" where
  "consumeJTI jti expiresAt = (\<lambda>s.
     case insert_row (\<lambda>a b. d_JTI a = d_JTI b) \<lparr>d_JTI = jti, d_ExpiresAt = expiresAt\<rparr> (dpop_jti s) of
       None \<Rightarrow> (Inl (ErrMsg ''jti replay detected''), s)
     | Some t \<Rightarrow> (Inr (), s\<lparr>dpop_jti := t\<rparr>))"

definition claim_time_opt :: "claims \<Rightarrow> string \<Rightarrow> time option" where
  "claim_time_opt cl k = (case cl k of Some (CTime t) \<Rightarrow> Some t | _ \<Rightarrow> None)"

text \<open>Steps 1 to 6: the headers, the key and the signature; the value is the key and the payload.\<close>

definition proof_header :: "env \<Rightarrow> dpop_env \<Rightarrow> string \<Rightarrow> err + jwk \<times> claims" where
  "proof_header E D proofJWT =
     (case jws_parse D proofJWT of
        None \<Rightarrow> Inl (ErrMsg ''dpop proof is malformed'')
      | Some sigs \<Rightarrow>
     if length sigs \<noteq> 1 then Inl (ErrMsg ''expected single-signature compact JWS'')
     else if h_Type (hd sigs) \<noteq> ''dpop+jwt'' then Inl (ErrMsg ''typ header must be dpop+jwt'')
     else case h_Algorithm (hd sigs) of
        None \<Rightarrow> Inl (ErrMsg ''alg header is required'')
      | Some alg \<Rightarrow>
     if alg \<notin> {''ES256'', ''RS256''} then Inl (ErrMsg ''algorithm is not supported'')
     else case h_JWK (hd sigs) of
        None \<Rightarrow> Inl (ErrMsg ''jwk header is required'')
      | Some key \<Rightarrow>
     if jwk_Kind key = PrivateKey then Inl (ErrMsg ''jwk header must not contain a private key'')
     else if jwk_Kind key = SymmetricKey then Inl (ErrMsg ''jwk header must not contain a symmetric key'')
     else if \<not> jws_verify D alg key proofJWT then Inl (ErrMsg ''signature verification failed'')
     else case parse_insecure E proofJWT of
        None \<Rightarrow> Inl (ErrMsg ''payload is malformed'')
      | Some parsed \<Rightarrow> Inr (key, parsed))"

text \<open>Steps 7 to 11: the claims against the request, the clock and the access token.\<close>

definition proof_claims ::
  "env \<Rightarrow> dpop_env \<Rightarrow> time \<Rightarrow> string \<Rightarrow> string \<Rightarrow> string \<Rightarrow> claims \<Rightarrow> err option" where
  "proof_claims E D now httpMethod htu accessToken parsed =
     (if claim_str parsed ''htm'' \<noteq> httpMethod then Some (ErrMsg ''htm mismatch'')
      else if normalizeHTU D (claim_str parsed ''htu'') \<noteq> normalizeHTU D htu
      then Some (ErrMsg ''htu mismatch'')
      else case claim_time_opt parsed ''iat'' of
        None \<Rightarrow> Some (ErrMsg ''iat claim is required'')
      | Some iat \<Rightarrow>
      if now + dpopClockSkewTolerance < iat then Some (ErrMsg ''iat is too far in the future'')
      else if iat + dpopFreshnessWindow < now
      then Some (ErrMsg ''iat is outside the freshness window'')
      else if (case claim_time_opt parsed ''exp'' of
                 None \<Rightarrow> False | Some t \<Rightarrow> t + dpopClockSkewTolerance < now)
      then Some (ErrMsg ''exp has passed'')
      else if (case claim_time_opt parsed ''nbf'' of
                 None \<Rightarrow> False | Some t \<Rightarrow> now + dpopClockSkewTolerance < t)
      then Some (ErrMsg ''nbf is in the future'')
      else if claim_str parsed ''jti'' = [] then Some (ErrMsg ''jti claim is required'')
      else if length (claim_str parsed ''jti'') > dpopMaxJTILen
      then Some (ErrMsg ''jti exceeds 512 bytes'')
      else if accessToken \<noteq> [] \<and> claim_str parsed ''ath'' = []
      then Some (ErrMsg ''ath claim is required when presenting a bound access token'')
      else if accessToken \<noteq> [] \<and> claim_str parsed ''ath'' \<noteq> computeATH E accessToken
      then Some (ErrMsg ''ath mismatch'')
      else None)"

definition dpop_validate ::
  "env \<Rightarrow> dpop_env \<Rightarrow> time \<Rightarrow> string \<Rightarrow> string \<Rightarrow> string \<Rightarrow> string \<Rightarrow> (db, err, string) svc" where
  "dpop_validate E D now httpMethod htu proofJWT accessToken =
     bind (lift (proof_header E D proofJWT)) (\<lambda>(key, parsed).
     case proof_claims E D now httpMethod htu accessToken parsed of
       Some e \<Rightarrow> throw e
     | None \<Rightarrow>
     (case Thumbprint D key of
       None \<Rightarrow> throw (ErrMsg ''failed to compute key thumbprint'')
     | Some thumbprint \<Rightarrow>
         bind (consumeJTI (claim_str parsed ''jti'')
                 (now + (dpopFreshnessWindow + dpopClockSkewTolerance))) (\<lambda>_. ret thumbprint)))"

definition ValidateProof ::
  "env \<Rightarrow> dpop_env \<Rightarrow> time \<Rightarrow> string \<Rightarrow> string \<Rightarrow> string \<Rightarrow> (db, err, string) svc" where
  "ValidateProof E D now httpMethod htu proofJWT = dpop_validate E D now httpMethod htu proofJWT []"

definition ValidateProofForToken ::
  "env \<Rightarrow> dpop_env \<Rightarrow> time \<Rightarrow> string \<Rightarrow> string \<Rightarrow> string \<Rightarrow> string \<Rightarrow> (db, err, string) svc" where
  "ValidateProofForToken E D now httpMethod htu proofJWT accessToken =
     dpop_validate E D now httpMethod htu proofJWT accessToken"

subsection \<open>WIMSE proof tokens\<close>

definition Proof_Create :: "proof_token \<Rightarrow> (db, err, unit) svc" where
  "Proof_Create pt = (\<lambda>s. case insert_row proof_conflict pt (proof_tokens s) of
      None \<Rightarrow> (Inl ErrNonceReplayed, s)
    | Some t \<Rightarrow> (Inr (), s\<lparr>proof_tokens := t\<rparr>))"

definition Proof_GetByJTI :: "string \<Rightarrow> db \<Rightarrow> proof_token option" where
  "Proof_GetByJTI jti s = find (\<lambda>p. pt_JTI p = jti) (proof_tokens s)"

definition Proof_MarkUsed :: "time \<Rightarrow> string \<Rightarrow> db \<Rightarrow> db" where
  "Proof_MarkUsed now jti s = s\<lparr>proof_tokens :=
     update_where (\<lambda>p. pt_JTI p = jti \<and> \<not> pt_IsUsed p)
       (\<lambda>p. p\<lparr>pt_IsUsed := True, pt_UsedAt := Some now\<rparr>) (proof_tokens s)\<rparr>"

text \<open>
  Generation: \<open>gate\<close> is the clock of the identity gate, \<open>now\<close> that of the token; \<open>jti\<close> and \<open>pid\<close> are
  fresh. A duplicate of any unique column is reported as a replayed nonce.
\<close>

definition wpt_claims :: "env \<Rightarrow> time \<Rightarrow> string \<Rightarrow> identity \<Rightarrow> string \<Rightarrow> string \<Rightarrow> claims" where
  "wpt_claims E now jti i audience nonce =
     [''iss'' \<mapsto> CStr (issuer E), ''sub'' \<mapsto> CStr (i_WIMSEURI i), ''aud'' \<mapsto> CStrs [audience],
      ''iat'' \<mapsto> CTime now, ''exp'' \<mapsto> CTime (now + 300 * second), ''jti'' \<mapsto> CStr jti,
      ''nonce'' \<mapsto> CStr nonce, ''account_id'' \<mapsto> CStr (i_AccountID i),
      ''project_id'' \<mapsto> CStr (i_ProjectID i)]"

definition GenerateProofToken ::
  "env \<Rightarrow> time \<Rightarrow> time \<Rightarrow> string \<Rightarrow> string \<Rightarrow> identity option \<Rightarrow> string \<Rightarrow> string \<Rightarrow> (db, err, string) svc" where
  "GenerateProofToken E gate now jti pid ident audience nonce =
     (case ident of
        None \<Rightarrow> throw (ErrMsg ''identity is required'')
      | Some i \<Rightarrow>
     if \<not> IsUsable (i_Status i) then throw ErrIdentityNotUsable
     else if Identity_IsExpired i gate then throw ErrIdentityExpired
     else case sign_jwt E False (wpt_claims E now jti i audience nonce) of
        None \<Rightarrow> throw (ErrMsg ''failed to sign proof token'')
      | Some jws \<Rightarrow>
          bind (Proof_Create
            \<lparr>pt_ID = pid, pt_IdentityID = i_ID i, pt_AccountID = i_AccountID i,
             pt_ProjectID = i_ProjectID i, pt_JTI = jti, pt_Nonce = nonce, pt_Audience = audience,
             pt_IssuedAt = now, pt_ExpiresAt = now + 300 * second, pt_IsUsed = False,
             pt_UsedAt = None, pt_CreatedAt = now\<rparr>) (\<lambda>_. ret jws))"

text \<open>
  Verification reads first and marks after; the two halves are separate statements on the table.
  \<open>key\<close> is the server's own public key.
\<close>

definition verify_read ::
  "env \<Rightarrow> string \<Rightarrow> time \<Rightarrow> string \<Rightarrow> string \<Rightarrow> db \<Rightarrow> err + claims" where
  "verify_read E key now tokenStr expectedAudience s =
     (if \<not> jwtalg_Validate E tokenStr then Inl (ErrMsg ''proof token validation failed'')
      else case parse_es256 E key expectedAudience now tokenStr of
        None \<Rightarrow> Inl (ErrMsg ''proof token validation failed'')
      | Some parsed \<Rightarrow>
      (case Proof_GetByJTI (claim_str parsed ''jti'') s of
         None \<Rightarrow> Inl (ErrMsg ''failed to lookup proof token'')
       | Some pt \<Rightarrow> if pt_IsUsed pt then Inl ErrNonceReplayed else Inr parsed))"

definition VerifyProofToken ::
  "env \<Rightarrow> string \<Rightarrow> time \<Rightarrow> time \<Rightarrow> string \<Rightarrow> string \<Rightarrow> (db, err, claims) svc" where
  "VerifyProofToken E key now mark tokenStr expectedAudience = (\<lambda>s.
     case verify_read E key now tokenStr expectedAudience s of
       Inl e \<Rightarrow> (Inl e, s)
     | Inr parsed \<Rightarrow> (Inr parsed, Proof_MarkUsed mark (claim_str parsed ''jti'') s))"

definition generateProofOp ::
  "env \<Rightarrow> time \<Rightarrow> time \<Rightarrow> string \<Rightarrow> string \<Rightarrow> (string \<times> string) option \<Rightarrow> string \<Rightarrow> string \<Rightarrow> string \<Rightarrow>
   (db, err, string) svc" where
  "generateProofOp E gate now jti pid tenant identityID audience nonce =
     (case tenant of
        None \<Rightarrow> throw (HTTPErr 401)
      | Some (acct, proj) \<Rightarrow>
          bind (on_error (Identity_GetByID identityID acct proj) (\<lambda>_. HTTPErr 404)) (\<lambda>i.
            on_error (GenerateProofToken E gate now jti pid (Some i) audience nonce)
              (\<lambda>e. if e = ErrIdentityExpired \<or> e = ErrIdentityNotUsable then HTTPErr 400 else HTTPErr 500)))"

definition verifyProofOp ::
  "env \<Rightarrow> string \<Rightarrow> time \<Rightarrow> time \<Rightarrow> string \<Rightarrow> string \<Rightarrow> (db, err, string) svc" where
  "verifyProofOp E key now mark tokenStr audience =
     bind (on_error (VerifyProofToken E key now mark tokenStr audience) (\<lambda>_. HTTPErr 401))
       (\<lambda>parsed. ret (claim_str parsed ''sub''))"

subsection \<open>What an accepted proof shows\<close>

text \<open>The contract of a DPoP proof, independent of the order of the checks (RFC 9449, section 4.3).\<close>

definition proof_bound :: "env \<Rightarrow> dpop_env \<Rightarrow> string \<Rightarrow> jwk \<Rightarrow> claims \<Rightarrow> bool" where
  "proof_bound E D proofJWT key parsed \<longleftrightarrow>
     (\<exists>h alg. jws_parse D proofJWT = Some [h] \<and> h_Type h = ''dpop+jwt'' \<and> h_Algorithm h = Some alg \<and>
        alg \<in> {''ES256'', ''RS256''} \<and> h_JWK h = Some key \<and> jwk_Kind key = PublicKey \<and>
        jws_verify D alg key proofJWT \<and> parse_insecure E proofJWT = Some parsed)"

definition proof_fresh :: "time \<Rightarrow> claims \<Rightarrow> bool" where
  "proof_fresh now parsed \<longleftrightarrow>
     (\<exists>iat. claim_time_opt parsed ''iat'' = Some iat \<and> iat \<le> now + dpopClockSkewTolerance \<and>
        now \<le> iat + dpopFreshnessWindow) \<and>
     (\<forall>t. claim_time_opt parsed ''exp'' = Some t \<longrightarrow> now \<le> t + dpopClockSkewTolerance) \<and>
     (\<forall>t. claim_time_opt parsed ''nbf'' = Some t \<longrightarrow> t \<le> now + dpopClockSkewTolerance)"

definition proof_for ::
  "env \<Rightarrow> dpop_env \<Rightarrow> string \<Rightarrow> string \<Rightarrow> string \<Rightarrow> claims \<Rightarrow> bool" where
  "proof_for E D httpMethod htu accessToken parsed \<longleftrightarrow>
     claim_str parsed ''htm'' = httpMethod \<and>
     normalizeHTU D (claim_str parsed ''htu'') = normalizeHTU D htu \<and>
     claim_str parsed ''jti'' \<noteq> [] \<and> length (claim_str parsed ''jti'') \<le> dpopMaxJTILen \<and>
     (accessToken = [] \<or>
        (claim_str parsed ''ath'' \<noteq> [] \<and> claim_str parsed ''ath'' = computeATH E accessToken))"

lemma length_1: "length xs = Suc 0 \<longleftrightarrow> (\<exists>x. xs = [x])"
  by (cases xs) auto

lemma proof_header_Inr:
  "proof_header E D p = Inr (key, parsed) \<longleftrightarrow> proof_bound E D p key parsed"
  unfolding proof_bound_def
  by (cases "jwk_Kind key")
     (auto simp: proof_header_def length_1 split: option.splits if_splits)

lemma proof_claims_None:
  "proof_claims E D now m htu tok parsed = None \<longleftrightarrow> proof_for E D m htu tok parsed \<and> proof_fresh now parsed"
  unfolding proof_for_def proof_fresh_def
  by (auto simp: proof_claims_def split: option.splits if_splits)

lemma consumeJTI_Inr:
  "consumeJTI jti t s = (Inr u, s') \<longleftrightarrow> (\<forall>x \<in> set (dpop_jti s). d_JTI x \<noteq> jti) \<and>
     s' = s\<lparr>dpop_jti := dpop_jti s @ [\<lparr>d_JTI = jti, d_ExpiresAt = t\<rparr>]\<rparr>"
  by (auto simp: consumeJTI_def insert_row_Some split: option.splits) (simp add: insert_row_def)

lemma dpop_validate_Inr:
  "dpop_validate E D now m htu p tok s = (Inr thumb, s') \<longleftrightarrow>
   (\<exists>key parsed. proof_bound E D p key parsed \<and> proof_for E D m htu tok parsed \<and> proof_fresh now parsed \<and>
      Thumbprint D key = Some thumb \<and> (\<forall>x \<in> set (dpop_jti s). d_JTI x \<noteq> claim_str parsed ''jti'') \<and>
      s' = s\<lparr>dpop_jti := dpop_jti s @
        [\<lparr>d_JTI = claim_str parsed ''jti'', d_ExpiresAt = now + (dpopFreshnessWindow + dpopClockSkewTolerance)\<rparr>]\<rparr>)"
  unfolding proof_header_Inr [symmetric] conj_assoc [symmetric] proof_claims_None [symmetric]
  by (cases "proof_header E D p")
     (auto simp: dpop_validate_def bind_Inr consumeJTI_Inr lift_def split: option.splits)

lemma dpop_validate_Inl: "dpop_validate E D now m htu p tok s = (Inl e, s') \<Longrightarrow> s' = s"
  by (auto simp: dpop_validate_def bind_Inl consumeJTI_def lift_def split: option.splits)

text \<open>
  C34. Validation of a DPoP proof is exact: it succeeds if and only if the proof is a single
  signature with the right type, an accepted asymmetric algorithm and a public key that verifies
  it, its claims name this method, this URI and this access token, its times hold within the
  tolerance, and its identifier has not been seen; then the identifier is recorded for the
  freshness window plus the tolerance, and the answer is the thumbprint of the very key that
  signed. A rejected proof leaves no trace.
\<close>

theorem dpop_validate_exact:
  "(dpop_validate E D now httpMethod htu proofJWT accessToken s = (Inr thumb, s')) =
   (\<exists>key parsed t. proof_bound E D proofJWT key parsed \<and> proof_for E D httpMethod htu accessToken parsed \<and>
      proof_fresh now parsed \<and> Thumbprint D key = Some thumb \<and>
      insert_row (\<lambda>a b. d_JTI a = d_JTI b)
        \<lparr>d_JTI = claim_str parsed ''jti'', d_ExpiresAt = now + (dpopFreshnessWindow + dpopClockSkewTolerance)\<rparr>
        (dpop_jti s) = Some t \<and> s' = s\<lparr>dpop_jti := t\<rparr>) \<and>
   (case dpop_validate E D now httpMethod htu proofJWT accessToken s of (Inl e, s1) \<Rightarrow> s1 = s
    | (Inr x, s1) \<Rightarrow> True)"
  unfolding dpop_validate_Inr insert_row_Some
  by (simp split: prod.split sum.split) (auto dest: dpop_validate_Inl)

subsection \<open>Normalisation of the target URI\<close>

text \<open>
  The printer of \<open>net/url\<close> and its parser on the model's own URLs are a parameter; with any of
  them the normal form ignores query, fragment, case of scheme and host, and the default port.
\<close>

lemma lower_lower [simp]: "lower (lower c) = lower c"
  by (auto simp: lower_def of_char_of)

lemma ToLower_idem [simp]: "ToLower (ToLower s) = ToLower s"
  by (simp add: ToLower_def)

definition htu_equal :: "go_url \<Rightarrow> go_url \<Rightarrow> bool" where
  "htu_equal u v \<longleftrightarrow> ToLower (u_Scheme u) = ToLower (u_Scheme v) \<and>
     ToLower (fst (splitHostPort (u_Host u))) = ToLower (fst (splitHostPort (u_Host v))) \<and>
     (let p = snd (splitHostPort (u_Host u)); q = snd (splitHostPort (u_Host v));
          d = (\<lambda>x. x = [] \<or> isDefaultPort (ToLower (u_Scheme u)) x)
      in p = q \<or> d p \<and> d q) \<and> u_Rest u = u_Rest v"

text \<open>
  Two target URIs that differ only in query, fragment, letter case of scheme and host, or an
  explicit default port have the same normal form, so a proxy that rewrites one into the other
  does not break a proof.
\<close>

theorem normalizeHTU_equal:
  assumes "parse_url D a = Some u" and "parse_url D b = Some v" and "htu_equal u v"
  shows "normalizeHTU D a = normalizeHTU D b"
  using assms by (cases u; cases v) (auto simp: normalizeHTU_def htu_equal_def Let_def)

definition sample_dpop :: dpop_env where
  "sample_dpop =
     \<lparr>jws_parse = (\<lambda>p. Some [\<lparr>h_Type = ''dpop+jwt'', h_Algorithm = Some ''ES256'',
         h_JWK = Some \<lparr>jwk_Kind = PublicKey, jwk_Data = ''k''\<rparr>\<rparr>]),
      jws_verify = (\<lambda>a k p. True), Thumbprint = (\<lambda>k. Some (jwk_Data k)),
      parse_url = (\<lambda>x. if x = ''HTTPS://A.io:443/t?q'' then Some \<lparr>u_Scheme = ''HTTPS'', u_Host = ''A.io:443'',
            u_RawQuery = ''q'', u_Fragment = [], u_Rest = ''/t''\<rparr>
          else if x = ''https://a.io/t'' then Some \<lparr>u_Scheme = ''https'', u_Host = ''a.io'',
            u_RawQuery = [], u_Fragment = [], u_Rest = ''/t''\<rparr>
          else if x = ''https://[::1]:84/t'' then Some \<lparr>u_Scheme = ''https'', u_Host = ''[::1]:84'',
            u_RawQuery = [], u_Fragment = [], u_Rest = ''/t''\<rparr>
          else if x = ''https://[::1:84]/t'' then Some \<lparr>u_Scheme = ''https'', u_Host = ''[::1:84]'',
            u_RawQuery = [], u_Fragment = [], u_Rest = ''/t''\<rparr> else None),
      url_String = (\<lambda>u. u_Scheme u @ ''://'' @ u_Host u @ u_Rest u)\<rparr>"

lemmas htu_simps = sample_dpop_def splitHostPort_def is_digit_def ToLower_def lower_def isDefaultPort_def

theorem normalizeHTU_equal_witness:
  "normalizeHTU sample_dpop ''HTTPS://A.io:443/t?q'' = normalizeHTU sample_dpop ''https://a.io/t'' \<and>
   normalizeHTU sample_dpop ''https://a.io/t'' = ''https://a.io/t''"
proof
  show "normalizeHTU sample_dpop ''HTTPS://A.io:443/t?q'' = normalizeHTU sample_dpop ''https://a.io/t''"
    by (rule normalizeHTU_equal) code_simp+
  show "normalizeHTU sample_dpop ''https://a.io/t'' = ''https://a.io/t''" by code_simp
qed

text \<open>
  The bracketless host makes two different origins equal: port 84 of the loopback address and
  the default port of the address \<open>::1:84\<close> have one normal form.
\<close>

lemma normalizeHTU_confuses_ipv6:
  "normalizeHTU sample_dpop ''https://[::1]:84/t'' = normalizeHTU sample_dpop ''https://[::1:84]/t''"
  by (simp add: normalizeHTU_def htu_simps)

end
