(* ===== verification/Zeroid_Worker.thy ===== *)
theory Zeroid_Worker
  imports Zeroid_CIBA Zeroid_Proofs
begin

text \<open>
  The cleanup worker (\<open>src/internal/worker/cleanup.go\<close>) and how it interacts with the replay tables:
  it deletes only what no longer matters, so DPoP proofs and proof tokens stay single-use across
  its passes and introspection gives the same answers.
\<close>

subsection \<open>One pass\<close>

text \<open>
  \<open>hasRepo\<close> says whether the backchannel repository is wired, \<open>expirer\<close> the identity sweep with the
  fresh signal identifiers it draws; \<open>now\<close> is the pass's clock, \<open>later\<close> the sweep's own. Deleting a
  credential clears the reference of its attestations (\<open>ON DELETE SET NULL\<close>).
\<close>

definition delete_expired_rows :: "time \<Rightarrow> db \<Rightarrow> db" where
  "delete_expired_rows now s =
     s\<lparr>issued_credentials := delete_where (\<lambda>c. c_ExpiresAt c < now) (issued_credentials s),
       attestation_records := update_where
         (\<lambda>a. \<exists>c \<in> set (issued_credentials s). c_ExpiresAt c < now \<and> c_ID c = at_CredentialID a)
         (\<lambda>a. a\<lparr>at_CredentialID := []\<rparr>) (attestation_records s),
       proof_tokens := delete_where (\<lambda>p. pt_ExpiresAt p < now) (proof_tokens s),
       auth_codes := delete_where (\<lambda>c. ac_ExpiresAt c < now) (auth_codes s),
       dpop_jti := delete_where (\<lambda>d. d_ExpiresAt d < now) (dpop_jti s)\<rparr>"

definition RunOnce :: "bool \<Rightarrow> (string \<Rightarrow> string) option \<Rightarrow> time \<Rightarrow> time \<Rightarrow> db \<Rightarrow> db" where
  "RunOnce hasRepo expirer now later s =
     (let s1 = delete_expired_rows now s;
          s2 = (if hasRepo then BC_DeleteExpired now (BC_SweepExpired now s1) else s1)
      in case expirer of None \<Rightarrow> s2 | Some sid \<Rightarrow> snd (SweepExpiredIdentities sid later s2))"

subsection \<open>What a pass touches\<close>

lemma ingest_other_tables:
  "dpop_jti (snd (IngestSignal sid now acct proj rid ty sev src pl s)) = dpop_jti s"
  "proof_tokens (snd (IngestSignal sid now acct proj rid ty sev src pl s)) = proof_tokens s"
  "auth_codes (snd (IngestSignal sid now acct proj rid ty sev src pl s)) = auth_codes s"
  "backchannel_auth_requests (snd (IngestSignal sid now acct proj rid ty sev src pl s)) = backchannel_auth_requests s"
  by (auto simp: IngestSignal_def Let_def auto_revoke_def bind_def on_error_def Signal_Create_def RevokeAllActiveForIdentity_def
      Credential_RevokeAllActiveForIdentity_def split: prod.split sum.split option.split)

lemma cleanup_other_tables:
  "dpop_jti (runDeactivationCleanup now sid i reason s) = dpop_jti s"
  "proof_tokens (runDeactivationCleanup now sid i reason s) = proof_tokens s"
  "auth_codes (runDeactivationCleanup now sid i reason s) = auth_codes s"
  "backchannel_auth_requests (runDeactivationCleanup now sid i reason s) = backchannel_auth_requests s"
  by (simp_all add: runDeactivationCleanup_def Let_def ingest_other_tables RevokeAllActiveForIdentity_def
      Credential_RevokeAllActiveForIdentity_def APIKey_RevokeByIdentityID_def)

lemma sweep_other_tables:
  "dpop_jti (snd (sweep_rows sid now rows s)) = dpop_jti s \<and>
   proof_tokens (snd (sweep_rows sid now rows s)) = proof_tokens s \<and>
   auth_codes (snd (sweep_rows sid now rows s)) = auth_codes s \<and>
   backchannel_auth_requests (snd (sweep_rows sid now rows s)) = backchannel_auth_requests s"
  by (induction rows arbitrary: s)
     (simp_all only: sweep_rows_snd Let_def, auto simp: cleanup_other_tables split: option.split)

lemma RunOnce_tables:
  "dpop_jti (RunOnce b x now later s) = delete_where (\<lambda>d. d_ExpiresAt d < now) (dpop_jti s)"
  "proof_tokens (RunOnce b x now later s) = delete_where (\<lambda>p. pt_ExpiresAt p < now) (proof_tokens s)"
  "auth_codes (RunOnce b x now later s) = delete_where (\<lambda>c. ac_ExpiresAt c < now) (auth_codes s)"
  "backchannel_auth_requests (RunOnce b x now later s) =
     (if b then backchannel_auth_requests (BC_DeleteExpired now (BC_SweepExpired now s))
      else backchannel_auth_requests s)"
  by (simp_all add: RunOnce_def Let_def SweepExpiredIdentities_def sweep_other_tables
      delete_expired_rows_def BC_DeleteExpired_def BC_SweepExpired_def split: option.split)

definition swept_credentials :: "time \<Rightarrow> db \<Rightarrow> credential list" where
  "swept_credentials now s = delete_where (\<lambda>c. c_ExpiresAt c < now) (issued_credentials s)"

lemma RunOnce_credentials:
  obtains rows t where
    "issued_credentials (RunOnce b x now later s) = issued_credentials (snd (sweep_rows (case x of None \<Rightarrow> (\<lambda>_. []) | Some sid \<Rightarrow> sid) later rows t))"
    "issued_credentials t = swept_credentials now s" "identities t = identities s"
    "rows = (case x of None \<Rightarrow> [] | Some sid \<Rightarrow> ListExpiredActive later s)"
proof -
  let ?s1 = "delete_expired_rows now s"
  let ?t = "if b then BC_DeleteExpired now (BC_SweepExpired now ?s1) else ?s1"
  have "issued_credentials ?t = swept_credentials now s" "identities ?t = identities s"
    by (simp_all add: delete_expired_rows_def BC_DeleteExpired_def BC_SweepExpired_def swept_credentials_def)
  then show ?thesis
    using that [of "case x of None \<Rightarrow> [] | Some sid \<Rightarrow> ListExpiredActive later s" ?t]
    by (cases x) (simp_all add: RunOnce_def Let_def SweepExpiredIdentities_def ListExpiredActive_def)
qed

subsection \<open>Proofs are accepted once\<close>

text \<open>
  The calls that touch the replay table, with the clock they read: validations of whatever proof
  for whatever request, and cleanup passes. Runs whose clock goes backwards are left out: a call
  whose reading is before the last one is skipped.
\<close>

datatype dpop_call =
    ProofCall time string string string
  | CleanCall bool "(string \<Rightarrow> string) option" time time

fun dpop_claim :: "env \<Rightarrow> dpop_env \<Rightarrow> string \<Rightarrow> dpop_call \<Rightarrow> db \<times> time \<Rightarrow> bool \<times> db \<times> time" where
  "dpop_claim E D proofJWT (ProofCall now httpMethod htu accessToken) (s, clock) =
     (if now < clock then (False, s, clock)
      else case dpop_validate E D now httpMethod htu proofJWT accessToken s of
             (Inr _, s') \<Rightarrow> (True, s', now) | (Inl _, s') \<Rightarrow> (False, s', now))"
| "dpop_claim E D proofJWT (CleanCall hasRepo expirer now later) (s, clock) =
     (if now < clock then (False, s, clock) else (False, RunOnce hasRepo expirer now later s, now))"

text \<open>A spent proof: its identifier is on record until it is stale, or it is stale already.\<close>

definition proof_spent :: "env \<Rightarrow> string \<Rightarrow> db \<times> time \<Rightarrow> bool" where
  "proof_spent E proofJWT st \<longleftrightarrow>
     (\<forall>parsed iat. parse_insecure E proofJWT = Some parsed \<longrightarrow> claim_time_opt parsed ''iat'' = Some iat \<longrightarrow>
        (\<exists>d \<in> set (dpop_jti (fst st)). d_JTI d = claim_str parsed ''jti'' \<and>
           iat + dpopFreshnessWindow \<le> d_ExpiresAt d) \<or>
        iat + dpopFreshnessWindow < snd st)"

lemma accepted_proof:
  assumes "dpop_validate E D now m htu p tok s = (Inr thumb, s')"
  obtains parsed iat where "parse_insecure E p = Some parsed" "claim_time_opt parsed ''iat'' = Some iat"
    "iat \<le> now + dpopClockSkewTolerance" "now \<le> iat + dpopFreshnessWindow"
    "\<forall>x \<in> set (dpop_jti s). d_JTI x \<noteq> claim_str parsed ''jti''"
    "dpop_jti s' = dpop_jti s @ [\<lparr>d_JTI = claim_str parsed ''jti'',
       d_ExpiresAt = now + (dpopFreshnessWindow + dpopClockSkewTolerance)\<rparr>]"
  using assms unfolding dpop_validate_Inr proof_bound_def proof_fresh_def by fastforce

lemma validate_grows: "set (dpop_jti s) \<subseteq> set (dpop_jti (snd (dpop_validate E D now m htu p tok s)))"
  by (cases "dpop_validate E D now m htu p tok s"; cases "fst (dpop_validate E D now m htu p tok s)")
     (auto elim!: accepted_proof dest: dpop_validate_Inl)

interpretation dpop_use: single_use "dpop_claim E D" "proof_spent E" "\<lambda>_. True"
proof
  fix k k' :: string and c :: dpop_call and st st' :: "db \<times> time"
  obtain s clock where st: "st = (s, clock)" by (cases st)
  show "proof_spent E k st'" if won: "dpop_claim E D k c st = (True, st')"
  proof -
    from won obtain now m htu tok thumb s' where c: "c = ProofCall now m htu tok" "st' = (s', now)"
        and v: "dpop_validate E D now m htu k tok s = (Inr thumb, s')"
      by (cases c) (auto simp: st split: if_splits prod.splits sum.splits)
    from v show ?thesis by (rule accepted_proof) (auto simp: proof_spent_def c)
  qed
  show "\<not> fst (dpop_claim E D k c st)" if "proof_spent E k st"
  proof (cases c)
    case (ProofCall now m htu tok)
    have "\<not> (clock \<le> now \<and> dpop_validate E D now m htu k tok s = (Inr thumb, s'))" for thumb s'
      using that by (auto simp: proof_spent_def st elim!: accepted_proof)
    then show ?thesis by (auto simp: ProofCall st split: prod.splits sum.splits) (metis not_less)
  qed (simp add: st)
  show "proof_spent E k (snd (dpop_claim E D k' c st))" if sp: "proof_spent E k st"
  proof (cases c)
    case (ProofCall now m htu tok)
    have "snd (dpop_claim E D k' c st) = (snd (dpop_validate E D now m htu k' tok s), now) \<and> clock \<le> now \<or>
        snd (dpop_claim E D k' c st) = st"
      by (auto simp: ProofCall st split: prod.splits sum.splits)
    then show ?thesis using sp validate_grows [of s E D now m htu k' tok] by (fastforce simp: proof_spent_def st)
  next
    case (CleanCall b x now later)
    then show ?thesis using sp by (force simp: proof_spent_def st RunOnce_tables set_delete_where)
  qed
qed simp

text \<open>
  C7. A DPoP proof is accepted at most once, whatever requests it is presented with and however
  often the cleanup runs in between, as long as the clock does not go backwards: a record is only
  deleted when its proof is already too old, because it is kept for the freshness window plus the
  tolerance by which a proof may lie in the future.
\<close>

theorem dpop_proof_accepted_once:
  "wins proofJWT (fst (run_claims (dpop_claim E D) calls (s, clock))) \<le> 1"
  by (rule dpop_use.run_at_most_once) simp

subsection \<open>Proof tokens verify once\<close>

datatype wpt_call =
    VerifyCall time time string string
  | GenerateCall time time string string "identity option" string string
  | PassCall bool "(string \<Rightarrow> string) option" time time

text \<open>
  The key is the identifier inside the token: a verification wins it when it succeeds on a token
  with this identifier. The state remembers the identifiers drawn so far; a generation that draws
  one of them again is left out (they are random UUIDs). \<open>pub\<close> is the server's public key.
\<close>

fun wpt_claim :: "env \<Rightarrow> string \<Rightarrow> string \<Rightarrow> wpt_call \<Rightarrow> db \<times> string set \<Rightarrow> bool \<times> db \<times> string set" where
  "wpt_claim E pub k (VerifyCall now mark tok aud) (s, used) =
     (case VerifyProofToken E pub now mark tok aud s of
        (Inr cl, s') \<Rightarrow> (claim_str cl ''jti'' = k, s', used) | (Inl _, s') \<Rightarrow> (False, s', used))"
| "wpt_claim E pub k (GenerateCall gate now jti pid ident aud nonce) (s, used) =
     (if jti \<in> used then (False, s, used)
      else (False, snd (GenerateProofToken E gate now jti pid ident aud nonce s), insert jti used))"
| "wpt_claim E pub k (PassCall b x now later) (s, used) = (False, RunOnce b x now later s, used)"

definition wpt_state_ok :: "db \<times> string set \<Rightarrow> bool" where
  "wpt_state_ok st \<longleftrightarrow> pt_JTI ` set (proof_tokens (fst st)) \<subseteq> snd st"

definition wpt_spent :: "string \<Rightarrow> db \<times> string set \<Rightarrow> bool" where
  "wpt_spent k st \<longleftrightarrow> wpt_state_ok st \<and> k \<in> snd st \<and>
     (\<forall>p \<in> set (proof_tokens (fst st)). pt_JTI p = k \<longrightarrow> pt_IsUsed p)"

lemma VerifyProofToken_Inr:
  assumes "VerifyProofToken E pub now mark tok aud s = (Inr cl, s')"
  shows "\<exists>p \<in> set (proof_tokens s). pt_JTI p = claim_str cl ''jti'' \<and> \<not> pt_IsUsed p"
    "proof_tokens s' = update_where (\<lambda>p. pt_JTI p = claim_str cl ''jti'' \<and> \<not> pt_IsUsed p)
       (\<lambda>p. p\<lparr>pt_IsUsed := True, pt_UsedAt := Some mark\<rparr>) (proof_tokens s)"
  using assms
  by (auto simp: VerifyProofToken_def verify_read_def Proof_GetByJTI_def Proof_MarkUsed_def
      split: if_splits option.splits sum.splits dest!: find_SomeD)

lemma VerifyProofToken_Inl: "VerifyProofToken E pub now mark tok aud s = (Inl e, s') \<Longrightarrow> s' = s"
  by (auto simp: VerifyProofToken_def split: sum.splits)

lemma GenerateProofToken_rows:
  "proof_tokens (snd (GenerateProofToken E gate now jti pid ident aud nonce s)) = proof_tokens s \<or>
   (\<exists>p. pt_JTI p = jti \<and> proof_tokens (snd (GenerateProofToken E gate now jti pid ident aud nonce s)) = proof_tokens s @ [p])"
  by (auto simp: GenerateProofToken_def Proof_Create_def insert_row_def bind_def ret_def throw_def split: option.split)

text \<open>What any call does to the rows: those it keeps stay used, the new ones are freshly drawn.\<close>

lemma wpt_rows:
  assumes "p' \<in> set (proof_tokens (fst (snd (wpt_claim E pub k c (s, used)))))"
  shows "(\<exists>p \<in> set (proof_tokens s). pt_JTI p' = pt_JTI p \<and> (pt_IsUsed p \<longrightarrow> pt_IsUsed p')) \<or>
     (pt_JTI p' \<notin> used \<and> pt_JTI p' \<in> snd (snd (wpt_claim E pub k c (s, used))))"
proof (cases c)
  case (VerifyCall now mark tok aud)
  obtain x s' where v: "VerifyProofToken E pub now mark tok aud s = (x, s')" by fastforce
  have "p' \<in> set (proof_tokens s')" using assms v by (cases x) (auto simp: VerifyCall)
  with v show ?thesis
    by (cases x) (auto simp: VerifyProofToken_Inr(2) set_update_where dest: VerifyProofToken_Inl, metis+)
next
  case (GenerateCall gate now jti pid ident aud nonce)
  with assms GenerateProofToken_rows [of E gate now jti pid ident aud nonce s] show ?thesis
    by (auto split: if_splits)
next
  case (PassCall b x now later)
  with assms show ?thesis by (auto simp: RunOnce_tables set_delete_where)
qed

lemma wpt_used: "used \<subseteq> snd (snd (wpt_claim E pub k c (s, used)))"
  by (cases c) (auto split: prod.split sum.split)

interpretation wpt_use: single_use "wpt_claim E pub" wpt_spent wpt_state_ok
proof
  fix k k' :: string and c :: wpt_call and st st' :: "db \<times> string set"
  obtain s used where st: "st = (s, used)" by (cases st)
  have rows: "pt_JTI p' \<in> pt_JTI ` set (proof_tokens s) \<or> pt_JTI p' \<in> used'"
      "used \<subseteq> used'" "pt_JTI p' \<in> used \<Longrightarrow> \<exists>p \<in> set (proof_tokens s). pt_JTI p' = pt_JTI p \<and> (pt_IsUsed p \<longrightarrow> pt_IsUsed p')"
    if "wpt_claim E pub k c st = (b, s', used')" "p' \<in> set (proof_tokens s')" for k b s' used' p'
    using wpt_rows [of p' E pub k c s used] wpt_used [of used E pub k c s] that by (auto simp: st)
  have grows: "used \<subseteq> used'" if "wpt_claim E pub k c st = (b, s', used')" for k b s' used'
    using wpt_used [of used E pub k c s] that by (simp add: st)
  show ok: "wpt_state_ok (snd (wpt_claim E pub k c st))" if "wpt_state_ok st" for k
  proof -
    obtain b s' used' where e: "wpt_claim E pub k c st = (b, s', used')" by (metis prod_cases3)
    have "pt_JTI ` set (proof_tokens s) \<subseteq> used'" using that grows [OF e] by (auto simp: wpt_state_ok_def st)
    with rows(1) [OF e] show ?thesis unfolding wpt_state_ok_def e snd_conv fst_conv by blast
  qed
  show "\<not> fst (wpt_claim E pub k c st)" if "wpt_spent k st"
    using that by (cases c) (auto simp: wpt_spent_def st split: prod.splits sum.splits dest!: VerifyProofToken_Inr(1))
  show "wpt_spent k (snd (wpt_claim E pub k' c st))" if "wpt_spent k st"
  proof -
    obtain b s' used' where e: "wpt_claim E pub k' c st = (b, s', used')" by (metis prod_cases3)
    have "pt_IsUsed p'" if p': "p' \<in> set (proof_tokens s')" "pt_JTI p' = k" for p'
      using rows(3) [OF e p'(1)] \<open>wpt_spent k st\<close> p'(2) by (auto simp: wpt_spent_def st)
    moreover have "wpt_state_ok (snd (wpt_claim E pub k' c st))" "k \<in> used"
      using that ok [of k'] by (auto simp: wpt_spent_def st)
    ultimately show ?thesis using grows [OF e] unfolding wpt_spent_def e by auto
  qed
  show "wpt_spent k st'" if inv: "wpt_state_ok st" and won: "wpt_claim E pub k c st = (True, st')"
  proof -
    from won obtain now mark tok aud cl s' where c: "st' = (s', used)" "k = claim_str cl ''jti''"
        and v: "VerifyProofToken E pub now mark tok aud s = (Inr cl, s')"
      by (cases c) (auto simp: st split: if_splits prod.splits sum.splits)
    have "k \<in> used" using VerifyProofToken_Inr(1) [OF v] inv by (auto simp: wpt_state_ok_def st c(2))
    moreover have "wpt_state_ok st'" using ok [OF inv, of k] won by simp
    ultimately show ?thesis
      using VerifyProofToken_Inr(2) [OF v] by (auto simp: wpt_spent_def c set_update_where)
  qed
qed

text \<open>
  A WIMSE proof token is verified at most once: over any sequence of generations, cleanup passes
  and complete verifications, at most one verification of an identifier succeeds.
\<close>

theorem wpt_verified_once:
  assumes "wpt_state_ok (s, used)"
  shows "wins jti (fst (run_claims (wpt_claim E pub) calls (s, used))) \<le> 1"
  using wpt_use.run_at_most_once [OF assms] .

theorem wpt_verified_once_witness:
  "wins ''j'' (fst (run_claims (wpt_claim sample_env ''pub'')
     [(''j'', GenerateCall 0 0 ''j'' ''p'' (Some sample_identity) ''aud'' ''n''),
      (''j'', VerifyCall 1 1 ''t'' ''aud'')] (empty_db, {}))) \<le> 1"
  by (rule wpt_verified_once) (simp add: wpt_state_ok_def empty_db_def)

text \<open>
  The bound needs complete verifications: the lookup and the mark are two statements, and a second
  mark changes no row without an error, so a verification that read before another one marked
  is successful too.
\<close>

lemma second_mark_unnoticed: "Proof_MarkUsed m2 jti (Proof_MarkUsed m1 jti s) = Proof_MarkUsed m1 jti s"
  by (simp add: Proof_MarkUsed_def update_where_def)

subsection \<open>What a pass leaves\<close>

text \<open>
  After a pass nothing expired is left in the four tables of short-lived rows, and no
  backchannel request is pending past its expiry. What stays is unchanged and unexpired, except
  for requests that were approved: these are never collected.
\<close>

theorem RunOnce_complete:
  "list_all (\<lambda>c. now \<le> c_ExpiresAt c) (issued_credentials (RunOnce True expirer now later s)) \<and>
   proof_tokens (RunOnce True expirer now later s) = filter (\<lambda>p. now \<le> pt_ExpiresAt p) (proof_tokens s) \<and>
   auth_codes (RunOnce True expirer now later s) = filter (\<lambda>c. now \<le> ac_ExpiresAt c) (auth_codes s) \<and>
   dpop_jti (RunOnce True expirer now later s) = filter (\<lambda>d. now \<le> d_ExpiresAt d) (dpop_jti s) \<and>
   backchannel_auth_requests (RunOnce True expirer now later s) =
     filter (\<lambda>r. now \<le> b_ExpiresAt r \<or> b_Status r \<notin> {BackchannelStatusPending, BackchannelStatusIssued,
         BackchannelStatusDenied, BackchannelStatusExpired}) (backchannel_auth_requests s)"
proof (intro conjI)
  obtain sid rows t where t:
    "issued_credentials (RunOnce True expirer now later s) = issued_credentials (snd (sweep_rows sid later rows t))"
    "issued_credentials t = swept_credentials now s"
    by (rule RunOnce_credentials)
  have "\<exists>c \<in> set (issued_credentials t). same_token c c'"
    if "c' \<in> set (issued_credentials (snd (sweep_rows sid later rows t)))" for c'
    using sweep_rows_evolves [of t sid later rows] that by (auto simp: cred_evolves_def)
  then show "list_all (\<lambda>c. now \<le> c_ExpiresAt c) (issued_credentials (RunOnce True expirer now later s))"
    unfolding t list_all_iff by (fastforce simp: swept_credentials_def set_delete_where same_token_def)
  have "delete_where (\<lambda>r. b_ExpiresAt r < now \<and> b_Status r \<in> {BackchannelStatusExpired,
        BackchannelStatusDenied, BackchannelStatusIssued})
      (update_where (\<lambda>r. b_Status r = BackchannelStatusPending \<and> b_ExpiresAt r < now)
        (\<lambda>r. r\<lparr>b_Status := BackchannelStatusExpired\<rparr>) u) =
     filter (\<lambda>r. now \<le> b_ExpiresAt r \<or> b_Status r \<notin> {BackchannelStatusPending, BackchannelStatusIssued,
         BackchannelStatusDenied, BackchannelStatusExpired}) u" for u
    by (induction u) (auto simp: delete_where_def update_where_def)
  then show "backchannel_auth_requests (RunOnce True expirer now later s) =
     filter (\<lambda>r. now \<le> b_ExpiresAt r \<or> b_Status r \<notin> {BackchannelStatusPending, BackchannelStatusIssued,
         BackchannelStatusDenied, BackchannelStatusExpired}) (backchannel_auth_requests s)"
    by (simp add: RunOnce_tables BC_DeleteExpired_def BC_SweepExpired_def)
qed (simp_all add: RunOnce_tables delete_where_def not_less)

text \<open>A pass keeps the contract of the credential table: an inactive token stays inactive.\<close>

interpretation pass_op: credential_op "RunOnce b x now later" "{}"
proof
  fix s
  obtain sid rows t where t:
    "issued_credentials (RunOnce b x now later s) = issued_credentials (snd (sweep_rows sid later rows t))"
    "issued_credentials t = swept_credentials now s"
    by (rule RunOnce_credentials)
  note e = sweep_rows_evolves [of t sid later rows]
  have del: "cred_evolves {} (issued_credentials s) (swept_credentials now s)"
    by (simp add: swept_credentials_def cred_evolves_delete)
  show "cred_evolves {} (issued_credentials s) (issued_credentials (RunOnce b x now later s))"
    using cred_evolves_trans [OF del, of "{}"] e by (simp add: t)
  show "unique_by credential_conflict (issued_credentials (RunOnce b x now later s))"
    if "unique_by credential_conflict (issued_credentials s)"
    using that e by (simp add: t swept_credentials_def unique_by_delete)
qed

lemma active_iff:
  assumes "unique_by credential_conflict (issued_credentials s)"
  shows "snd (IntrospectToken now jti s) \<longleftrightarrow>
    (\<exists>c \<in> set (issued_credentials s). c_JTI c = jti \<and> \<not> c_IsRevoked c \<and> now \<le> c_ExpiresAt c)"
  using inactive_token_dead [OF assms, of now jti] by (auto simp: token_dead_def not_less)

text \<open>
  A pass is invisible to introspection: at any time from the pass on, a token is active after
  it exactly if it was active before, when no identity is due for the expiry sweep; and whatever
  the sweep revokes, no token becomes active.
\<close>

theorem RunOnce_introspection:
  assumes "unique_by credential_conflict (issued_credentials s)" and "now \<le> t"
  shows "(snd (IntrospectToken t jti (RunOnce hasRepo expirer now later s)) \<longrightarrow> snd (IntrospectToken t jti s)) \<and>
    (ListExpiredActive later s = [] \<longrightarrow>
       snd (IntrospectToken t jti (RunOnce hasRepo expirer now later s)) = snd (IntrospectToken t jti s))"
proof
  show mono: "snd (IntrospectToken t jti (RunOnce hasRepo expirer now later s)) \<longrightarrow> snd (IntrospectToken t jti s)"
    using pass_op.dead_stays_dead [OF assms(1), of jti t hasRepo expirer now later] by auto
  show "ListExpiredActive later s = [] \<longrightarrow>
       snd (IntrospectToken t jti (RunOnce hasRepo expirer now later s)) = snd (IntrospectToken t jti s)"
  proof
    assume none: "ListExpiredActive later s = []"
    have "issued_credentials (RunOnce hasRepo expirer now later s) = swept_credentials now s"
    proof (rule RunOnce_credentials)
      fix rows u assume u: "issued_credentials (RunOnce hasRepo expirer now later s) =
          issued_credentials (snd (sweep_rows (case expirer of None \<Rightarrow> (\<lambda>_. []) | Some sid \<Rightarrow> sid) later rows u))"
        "issued_credentials u = swept_credentials now s"
        "rows = (case expirer of None \<Rightarrow> [] | Some sid \<Rightarrow> ListExpiredActive later s)"
      have "rows = []" using u(3) none by (simp split: option.splits)
      with u(1,2) show ?thesis by simp
    qed
    moreover have "unique_by credential_conflict (issued_credentials (RunOnce hasRepo expirer now later s))"
      by (rule pass_op.keeps_unique [OF assms(1)])
    ultimately show "snd (IntrospectToken t jti (RunOnce hasRepo expirer now later s)) = snd (IntrospectToken t jti s)"
      using assms by (auto simp: active_iff swept_credentials_def set_delete_where)
  qed
qed

theorem RunOnce_introspection_witness:
  "snd (IntrospectToken (50 * second) ''j1'' rotate_db) \<and>
   snd (IntrospectToken (50 * second) ''j1'' (RunOnce True (Some (\<lambda>x. x)) (40 * second) (41 * second) rotate_db))"
proof -
  have u: "unique_by credential_conflict (issued_credentials rotate_db)"
    by (simp add: rotate_db_def unique_by_def)
  have a: "snd (IntrospectToken (50 * second) ''j1'' rotate_db)"
    by (simp add: IntrospectToken_def Credential_GetByJTI_def rotate_db_def sample_row_fields)
       (simp add: sample_row_def issued_row_def)
  have "ListExpiredActive (41 * second) rotate_db = []"
    by (simp add: ListExpiredActive_def rotate_db_def empty_db_def)
  then show ?thesis
    using RunOnce_introspection [OF u, of "40 * second" "50 * second" "''j1''" True "Some (\<lambda>x. x)" "41 * second"] a
    by simp
qed

end
