(* ===== verification/Zeroid_Keys.thy ===== *)
theory Zeroid_Keys
  imports Zeroid_Identities
begin

text \<open>
  API keys and the agent facade (\<open>src/internal/service/apikey.go\<close>, \<open>src/internal/service/agent.go\<close>,
  \<open>src/internal/store/postgres/apikey.go\<close>, \<open>src/internal/handler/apikey.go\<close>). A created key
  authenticates and stays within its owner's authority, registration of an agent is all or
  nothing, and rotation leaves one key when it succeeds.
\<close>

subsection \<open>Key material\<close>

abbreviation APIKeyPrefix :: string where "APIKeyPrefix \<equiv> ''zid_sk''"

text \<open>
  \<open>encoded\<close> is the base64url form of the 24 random bytes. The value: the full key, its hash and its
  display prefix.
\<close>

definition generateAPIKey :: "env \<Rightarrow> string \<Rightarrow> string \<Rightarrow> string \<times> string \<times> string" where
  "generateAPIKey E keyKind encoded =
     (let rawKey = keyKind @ ''_'' @ encoded
      in (rawKey, sha256_hex E rawKey, if length rawKey > 16 then take 16 rawKey else rawKey))"

subsection \<open>Creating a key\<close>

record create_key_req =
  ck_AccountID :: string
  ck_ProjectID :: string
  ck_CreatedBy :: string
  ck_Name :: string
  ck_Description :: string
  ck_IdentityID :: string
  ck_CredentialPolicyID :: string
  ck_Product :: string
  ck_Scopes :: "string list"
  ck_Environment :: string
  ck_ExpiresInDays :: "int option"
  ck_ExpiresAt :: "time option"
  ck_Metadata :: string

text \<open>
  What one call draws: identifiers of a service identity and of default policies, of the key, the
  random bytes, its clock, and \<open>AddDate(0, 0, n)\<close> in the server's time zone.
\<close>

record key_draw =
  kd_now :: time
  kd_IdentityID :: string
  kd_IdentityPolicy :: string
  kd_Policy :: string
  kd_ID :: string
  kd_Encoded :: string
  kd_AddDays :: "time \<Rightarrow> int \<Rightarrow> time"

definition key_owner :: "env \<Rightarrow> key_draw \<Rightarrow> create_key_req \<Rightarrow> (db, err, string) svc" where
  "key_owner E d req =
     (if ck_IdentityID req = [] \<and> ck_Product req \<noteq> []
      then bind (EnsureServiceIdentity E (kd_IdentityID d) (kd_IdentityPolicy d) (kd_now d)
                   (ck_AccountID req) (ck_ProjectID req) (ck_Product req) (ck_CreatedBy req))
             (\<lambda>i. ret (i_ID i))
      else ret (ck_IdentityID req))"

definition key_policy :: "key_draw \<Rightarrow> create_key_req \<Rightarrow> (db, err, string \<times> policy) svc" where
  "key_policy d req =
     (if ck_CredentialPolicyID req = []
      then bind (EnsureDefaultPolicy (kd_Policy d) (kd_now d) (ck_AccountID req) (ck_ProjectID req))
             (\<lambda>p. ret (p_ID p, p))
      else bind (GetPolicy (ck_CredentialPolicyID req) (ck_AccountID req) (ck_ProjectID req))
             (\<lambda>p. ret (ck_CredentialPolicyID req, p)))"

text \<open>The key's policy must lie within that of the identity that will own the key.\<close>

definition key_subset :: "create_key_req \<Rightarrow> string \<Rightarrow> string \<Rightarrow> policy \<Rightarrow> (db, err, unit) svc" where
  "key_subset req owner policyID keyPolicy =
     (if owner = [] then ret ()
      else bind (Identity_GetByID owner (ck_AccountID req) (ck_ProjectID req)) (\<lambda>i.
        if i_CredentialPolicyID i \<noteq> [] \<and> i_CredentialPolicyID i \<noteq> policyID
        then bind (GetPolicy (i_CredentialPolicyID i) (i_AccountID i) (i_ProjectID i)) (\<lambda>identityPolicy.
          case EnforceSubset (Some keyPolicy) (Some identityPolicy) of None \<Rightarrow> ret () | Some e \<Rightarrow> throw e)
        else ret ()))"

definition key_expiry :: "key_draw \<Rightarrow> create_key_req \<Rightarrow> time option" where
  "key_expiry d req =
     (case ck_ExpiresAt req of
        Some t \<Rightarrow> Some t
      | None \<Rightarrow>
          (case ck_ExpiresInDays req of
             None \<Rightarrow> None | Some n \<Rightarrow> if n > 0 then Some (kd_AddDays d (kd_now d) n) else None))"

definition key_row :: "env \<Rightarrow> key_draw \<Rightarrow> create_key_req \<Rightarrow> string \<Rightarrow> string \<Rightarrow> api_key" where
  "key_row E d req owner policyID =
     (let (rawKey, keyHash, displayPrefix) = generateAPIKey E APIKeyPrefix (kd_Encoded d) in
      \<lparr>k_ID = kd_ID d, k_Name = ck_Name req, k_Description = ck_Description req,
       k_KeyPrefix = displayPrefix, k_KeyHash = keyHash, k_KeyVersion = 1,
       k_AccountID = ck_AccountID req, k_ProjectID = ck_ProjectID req, k_IdentityID = owner,
       k_CreatedBy = ck_CreatedBy req, k_Scopes = ck_Scopes req, k_Product = ck_Product req,
       k_Environment = (if ck_Environment req \<noteq> [] then ck_Environment req else ''live''),
       k_ExpiresAt = key_expiry d req, k_State = APIKeyStateActive, k_RevokedAt = None,
       k_RevokedBy = [], k_RevokeReason = [], k_LastUsedAt = None, k_LastUsedIP = [],
       k_UsageCount = 0, k_Metadata = or_default (ck_Metadata req) ''{}'', k_IPAllowlist = [],
       k_CredentialPolicyID = policyID, k_RateLimitRPS = 0, k_ReplacedBy = [],
       k_CreatedAt = kd_now d, k_UpdatedAt = kd_now d\<rparr>)"

text \<open>The value is the full key, shown once, and the stored row.\<close>

definition CreateKey :: "env \<Rightarrow> key_draw \<Rightarrow> create_key_req \<Rightarrow> (db, err, string \<times> api_key) svc" where
  "CreateKey E d req =
     bind (key_owner E d req) (\<lambda>owner.
     bind (key_policy d req) (\<lambda>(policyID, keyPolicy).
     bind (key_subset req owner policyID keyPolicy) (\<lambda>_.
     bind (APIKey_Create (key_row E d req owner policyID)) (\<lambda>_.
     ret (fst (generateAPIKey E APIKeyPrefix (kd_Encoded d)), key_row E d req owner policyID)))))"

definition GetKey :: "string \<Rightarrow> string \<Rightarrow> string \<Rightarrow> (db, err, api_key) svc" where
  "GetKey rid acct proj = (\<lambda>s.
     case find (\<lambda>k. k_ID k = rid \<and> k_AccountID k = acct \<and> k_ProjectID k = proj) (service_keys s) of
       None \<Rightarrow> (Inl ErrNoRows, s) | Some k \<Rightarrow> (Inr k, s))"

definition RevokeKey ::
  "time \<Rightarrow> string \<Rightarrow> string \<Rightarrow> string \<Rightarrow> string \<Rightarrow> string \<Rightarrow> db \<Rightarrow> nat \<times> db" where
  "RevokeKey now rid acct proj revokedBy reason s = APIKey_Revoke now rid acct proj revokedBy reason s"

text \<open>The rows in the order of their expiry; equal expiries come in any order from the database.\<close>

definition ListExpiringSoon :: "string \<Rightarrow> string \<Rightarrow> time \<Rightarrow> int \<Rightarrow> db \<Rightarrow> api_key list" where
  "ListExpiringSoon acct proj now within s =
     sort_key (\<lambda>k. case k_ExpiresAt k of None \<Rightarrow> 0 | Some t \<Rightarrow> t)
       (filter (\<lambda>k. k_AccountID k = acct \<and> k_ProjectID k = proj \<and> k_State k = APIKeyStateActive \<and>
                    (case k_ExpiresAt k of None \<Rightarrow> False | Some t \<Rightarrow> now \<le> t \<and> t \<le> now + within))
         (service_keys s))"

subsection \<open>Handlers\<close>

definition createAPIKeyOp ::
  "env \<Rightarrow> key_draw \<Rightarrow> (string \<times> string) option \<Rightarrow> string \<Rightarrow> create_key_req \<Rightarrow>
   (db, err, string \<times> api_key) svc" where
  "createAPIKeyOp E d tenant caller body =
     (case tenant of
        None \<Rightarrow> throw (HTTPErr 401)
      | Some (acct, proj) \<Rightarrow>
          on_error (CreateKey E d (body\<lparr>ck_AccountID := acct, ck_ProjectID := proj,
              ck_CreatedBy := caller, ck_ExpiresAt := None\<rparr>))
            (\<lambda>e. case e of
               ErrPolicyNotFound \<Rightarrow> HTTPErr 400
             | ErrPolicySubsetViolation _ \<Rightarrow> HTTPErr 400
             | _ \<Rightarrow> HTTPErr 500))"

definition getAPIKeyOp :: "(string \<times> string) option \<Rightarrow> string \<Rightarrow> (db, err, api_key) svc" where
  "getAPIKeyOp tenant rid =
     (case tenant of
        None \<Rightarrow> throw (HTTPErr 401)
      | Some (acct, proj) \<Rightarrow> on_error (GetKey rid acct proj) (\<lambda>_. HTTPErr 404))"

definition revokeAPIKeyOp ::
  "time \<Rightarrow> (string \<times> string) option \<Rightarrow> string \<Rightarrow> string \<Rightarrow> string \<Rightarrow> (db, err, unit) svc" where
  "revokeAPIKeyOp now tenant caller rid reason =
     (case tenant of
        None \<Rightarrow> throw (HTTPErr 401)
      | Some (acct, proj) \<Rightarrow> (\<lambda>s.
          case RevokeKey now rid acct proj caller reason s of
            (n, s') \<Rightarrow> if n = 0 then (Inl (HTTPErr 404), s') else (Inr (), s')))"

subsection \<open>Agents\<close>

record agent_response =
  ar_ID :: string
  ar_AccountID :: string
  ar_ProjectID :: string
  ar_Name :: string
  ar_ExternalID :: string
  ar_WIMSEURI :: string
  ar_APIKeyPrefix :: string
  ar_IdentityType :: string
  ar_SubType :: string
  ar_TrustLevel :: string
  ar_Status :: string
  ar_CredentialPolicyID :: string
  ar_Framework :: string
  ar_Version :: string
  ar_Publisher :: string
  ar_Description :: string
  ar_Capabilities :: string
  ar_Labels :: string
  ar_Metadata :: string
  ar_CreatedAt :: time
  ar_CreatedBy :: string
  ar_UpdatedAt :: time

definition json_or :: "string \<Rightarrow> string \<Rightarrow> string" where
  "json_or raw d = (if raw = [] \<or> raw = ''null'' then d else raw)"

definition identityToAgentResponse :: "identity \<Rightarrow> string \<Rightarrow> agent_response" where
  "identityToAgentResponse i keyPrefix =
     \<lparr>ar_ID = i_ID i, ar_AccountID = i_AccountID i, ar_ProjectID = i_ProjectID i, ar_Name = i_Name i,
      ar_ExternalID = i_ExternalID i, ar_WIMSEURI = i_WIMSEURI i, ar_APIKeyPrefix = keyPrefix,
      ar_IdentityType = i_IdentityType i, ar_SubType = i_SubType i, ar_TrustLevel = i_TrustLevel i,
      ar_Status = i_Status i, ar_CredentialPolicyID = i_CredentialPolicyID i,
      ar_Framework = i_Framework i, ar_Version = i_Version i, ar_Publisher = i_Publisher i,
      ar_Description = i_Description i, ar_Capabilities = json_or (i_Capabilities i) ''[]'',
      ar_Labels = json_or (i_Labels i) ''{}'', ar_Metadata = json_or (i_Metadata i) ''{}'',
      ar_CreatedAt = i_CreatedAt i, ar_CreatedBy = i_CreatedBy i, ar_UpdatedAt = i_UpdatedAt i\<rparr>"

text \<open>The newest active key of an identity (\<open>ORDER BY created_at DESC LIMIT 1\<close>).\<close>

fun newest :: "api_key list \<Rightarrow> api_key option" where
  "newest [] = None"
| "newest (k # ks) =
     (case newest ks of
        None \<Rightarrow> Some k
      | Some k' \<Rightarrow> if k_CreatedAt k' < k_CreatedAt k then Some k else Some k')"

definition GetActiveByIdentityID :: "string \<Rightarrow> db \<Rightarrow> api_key option" where
  "GetActiveByIdentityID identityID s =
     newest (filter (\<lambda>k. k_IdentityID k = identityID \<and> k_State k = APIKeyStateActive) (service_keys s))"

definition getKeyPrefix :: "string \<Rightarrow> db \<Rightarrow> string" where
  "getKeyPrefix identityID s =
     (case GetActiveByIdentityID identityID s of None \<Rightarrow> [] | Some sk \<Rightarrow> k_KeyPrefix sk)"

record register_agent_req =
  ra_AccountID :: string
  ra_ProjectID :: string
  ra_Name :: string
  ra_ExternalID :: string
  ra_IdentityType :: string
  ra_SubType :: string
  ra_TrustLevel :: string
  ra_Framework :: string
  ra_Version :: string
  ra_Publisher :: string
  ra_Description :: string
  ra_Capabilities :: string
  ra_Labels :: string
  ra_Metadata :: string
  ra_AllowedScopes :: "string list"
  ra_CreatedBy :: string
  ra_PublicKeyPEM :: string
  ra_CredentialPolicyID :: string
  ra_APIKeyCredentialPolicyID :: string
  ra_ExpiresAt :: "time option"

definition agent_identity_req :: "register_agent_req \<Rightarrow> register_req" where
  "agent_identity_req req =
     \<lparr>ri_AccountID = ra_AccountID req, ri_ProjectID = ra_ProjectID req,
      ri_ExternalID = ra_ExternalID req, ri_Name = ra_Name req, ri_TrustLevel = ra_TrustLevel req,
      ri_IdentityType = or_default (ra_IdentityType req) IdentityTypeAgent,
      ri_SubType = ra_SubType req, ri_OwnerUserID = ra_CreatedBy req,
      ri_AllowedScopes = ra_AllowedScopes req, ri_PublicKeyPEM = ra_PublicKeyPEM req,
      ri_Framework = ra_Framework req, ri_Version = ra_Version req,
      ri_Publisher = ra_Publisher req, ri_Description = ra_Description req,
      ri_Capabilities = ra_Capabilities req, ri_Labels = ra_Labels req,
      ri_Metadata = ra_Metadata req, ri_CreatedBy = ra_CreatedBy req,
      ri_CredentialPolicyID = ra_CredentialPolicyID req, ri_CapabilityTier = [],
      ri_RiskTier = [], ri_IAL = [], ri_ExpiresAt = ra_ExpiresAt req\<rparr>"

definition agent_key_req :: "register_agent_req \<Rightarrow> string \<Rightarrow> create_key_req" where
  "agent_key_req req identityID =
     \<lparr>ck_AccountID = ra_AccountID req, ck_ProjectID = ra_ProjectID req,
      ck_CreatedBy = ra_CreatedBy req, ck_Name = ''Agent: '' @ ra_Name req, ck_Description = [],
      ck_IdentityID = identityID,
      ck_CredentialPolicyID = or_default (ra_APIKeyCredentialPolicyID req) (ra_CredentialPolicyID req),
      ck_Product = [], ck_Scopes = [], ck_Environment = [], ck_ExpiresInDays = None,
      ck_ExpiresAt = ra_ExpiresAt req, ck_Metadata = []\<rparr>"

text \<open>
  Registration: \<open>iid\<close>, \<open>pid\<close> are the identifiers of the identity and of a default policy, \<open>sid\<close> that of
  the lifecycle signal of the compensating deletion.
\<close>

definition RegisterAgent ::
  "env \<Rightarrow> string \<Rightarrow> string \<Rightarrow> string \<Rightarrow> key_draw \<Rightarrow> time \<Rightarrow> register_agent_req \<Rightarrow>
   (db, err, agent_response \<times> string) svc" where
  "RegisterAgent E iid pid sid d now req =
     bind (RegisterIdentity E iid pid now (agent_identity_req req)) (\<lambda>i s.
       case CreateKey E d (agent_key_req req (i_ID i)) s of
         (Inl e, s1) \<Rightarrow>
           (Inl e, DeleteIdentity now sid (i_ID i) (ra_AccountID req) (ra_ProjectID req) s1)
       | (Inr (fullKey, sk), s1) \<Rightarrow>
           (Inr (identityToAgentResponse i (k_KeyPrefix sk), fullKey), s1))"

definition GetAgent :: "string \<Rightarrow> string \<Rightarrow> string \<Rightarrow> (db, err, agent_response) svc" where
  "GetAgent rid acct proj =
     bind (Identity_GetByID rid acct proj)
       (\<lambda>i s. (Inr (identityToAgentResponse i (getKeyPrefix (i_ID i) s)), s))"

record update_agent_req =
  ua_Name :: "string option"
  ua_SubType :: "string option"
  ua_TrustLevel :: "string option"
  ua_Framework :: "string option"
  ua_Version :: "string option"
  ua_Publisher :: "string option"
  ua_Description :: "string option"
  ua_Capabilities :: "string option"
  ua_Labels :: "string option"
  ua_Metadata :: "string option"
  ua_Status :: "string option"

definition derefStr :: "string option \<Rightarrow> string" where
  "derefStr p = (case p of None \<Rightarrow> [] | Some v \<Rightarrow> v)"

definition empty_update :: update_req where
  "empty_update =
     \<lparr>ui_Name = [], ui_TrustLevel = [], ui_IdentityType = [], ui_SubType = [], ui_OwnerUserID = [],
      ui_AllowedScopes = None, ui_PublicKeyPEM = [], ui_Framework = None, ui_Version = None,
      ui_Publisher = None, ui_Description = None, ui_Capabilities = None, ui_Labels = None,
      ui_Metadata = None, ui_Status = None, ui_CredentialPolicyID = None, ui_CapabilityTier = None,
      ui_RiskTier = None, ui_IAL = None, ui_ExpiresAt = None\<rparr>"

definition agent_update :: "update_agent_req \<Rightarrow> update_req" where
  "agent_update req = empty_update
     \<lparr>ui_Name := derefStr (ua_Name req), ui_SubType := derefStr (ua_SubType req),
      ui_TrustLevel := derefStr (ua_TrustLevel req), ui_Framework := ua_Framework req,
      ui_Version := ua_Version req, ui_Publisher := ua_Publisher req,
      ui_Description := ua_Description req, ui_Capabilities := ua_Capabilities req,
      ui_Labels := ua_Labels req, ui_Metadata := ua_Metadata req, ui_Status := ua_Status req\<rparr>"

text \<open>The three updates; \<open>parse_rfc3339\<close>, \<open>caller\<close>, \<open>pid\<close>, \<open>sid\<close> and \<open>now\<close> are those of \<open>UpdateIdentity\<close>.\<close>

definition patch_agent ::
  "env \<Rightarrow> (string \<Rightarrow> time option) \<Rightarrow> string \<Rightarrow> string \<Rightarrow> string \<Rightarrow> time \<Rightarrow> string \<Rightarrow> string \<Rightarrow>
   string \<Rightarrow> update_req \<Rightarrow> (db, err, agent_response) svc" where
  "patch_agent E parse_rfc3339 caller pid sid now rid acct proj req =
     bind (UpdateIdentity E parse_rfc3339 caller pid sid now rid acct proj req)
       (\<lambda>i s. (Inr (identityToAgentResponse i (getKeyPrefix (i_ID i) s)), s))"

definition UpdateAgent ::
  "env \<Rightarrow> (string \<Rightarrow> time option) \<Rightarrow> string \<Rightarrow> string \<Rightarrow> string \<Rightarrow> time \<Rightarrow> string \<Rightarrow> string \<Rightarrow>
   string \<Rightarrow> update_agent_req \<Rightarrow> (db, err, agent_response) svc" where
  "UpdateAgent E parse_rfc3339 caller pid sid now rid acct proj req =
     patch_agent E parse_rfc3339 caller pid sid now rid acct proj (agent_update req)"

definition ActivateAgent ::
  "env \<Rightarrow> (string \<Rightarrow> time option) \<Rightarrow> string \<Rightarrow> string \<Rightarrow> string \<Rightarrow> time \<Rightarrow> string \<Rightarrow> string \<Rightarrow>
   string \<Rightarrow> (db, err, agent_response) svc" where
  "ActivateAgent E parse_rfc3339 caller pid sid now rid acct proj =
     patch_agent E parse_rfc3339 caller pid sid now rid acct proj
       (empty_update\<lparr>ui_Status := Some IdentityStatusActive\<rparr>)"

definition DeactivateAgent ::
  "env \<Rightarrow> (string \<Rightarrow> time option) \<Rightarrow> string \<Rightarrow> string \<Rightarrow> string \<Rightarrow> time \<Rightarrow> string \<Rightarrow> string \<Rightarrow>
   string \<Rightarrow> (db, err, agent_response) svc" where
  "DeactivateAgent E parse_rfc3339 caller pid sid now rid acct proj =
     patch_agent E parse_rfc3339 caller pid sid now rid acct proj
       (empty_update\<lparr>ui_Status := Some IdentityStatusDeactivated\<rparr>)"

definition DeleteAgent ::
  "time \<Rightarrow> string \<Rightarrow> string \<Rightarrow> string \<Rightarrow> string \<Rightarrow> (db, err, agent_response) svc" where
  "DeleteAgent now sid rid acct proj =
     bind (Identity_GetByID rid acct proj)
       (\<lambda>i s. (Inr (identityToAgentResponse i []), DeleteIdentity now sid rid acct proj s))"

definition rotated_key_req :: "identity \<Rightarrow> create_key_req" where
  "rotated_key_req i =
     \<lparr>ck_AccountID = i_AccountID i, ck_ProjectID = i_ProjectID i,
      ck_CreatedBy = ''system:key_rotation'', ck_Name = ''Agent: '' @ i_Name i, ck_Description = [],
      ck_IdentityID = i_ID i, ck_CredentialPolicyID = [], ck_Product = [], ck_Scopes = [],
      ck_Environment = [], ck_ExpiresInDays = None, ck_ExpiresAt = i_ExpiresAt i, ck_Metadata = []\<rparr>"

definition RotateKey ::
  "env \<Rightarrow> key_draw \<Rightarrow> time \<Rightarrow> string \<Rightarrow> string \<Rightarrow> string \<Rightarrow> (db, err, agent_response \<times> string) svc" where
  "RotateKey E d now rid acct proj =
     bind (Identity_GetByID rid acct proj) (\<lambda>i.
     if \<not> IsUsable (i_Status i) then throw ErrIdentityNotUsable
     else if Identity_IsExpired i now then throw ErrIdentityExpired
     else (\<lambda>s.
       case CreateKey E d (rotated_key_req i) (APIKey_RevokeByIdentityID now (i_ID i) s) of
         (Inl e, s1) \<Rightarrow> (Inl e, s1)
       | (Inr (fullKey, sk), s1) \<Rightarrow>
           (Inr (identityToAgentResponse i (k_KeyPrefix sk), fullKey), s1)))"

subsection \<open>What a created key is\<close>

lemma key_subset_state: "key_subset req owner pid p s = (x, s') \<Longrightarrow> s' = s"
  by (auto simp: key_subset_def Identity_GetByID_def GetPolicy_def bind_def ret_def throw_def
      split: if_splits option.splits)

lemma key_policy_effect:
  assumes "key_policy d req s = (r, s')"
  shows "\<exists>ps. s' = s\<lparr>credential_policies := credential_policies s @ ps\<rparr> \<and>
     (\<forall>pid p. r = Inr (pid, p) \<longrightarrow> p_ID p = pid \<and> policy_of_tenant pid (ck_AccountID req) (ck_ProjectID req) s')"
proof (cases "ck_CredentialPolicyID req = []")
  case True
  obtain r0 s0 where e: "EnsureDefaultPolicy (kd_Policy d) (kd_now d) (ck_AccountID req) (ck_ProjectID req) s = (r0, s0)"
    by fastforce
  with assms True EnsureDefaultPolicy_effect [OF e] show ?thesis
    by (cases r0) (auto simp: key_policy_def bind_def ret_def)
next
  case False
  with assms show ?thesis
    by (auto simp: key_policy_def bind_def ret_def GetPolicy_def policy_of_tenant_def
        split: option.splits dest!: find_SomeD intro!: exI [of _ "[]"])
qed

lemma EnsureDefaultPolicy_Inr_mem:
  "EnsureDefaultPolicy pid now acct proj s = (Inr p, s') \<Longrightarrow> p \<in> set (credential_policies s')"
proof (cases "GetDefaultByTenant acct proj s")
  case None
  then show "EnsureDefaultPolicy pid now acct proj s = (Inr p, s') \<Longrightarrow> p \<in> set (credential_policies s')"
    by (auto simp: EnsureDefaultPolicy_fresh insert_row_Some split: option.splits)
qed (auto simp: EnsureDefaultPolicy_def GetDefaultByTenant_def dest!: find_SomeD)

lemma EnsureDefaultPolicy_tenant:
  "EnsureDefaultPolicy pid now acct proj s = (Inr p, s') \<Longrightarrow> p_AccountID p = acct \<and> p_ProjectID p = proj"
proof (cases "GetDefaultByTenant acct proj s")
  case None
  then show "EnsureDefaultPolicy pid now acct proj s = (Inr p, s') \<Longrightarrow> p_AccountID p = acct \<and> p_ProjectID p = proj"
    by (auto simp: EnsureDefaultPolicy_fresh default_policy_def split: option.splits)
qed (auto simp: EnsureDefaultPolicy_def GetDefaultByTenant_def dest!: find_SomeD)

lemma CreateKey_Inr:
  assumes "CreateKey E d req s = (Inr (raw, k), s')"
  obtains owner policyID p s1 s2 where
    "key_owner E d req s = (Inr owner, s1)" "key_policy d req s1 = (Inr (policyID, p), s2)"
    "key_subset req owner policyID p s2 = (Inr (), s2)" "APIKey_Create k s2 = (Inr (), s')"
    "k = key_row E d req owner policyID" "raw = fst (generateAPIKey E APIKeyPrefix (kd_Encoded d))"
proof -
  from assms obtain owner policyID p s1 s2 s3 where o: "key_owner E d req s = (Inr owner, s1)"
      "key_policy d req s1 = (Inr (policyID, p), s2)" "APIKey_Create k s3 = (Inr (), s')"
      "k = key_row E d req owner policyID" "raw = fst (generateAPIKey E APIKeyPrefix (kd_Encoded d))"
    and sub: "key_subset req owner policyID p s2 = (Inr (), s3)"
    by (auto simp: CreateKey_def bind_Inr)
  with key_subset_state [OF sub] that show ?thesis by simp
qed

lemma key_row_fields:
  "k_ID (key_row E d req owner pid) = kd_ID d" "k_AccountID (key_row E d req owner pid) = ck_AccountID req"
  "k_ProjectID (key_row E d req owner pid) = ck_ProjectID req" "k_IdentityID (key_row E d req owner pid) = owner"
  "k_State (key_row E d req owner pid) = APIKeyStateActive" "k_CredentialPolicyID (key_row E d req owner pid) = pid"
  "k_ExpiresAt (key_row E d req owner pid) = key_expiry d req" "k_Scopes (key_row E d req owner pid) = ck_Scopes req"
  "k_KeyHash (key_row E d req owner pid) = sha256_hex E (fst (generateAPIKey E APIKeyPrefix (kd_Encoded d)))"
  by (simp_all add: key_row_def generateAPIKey_def Let_def)

lemma APIKey_Create_Inr:
  "APIKey_Create k s = (Inr u, s') \<longleftrightarrow>
     k_IdentityID k \<noteq> [] \<and> (\<exists>i \<in> set (identities s). i_ID i = k_IdentityID k) \<and>
     k_CredentialPolicyID k \<noteq> [] \<and> (\<exists>p \<in> set (credential_policies s). p_ID p = k_CredentialPolicyID k) \<and>
     (\<forall>x \<in> set (service_keys s). \<not> api_key_conflict x k) \<and> s' = s\<lparr>service_keys := service_keys s @ [k]\<rparr>"
  by (auto simp: APIKey_Create_def table_simps split: option.splits)

text \<open>The authority of a key within that of its owner, as established at its creation.\<close>

definition within_owner :: "api_key \<Rightarrow> db \<Rightarrow> bool" where
  "within_owner k s \<longleftrightarrow>
     (\<exists>i p. i \<in> set (identities s) \<and> i_ID i = k_IdentityID k \<and> i_AccountID i = k_AccountID k \<and>
        i_ProjectID i = k_ProjectID k \<and> p \<in> set (credential_policies s) \<and> p_ID p = k_CredentialPolicyID k \<and>
        p_AccountID p = k_AccountID k \<and> p_ProjectID p = k_ProjectID k \<and>
        (i_CredentialPolicyID i = [] \<or> i_CredentialPolicyID i = k_CredentialPolicyID k \<or>
         (\<exists>w. w \<in> set (credential_policies s) \<and> p_ID w = i_CredentialPolicyID i \<and>
            p_AccountID w = k_AccountID k \<and> p_ProjectID w = k_ProjectID k \<and>
            EnforceSubset (Some p) (Some w) = None)))"

text \<open>
  A created key works and stays within its owner: the secret that is returned once
  authenticates as exactly the stored key until its expiry; the key belongs to the requesting
  tenant and to an identity of that tenant, carries a policy of that tenant, and when the owner
  has another policy the key's was found to be a subset of it.
\<close>

theorem CreateKey_roundtrip:
  assumes "CreateKey E d req s = (Inr (rawKey, k), s')"
    and "\<And>t. k_ExpiresAt k = Some t \<Longrightarrow> now \<le> t"
  shows "APIKey_GetByKeyHash now (sha256_hex E rawKey) s' = (Inr k, s') \<and>
    k_AccountID k = ck_AccountID req \<and> k_ProjectID k = ck_ProjectID req \<and>
    k_ExpiresAt k = key_expiry d req \<and> within_owner k s'"
  using assms(1)
proof (rule CreateKey_Inr)
  fix owner policyID p s1 s2
  assume pol: "key_policy d req s1 = (Inr (policyID, p), s2)"
    and sub: "key_subset req owner policyID p s2 = (Inr (), s2)"
    and ins: "APIKey_Create k s2 = (Inr (), s')" and k: "k = key_row E d req owner policyID"
    and raw: "rawKey = fst (generateAPIKey E APIKeyPrefix (kd_Encoded d))"
  note f = key_row_fields [of E d req owner policyID, folded k]
  from ins have owner: "owner \<noteq> []" and fresh: "\<forall>x \<in> set (service_keys s2). \<not> api_key_conflict x k"
    and s': "s' = s2\<lparr>service_keys := service_keys s2 @ [k]\<rparr>"
    by (simp_all add: APIKey_Create_Inr f)
  have "find (\<lambda>x. k_KeyHash x = k_KeyHash k \<and> k_State x = APIKeyStateActive) (service_keys s2 @ [k]) = Some k"
    using fresh by (intro find_fresh_last) (auto simp: api_key_conflict_def f)
  then have get: "APIKey_GetByKeyHash now (sha256_hex E rawKey) s' = (Inr k, s')"
    using assms(2) by (auto simp: APIKey_GetByKeyHash_def s' raw f not_less split: option.splits)
  from sub owner obtain i where i: "Identity_GetByID owner (ck_AccountID req) (ck_ProjectID req) s2 = (Inr i, s2)"
    and w: "i_CredentialPolicyID i = [] \<or> i_CredentialPolicyID i = policyID \<or>
      (\<exists>ip. GetPolicy (i_CredentialPolicyID i) (i_AccountID i) (i_ProjectID i) s2 = (Inr ip, s2) \<and>
         EnforceSubset (Some p) (Some ip) = None)"
    by (auto simp: key_subset_def bind_Inr Identity_GetByID_def GetPolicy_def
        split: if_splits option.splits)
  have ii: "i \<in> set (identities s2)" "i_ID i = owner" "i_AccountID i = ck_AccountID req" "i_ProjectID i = ck_ProjectID req"
    using i by (auto simp: Identity_GetByID_def split: option.splits dest!: find_SomeD)
  from key_policy_effect [OF pol] have pp: "p_ID p = policyID" "policy_of_tenant policyID (ck_AccountID req) (ck_ProjectID req) s2"
    by auto
  have mem: "p \<in> set (credential_policies s2)"
    using pol EnsureDefaultPolicy_Inr_mem by (auto simp: key_policy_def bind_Inr GetPolicy_def
        split: if_splits option.splits dest!: find_SomeD)
  have pt: "p_AccountID p = ck_AccountID req" "p_ProjectID p = ck_ProjectID req"
    using pol EnsureDefaultPolicy_tenant by (auto simp: key_policy_def bind_Inr GetPolicy_def
        split: if_splits option.splits dest!: find_SomeD)
  from w have "i_CredentialPolicyID i = [] \<or> i_CredentialPolicyID i = policyID \<or>
      (\<exists>w. w \<in> set (credential_policies s2) \<and> p_ID w = i_CredentialPolicyID i \<and>
         p_AccountID w = ck_AccountID req \<and> p_ProjectID w = ck_ProjectID req \<and>
         EnforceSubset (Some p) (Some w) = None)"
    using ii(3,4) by (auto simp: GetPolicy_def split: option.splits dest!: find_SomeD)
  then have "within_owner k s'"
    unfolding within_owner_def f s' using ii pp mem pt by (intro exI [of _ i] exI [of _ p]) simp
  with get show ?thesis by (simp add: f)
qed

text \<open>A call without product touches at most the policies before it fails.\<close>

lemma CreateKey_Inl:
  assumes "CreateKey E d req s = (Inl e, s')" "ck_Product req = []"
  shows "\<exists>ps. s' = s\<lparr>credential_policies := credential_policies s @ ps\<rparr>"
proof -
  obtain r s1 where p: "key_policy d req s = (r, s1)" by fastforce
  have create: "APIKey_Create k t = (Inl e', t') \<Longrightarrow> t' = t" for k t e' t'
    by (auto simp: APIKey_Create_def split: if_splits option.splits)
  have sub: "key_subset req owner pid q t = (x, t') \<Longrightarrow> t' = t" for owner pid q t x t'
    by (rule key_subset_state)
  from assms p have "s' = s1"
    by (cases r) (auto simp: CreateKey_def key_owner_def bind_def ret_def split: prod.splits sum.splits
        dest: create sub)
  with key_policy_effect [OF p] show ?thesis by blast
qed

text \<open>
  An API key always has an owner: without an identity and without a product for which a service
  identity could be provided, the request fails and stores nothing, although the identity is
  documented as optional.
\<close>

theorem CreateKey_needs_owner:
  assumes "ck_IdentityID req = []" and "ck_Product req = []"
  shows "\<exists>e s'. CreateKey E d req s = (Inl e, s') \<and> service_keys s' = service_keys s"
proof (cases "CreateKey E d req s")
  case (Pair r s')
  show ?thesis
  proof (cases r)
    case (Inl e)
    with Pair CreateKey_Inl [of E d req s e s'] assms(2) show ?thesis by fastforce
  next
    case (Inr v)
    then obtain raw k where v: "r = Inr (raw, k)" by (cases v) auto
    from Pair v have "CreateKey E d req s = (Inr (raw, k), s')" by simp
    then show ?thesis
      by (rule CreateKey_Inr) (use assms in \<open>auto simp: key_owner_def ret_def APIKey_Create_Inr key_row_fields\<close>)
  qed
qed

subsection \<open>Registration is all or nothing\<close>

lemma DeleteIdentity_fresh_owner:
  assumes "\<And>k. k \<in> set (service_keys s) \<Longrightarrow> k_IdentityID k \<noteq> rid"
  shows "identities (DeleteIdentity now sid rid acct proj s) =
      delete_where (\<lambda>i. i_ID i = rid \<and> in_tenant_i acct proj i) (identities s)"
    and "service_keys (DeleteIdentity now sid rid acct proj s) = service_keys s"
proof -
  have keys: "service_keys (runDeactivationCleanup now sid i reason t) =
      service_keys (APIKey_RevokeByIdentityID now (i_ID i) t)" for i reason t
    by (simp add: runDeactivationCleanup_def Let_def)
  have del: "identities (Identity_Delete rid acct proj t) =
      delete_where (\<lambda>i. i_ID i = rid \<and> in_tenant_i acct proj i) (identities t)" for t
    by (auto simp: Identity_Delete_def delete_where_none)
  have rk: "service_keys (Identity_Delete rid acct proj t) = service_keys t"
    if "\<And>k. k \<in> set (service_keys t) \<Longrightarrow> k_IdentityID k \<noteq> rid" for t
    using that by (auto simp: Identity_Delete_def delete_where_none)
  have ud: "service_keys (APIKey_RevokeByIdentityID now rid s) = service_keys s"
    using assms by (auto simp: APIKey_RevokeByIdentityID_def intro!: update_where_none)
  have found: "Identity_GetByID rid acct proj s = (Inr i, s1) \<Longrightarrow> i_ID i = rid" for i s1
    by (auto simp: Identity_GetByID_def split: option.splits dest!: find_SomeD)
  show "identities (DeleteIdentity now sid rid acct proj s) =
      delete_where (\<lambda>i. i_ID i = rid \<and> in_tenant_i acct proj i) (identities s)"
    by (simp add: DeleteIdentity_def del split: prod.split sum.split)
  show "service_keys (DeleteIdentity now sid rid acct proj s) = service_keys s"
  proof (cases "Identity_GetByID rid acct proj s")
    case (Pair r t)
    show ?thesis
    proof (cases r)
      case (Inr i)
      then have "i_ID i = rid" using Pair found by simp
      then have "service_keys (runDeactivationCleanup now sid i ''identity_deleted'' s) = service_keys s"
        by (simp add: keys ud)
      with rk [of "runDeactivationCleanup now sid i ''identity_deleted'' s"] assms
      show ?thesis using Pair Inr by (simp add: DeleteIdentity_def)
    qed (use Pair assms rk in \<open>simp add: DeleteIdentity_def\<close>)
  qed
qed

lemma RegisterAgent_Inl:
  assumes "RegisterAgent E iid pid sid d now req s = (Inl e, s')"
  shows "(\<exists>ps. s' = s\<lparr>credential_policies := credential_policies s @ ps\<rparr>) \<or>
    (\<exists>i s1 ps. RegisterIdentity E iid pid now (agent_identity_req req) s = (Inr i, s1) \<and>
       s' = DeleteIdentity now sid (i_ID i) (ra_AccountID req) (ra_ProjectID req)
         (s1\<lparr>credential_policies := credential_policies s1 @ ps\<rparr>))"
proof -
  obtain r s1 where reg: "RegisterIdentity E iid pid now (agent_identity_req req) s = (r, s1)" by fastforce
  show ?thesis
  proof (cases r)
    case (Inl e')
    with reg assms RegisterIdentity_Inl [of E iid pid now "agent_identity_req req" s e' s1]
    show ?thesis by (auto simp: RegisterAgent_def bind_def)
  next
    case (Inr i)
    with reg assms obtain s2 where key: "CreateKey E d (agent_key_req req (i_ID i)) s1 = (Inl e, s2)"
        and s': "s' = DeleteIdentity now sid (i_ID i) (ra_AccountID req) (ra_ProjectID req) s2"
      by (auto simp: RegisterAgent_def bind_def split: prod.splits sum.splits)
    have "ck_Product (agent_key_req req (i_ID i)) = []" by (simp add: agent_key_req_def)
    with CreateKey_Inl [OF key] reg Inr s' show ?thesis by blast
  qed
qed

text \<open>
  Agent registration is all or nothing for identities and keys: when it fails, whether in the
  identity or in its key, the compensating deletion leaves both tables as they were (the tenant's
  default policy may have been created). The identifier drawn for the identity must not already
  own a key.
\<close>

theorem RegisterAgent_atomic:
  assumes "RegisterAgent E iid pid sid d now req s = (Inl e, s')"
    and "filter (\<lambda>k. k_IdentityID k = iid) (service_keys s) = []"
  shows "identities s' = identities s \<and> service_keys s' = service_keys s"
  using RegisterAgent_Inl [OF assms(1)]
proof (elim disjE exE conjE)
  fix i s1 ps
  assume reg: "RegisterIdentity E iid pid now (agent_identity_req req) s = (Inr i, s1)"
    and s': "s' = DeleteIdentity now sid (i_ID i) (ra_AccountID req) (ra_ProjectID req)
      (s1\<lparr>credential_policies := credential_policies s1 @ ps\<rparr>)"
  from RegisterIdentity_Inr [OF reg] obtain ps' where
    i: "i_ID i = iid" "i_AccountID i = ra_AccountID req" "i_ProjectID i = ra_ProjectID req"
    and s1: "s1 = s\<lparr>credential_policies := credential_policies s @ ps', identities := identities s @ [i]\<rparr>"
    and fresh: "\<forall>x \<in> set (identities s). \<not> identity_conflict x i"
    by (auto simp: register_row_def agent_identity_req_def insert_row_Some)
  let ?t = "s1\<lparr>credential_policies := credential_policies s1 @ ps\<rparr>"
  have k: "k \<in> set (service_keys ?t) \<Longrightarrow> k_IdentityID k \<noteq> i_ID i" for k
    using assms(2) by (auto simp: s1 filter_empty_conv i(1))
  have "delete_where (\<lambda>j. i_ID j = iid \<and> in_tenant_i (ra_AccountID req) (ra_ProjectID req) j) (identities s @ [i]) = identities s"
    using fresh i by (auto simp: delete_where_def filter_id_conv identity_conflict_def)
  moreover have "identities s' = delete_where (\<lambda>j. i_ID j = i_ID i \<and>
      in_tenant_i (ra_AccountID req) (ra_ProjectID req) j) (identities ?t)" "service_keys s' = service_keys ?t"
    unfolding s' by (rule DeleteIdentity_fresh_owner, erule k)+
  ultimately show ?thesis by (simp add: i(1) s1)
qed simp

subsection \<open>Rotation\<close>

lemma RotateKey_gate:
  assumes "Identity_GetByID rid acct proj s = (Inr i, s)" "i_Status i = IdentityStatusActive"
    "\<not> Identity_IsExpired i now"
  shows "RotateKey E d now rid acct proj s =
    (case CreateKey E d (rotated_key_req i) (APIKey_RevokeByIdentityID now (i_ID i) s) of
       (Inl e, s1) \<Rightarrow> (Inl e, s1)
     | (Inr (fullKey, sk), s1) \<Rightarrow> (Inr (identityToAgentResponse i (k_KeyPrefix sk), fullKey), s1))"
  using assms by (simp add: RotateKey_def bind_def IsUsable_def)

lemma Identity_GetByID_found:
  "Identity_GetByID rid acct proj s = (Inr i, s') \<Longrightarrow>
   i \<in> set (identities s) \<and> i_ID i = rid \<and> i_AccountID i = acct \<and> i_ProjectID i = proj \<and> s' = s"
  by (auto simp: Identity_GetByID_def split: option.splits dest!: find_SomeD)

text \<open>
  A successful rotation leaves exactly one active key for the agent, the one whose secret is
  returned, and it expires with the identity.
\<close>

theorem RotateKey_single_key:
  assumes "RotateKey E d now rid acct proj s = (Inr (resp, rawKey), s')"
  shows "\<exists>k i. filter (\<lambda>x. k_IdentityID x = rid \<and> k_State x = APIKeyStateActive) (service_keys s') = [k] \<and>
    k_KeyHash k = sha256_hex E rawKey \<and> i \<in> set (identities s') \<and> i_ID i = rid \<and>
    k_ExpiresAt k = i_ExpiresAt i \<and> ar_APIKeyPrefix resp = k_KeyPrefix k"
proof -
  from assms obtain i where i: "Identity_GetByID rid acct proj s = (Inr i, s)"
      "i_Status i = IdentityStatusActive" "\<not> Identity_IsExpired i now"
    by (auto simp: RotateKey_def bind_Inr IsUsable_def throw_def Identity_GetByID_def
        split: if_splits option.splits)
  let ?s0 = "APIKey_RevokeByIdentityID now (i_ID i) s"
  from assms [unfolded RotateKey_gate [OF i]] obtain k where
    key: "CreateKey E d (rotated_key_req i) ?s0 = (Inr (rawKey, k), s')"
    and resp: "resp = identityToAgentResponse i (k_KeyPrefix k)"
    by (auto split: prod.splits sum.splits)
  note ii = Identity_GetByID_found [OF i(1)]
  from key show ?thesis
  proof (rule CreateKey_Inr)
    fix owner policyID p s1 s2
    assume o: "key_owner E d (rotated_key_req i) ?s0 = (Inr owner, s1)"
      and pol: "key_policy d (rotated_key_req i) s1 = (Inr (policyID, p), s2)"
      and ins: "APIKey_Create k s2 = (Inr (), s')"
      and k: "k = key_row E d (rotated_key_req i) owner policyID"
      and raw: "rawKey = fst (generateAPIKey E APIKeyPrefix (kd_Encoded d))"
    have ow: "owner = rid" "s1 = ?s0" using o ii by (auto simp: key_owner_def ret_def rotated_key_req_def)
    from key_policy_effect [OF pol] have s2: "service_keys s2 = service_keys ?s0" "identities s2 = identities s"
      using ow(2) by auto
    from ins have s': "service_keys s' = service_keys ?s0 @ [k]" "identities s' = identities s"
      using s2 by (auto simp: APIKey_Create_Inr)
    have "filter (\<lambda>x. k_IdentityID x = rid \<and> k_State x = APIKeyStateActive) (service_keys ?s0) = []"
      using ii by (auto simp: filter_empty_conv APIKey_RevokeByIdentityID_def table_simps)
    then have "filter (\<lambda>x. k_IdentityID x = rid \<and> k_State x = APIKeyStateActive) (service_keys s') = [k]"
      by (simp add: s' k key_row_fields ow)
    moreover have "k_ExpiresAt k = i_ExpiresAt i"
      by (simp add: k key_row_fields key_expiry_def rotated_key_req_def split: option.split)
    ultimately show ?thesis
      using ii by (intro exI [of _ k] exI [of _ i]) (simp add: s' resp k key_row_fields raw identityToAgentResponse_def)
  qed
qed

text \<open>
  Rotation can lock an agent out. It asks for a key under the tenant's default policy; when the
  agent has a policy of its own that the default is not a subset of, the new key is refused, but
  the old keys have been revoked before: the call fails and no active key is left.
\<close>

theorem RotateKey_locks_out:
  assumes "Identity_GetByID rid acct proj s = (Inr i, s)" and "i_Status i = IdentityStatusActive"
    and "\<not> Identity_IsExpired i now" and "rid \<noteq> []" and "GetDefaultByTenant acct proj s = Some dp"
    and "i_CredentialPolicyID i \<noteq> []" and "i_CredentialPolicyID i \<noteq> p_ID dp"
    and "GetPolicy (i_CredentialPolicyID i) acct proj s = (Inr ip, s)"
    and "EnforceSubset (Some dp) (Some ip) = Some e"
  shows "fst (RotateKey E d now rid acct proj s) = Inl e \<and>
    filter (\<lambda>k. k_IdentityID k = rid \<and> k_State k = APIKeyStateActive)
      (service_keys (snd (RotateKey E d now rid acct proj s))) = []"
proof -
  let ?s0 = "APIKey_RevokeByIdentityID now rid s"
  note ii = Identity_GetByID_found [OF assms(1)]
  have r: "ck_IdentityID (rotated_key_req i) = rid" "ck_CredentialPolicyID (rotated_key_req i) = []"
      "ck_AccountID (rotated_key_req i) = acct" "ck_ProjectID (rotated_key_req i) = proj"
    using ii by (simp_all add: rotated_key_req_def)
  have g: "Identity_GetByID rid acct proj ?s0 = (Inr i, ?s0)" "GetDefaultByTenant acct proj ?s0 = Some dp"
      "GetPolicy (i_CredentialPolicyID i) acct proj ?s0 = (Inr ip, ?s0)"
    using assms(1,5,8) by (auto simp: Identity_GetByID_def GetDefaultByTenant_def GetPolicy_def split: option.splits)
  have own: "key_owner E d (rotated_key_req i) ?s0 = (Inr rid, ?s0)"
    using assms(4) by (simp add: key_owner_def r ret_def)
  have pol: "key_policy d (rotated_key_req i) ?s0 = (Inr (p_ID dp, dp), ?s0)"
    by (simp add: key_policy_def r EnsureDefaultPolicy_def g bind_def ret_def)
  have sub: "key_subset (rotated_key_req i) rid (p_ID dp) dp ?s0 = (Inl e, ?s0)"
    using assms(4,6,7,9) ii by (simp add: key_subset_def r g bind_def throw_def)
  have "CreateKey E d (rotated_key_req i) ?s0 = (Inl e, ?s0)"
    by (simp add: CreateKey_def bind_def own pol sub)
  then have "RotateKey E d now rid acct proj s = (Inl e, ?s0)"
    unfolding RotateKey_gate [OF assms(1-3)] using ii by simp
  then show ?thesis
    using ii by (auto simp: filter_empty_conv APIKey_RevokeByIdentityID_def table_simps)
qed

subsection \<open>Closed examples\<close>

definition sample_draw :: key_draw where
  "sample_draw = \<lparr>kd_now = 5, kd_IdentityID = ''i9'', kd_IdentityPolicy = ''p8'', kd_Policy = ''p9'', kd_ID = ''k9'',
     kd_Encoded = ''abcdefghijkl'', kd_AddDays = (\<lambda>t n. t + n * 86400 * second)\<rparr>"

definition sample_key_req :: create_key_req where
  "sample_key_req = \<lparr>ck_AccountID = ''acme'', ck_ProjectID = ''prod'', ck_CreatedBy = ''alice'', ck_Name = ''ci'',
     ck_Description = [], ck_IdentityID = ''i1'', ck_CredentialPolicyID = ''p1'', ck_Product = [], ck_Scopes = [''read''],
     ck_Environment = [], ck_ExpiresInDays = Some 1, ck_ExpiresAt = None, ck_Metadata = []\<rparr>"

lemma sample_key_created:
  "CreateKey sample_env sample_draw sample_key_req identity_db =
     (Inr (''zid_sk_abcdefghijkl'', key_row sample_env sample_draw sample_key_req ''i1'' ''p1''),
      identity_db\<lparr>service_keys := [key_row sample_env sample_draw sample_key_req ''i1'' ''p1'']\<rparr>)"
proof -
  have own: "key_owner sample_env sample_draw sample_key_req identity_db = (Inr ''i1'', identity_db)"
    by (simp add: key_owner_def sample_key_req_def ret_def)
  have pol: "key_policy sample_draw sample_key_req identity_db = (Inr (''p1'', sample_policy), identity_db)"
    by (simp add: key_policy_def sample_key_req_def GetPolicy_def identity_db_def policy_db_def sample_policy_def
        bind_def ret_def)
  have sub: "key_subset sample_key_req ''i1'' ''p1'' sample_policy identity_db = (Inr (), identity_db)"
    by (simp add: key_subset_def sample_key_req_def Identity_GetByID_def identity_db_def sample_identity_def
        zero_identity_def bind_def ret_def)
  have ins: "APIKey_Create (key_row sample_env sample_draw sample_key_req ''i1'' ''p1'') identity_db =
      (Inr (), identity_db\<lparr>service_keys := [key_row sample_env sample_draw sample_key_req ''i1'' ''p1'']\<rparr>)"
    by (simp add: APIKey_Create_Inr key_row_fields identity_db_def policy_db_def sample_identity_def sample_policy_def
        empty_db_def)
  show ?thesis
    by (simp add: CreateKey_def bind_def own pol sub ins ret_def)
       (simp add: generateAPIKey_def Let_def sample_draw_def)
qed

theorem CreateKey_roundtrip_witness:
  "\<exists>k s'. CreateKey sample_env sample_draw sample_key_req identity_db = (Inr (''zid_sk_abcdefghijkl'', k), s') \<and>
     APIKey_GetByKeyHash 7 (sha256_hex sample_env ''zid_sk_abcdefghijkl'') s' = (Inr k, s') \<and> within_owner k s'"
  using CreateKey_roundtrip [OF sample_key_created, of 7] sample_key_created
  by (auto simp: key_row_fields key_expiry_def sample_draw_def sample_key_req_def)

theorem CreateKey_needs_owner_witness:
  "\<exists>e s'. CreateKey sample_env sample_draw (sample_key_req\<lparr>ck_IdentityID := []\<rparr>) identity_db = (Inl e, s') \<and>
     service_keys s' = service_keys identity_db"
  by (rule CreateKey_needs_owner) (simp_all add: sample_key_req_def)

definition locked_db :: db where
  "locked_db = identity_db\<lparr>credential_policies := [sample_policy, default_policy ''p0'' 0 ''acme'' ''prod''],
     service_keys := [key_row sample_env sample_draw sample_key_req ''i1'' ''p1'']\<rparr>"

theorem RotateKey_locks_out_witness:
  "filter (\<lambda>k. k_IdentityID k = ''i1'' \<and> k_State k = APIKeyStateActive) (service_keys locked_db) \<noteq> [] \<and>
   fst (RotateKey sample_env (sample_draw\<lparr>kd_ID := ''k10''\<rparr>) 6 ''i1'' ''acme'' ''prod'' locked_db) =
     Inl (ErrPolicySubsetViolation AxGrantType) \<and>
   filter (\<lambda>k. k_IdentityID k = ''i1'' \<and> k_State k = APIKeyStateActive)
     (service_keys (snd (RotateKey sample_env (sample_draw\<lparr>kd_ID := ''k10''\<rparr>) 6 ''i1'' ''acme'' ''prod'' locked_db))) = []"
proof -
  have g: "Identity_GetByID ''i1'' ''acme'' ''prod'' locked_db = (Inr sample_identity, locked_db)"
    by (simp add: Identity_GetByID_def locked_db_def identity_db_def sample_identity_def zero_identity_def)
  have i: "i_Status sample_identity = IdentityStatusActive" "\<not> Identity_IsExpired sample_identity 6"
      "i_CredentialPolicyID sample_identity = ''p1''"
    by (simp_all add: sample_identity_def zero_identity_def Identity_IsExpired_def expired_at_def)
  have d: "GetDefaultByTenant ''acme'' ''prod'' locked_db = Some (default_policy ''p0'' 0 ''acme'' ''prod'')"
    by (simp add: GetDefaultByTenant_def locked_db_def sample_policy_def default_policy_def)
  have p: "GetPolicy ''p1'' ''acme'' ''prod'' locked_db = (Inr sample_policy, locked_db)"
    by (simp add: GetPolicy_def locked_db_def sample_policy_def)
  have v: "EnforceSubset (Some (default_policy ''p0'' 0 ''acme'' ''prod'')) (Some sample_policy) =
      Some (ErrPolicySubsetViolation AxGrantType)"
    by (simp add: EnforceSubset_def default_policy_def sample_policy_def DefaultAllowedGrantTypes_def)
  have "filter (\<lambda>k. k_IdentityID k = ''i1'' \<and> k_State k = APIKeyStateActive) (service_keys locked_db) \<noteq> []"
    by (simp add: locked_db_def key_row_fields)
  with RotateKey_locks_out [OF g i(1,2) _ d _ _ _ v, of sample_env "sample_draw\<lparr>kd_ID := ''k10''\<rparr>"] p i(3)
  show ?thesis by (simp add: default_policy_def)
qed

text \<open>A time-bound agent without policy of its own rotates its key.\<close>

definition plain_agent :: identity where
  "plain_agent = sample_identity\<lparr>i_CredentialPolicyID := []\<rparr>"

definition rotation_db :: db where
  "rotation_db = locked_db\<lparr>identities := [plain_agent]\<rparr>"

lemma rotation_runs:
  "\<exists>resp s'. RotateKey sample_env (sample_draw\<lparr>kd_ID := ''k10'', kd_Encoded := ''mnopqrstuvwx''\<rparr>) 6 ''i1'' ''acme'' ''prod'' rotation_db =
     (Inr (resp, ''zid_sk_mnopqrstuvwx''), s')"
proof -
  let ?d = "sample_draw\<lparr>kd_ID := ''k10'', kd_Encoded := ''mnopqrstuvwx''\<rparr>"
  let ?dp = "default_policy ''p0'' 0 ''acme'' ''prod''"
  let ?req = "rotated_key_req plain_agent"
  have g: "Identity_GetByID ''i1'' ''acme'' ''prod'' rotation_db = (Inr plain_agent, rotation_db)"
    by (simp add: Identity_GetByID_def rotation_db_def plain_agent_def sample_identity_def zero_identity_def)
  have i: "i_Status plain_agent = IdentityStatusActive" "\<not> Identity_IsExpired plain_agent 6"
      "i_CredentialPolicyID plain_agent = []" "i_ID plain_agent = ''i1''"
    by (simp_all add: plain_agent_def sample_identity_def zero_identity_def Identity_IsExpired_def expired_at_def)
  let ?s0 = "APIKey_RevokeByIdentityID 6 ''i1'' rotation_db"
  have r: "ck_IdentityID ?req = ''i1''" "ck_CredentialPolicyID ?req = []" "ck_AccountID ?req = ''acme''"
      "ck_ProjectID ?req = ''prod''"
    by (simp_all add: rotated_key_req_def plain_agent_def sample_identity_def zero_identity_def)
  have own: "key_owner sample_env ?d ?req ?s0 = (Inr ''i1'', ?s0)" by (simp add: key_owner_def r ret_def)
  have pol: "key_policy ?d ?req ?s0 = (Inr (''p0'', ?dp), ?s0)"
    by (simp add: key_policy_def r EnsureDefaultPolicy_def GetDefaultByTenant_def rotation_db_def locked_db_def
        sample_policy_def default_policy_def bind_def ret_def)
  have sub: "key_subset ?req ''i1'' ''p0'' ?dp ?s0 = (Inr (), ?s0)"
    using g i by (simp add: key_subset_def r Identity_GetByID_def bind_def ret_def split: option.splits)
  have hash: "k_KeyHash (key_row sample_env ?d ?req ''i1'' ''p0'') = ''hzid_sk_mnopqrstuvwx''"
      "k_KeyHash (key_row sample_env sample_draw sample_key_req ''i1'' ''p1'') = ''hzid_sk_abcdefghijkl''"
    by (simp_all add: key_row_fields generateAPIKey_def Let_def sample_draw_def sample_env_def)
  have ins: "\<exists>s'. APIKey_Create (key_row sample_env ?d ?req ''i1'' ''p0'') ?s0 = (Inr (), s')"
    by (simp add: APIKey_Create_Inr hash key_row_fields(1,4,6) rotation_db_def locked_db_def plain_agent_def
        sample_identity_def default_policy_def APIKey_RevokeByIdentityID_def api_key_conflict_def sample_draw_def)
       (simp add: key_row_fields generateAPIKey_def Let_def sample_draw_def sample_env_def)
  then obtain s' where "APIKey_Create (key_row sample_env ?d ?req ''i1'' ''p0'') ?s0 = (Inr (), s')" by blast
  then have "CreateKey sample_env ?d ?req ?s0 = (Inr (''zid_sk_mnopqrstuvwx'', key_row sample_env ?d ?req ''i1'' ''p0''), s')"
    by (simp add: CreateKey_def bind_def own pol sub ret_def) (simp add: generateAPIKey_def Let_def)
  then show ?thesis unfolding RotateKey_gate [OF g i(1,2)] i(4) by simp
qed

theorem RotateKey_single_key_witness:
  "\<exists>k s' resp. RotateKey sample_env (sample_draw\<lparr>kd_ID := ''k10'', kd_Encoded := ''mnopqrstuvwx''\<rparr>) 6 ''i1'' ''acme'' ''prod''
       rotation_db = (Inr (resp, ''zid_sk_mnopqrstuvwx''), s') \<and>
     filter (\<lambda>x. k_IdentityID x = ''i1'' \<and> k_State x = APIKeyStateActive) (service_keys s') = [k] \<and>
     k_KeyHash k = sha256_hex sample_env ''zid_sk_mnopqrstuvwx''"
  using rotation_runs RotateKey_single_key by blast

definition sample_agent :: register_agent_req where
  "sample_agent = \<lparr>ra_AccountID = ''acme'', ra_ProjectID = ''prod'', ra_Name = ''bot'', ra_ExternalID = ''bot'',
     ra_IdentityType = [], ra_SubType = [], ra_TrustLevel = [], ra_Framework = [], ra_Version = [], ra_Publisher = [],
     ra_Description = [], ra_Capabilities = [], ra_Labels = [], ra_Metadata = [], ra_AllowedScopes = [],
     ra_CreatedBy = ''alice'', ra_PublicKeyPEM = [], ra_CredentialPolicyID = ''p1'',
     ra_APIKeyCredentialPolicyID = ''absent'', ra_ExpiresAt = None\<rparr>"

theorem RegisterAgent_atomic_witness:
  "\<exists>e s'. RegisterAgent sample_env ''i7'' ''p7'' ''g7'' sample_draw 5 sample_agent policy_db = (Inl e, s') \<and>
     identities s' = identities policy_db \<and> service_keys s' = service_keys policy_db"
proof -
  have "fst (CreateKey sample_env sample_draw (agent_key_req sample_agent oid) t) = Inl ErrPolicyNotFound"
    if "credential_policies t = [sample_policy]" for oid t
    using that by (simp add: CreateKey_def key_owner_def agent_key_req_def sample_agent_def or_default_def bind_def
        ret_def key_policy_def GetPolicy_def sample_policy_def)
  moreover have "credential_policies s1 = [sample_policy]"
    if "RegisterIdentity sample_env ''i7'' ''p7'' 5 (agent_identity_req sample_agent) policy_db = (Inr i, s1)" for i s1
    using that by (auto simp: RegisterIdentity_def agent_identity_req_def sample_agent_def resolveIdentityPolicyID_def
        GetPolicy_def policy_db_def sample_policy_def bind_def ret_def throw_def Let_def Identity_Create_def
        split: option.splits if_splits)
  ultimately have "\<exists>e s'. RegisterAgent sample_env ''i7'' ''p7'' ''g7'' sample_draw 5 sample_agent policy_db = (Inl e, s')"
    by (auto simp: RegisterAgent_def bind_def split: prod.splits sum.splits) (metis fst_conv sum.distinct(1))+
  then obtain e s' where run: "RegisterAgent sample_env ''i7'' ''p7'' ''g7'' sample_draw 5 sample_agent policy_db = (Inl e, s')"
    by blast
  have "filter (\<lambda>k. k_IdentityID k = ''i7'') (service_keys policy_db) = []"
    by (simp add: policy_db_def empty_db_def)
  from RegisterAgent_atomic [OF run this] run show ?thesis by blast
qed

end
