(* ===== verification/Zeroid_Attestation.thy ===== *)
theory Zeroid_Attestation
  imports Zeroid_OAuth
begin

text \<open>
  Attestation (\<open>src/internal/service/attestation.go\<close>, \<open>src/internal/attestation/\<close>, the repositories
  \<open>attestation.go\<close> and \<open>attestation_policy.go\<close> of \<open>src/internal/store/postgres/\<close> and the operations of
  \<open>src/internal/handler/attestation.go\<close>): submitting evidence, the verifiers of the registry, the
  verification that sets the identity's trust level and issues a credential. One clock reading
  stands for those inside a verifier; the policies are a table passed next to the database.
\<close>

subsection \<open>Parameters\<close>

abbreviation ProofTypeImageHash :: string where "ProofTypeImageHash \<equiv> ''image_hash''"
abbreviation ProofTypeOIDCToken :: string where "ProofTypeOIDCToken \<equiv> ''oidc_token''"
abbreviation ProofTypeTPM :: string where "ProofTypeTPM \<equiv> ''tpm''"

definition ProofType_Valid :: "string \<Rightarrow> bool" where
  "ProofType_Valid p \<longleftrightarrow> p = ProofTypeImageHash \<or> p = ProofTypeOIDCToken \<or> p = ProofTypeTPM"

record oidc_issuer =
  oi_URL :: string
  oi_Audiences :: "string list"
  oi_RequiredClaims :: "(string \<times> string) list"

text \<open>
  The code outside: \<open>http_get\<close> (status and body, or a transport error), the decoders of JSON for
  policy configurations and discovery documents, the parser of key sets, the parser that
  verifies a token against a key set for an issuer at a time (signature, \<open>exp\<close>, \<open>iat\<close>, \<open>nbf\<close> with
  30 seconds of skew), and the parser of URLs (scheme and host). \<open>registry\<close> says which verifier is wired for a proof type.
\<close>

datatype verifier = OIDCVerifier | DevStubVerifier

record att_env =
  http_get :: "string \<Rightarrow> (nat \<times> string) option"
  oidc_config :: "string \<Rightarrow> oidc_issuer list option"
  discovery_doc :: "string \<Rightarrow> (string \<times> string) option"
  jwk_parse :: "string \<Rightarrow> string option"
  parse_keyset :: "string \<Rightarrow> string \<Rightarrow> time \<Rightarrow> string \<Rightarrow> claims option"
  config_url :: "string \<Rightarrow> (string \<times> string) option"
  registry :: "string \<Rightarrow> verifier option"
  permissive :: bool

abbreviation maxDiscoveryDocBytes :: nat where "maxDiscoveryDocBytes \<equiv> 1048576"

subsection \<open>Keys of an issuer\<close>

definition TrimRight_slash :: "string \<Rightarrow> string" where
  "TrimRight_slash s = rev (dropWhile (\<lambda>c. c = CHR ''/'') (rev s))"

definition discoverJWKSURL :: "att_env \<Rightarrow> string \<Rightarrow> string option" where
  "discoverJWKSURL A issuerURL =
     (case http_get A (TrimRight_slash issuerURL @ ''/.well-known/openid-configuration'') of
        None \<Rightarrow> None
      | Some (status, body) \<Rightarrow>
          if status \<noteq> 200 then None
          else (case discovery_doc A (take maxDiscoveryDocBytes body) of
                  None \<Rightarrow> None
                | Some (docIssuer, jwksURI) \<Rightarrow>
                    if jwksURI = [] then None
                    else if TrimRight_slash docIssuer \<noteq> TrimRight_slash issuerURL then None
                    else Some jwksURI))"

definition fetchJWKS :: "att_env \<Rightarrow> string \<Rightarrow> string option" where
  "fetchJWKS A jwksURL =
     (case http_get A jwksURL of
        None \<Rightarrow> None
      | Some (status, body) \<Rightarrow>
          if status \<noteq> 200 then None else jwk_parse A (take maxDiscoveryDocBytes body))"

text \<open>The cache: keys and their expiry per issuer URL.\<close>

type_synonym jwks_cache = "string \<rightharpoonup> string \<times> time"

definition jwksCache_get ::
  "att_env \<Rightarrow> time \<Rightarrow> time \<Rightarrow> int \<Rightarrow> string \<Rightarrow> jwks_cache \<Rightarrow> string option \<times> jwks_cache" where
  "jwksCache_get A now stored ttl issuerURL cache =
     (case cache issuerURL of
        Some (keys, expiresAt) \<Rightarrow>
          if now < expiresAt then (Some keys, cache)
          else (case Option.bind (discoverJWKSURL A issuerURL) (fetchJWKS A) of
                  None \<Rightarrow> (None, cache)
                | Some keySet \<Rightarrow> (Some keySet, cache(issuerURL \<mapsto> (keySet, stored + ttl))))
      | None \<Rightarrow>
          (case Option.bind (discoverJWKSURL A issuerURL) (fetchJWKS A) of
             None \<Rightarrow> (None, cache)
           | Some keySet \<Rightarrow> (Some keySet, cache(issuerURL \<mapsto> (keySet, stored + ttl)))))"

subsection \<open>Verifiers\<close>

record att_result =
  vr_Subject :: string
  vr_Issuer :: string
  vr_ExpiresAt :: "time option"

definition findIssuer :: "oidc_issuer list \<Rightarrow> string \<Rightarrow> oidc_issuer option" where
  "findIssuer configured issuerClaim =
     find (\<lambda>c. TrimRight_slash (oi_URL c) = TrimRight_slash issuerClaim) configured"

definition anyAudienceMatches :: "string list \<Rightarrow> string list \<Rightarrow> bool" where
  "anyAudienceMatches got want \<longleftrightarrow> list_ex (\<lambda>g. g \<in> set want) got"

definition trim_ws :: "string \<Rightarrow> string" where
  "trim_ws s = rev (dropWhile is_space (rev (dropWhile is_space s)))"

definition claim_exp :: "claims \<Rightarrow> time option" where
  "claim_exp cl = (case cl ''exp'' of Some (CTime t) \<Rightarrow> if t = zero_time then None else Some t | _ \<Rightarrow> None)"

text \<open>
  \<open>OIDCVerifier.Verify\<close>: \<open>None\<close> is any of its errors. The required claims are a Go map; the order in
  which they are tested only decides which error is reported.
\<close>

definition oidc_check :: "oidc_issuer \<Rightarrow> claims \<Rightarrow> bool" where
  "oidc_check iss tok \<longleftrightarrow>
     (oi_Audiences iss = [] \<or> anyAudienceMatches (claim_strings tok ''aud'') (oi_Audiences iss)) \<and>
     list_all (\<lambda>(k, v). tok k = Some (CStr v)) (oi_RequiredClaims iss)"

definition OIDC_Verify ::
  "env \<Rightarrow> att_env \<Rightarrow> time \<Rightarrow> string \<Rightarrow> string \<Rightarrow> jwks_cache \<Rightarrow> att_result option \<times> jwks_cache" where
  "OIDC_Verify E A now proofValue policyConfig cache =
     (if policyConfig = [] then (None, cache)
      else case oidc_config A policyConfig of
        None \<Rightarrow> (None, cache)
      | Some issuers \<Rightarrow>
     if issuers = [] then (None, cache)
     else if trim_ws proofValue = [] then (None, cache)
     else case parse_insecure E (trim_ws proofValue) of
        None \<Rightarrow> (None, cache)
      | Some peek \<Rightarrow>
     if claim_str peek ''iss'' = [] then (None, cache)
     else case findIssuer issuers (claim_str peek ''iss'') of
        None \<Rightarrow> (None, cache)
      | Some matchedIssuer \<Rightarrow>
     (case jwksCache_get A now now (3600 * second) (oi_URL matchedIssuer) cache of
        (None, cache') \<Rightarrow> (None, cache')
      | (Some keySet, cache') \<Rightarrow>
     (case parse_keyset A keySet (claim_str peek ''iss'') now (trim_ws proofValue) of
        None \<Rightarrow> (None, cache')
      | Some tok \<Rightarrow>
     if \<not> oidc_check matchedIssuer tok then (None, cache')
     else (Some \<lparr>vr_Subject = claim_str tok ''sub'', vr_Issuer = claim_str tok ''iss'',
                 vr_ExpiresAt = claim_exp tok\<rparr>, cache'))))"

definition DevStub_Verify :: "time \<Rightarrow> attestation \<Rightarrow> att_result" where
  "DevStub_Verify now r =
     \<lparr>vr_Subject = at_ProofValue r, vr_Issuer = ''dev-stub'', vr_ExpiresAt = Some (now + 86400 * second)\<rparr>"

definition Verifier_Verify ::
  "env \<Rightarrow> att_env \<Rightarrow> verifier \<Rightarrow> time \<Rightarrow> attestation \<Rightarrow> string \<Rightarrow> jwks_cache \<Rightarrow> att_result option \<times> jwks_cache" where
  "Verifier_Verify E A v now r config cache =
     (case v of
        OIDCVerifier \<Rightarrow> OIDC_Verify E A now (at_ProofValue r) config cache
      | DevStubVerifier \<Rightarrow> (Some (DevStub_Verify now r), cache))"

subsection \<open>Policies\<close>

record attestation_policy =
  atp_ID :: string
  atp_AccountID :: string
  atp_ProjectID :: string
  atp_ProofType :: string
  atp_Config :: string
  atp_IsActive :: bool
  atp_CreatedAt :: time
  atp_UpdatedAt :: time

type_synonym att_policies = "attestation_policy list"

abbreviation atp_key :: "string \<Rightarrow> string \<Rightarrow> string \<Rightarrow> attestation_policy \<Rightarrow> bool" where
  "atp_key acct proj pt p \<equiv> atp_AccountID p = acct \<and> atp_ProjectID p = proj \<and> atp_ProofType p = pt"

definition GetByTenantProofType :: "string \<Rightarrow> string \<Rightarrow> string \<Rightarrow> att_policies \<Rightarrow> attestation_policy option" where
  "GetByTenantProofType acct proj pt ps = find (\<lambda>p. atp_key acct proj pt p \<and> atp_IsActive p) ps"

text \<open>\<open>INSERT ... ON CONFLICT (account_id, project_id, proof_type) DO UPDATE ... RETURNING\<close>.\<close>

definition AttPolicy_Upsert ::
  "attestation_policy \<Rightarrow> bool \<Rightarrow> time \<Rightarrow> att_policies \<Rightarrow> (err + attestation_policy) \<times> att_policies" where
  "AttPolicy_Upsert p updateIsActive now ps =
     (let hit = atp_key (atp_AccountID p) (atp_ProjectID p) (atp_ProofType p);
          upd = (\<lambda>q. q\<lparr>atp_Config := atp_Config p, atp_UpdatedAt := now,
                       atp_IsActive := (if updateIsActive then atp_IsActive p else atp_IsActive q)\<rparr>)
      in case find hit ps of
           Some q \<Rightarrow> (Inr (upd q), update_where hit upd ps)
         | None \<Rightarrow> if atp_ID p \<in> atp_ID ` set ps
                   then (Inl (ErrMsg ''failed to upsert attestation policy''), ps)
                   else (Inr p, ps @ [p]))"

definition AttPolicy_Delete :: "string \<Rightarrow> string \<Rightarrow> string \<Rightarrow> att_policies \<Rightarrow> att_policies" where
  "AttPolicy_Delete rid acct proj ps =
     delete_where (\<lambda>p. atp_ID p = rid \<and> atp_AccountID p = acct \<and> atp_ProjectID p = proj) ps"

text \<open>The host of \<open>net.SplitHostPort\<close>; where that is an error, the whole string.\<close>

definition host_part :: "string \<Rightarrow> string" where
  "host_part host =
     (let r = rev host; port = takeWhile (\<lambda>c. c \<noteq> CHR '':'') r; h = rev (drop (Suc (length port)) r)
      in if CHR '':'' \<notin> set host then host
         else if host \<noteq> [] \<and> hd host = CHR ''[''
         then (if h \<noteq> [] \<and> last h = CHR '']'' \<and> CHR '']'' \<notin> set (butlast h) \<and> CHR '']'' \<notin> set port \<and>
                  CHR ''['' \<notin> set (tl host)
               then butlast (tl h) else host)
         else if CHR '':'' \<in> set h \<or> CHR ''['' \<in> set host \<or> CHR '']'' \<in> set host then host else h)"

definition isLoopbackHost :: "string \<Rightarrow> bool" where
  "isLoopbackHost host =
     (let h = host_part host;
          h1 = (if h \<noteq> [] \<and> last h = CHR '']'' then butlast h else h);
          h2 = (if h1 \<noteq> [] \<and> hd h1 = CHR ''['' then tl h1 else h1)
      in h2 \<in> {''localhost'', ''127.0.0.1'', ''::1''})"

definition issuer_ok :: "att_env \<Rightarrow> oidc_issuer \<Rightarrow> bool" where
  "issuer_ok A iss \<longleftrightarrow> trim_ws (oi_URL iss) \<noteq> [] \<and>
     (case config_url A (oi_URL iss) of
        None \<Rightarrow> False | Some (scheme, host) \<Rightarrow> scheme = ''https'' \<or> isLoopbackHost host)"

definition validatePolicyConfig :: "att_env \<Rightarrow> string \<Rightarrow> string \<Rightarrow> bool" where
  "validatePolicyConfig A pt cfg =
     (if pt = ProofTypeOIDCToken
      then (case oidc_config A cfg of None \<Rightarrow> False | Some iss \<Rightarrow> iss \<noteq> [] \<and> list_all (issuer_ok A) iss)
      else pt = ProofTypeImageHash \<or> pt = ProofTypeTPM)"

definition UpsertPolicy ::
  "att_env \<Rightarrow> string \<Rightarrow> time \<Rightarrow> string \<Rightarrow> string \<Rightarrow> string \<Rightarrow> string \<Rightarrow> bool option \<Rightarrow> att_policies \<Rightarrow>
   (err + attestation_policy) \<times> att_policies" where
  "UpsertPolicy A rid now acct proj pt config isActive ps =
     (if \<not> ProofType_Valid pt then (Inl ErrInvalidPolicyField, ps)
      else if registry A pt = None then (Inl ErrInvalidPolicyField, ps)
      else if config = [] then (Inl ErrInvalidPolicyField, ps)
      else if \<not> validatePolicyConfig A pt config then (Inl ErrInvalidPolicyField, ps)
      else AttPolicy_Upsert
             \<lparr>atp_ID = rid, atp_AccountID = acct, atp_ProjectID = proj, atp_ProofType = pt,
              atp_Config = config, atp_IsActive = (case isActive of None \<Rightarrow> True | Some b \<Rightarrow> b),
              atp_CreatedAt = now, atp_UpdatedAt = now\<rparr>
             (isActive \<noteq> None) now ps)"

subsection \<open>Records\<close>

definition attestation_conflict :: "attestation \<Rightarrow> attestation \<Rightarrow> bool" where
  "attestation_conflict a b \<longleftrightarrow> at_ID a = at_ID b"

text \<open>The foreign key on \<open>identity_id\<close>; the empty string is not a UUID.\<close>

definition Attestation_Create :: "attestation \<Rightarrow> (db, err, unit) svc" where
  "Attestation_Create r = (\<lambda>s.
     if at_IdentityID r \<noteq> [] \<and> (\<exists>i \<in> set (identities s). i_ID i = at_IdentityID r)
     then case insert_row attestation_conflict r (attestation_records s) of
            None \<Rightarrow> (Inl (ErrMsg ''failed to create attestation record''), s)
          | Some t \<Rightarrow> (Inr (), s\<lparr>attestation_records := t\<rparr>)
     else (Inl (ErrMsg ''failed to create attestation record''), s))"

definition Attestation_GetByID :: "string \<Rightarrow> string \<Rightarrow> string \<Rightarrow> (db, err, attestation) svc" where
  "Attestation_GetByID rid acct proj = (\<lambda>s.
     case find (\<lambda>r. at_ID r = rid \<and> at_AccountID r = acct \<and> at_ProjectID r = proj) (attestation_records s) of
       None \<Rightarrow> (Inl ErrNoRows, s) | Some r \<Rightarrow> (Inr r, s))"

definition Attestation_Update :: "attestation \<Rightarrow> db \<Rightarrow> db" where
  "Attestation_Update r s = s\<lparr>attestation_records :=
     update_where (\<lambda>q. at_ID q = at_ID r) (\<lambda>_. r) (attestation_records s)\<rparr>"

definition SubmitAttestation ::
  "env \<Rightarrow> string \<Rightarrow> time \<Rightarrow> string \<Rightarrow> string \<Rightarrow> string \<Rightarrow> string \<Rightarrow> string \<Rightarrow> string \<Rightarrow>
   (db, err, attestation) svc" where
  "SubmitAttestation E rid now identityID acct proj level proofType proofValue =
     (let r = \<lparr>at_ID = rid, at_IdentityID = identityID, at_AccountID = acct, at_ProjectID = proj,
               at_Level = level, at_ProofType = proofType, at_ProofValue = proofValue,
               at_ProofHash = sha256_hex E proofValue, at_VerifiedAt = None, at_ExpiresAt = None,
               at_IsVerified = False, at_IsExpired = False, at_CredentialID = [], at_CreatedAt = now\<rparr>
      in bind (on_error (Attestation_Create r) (\<lambda>_. ErrMsg ''failed to submit attestation'')) (\<lambda>_. ret r))"

definition trustLevelForAttestation :: "string \<Rightarrow> string" where
  "trustLevelForAttestation level =
     (if level = AttestationLevelHardware then TrustLevelFirstParty else TrustLevelVerifiedThirdParty)"

subsection \<open>Verification\<close>

text \<open>The two gates before the transaction: a verifier, and the tenant's policy or the bypass.\<close>

definition att_gate ::
  "env \<Rightarrow> att_env \<Rightarrow> time \<Rightarrow> att_policies \<Rightarrow> string \<Rightarrow> string \<Rightarrow> attestation \<Rightarrow> jwks_cache \<Rightarrow>
   (err + att_result) \<times> jwks_cache" where
  "att_gate E A now ps acct proj r cache =
     (case registry A (at_ProofType r) of
        None \<Rightarrow> (Inl ErrAttestationRejected, cache)
      | Some v \<Rightarrow>
     (case GetByTenantProofType acct proj (at_ProofType r) ps of
        None \<Rightarrow>
          if \<not> permissive A then (Inl ErrAttestationRejected, cache)
          else (Inr \<lparr>vr_Subject = at_ProofValue r, vr_Issuer = ''dev-stub-no-policy'',
                     vr_ExpiresAt = Some (now + 86400 * second)\<rparr>, cache)
      | Some policy \<Rightarrow>
          (case Verifier_Verify E A v now r (atp_Config policy) cache of
             (None, cache') \<Rightarrow> (Inl ErrAttestationRejected, cache')
           | (Some result, cache') \<Rightarrow> (Inr result, cache'))))"

text \<open>
  The transaction: it works on the locked row and the current identity, and an error rolls
  everything back. \<open>w\<close> holds the clocks and fresh identifiers of the issuance; the identity is then
  promoted by an update that sets nothing else.
\<close>

record att_inputs =
  ai_inputs :: inputs
  ai_caller :: string
  ai_policy :: string
  ai_signal :: string
  ai_now :: time

definition promote_req :: "string \<Rightarrow> update_req" where
  "promote_req trust =
     \<lparr>ui_Name = [], ui_TrustLevel = trust, ui_IdentityType = [], ui_SubType = [], ui_OwnerUserID = [],
      ui_AllowedScopes = None, ui_PublicKeyPEM = [], ui_Framework = None, ui_Version = None,
      ui_Publisher = None, ui_Description = None, ui_Capabilities = None, ui_Labels = None,
      ui_Metadata = None, ui_Status = None, ui_CredentialPolicyID = None, ui_CapabilityTier = None,
      ui_RiskTier = None, ui_IAL = None, ui_ExpiresAt = None\<rparr>"

definition verified_record :: "time \<Rightarrow> att_result \<Rightarrow> credential \<Rightarrow> attestation \<Rightarrow> attestation" where
  "verified_record now result c locked =
     locked\<lparr>at_IsVerified := True, at_VerifiedAt := Some now,
            at_ExpiresAt := (case vr_ExpiresAt result of None \<Rightarrow> at_ExpiresAt locked | Some t \<Rightarrow> Some t),
            at_CredentialID := c_ID c\<rparr>"

definition verify_tx ::
  "env \<Rightarrow> att_inputs \<Rightarrow> att_result \<Rightarrow> string \<Rightarrow> string \<Rightarrow> string \<Rightarrow>
   (db, err, attestation \<times> access_token \<times> credential) svc" where
  "verify_tx E w result rid acct proj =
     bind (Attestation_GetByID rid acct proj) (\<lambda>locked.
     if at_IsVerified locked \<or> at_CredentialID locked \<noteq> [] then throw ErrAttestationAlreadyVerified
     else bind (Identity_GetByID (at_IdentityID locked) acct proj) (\<lambda>i.
     if \<not> IsUsable (i_Status i) then throw ErrIdentityNotUsable
     else if Identity_IsExpired i (tk_gate (ai_inputs w)) then throw ErrIdentityExpired
     else bind (IssueCredential E (ai_inputs w)
                 ((empty_issue i)\<lparr>iq_GrantType := GrantTypeClientCredentials\<rparr>)) (\<lambda>(tok, c).
     bind (UpdateIdentity E (\<lambda>_. None) (ai_caller w) (ai_policy w) (ai_signal w) (ai_now w)
             (at_IdentityID locked) acct proj (promote_req (trustLevelForAttestation (at_Level locked))))
       (\<lambda>_ s. (Inr (verified_record (ai_now w) result c locked, tok, c),
               Attestation_Update (verified_record (ai_now w) result c locked) s)))))"

definition RunInTx :: "(db, err, 'a) svc \<Rightarrow> (db, err, 'a) svc" where
  "RunInTx m = (\<lambda>s. case m s of (Inl e, _) \<Rightarrow> (Inl e, s) | (Inr a, s') \<Rightarrow> (Inr a, s'))"

definition VerifyAttestation ::
  "env \<Rightarrow> att_env \<Rightarrow> att_inputs \<Rightarrow> att_policies \<Rightarrow> string \<Rightarrow> string \<Rightarrow> string \<Rightarrow> db \<times> jwks_cache \<Rightarrow>
   (err + attestation \<times> access_token \<times> credential) \<times> db \<times> jwks_cache" where
  "VerifyAttestation E A w ps rid acct proj st =
     (case st of (s, cache) \<Rightarrow>
     (case Attestation_GetByID rid acct proj s of
        (Inl e, _) \<Rightarrow> (Inl e, s, cache)
      | (Inr record, _) \<Rightarrow>
     if at_IsVerified record \<or> at_CredentialID record \<noteq> []
     then (Inl ErrAttestationAlreadyVerified, s, cache)
     else case att_gate E A (tk_auth (ai_inputs w)) ps acct proj record cache of
        (Inl e, cache') \<Rightarrow> (Inl e, s, cache')
      | (Inr result, cache') \<Rightarrow>
          (case RunInTx (verify_tx E w result rid acct proj) s of (r, s') \<Rightarrow> (r, s', cache'))))"

subsection \<open>Handlers\<close>

definition submitAttestationOp ::
  "env \<Rightarrow> string \<Rightarrow> time \<Rightarrow> (string \<times> string) option \<Rightarrow> string \<Rightarrow> string \<Rightarrow> string \<Rightarrow> string \<Rightarrow>
   (db, err, attestation) svc" where
  "submitAttestationOp E rid now tenant identityID level proofType proofValue =
     (case tenant of
        None \<Rightarrow> throw (HTTPErr 401)
      | Some (acct, proj) \<Rightarrow>
          on_error (SubmitAttestation E rid now identityID acct proj
              (if level = [] then AttestationLevelSoftware else level) proofType proofValue)
            (\<lambda>_. HTTPErr 500))"

definition verify_status :: "err \<Rightarrow> err" where
  "verify_status e =
     (if e = ErrAttestationRejected then HTTPErr 400
      else if e = ErrAttestationAlreadyVerified then HTTPErr 409
      else if e = ErrIdentityExpired \<or> e = ErrIdentityNotUsable then HTTPErr 400 else HTTPErr 500)"

definition verifyAttestationOp ::
  "env \<Rightarrow> att_env \<Rightarrow> att_inputs \<Rightarrow> att_policies \<Rightarrow> (string \<times> string) option \<Rightarrow> string \<Rightarrow> db \<times> jwks_cache \<Rightarrow>
   (err + attestation \<times> access_token \<times> credential) \<times> db \<times> jwks_cache" where
  "verifyAttestationOp E A w ps tenant rid st =
     (case tenant of
        None \<Rightarrow> (Inl (HTTPErr 401), st)
      | Some (acct, proj) \<Rightarrow>
          (case VerifyAttestation E A w ps rid acct proj st of
             (Inl e, st') \<Rightarrow> (Inl (verify_status e), st') | (Inr v, st') \<Rightarrow> (Inr v, st')))"

definition getAttestationOp :: "(string \<times> string) option \<Rightarrow> string \<Rightarrow> (db, err, attestation) svc" where
  "getAttestationOp tenant rid =
     (case tenant of
        None \<Rightarrow> throw (HTTPErr 401)
      | Some (acct, proj) \<Rightarrow> on_error (Attestation_GetByID rid acct proj) (\<lambda>_. HTTPErr 404))"

subsection \<open>What verification does\<close>

lemma ingest_attestations:
  "attestation_records (snd (IngestSignal sid now acct proj rid ty sev src pl s)) = attestation_records s"
  by (auto simp: IngestSignal_def Let_def auto_revoke_def bind_def on_error_def Signal_Create_def
      RevokeAllActiveForIdentity_def Credential_RevokeAllActiveForIdentity_def
      split: prod.split sum.split option.split)

lemma cleanup_attestations: "attestation_records (runDeactivationCleanup now sid i reason s) = attestation_records s"
  by (simp add: runDeactivationCleanup_def Let_def ingest_attestations RevokeAllActiveForIdentity_def
      Credential_RevokeAllActiveForIdentity_def APIKey_RevokeByIdentityID_def)

lemma promotion:
  assumes "UpdateIdentity E rf caller pid sid now rid acct proj (promote_req trust) s = (Inr i', s')" "trust \<noteq> []"
  shows "attestation_records s' = attestation_records s" "issued_credentials s' = issued_credentials s"
    "\<exists>j \<in> set (identities s'). i_ID j = rid \<and> i_AccountID j = acct \<and> i_ProjectID j = proj \<and> i_TrustLevel j = trust"
proof -
  from assms obtain i0 where i0: "Identity_GetByID rid acct proj s = (Inr i0, s)"
    and i': "i' = i0\<lparr>i_TrustLevel := trust, i_UpdatedAt := now\<rparr>"
    and u: "Identity_Update caller i' s = (Inr (), s')"
    by (auto simp: UpdateIdentity_def bind_Inr update_part1_def update_part2_def promote_req_def or_default_def
        or_keep_def lift_def Let_def Identity_GetByID_def split: option.splits if_splits)
  from u have s': "s' = s\<lparr>identities := update_where (\<lambda>r. i_ID r = i_ID i' \<and> in_tenant_i (i_AccountID i') (i_ProjectID i') r)
      (\<lambda>_. i'\<lparr>i_ModifiedBy := caller\<rparr>) (identities s)\<rparr>"
    by (auto simp: Identity_Update_def split: if_splits)
  then show "attestation_records s' = attestation_records s" "issued_credentials s' = issued_credentials s" by simp_all
  have "i0 \<in> set (identities s)" "i_ID i0 = rid" "i_AccountID i0 = acct" "i_ProjectID i0 = proj"
    using i0 by (auto simp: Identity_GetByID_def split: option.splits dest!: find_SomeD)
  then show "\<exists>j \<in> set (identities s'). i_ID j = rid \<and> i_AccountID j = acct \<and> i_ProjectID j = proj \<and> i_TrustLevel j = trust"
    by (intro bexI [of _ "i'\<lparr>i_ModifiedBy := caller\<rparr>"])
       (auto simp: s' set_update_where i' intro!: image_eqI [of _ _ i0])
qed

lemma trust_nonempty [simp]: "trustLevelForAttestation l \<noteq> []"
  by (simp add: trustLevelForAttestation_def)

lemma attestation_reads:
  "Attestation_GetByID rid acct proj s = (x, s') \<Longrightarrow> s' = s" "Identity_GetByID rid acct proj s = (y, s') \<Longrightarrow> s' = s"
  by (auto simp: Attestation_GetByID_def Identity_GetByID_def split: option.splits)

lemma verify_tx_Inr:
  assumes "verify_tx E w result rid acct proj s = (Inr (r', tok, c), s')"
  obtains locked i where
    "Attestation_GetByID rid acct proj s = (Inr locked, s)" "\<not> at_IsVerified locked" "at_CredentialID locked = []"
    "Identity_GetByID (at_IdentityID locked) acct proj s = (Inr i, s)" "i_Status i = IdentityStatusActive"
    "\<not> Identity_IsExpired i (tk_gate (ai_inputs w))"
    "issued_credentials s' = issued_credentials s @ [c]" "c_IdentityID c = stringPtrOrNil (i_ID i)"
    "c_AccountID c = acct" "c_ProjectID c = proj"
    "r' = verified_record (ai_now w) result c locked"
    "attestation_records s' = update_where (\<lambda>q. at_ID q = at_ID r') (\<lambda>_. r') (attestation_records s)"
    "\<exists>j \<in> set (identities s'). i_ID j = at_IdentityID locked \<and> i_AccountID j = acct \<and> i_ProjectID j = proj \<and>
       i_TrustLevel j = trustLevelForAttestation (at_Level locked)"
proof -
  from assms obtain locked i i' sa sb s1 s2 where l0: "Attestation_GetByID rid acct proj s = (Inr locked, sa)"
    and ln: "\<not> at_IsVerified locked" "at_CredentialID locked = []"
    and i0: "Identity_GetByID (at_IdentityID locked) acct proj sa = (Inr i, sb)"
    and ig: "i_Status i = IdentityStatusActive" "\<not> Identity_IsExpired i (tk_gate (ai_inputs w))"
    and iss0: "IssueCredential E (ai_inputs w) ((empty_issue i)\<lparr>iq_GrantType := GrantTypeClientCredentials\<rparr>) sb =
      (Inr (tok, c), s1)"
    and up: "UpdateIdentity E (\<lambda>_. None) (ai_caller w) (ai_policy w) (ai_signal w) (ai_now w)
      (at_IdentityID locked) acct proj (promote_req (trustLevelForAttestation (at_Level locked))) s1 = (Inr i', s2)"
    and r': "r' = verified_record (ai_now w) result c locked" "s' = Attestation_Update r' s2"
    by (auto simp: verify_tx_def bind_Inr IsUsable_def split: if_splits)
  have st: "sa = s" "sb = s" using attestation_reads(1) [OF l0] attestation_reads(2) [OF i0] by simp_all
  note l = l0 [unfolded st] ln and i = i0 [unfolded st] ig and iss = iss0 [unfolded st]
  have it: "i_AccountID i = acct" "i_ProjectID i = proj"
    using i(1) by (auto simp: Identity_GetByID_def split: option.splits dest!: find_SomeD)
  from iss have c: "s1 = s\<lparr>issued_credentials := issued_credentials s @ [c]\<rparr>" "c_IdentityID c = stringPtrOrNil (i_ID i)"
      "c_AccountID c = acct" "c_ProjectID c = proj"
    by (auto simp: IssueCredential_Inr issued_row_def empty_issue_def it)
  note pr = promotion [OF up trust_nonempty]
  show ?thesis
    by (rule that [OF l i]) (use c pr r' in \<open>auto simp: Attestation_Update_def\<close>)
qed

lemma VerifyAttestation_Inr:
  assumes "VerifyAttestation E A w ps rid acct proj (s, cache) = (Inr (r', tok, c), s', cache')"
  obtains r result where "Attestation_GetByID rid acct proj s = (Inr r, s)"
    "att_gate E A (tk_auth (ai_inputs w)) ps acct proj r cache = (Inr result, cache')"
    "verify_tx E w result rid acct proj s = (Inr (r', tok, c), s')"
  using assms
  by (auto simp: VerifyAttestation_def RunInTx_def Attestation_GetByID_def
      split: option.splits if_splits prod.splits sum.splits)

lemma VerifyAttestation_Inl:
  "VerifyAttestation E A w ps rid acct proj (s, cache) = (Inl e, s', cache') \<Longrightarrow> s' = s"
  by (auto simp: VerifyAttestation_def RunInTx_def split: if_splits prod.splits sum.splits)

lemma att_gate_Inr:
  "att_gate E A now ps acct proj r cache = (Inr result, cache') \<Longrightarrow>
   \<exists>v. registry A (at_ProofType r) = Some v \<and>
     ((GetByTenantProofType acct proj (at_ProofType r) ps = None \<and> permissive A) \<or>
      (\<exists>p. GetByTenantProofType acct proj (at_ProofType r) ps = Some p \<and>
         Verifier_Verify E A v now r (atp_Config p) cache = (Some result, cache')))"
  by (auto simp: att_gate_def split: option.splits if_splits prod.splits)


subsection \<open>One credential per attestation\<close>

text \<open>
  The calls that touch the records: verifications under whatever policies, network answers and
  tenants, and submissions; the state remembers the identifiers drawn so far, and a submission
  that draws one of them again is left out (random UUIDs).
\<close>

datatype att_call =
    VerifyCall att_env att_inputs att_policies string string
  | SubmitCall string time string string string string string string

type_synonym att_state = "db \<times> jwks_cache \<times> string set"

fun att_claim :: "env \<Rightarrow> string \<Rightarrow> att_call \<Rightarrow> att_state \<Rightarrow> bool \<times> att_state" where
  "att_claim E k (VerifyCall A w ps acct proj) (s, cache, used) =
     (case VerifyAttestation E A w ps k acct proj (s, cache) of
        (Inr _, s', cache') \<Rightarrow> (True, s', cache', used) | (Inl _, s', cache') \<Rightarrow> (False, s', cache', used))"
| "att_claim E k (SubmitCall rid now identityID acct proj level pt pv) (s, cache, used) =
     (if rid \<in> used then (False, s, cache, used)
      else (False, snd (SubmitAttestation E rid now identityID acct proj level pt pv s), cache, insert rid used))"

definition att_ok :: "att_state \<Rightarrow> bool" where
  "att_ok st \<longleftrightarrow> at_ID ` set (attestation_records (fst st)) \<subseteq> snd (snd st)"

definition att_spent :: "string \<Rightarrow> att_state \<Rightarrow> bool" where
  "att_spent k st \<longleftrightarrow> att_ok st \<and> k \<in> snd (snd st) \<and>
     (\<forall>r \<in> set (attestation_records (fst st)). at_ID r = k \<longrightarrow> at_IsVerified r)"

lemma Verify_records:
  assumes "VerifyAttestation E A w ps k acct proj (s, cache) = (x, s', cache')"
  shows "attestation_records s' = attestation_records s \<and> (\<exists>e. x = Inl e) \<or>
    (\<exists>r. at_ID r = k \<and> at_IsVerified r \<and> (\<exists>q \<in> set (attestation_records s). at_ID q = k \<and> \<not> at_IsVerified q) \<and>
       attestation_records s' = update_where (\<lambda>q. at_ID q = k) (\<lambda>_. r) (attestation_records s))"
proof (cases x)
  case (Inl e)
  with assms VerifyAttestation_Inl show ?thesis by blast
next
  case (Inr v)
  obtain r' tok c where "v = (r', tok, c)" by (cases v)
  with assms Inr have run: "VerifyAttestation E A w ps k acct proj (s, cache) = (Inr (r', tok, c), s', cache')" by simp
  then obtain result where tx: "verify_tx E w result k acct proj s = (Inr (r', tok, c), s')"
    by (rule VerifyAttestation_Inr)
  from tx show ?thesis
  proof (rule verify_tx_Inr)
    fix locked i
    assume l: "Attestation_GetByID k acct proj s = (Inr locked, s)" "\<not> at_IsVerified locked"
      and r': "r' = verified_record (ai_now w) result c locked"
      and t: "attestation_records s' = update_where (\<lambda>q. at_ID q = at_ID r') (\<lambda>_. r') (attestation_records s)"
    have q: "locked \<in> set (attestation_records s)" "at_ID locked = k"
      using l(1) by (auto simp: Attestation_GetByID_def split: option.splits dest!: find_SomeD)
    have "at_ID r' = k" "at_IsVerified r'" using r' q(2) by (simp_all add: verified_record_def)
    with q l(2) t show ?thesis by auto
  qed
qed

lemma Submit_records:
  "attestation_records (snd (SubmitAttestation E rid now identityID acct proj level pt pv s)) = attestation_records s \<or>
   (\<exists>r. at_ID r = rid \<and> attestation_records (snd (SubmitAttestation E rid now identityID acct proj level pt pv s)) =
      attestation_records s @ [r])"
  by (auto simp: SubmitAttestation_def Let_def bind_def on_error_def ret_def Attestation_Create_def insert_row_def
      split: option.split)

lemma att_claim_rows:
  assumes "att_claim E k c (s, cache, used) = (b, s', cache', used')"
  shows "used \<subseteq> used'"
    "r' \<in> set (attestation_records s') \<Longrightarrow>
     (\<exists>r \<in> set (attestation_records s). at_ID r' = at_ID r \<and> (at_IsVerified r \<longrightarrow> at_IsVerified r')) \<or>
     (at_ID r' \<notin> used \<and> at_ID r' \<in> used')"
    "b \<Longrightarrow> (\<exists>q \<in> set (attestation_records s). at_ID q = k \<and> \<not> at_IsVerified q) \<and>
       (\<forall>r \<in> set (attestation_records s'). at_ID r = k \<longrightarrow> at_IsVerified r)"
proof -
  show "used \<subseteq> used'"
    using assms by (cases c) (auto split: prod.splits sum.splits if_splits)
  show "(\<exists>r \<in> set (attestation_records s). at_ID r' = at_ID r \<and> (at_IsVerified r \<longrightarrow> at_IsVerified r')) \<or>
     (at_ID r' \<notin> used \<and> at_ID r' \<in> used')" if r': "r' \<in> set (attestation_records s')"
  proof (cases c)
    case (VerifyCall A w ps acct proj)
    with assms obtain x where "VerifyAttestation E A w ps k acct proj (s, cache) = (x, s', cache')"
      by (auto split: prod.splits sum.splits)
    from Verify_records [OF this] r' show ?thesis by (auto simp: set_update_where)
  next
    case (SubmitCall rid now identityID acct proj level pt pv)
    with assms r' Submit_records [of E rid now identityID acct proj level pt pv s] show ?thesis
      by (auto split: if_splits)
  qed
  show "(\<exists>q \<in> set (attestation_records s). at_ID q = k \<and> \<not> at_IsVerified q) \<and>
       (\<forall>r \<in> set (attestation_records s'). at_ID r = k \<longrightarrow> at_IsVerified r)" if b
  proof (cases c)
    case (VerifyCall A w ps acct proj)
    with assms that obtain v where "VerifyAttestation E A w ps k acct proj (s, cache) = (Inr v, s', cache')"
      by (auto split: prod.splits sum.splits)
    from Verify_records [OF this] show ?thesis by (auto simp: set_update_where)
  qed (use assms that in \<open>auto split: if_splits\<close>)
qed

interpretation att_use: single_use "att_claim E" att_spent att_ok
proof
  fix k k' :: string and c :: att_call and st st' :: att_state
  obtain s cache used where st: "st = (s, cache, used)" by (metis prod_cases3)
  obtain b s1 cache1 used1 where e: "att_claim E k c st = (b, s1, cache1, used1)" by (metis prod_cases4)
  obtain b2 s2 cache2 used2 where e2: "att_claim E k' c st = (b2, s2, cache2, used2)" by (metis prod_cases4)
  note rows = att_claim_rows [OF e [unfolded st]] and rows2 = att_claim_rows [OF e2 [unfolded st]]
  have ok: "att_ok (t, d, u')" if "att_ok st" "used \<subseteq> u'" and tr:
      "\<And>r'. r' \<in> set (attestation_records t) \<Longrightarrow>
        (\<exists>r \<in> set (attestation_records s). at_ID r' = at_ID r \<and> (at_IsVerified r \<longrightarrow> at_IsVerified r')) \<or>
        (at_ID r' \<notin> used \<and> at_ID r' \<in> u')" for t d u'
  proof -
    have "at_ID r' \<in> u'" if "r' \<in> set (attestation_records t)" for r'
      using tr [OF that] \<open>att_ok st\<close> \<open>used \<subseteq> u'\<close>
      by (auto simp: att_ok_def st)
    then show ?thesis by (auto simp: att_ok_def)
  qed
  show inv: "att_ok (snd (att_claim E k c st))" if "att_ok st"
    unfolding e snd_conv using ok [OF that rows(1,2)] .
  show "\<not> fst (att_claim E k c st)" if "att_spent k st"
    using that rows(3) unfolding e att_spent_def by (auto simp: st)
  show "att_spent k st'" if a: "att_ok st" and won: "att_claim E k c st = (True, st')"
  proof -
    from won e have b and st': "st' = (s1, cache1, used1)" by auto
    with rows(3) a have "k \<in> used" by (auto simp: att_ok_def st)
    moreover have "att_ok st'" using inv [OF a] won by simp
    ultimately show ?thesis using rows(1) rows(3) [OF \<open>b\<close>] by (auto simp: att_spent_def st')
  qed
  show "att_spent k (snd (att_claim E k' c st))" if a: "att_spent k st"
  proof -
    from a have "att_ok st" "k \<in> used" by (auto simp: att_spent_def st)
    then have "att_ok (s2, cache2, used2)" using ok rows2(1,2) by blast
    moreover have "at_IsVerified r'" if "r' \<in> set (attestation_records s2)" "at_ID r' = k" for r'
      using rows2(2) [OF that(1)] a that(2) by (auto simp: att_spent_def st)
    ultimately show ?thesis using \<open>k \<in> used\<close> rows2(1) unfolding e2 by (auto simp: att_spent_def)
  qed
qed

text \<open>
  One proof gives at most one credential: in any sequence of submissions and verifications,
  whatever the policies and the network answers at each of them, at most one verification of an
  attestation record succeeds.
\<close>

theorem attestation_verified_once:
  assumes "att_ok (s, cache, used)"
  shows "wins rid (fst (run_claims (att_claim E) calls (s, cache, used))) \<le> 1"
  using att_use.run_at_most_once [OF assms] .

definition sample_att :: att_env where
  "sample_att = \<lparr>http_get = (\<lambda>u. if u = ''https://i/.well-known/openid-configuration'' then Some (200, ''D'')
        else if u = ''https://i/k'' then Some (200, ''K'') else None),
     oidc_config = (\<lambda>c. Some [\<lparr>oi_URL = ''https://i/'', oi_Audiences = [''z''], oi_RequiredClaims = [(''repo'', ''r'')]\<rparr>]),
     discovery_doc = (\<lambda>b. if b = ''D'' then Some (''https://i'', ''https://i/k'') else None),
     jwk_parse = (\<lambda>b. Some b),
     parse_keyset = (\<lambda>k i t x. if k = ''K'' then Some [''iss'' \<mapsto> CStr i, ''sub'' \<mapsto> CStr ''wl'', ''aud'' \<mapsto> CStrs [''z''],
        ''repo'' \<mapsto> CStr ''r'', ''exp'' \<mapsto> CTime 99] else None),
     config_url = (\<lambda>u. Some (''https'', ''i'')), registry = [ProofTypeOIDCToken \<mapsto> OIDCVerifier], permissive = False\<rparr>"

theorem attestation_verified_once_witness:
  "wins ''a1'' (fst (run_claims (att_claim sample_env)
     [(''a1'', SubmitCall ''a1'' 0 ''i1'' ''acme'' ''prod'' AttestationLevelSoftware ProofTypeOIDCToken ''jwt''),
      (''a1'', VerifyCall sample_att \<lparr>ai_inputs = sample_inputs, ai_caller = [], ai_policy = ''p'', ai_signal = ''g'', ai_now = 1\<rparr>
         [] ''acme'' ''prod'')]
     (identity_db, Map.empty, {}))) \<le> 1"
  by (rule attestation_verified_once) (simp add: att_ok_def identity_db_def policy_db_def empty_db_def)

subsection \<open>What an OIDC proof shows\<close>

lemma jwksCache_get_keys:
  "jwksCache_get A now stored ttl u cache = (Some keys, cache') \<Longrightarrow>
   (\<exists>t. cache u = Some (keys, t) \<and> now < t \<and> cache' = cache) \<or>
   (\<exists>url. discoverJWKSURL A u = Some url \<and> fetchJWKS A url = Some keys \<and> cache' = cache(u \<mapsto> (keys, stored + ttl)))"
  by (auto simp: jwksCache_get_def split: option.splits if_splits bind_splits)

lemma discoverJWKSURL_issuer:
  "discoverJWKSURL A u = Some url \<Longrightarrow>
   \<exists>body doc. http_get A (TrimRight_slash u @ ''/.well-known/openid-configuration'') = Some (200, body) \<and>
     discovery_doc A (take maxDiscoveryDocBytes body) = Some (doc, url) \<and> TrimRight_slash doc = TrimRight_slash u"
  by (auto simp: discoverJWKSURL_def split: option.splits if_splits)

text \<open>
  C36. An accepted OIDC proof comes from an issuer on the tenant's list: its signature verifies under
  keys that are cached for this issuer and not stale, or were fetched through a discovery document
  that names this issuer; it carries one of the audiences the tenant configured, if any, and
  every required claim with exactly the configured value. The token's own issuer claim is the one
  the verification was run for.
\<close>

theorem OIDC_Verify_trusted:
  assumes "OIDC_Verify E A now proofValue policyConfig cache = (Some result, cache')"
  shows "\<exists>issuers iss claimed keys tok. oidc_config A policyConfig = Some issuers \<and> iss \<in> set issuers \<and>
     TrimRight_slash (oi_URL iss) = TrimRight_slash claimed \<and>
     ((\<exists>t. cache (oi_URL iss) = Some (keys, t) \<and> now < t) \<or>
      (\<exists>url. discoverJWKSURL A (oi_URL iss) = Some url \<and> fetchJWKS A url = Some keys)) \<and>
     parse_keyset A keys claimed now (trim_ws proofValue) = Some tok \<and>
     (oi_Audiences iss = [] \<or> set (claim_strings tok ''aud'') \<inter> set (oi_Audiences iss) \<noteq> {}) \<and>
     (\<forall>k v. (k, v) \<in> set (oi_RequiredClaims iss) \<longrightarrow> tok k = Some (CStr v)) \<and>
     vr_Subject result = claim_str tok ''sub'' \<and> vr_ExpiresAt result = claim_exp tok"
proof -
  from assms obtain issuers peek iss keys tok where
    cfg: "oidc_config A policyConfig = Some issuers" and f: "findIssuer issuers (claim_str peek ''iss'') = Some iss"
    and k: "jwksCache_get A now now (3600 * second) (oi_URL iss) cache = (Some keys, cache')"
    and p: "parse_keyset A keys (claim_str peek ''iss'') now (trim_ws proofValue) = Some tok"
    and c: "oidc_check iss tok"
    and r: "result = \<lparr>vr_Subject = claim_str tok ''sub'', vr_Issuer = claim_str tok ''iss'', vr_ExpiresAt = claim_exp tok\<rparr>"
    by (auto simp: OIDC_Verify_def split: if_splits option.splits prod.splits)
  have i: "iss \<in> set issuers" "TrimRight_slash (oi_URL iss) = TrimRight_slash (claim_str peek ''iss'')"
    using f by (auto simp: findIssuer_def dest!: find_SomeD)
  have a: "oi_Audiences iss = [] \<or> set (claim_strings tok ''aud'') \<inter> set (oi_Audiences iss) \<noteq> {}"
      "\<forall>k v. (k, v) \<in> set (oi_RequiredClaims iss) \<longrightarrow> tok k = Some (CStr v)"
    using c by (auto simp: oidc_check_def anyAudienceMatches_def list_ex_iff list_all_iff)
  have src: "(\<exists>t. cache (oi_URL iss) = Some (keys, t) \<and> now < t) \<or>
      (\<exists>url. discoverJWKSURL A (oi_URL iss) = Some url \<and> fetchJWKS A url = Some keys)"
    using jwksCache_get_keys [OF k] by blast
  show ?thesis
    by (rule exI [of _ issuers], rule exI [of _ iss], rule exI [of _ "claim_str peek ''iss''"],
        rule exI [of _ keys], rule exI [of _ tok])
       (use cfg i src p a r in simp)
qed

theorem OIDC_Verify_trusted_witness:
  "\<exists>result cache'. OIDC_Verify (sample_env\<lparr>parse_insecure := (\<lambda>x. Some [''iss'' \<mapsto> CStr ''https://i''])\<rparr>) sample_att 5 ''jwt''
       ''cfg'' Map.empty = (Some result, cache') \<and> vr_Subject result = ''wl'' \<and>
     (\<exists>issuers iss. oidc_config sample_att ''cfg'' = Some issuers \<and> iss \<in> set issuers)"
proof -
  let ?E = "sample_env\<lparr>parse_insecure := (\<lambda>x. Some [''iss'' \<mapsto> CStr ''https://i''])\<rparr>"
  have t: "TrimRight_slash ''https://i/'' = ''https://i''" "TrimRight_slash ''https://i'' = ''https://i''" "trim_ws ''jwt'' = ''jwt''"
    by (simp_all add: TrimRight_slash_def trim_ws_def is_space_def)
  have d: "discoverJWKSURL sample_att ''https://i/'' = Some ''https://i/k''"
    by (simp add: discoverJWKSURL_def sample_att_def t)
  have k: "fetchJWKS sample_att ''https://i/k'' = Some ''K''" by (simp add: fetchJWKS_def sample_att_def)
  have g: "jwksCache_get sample_att 5 5 (3600 * second) ''https://i/'' Map.empty =
      (Some ''K'', [''https://i/'' \<mapsto> (''K'', 5 + 3600 * second)])"
    by (simp add: jwksCache_get_def d k)
  obtain result cache' where run: "OIDC_Verify ?E sample_att 5 ''jwt'' ''cfg'' Map.empty = (Some result, cache')"
      "vr_Subject result = ''wl''"
    using g by (auto simp: OIDC_Verify_def sample_att_def t claim_str_def findIssuer_def oidc_check_def
        anyAudienceMatches_def claim_strings_def)
  from OIDC_Verify_trusted [OF run(1)] run show ?thesis by blast
qed

text \<open>
  Verification sets the trust level, it does not raise it: whatever the identity had before, a
  proof below hardware level leaves it at \<open>verified_third_party\<close>, also when it was first party.
\<close>

lemma attestation_sets_trust:
  assumes "VerifyAttestation E A w ps rid acct proj (s, cache) = (Inr (r', tok, c), s', cache')"
    "at_Level r' \<noteq> AttestationLevelHardware"
  shows "\<exists>j \<in> set (identities s'). i_ID j = at_IdentityID r' \<and> i_TrustLevel j = TrustLevelVerifiedThirdParty"
  using assms(1)
proof (rule VerifyAttestation_Inr)
  fix r result assume "verify_tx E w result rid acct proj s = (Inr (r', tok, c), s')"
  then show ?thesis
    by (rule verify_tx_Inr)
       (use assms(2) in \<open>auto simp: verified_record_def trustLevelForAttestation_def\<close>)
qed

end
