(* ===== verification/Zeroid_System.thy ===== *)
theory Zeroid_System
  imports Zeroid_API
begin

text \<open>
  The service as one transition system. \<open>api_step\<close> is one operation of any component that writes the
  database, \<open>api_run\<close> a sequence of them in any order. Every operation keeps the contract of the
  credential table (\<open>credential_op\<close> of \<open>Zeroid_Evolution\<close>), so revoking a credential silences its
  whole lineage for good, whatever runs afterwards.
\<close>

subsection \<open>Frames\<close>

lemma cred_step_mono: "cred_step M s s' \<Longrightarrow> M \<subseteq> N \<Longrightarrow> cred_step N s s'"
  unfolding cred_step_def using cred_evolves_mono by blast

lemma keeps_op: "credential_op (\<lambda>s. snd (m s)) N \<Longrightarrow> N \<subseteq> M \<Longrightarrow> keeps (cred_step M) m"
  by (rule keepsI) (rule cred_step_op)

lemma keeps_frame:
  "(\<And>s. issued_credentials (snd (m s)) = issued_credentials s) \<Longrightarrow> keeps (cred_step M) m"
  by (rule keepsI) (rule cred_step_same)

lemma keeps_lift: "keeps (cred_step M) (lift r)"
  by (simp add: keeps_def lift_def cred.R_refl)

lemma keeps_case_sum:
  "(\<And>e. keeps R (f e)) \<Longrightarrow> (\<And>a. keeps R (g a)) \<Longrightarrow> keeps R (case r of Inl e \<Rightarrow> f e | Inr a \<Rightarrow> g a)"
  by (cases r) simp_all

lemma reads_identity: "snd (Identity_GetByID rid acct proj s) = s"
  by (simp add: Identity_GetByID_def split: option.split)

lemma reads_policy: "snd (GetPolicy pid acct proj s) = s"
  by (simp add: GetPolicy_def split: option.split)

lemma frame_Policy_Create: "issued_credentials (snd (Policy_Create p s)) = issued_credentials s"
  by (simp add: Policy_Create_def split: option.split)

lemma frame_Policy_Update: "issued_credentials (snd (Policy_Update p s)) = issued_credentials s"
  by (simp add: Policy_Update_def split: option.split)

lemma keeps_CreatePolicy: "keeps (cred_step M) (CreatePolicy pid now req)"
  unfolding CreatePolicy_def Let_def
  by (intro cred.keeps_intros keeps_frame frame_Policy_Create)

lemma keeps_UpdatePolicy: "keeps (cred_step M) (UpdatePolicy parse now pid acct proj req)"
  unfolding UpdatePolicy_def Let_def
  by (intro cred.keeps_intros keeps_lift keeps_frame frame_Policy_Update) (simp add: reads_policy)

lemma keeps_EnsureDefault: "keeps (cred_step M) (EnsureDefaultPolicy pid now acct proj)"
proof (rule keepsI)
  fix s
  show "cred_step M s (snd (EnsureDefaultPolicy pid now acct proj s))"
    using keepsD [OF keeps_CreatePolicy [of M pid now "default_policy_req acct proj"], of s]
    by (auto simp: EnsureDefaultPolicy_def cred.R_refl split: option.split prod.split sum.split)
qed

lemma keeps_CreateKey: "keeps (cred_step M) (CreateKey E d req)"
proof -
  have create: "keeps (cred_step M) (APIKey_Create k)" for k
    by (rule keeps_frame) (simp add: APIKey_Create_def split: option.split)
  have owner: "keeps (cred_step M) (key_owner E d req)"
    unfolding key_owner_def
    by (intro cred.keeps_intros keeps_op [OF ensure_service_op.credential_op_axioms]) simp
  have policy: "keeps (cred_step M) (key_policy d req)"
    unfolding key_policy_def
    by (intro cred.keeps_intros keeps_EnsureDefault cred.keeps_read reads_policy)
  have subset: "keeps (cred_step M) (key_subset req o' pid p)" for o' pid p
    by (rule cred.keeps_read) (metis key_subset_state prod.collapse)
  show ?thesis unfolding CreateKey_def by (intro cred.keeps_intros create owner policy subset)
qed

lemma keeps_RegisterAgent: "keeps (cred_step M) (RegisterAgent E iid pid sid d now req)"
proof -
  have step: "keeps (cred_step M) (\<lambda>s. case CreateKey E d kreq s of
      (Inl e, s1) \<Rightarrow> (Inl e, DeleteIdentity now sid i a p s1) | (Inr (k, sk), s1) \<Rightarrow> (Inr (f k sk), s1))"
    for kreq i a p and f :: "string \<Rightarrow> api_key \<Rightarrow> agent_response \<times> string"
  proof (rule keepsI)
    fix s
    have "cred_step M s (snd (CreateKey E d kreq s))" by (rule keepsD [OF keeps_CreateKey])
    moreover have "cred_step M t (DeleteIdentity now sid i a p t)" for t
      by (rule cred_step_op [OF delete_identity_op.credential_op_axioms]) simp
    ultimately show "cred_step M s (snd (case CreateKey E d kreq s of
        (Inl e, s1) \<Rightarrow> (Inl e, DeleteIdentity now sid i a p s1) | (Inr (k, sk), s1) \<Rightarrow> (Inr (f k sk), s1)))"
      using cred.R_trans by (auto split: prod.split sum.split)
  qed
  show ?thesis unfolding RegisterAgent_def
    by (intro cred.keeps_bind keeps_op [OF register_op.credential_op_axioms] step) simp
qed

lemma keeps_RotateKey: "keeps (cred_step M) (RotateKey E d now rid acct proj)"
proof -
  have step: "keeps (cred_step M) (\<lambda>s. case CreateKey E d kreq (APIKey_RevokeByIdentityID now i s) of
      (Inl e, s1) \<Rightarrow> (Inl e, s1) | (Inr (k, sk), s1) \<Rightarrow> (Inr (f k sk), s1))"
    for kreq i and f :: "string \<Rightarrow> api_key \<Rightarrow> agent_response \<times> string"
  proof (rule keepsI)
    fix s
    have "cred_step M s (APIKey_RevokeByIdentityID now i s)"
      by (rule cred_step_same) (simp add: APIKey_RevokeByIdentityID_def)
    then have "cred_step M s (snd (CreateKey E d kreq (APIKey_RevokeByIdentityID now i s)))"
      using keepsD [OF keeps_CreateKey] cred.R_trans by blast
    then show "cred_step M s (snd (case CreateKey E d kreq (APIKey_RevokeByIdentityID now i s) of
        (Inl e, s1) \<Rightarrow> (Inl e, s1) | (Inr (k, sk), s1) \<Rightarrow> (Inr (f k sk), s1)))"
      by (auto split: prod.split sum.split)
  qed
  show ?thesis unfolding RotateKey_def
    by (intro cred.keeps_intros step cred.keeps_read reads_identity)
qed

lemma keeps_UpdateIdentity:
  "keeps (cred_step M) (UpdateIdentity E parse caller pid sid now rid acct proj req)"
  by (rule keeps_op [OF update_op.credential_op_axioms]) simp

lemma keeps_patch_agent: "keeps (cred_step M) (patch_agent E parse caller pid sid now rid acct proj req)"
  unfolding patch_agent_def
  by (intro cred.keeps_bind keeps_UpdateIdentity cred.keeps_read) simp

lemma keeps_DeleteAgent: "keeps (cred_step M) (DeleteAgent now sid rid acct proj)"
proof -
  have last: "keeps (cred_step M) (\<lambda>s. (Inr r, DeleteIdentity now sid rid acct proj s))" for r :: agent_response
    by (rule keepsI) (simp, rule cred_step_op [OF delete_identity_op.credential_op_axioms], simp)
  show ?thesis unfolding DeleteAgent_def
    by (intro cred.keeps_bind cred.keeps_read [OF reads_identity] last)
qed

lemma keeps_IssueCredential: "keeps (cred_step {fr_jti w}) (IssueCredential E w req)"
  by (rule keeps_op [OF issue_op.credential_op_axioms]) simp

lemma keeps_verify_tx: "keeps (cred_step {fr_jti (ai_inputs w)}) (verify_tx E w result rid acct proj)"
proof -
  have get: "snd (Attestation_GetByID rid acct proj s) = s" for s
    by (simp add: Attestation_GetByID_def split: option.split)
  have last: "keeps (cred_step M) (\<lambda>s. (Inr v, Attestation_Update r s))"
    for M r and v :: "attestation \<times> access_token \<times> credential"
    by (rule keeps_frame) (simp add: Attestation_Update_def)
  show ?thesis unfolding verify_tx_def
    by (intro cred.keeps_intros cred.keeps_read [OF get] cred.keeps_read [OF reads_identity]
        keeps_IssueCredential keeps_UpdateIdentity last)
qed

lemma step_VerifyAttestation:
  "cred_step {fr_jti (ai_inputs w)} s (fst (snd (VerifyAttestation E A w ps rid acct proj (s, cache))))"
proof -
  have "cred_step {fr_jti (ai_inputs w)} s (snd (RunInTx (verify_tx E w result rid acct proj) s))" for result
    using keepsD [OF keeps_verify_tx, of w s E result rid acct proj]
    by (auto simp: RunInTx_def cred.R_refl split: prod.split sum.split)
  then show ?thesis
    by (auto simp: VerifyAttestation_def cred.R_refl split: prod.split sum.split) (metis snd_conv)
qed

lemma keeps_SubmitAttestation: "keeps (cred_step M) (SubmitAttestation E rid now i acct proj level ty v)"
proof -
  have "keeps (cred_step M) (Attestation_Create r)" for r
    by (rule keeps_frame) (simp add: Attestation_Create_def split: option.split)
  then show ?thesis unfolding SubmitAttestation_def Let_def by (intro cred.keeps_intros)
qed

subsection \<open>The token endpoint and the backchannel\<close>

lemma step_mint: "cred_step {fr_jti w} s (snd (issueTokenForApprovedRow E w row th s))"
proof -
  have mark: "cred_step {fr_jti w} s (snd (MarkIssued (b_AuthReqID row) s))"
    by (rule cred_step_same) (simp add: MarkIssued_def)
  have "keeps (cred_step {fr_jti w}) (bind (on_error (IssueCredential E w (ciba_request row th)) (\<lambda>_. oauthServerError))
      (\<lambda>(tok, _). ret (f tok)))" for f :: "access_token \<Rightarrow> access_token"
    by (intro cred.keeps_intros keeps_IssueCredential)
  from cred.R_trans [OF mark keepsD [OF this]] mark show ?thesis
    by (auto simp: issueTokenForApprovedRow_def split: prod.split)
qed

lemma step_Redeem: "cred_step {fr_jti w} s (snd (Redeem E B w aid cid th s))"
proof -
  have "cred_step {fr_jti w} s (TouchPoll aid t s)" for t
    by (rule cred_step_same) (simp add: TouchPoll_def)
  then show ?thesis by (auto simp: Redeem_def cred.R_refl step_mint split: option.split)
qed

lemma keeps_Redeem: "keeps (cred_step {fr_jti w}) (Redeem E B w aid cid th)"
  by (rule keepsI) (rule step_Redeem)

lemma step_callback: "cred_step M s (snd (postCallback B answer what row payload s))"
  by (rule cred_step_same) (simp add: postCallback_effect)

lemma step_dispatch: "cred_step {fr_jti w} s (snd (dispatchResolution E B w answer ok row s))"
proof -
  let ?m = "issueTokenForApprovedRow E w row [] s"
  have err: "cred_step {fr_jti w} s (SetLastNotifyError aid m t)" if "cred_step {fr_jti w} s t" for aid m t
    using that by (simp add: cred_step_def notify_error_keeps)
  have cb: "cred_step {fr_jti w} s (snd (postCallback B answer what row b t))" if "cred_step {fr_jti w} s t" for what b t
    using cred.R_trans [OF that step_callback] .
  have "cred_step {fr_jti w} s (snd (dispatchPushApproval E B w answer row s))"
    using step_mint [of w s E row "[]"] err cb
    by (auto simp: dispatchPushApproval_def cred.R_refl split: prod.split sum.split)
  then show ?thesis
    by (auto simp: dispatchResolution_def dispatchPing_def dispatchPushDenial_def cred.R_refl step_callback)
qed

lemma step_resolve: "cred_step {fr_jti w} s (snd (resolve_and_dispatch E B w answer ok aid (n, s)))"
  using step_dispatch [of w s E B answer ok]
  by (auto simp: resolve_and_dispatch_def cred.R_refl split: option.split prod.split) (metis snd_conv)

lemma step_Approve: "cred_step {fr_jti w} s (snd (Approve E B w answer inp s))"
proof -
  have "cred_step {fr_jti w} s (snd (MarkApproved t aid subj email name s))" for t aid subj email name
    by (rule cred_step_same) (simp add: MarkApproved_def)
  from cred.R_trans [OF this step_resolve] show ?thesis
    by (auto simp: Approve_def cred.R_refl split: option.split) (metis prod.collapse)
qed

lemma step_Deny: "cred_step {fr_jti w} s (snd (Deny E B w answer aid acct proj s))"
proof -
  have "cred_step {fr_jti w} s (snd (MarkDenied t aid s))" for t
    by (rule cred_step_same) (simp add: MarkDenied_def)
  from cred.R_trans [OF this step_resolve] show ?thesis
    by (auto simp: Deny_def cred.R_refl split: option.split) (metis prod.collapse)
qed

lemma step_CreateAuthRequest: "cred_step M s (snd (CreateAuthRequest B aid now inp s))"
proof (rule cred_step_same)
  show "issued_credentials (snd (CreateAuthRequest B aid now inp s)) = issued_credentials s"
    by (cases "CreateAuthRequest B aid now inp s"; cases "fst (CreateAuthRequest B aid now inp s)")
       (auto simp: notifier_keeps elim!: CreateAuthRequest_Inr dest: CreateAuthRequest_Inl)
qed

lemma step_Token:
  "custom (tr_GrantType req) = None \<Longrightarrow> keeps (cred_step {fr_jti w}) (Token E backchannel custom w fault req)"
  unfolding Token_def
  by (auto intro!: cred.keeps_intros keeps_clientCredentials keeps_jwtBearer keeps_exchange keeps_apiKey
      keeps_authorizationCode keeps_refreshToken keeps_Redeem)

lemma snd_reply_of: "snd (reply_of r) = snd r"
  by (simp add: reply_of_def split: prod.split sum.split)

lemma step_validate: "cred_step M s (snd (dpop_validate E D now m htu p tok s))"
proof -
  have "keeps (cred_step M) (consumeJTI jti t)" for jti t
    by (rule keeps_frame) (simp add: consumeJTI_def split: option.split)
  then have "keeps (cred_step M) (dpop_validate E D now m htu p tok)"
    unfolding dpop_validate_def by (intro cred.keeps_intros keeps_lift)
  then show ?thesis by (rule keepsD)
qed

lemma step_tokenOp:
  assumes "custom (tr_GrantType req) = None"
  shows "cred_step {fr_jti w} s (snd (tokenOp E dpopSvc backchannel custom now w fault url p req s))"
proof -
  have grant: "cred_step {fr_jti w} t (snd (reply_of (Token E backchannel custom w fault (req\<lparr>tr_DPoPKeyThumbprint := tp\<rparr>) t)))"
    for tp t using keepsD [OF step_Token] assms by (simp add: snd_reply_of)
  have val: "cred_step {fr_jti w} s t" if "ValidateProof E D now m htu p s = (r, t)" for D m htu r t
    using that step_validate [of _ s E D now m htu p "[]"] by (metis ValidateProof_def snd_conv)
  show ?thesis
    using grant val cred.R_trans [OF val grant]
    by (auto simp: tokenOp_def Let_def cred.R_refl split: option.split prod.split sum.split)
qed

lemma step_revokeOp: "cred_step M s (snd (revokeOp E now tok s))"
proof -
  have "cred_step M s (RevokeCredential now c a p r s)" for c a p r
    by (rule cred_step_op [OF revoke_op.credential_op_axioms]) simp
  then show ?thesis by (auto simp: revokeOp_def OAuth_Revoke_def Let_def cred.R_refl split: option.split)
qed

subsection \<open>Clients and proof tokens\<close>

lemma keeps_client_statements:
  "keeps (cred_step M) (OAuthClient_Create c)" "keeps (cred_step M) (OAuthClient_Update c)"
  by (rule keeps_frame, simp add: OAuthClient_Create_def split: option.split)
     (rule keeps_frame, simp add: OAuthClient_Update_def)

lemma keeps_RegisterClient: "keeps (cred_step M) (RegisterClient N allowPrivate w req)"
  unfolding RegisterClient_def Let_def by (intro cred.keeps_intros keeps_client_statements)

lemma keeps_RotateSecret: "keeps (cred_step M) (RotateSecret N w rid)"
proof (rule keepsI)
  have "keeps (cred_step M) (bind (OAuthClient_Update c) (\<lambda>_. ret (c, cf_Secret w)))" for c
    by (intro cred.keeps_intros keeps_client_statements)
  from keepsD [OF this] show "cred_step M s (snd (RotateSecret N w rid s))" for s
    by (auto simp: RotateSecret_def Let_def cred.R_refl split: option.split)
qed

lemma keeps_EnsureClient: "keeps (cred_step M) (EnsureClient N allowPrivate w cfg)"
proof (rule keepsI)
  have "keeps (cred_step M) (bind (RegisterClient N allowPrivate w req) (\<lambda>_. ret ()))" for req
    by (intro cred.keeps_intros keeps_RegisterClient)
  from keepsD [OF this] keepsD [OF keeps_client_statements(2)]
  show "cred_step M s (snd (EnsureClient N allowPrivate w cfg s))" for s
    by (auto simp: EnsureClient_def cred.R_refl split: option.split)
qed

lemma keeps_dcrRegisterOp: "keeps (cred_step M) (dcrRegisterOp E N w h body sc)"
  unfolding dcrRegisterOp_def DynamicRegisterClient_def Let_def
  by (intro cred.keeps_intros keeps_lift keeps_case_sum keeps_client_statements)

lemma keeps_dcrUpdateOp: "keeps (cred_step M) (dcrUpdateOp E now h clientID body sc)"
proof -
  have "keeps (cred_step M) (UpdateDynamicClient now clientID req)" for req
  proof (rule keepsI)
    have "keeps (cred_step M) (bind (OAuthClient_Update c) (\<lambda>_. ret c))" for c
      by (intro cred.keeps_intros keeps_client_statements)
    from keepsD [OF this] show "cred_step M s (snd (UpdateDynamicClient now clientID req s))" for s
      by (auto simp: UpdateDynamicClient_def Let_def cred.R_refl split: option.split sum.split)
  qed
  then show ?thesis unfolding dcrUpdateOp_def
    by (intro cred.keeps_intros keeps_lift) (simp_all add: cred.keeps_read)
qed

lemma keeps_dcrDeleteOp: "keeps (cred_step M) (dcrDeleteOp E h clientID)"
  unfolding dcrDeleteOp_def
  by (intro cred.keeps_bind cred.keeps_read keeps_frame) (simp_all add: OAuthClient_DeleteByClientID_def)

lemma keeps_GenerateProofToken: "keeps (cred_step M) (GenerateProofToken E gate now jti pid i aud nonce)"
proof -
  have "keeps (cred_step M) (Proof_Create pt)" for pt
    by (rule keeps_frame) (simp add: Proof_Create_def split: option.split)
  then show ?thesis unfolding GenerateProofToken_def by (intro cred.keeps_intros)
qed

lemma keeps_VerifyProofToken: "keeps (cred_step M) (VerifyProofToken E key now mark tok aud)"
  by (rule keeps_frame) (simp add: VerifyProofToken_def Proof_MarkUsed_def split: sum.split)

subsection \<open>Runs of the service\<close>

text \<open>
  One operation of the service in any environment, with any clock and any draw of fresh values; the
  set names the token identifiers it drew. Grants that a deployer adds are outside.
\<close>

inductive api_step :: "string set \<Rightarrow> db \<Rightarrow> db \<Rightarrow> bool" where
  token: "custom (tr_GrantType req) = None \<Longrightarrow>
    api_step {fr_jti w} s (snd (tokenOp E dpopSvc backchannel custom now w fault url dpopProof req s))"
| revoke_token: "api_step {} s (snd (revokeOp E now tokenStr s))"
| revoke_credential: "api_step {} s (RevokeCredential now rid acct proj reason s)"
| rotate_credential: "api_step {fr_jti w} s (snd (RotateCredential E w rid acct proj ident s))"
| register_identity: "api_step {} s (snd (RegisterIdentity E iid pid now rreq s))"
| update_identity: "api_step {} s (snd (UpdateIdentity E parse caller pid sid now rid acct proj ureq s))"
| delete_identity: "api_step {} s (DeleteIdentity now sid rid acct proj s)"
| ingest_signal: "api_step {} s (snd (IngestSignal sid now acct proj rid ty sev src payload s))"
| create_policy: "api_step {} s (snd (CreatePolicy pid now preq s))"
| update_policy: "api_step {} s (snd (UpdatePolicy parse now pid acct proj upreq s))"
| create_key: "api_step {} s (snd (CreateKey E d kreq s))"
| revoke_key: "api_step {} s (snd (RevokeKey now rid acct proj revokedBy reason s))"
| register_agent: "api_step {} s (snd (RegisterAgent E iid pid sid d now areq s))"
| update_agent: "api_step {} s (snd (UpdateAgent E parse caller pid sid now rid acct proj uareq s))"
| activate_agent: "api_step {} s (snd (ActivateAgent E parse caller pid sid now rid acct proj s))"
| deactivate_agent: "api_step {} s (snd (DeactivateAgent E parse caller pid sid now rid acct proj s))"
| delete_agent: "api_step {} s (snd (DeleteAgent now sid rid acct proj s))"
| rotate_key: "api_step {} s (snd (RotateKey E d now rid acct proj s))"
| submit_attestation: "api_step {} s (snd (SubmitAttestation E rid now ident acct proj level ty v s))"
| verify_attestation: "api_step {fr_jti (ai_inputs aw)} s
    (fst (snd (VerifyAttestation E A aw ps rid acct proj (s, cache))))"
| bc_authorize: "api_step {} s (snd (CreateAuthRequest B aid now inp s))"
| bc_approve: "api_step {fr_jti w} s (snd (Approve E B w answer ainp s))"
| bc_deny: "api_step {fr_jti w} s (snd (Deny E B w answer aid acct proj s))"
| register_client: "api_step {} s (snd (RegisterClient N allowPrivate cw creq s))"
| rotate_secret: "api_step {} s (snd (RotateSecret N cw rid s))"
| ensure_client: "api_step {} s (snd (EnsureClient N allowPrivate cw creq s))"
| dcr_register: "api_step {} s (snd (dcrRegisterOp E N cw header body scope s))"
| dcr_update: "api_step {} s (snd (dcrUpdateOp E now header clientID body scope s))"
| dcr_delete: "api_step {} s (snd (dcrDeleteOp E header clientID s))"
| generate_proof: "api_step {} s (snd (GenerateProofToken E gate now jti pid i aud nonce s))"
| verify_proof: "api_step {} s (snd (VerifyProofToken E key now mark tokenStr aud s))"
| cleanup: "api_step {} s (RunOnce hasRepo expirer now later s)"

inductive api_run :: "string set \<Rightarrow> db \<Rightarrow> db \<Rightarrow> bool" where
  stop: "api_run {} s s"
| step: "api_run M s t \<Longrightarrow> api_step N t u \<Longrightarrow> api_run (M \<union> N) s u"

lemma api_step_cred: "api_step M s s' \<Longrightarrow> cred_step M s s'"
proof (induction rule: api_step.induct)
  case (revoke_key s now rid acct proj revokedBy reason)
  show ?case by (rule cred_step_same) (simp add: RevokeKey_def APIKey_Revoke_def Let_def)
next
  case (verify_attestation aw s E A ps rid acct proj cache)
  show ?case by (rule step_VerifyAttestation)
next
  case (cleanup s hasRepo expirer now later)
  show ?case by (rule cred_step_op [OF pass_op.credential_op_axioms]) simp
next
  case (revoke_credential s now rid acct proj reason)
  show ?case by (rule cred_step_op [OF revoke_op.credential_op_axioms]) simp
next
  case (rotate_credential w s E rid acct proj ident)
  show ?case by (rule cred_step_op [OF rotate_op.credential_op_axioms]) simp
next
  case (delete_identity s now sid rid acct proj)
  show ?case by (rule cred_step_op [OF delete_identity_op.credential_op_axioms]) simp
next
  case (ingest_signal s sid now acct proj rid ty sev src payload)
  show ?case by (rule cred_step_op [OF ingest_op.credential_op_axioms]) simp
next
  case (register_identity s E iid pid now rreq)
  show ?case by (rule cred_step_op [OF register_op.credential_op_axioms]) simp
qed (simp_all add: step_tokenOp step_revokeOp step_CreateAuthRequest step_Approve step_Deny
    UpdateAgent_def ActivateAgent_def DeactivateAgent_def
    keepsD [OF keeps_UpdateIdentity] keepsD [OF keeps_CreatePolicy] keepsD [OF keeps_UpdatePolicy]
    keepsD [OF keeps_CreateKey] keepsD [OF keeps_RegisterAgent] keepsD [OF keeps_patch_agent]
    keepsD [OF keeps_DeleteAgent] keepsD [OF keeps_RotateKey] keepsD [OF keeps_SubmitAttestation]
    keepsD [OF keeps_RegisterClient] keepsD [OF keeps_RotateSecret] keepsD [OF keeps_EnsureClient]
    keepsD [OF keeps_dcrRegisterOp] keepsD [OF keeps_dcrUpdateOp] keepsD [OF keeps_dcrDeleteOp]
    keepsD [OF keeps_GenerateProofToken] keepsD [OF keeps_VerifyProofToken])

lemma api_run_cred: "api_run M s s' \<Longrightarrow> cred_step M s s'"
proof (induction rule: api_run.induct)
  case (step M s t N u)
  then have "cred_step (M \<union> N) s t" "cred_step (M \<union> N) t u"
    using api_step_cred cred_step_mono by blast+
  then show ?case by (rule cred.R_trans)
qed (rule cred.R_refl)

subsection \<open>Revocation is final\<close>

lemma dead_token_refused:
  assumes "token_dead t jti (issued_credentials s)" "parseToken E t tok True = Some cl" "claim_str cl ''jti'' = jti"
  shows "Introspect E t tok s = InactiveToken"
  using token_dead_inactive [OF assms(1)] assms(2,3)
  by (auto simp: Introspect_def Let_def split: option.split prod.split bool.split)

lemma dead_token_no_exchange:
  assumes "token_dead (tk_auth w) jti (issued_credentials s)" "parseToken E (tk_auth w) (tr_SubjectToken req) True = Some cl"
    "claim_str cl ''jti'' = jti" "tr_ActorToken req \<noteq> []"
  shows "\<exists>e. tokenExchange E w req s = (Inl e, s)"
  using token_dead_inactive [OF assms(1)] assms(2-4)
  by (cases "IntrospectToken (tk_auth w) jti s") (auto simp: tokenExchange_def Let_def bind_def throw_def split: option.split)

lemma cascade_kills:
  assumes u: "unique_by credential_conflict t" and a: "a \<in> set t" "anchor a" "cred_active now a"
    and d: "delegated_within 50 now t a d"
  shows "token_dead t' (c_JTI d) (revoke_cascade now reason anchor t)"
proof -
  have row: "d \<in> set t" using delegated_cases [OF d] a(1) by blast
  have hit: "d \<in> set (cascade_from now t anchor)" using a d by (auto simp: cascade_from_iff [OF u])
  have "c_IsRevoked c'" if c': "c' \<in> set (revoke_cascade now reason anchor t)" "c_JTI c' = c_JTI d" for c'
  proof -
    from c'(1) obtain c where c: "c \<in> set t" and eq: "c' = (if c_ID c \<in> set (map c_ID (cascade_from now t anchor)) \<and> \<not> c_IsRevoked c
        then mark_revoked now reason c else c)"
      by (auto simp: revoke_cascade_def update_where_def Let_def)
    then have "c_JTI c = c_JTI d" using c'(2) by (auto simp: mark_revoked_def split: if_splits)
    then have "c = d" using unique_cred_jti [OF u c row] by simp
    then show ?thesis using eq hit by (auto simp: mark_revoked_def)
  qed
  then show ?thesis by (auto simp: token_dead_def)
qed

text \<open>
  C9. Revocation is final for the whole lineage. After a credential that is active is revoked, every
  token delegated from it through at most 50 active links is refused by introspection and by the
  forward-auth endpoint and cannot be delegated further at any time, whatever operations of the
  service run in between, as long as none of them draws its identifier again.
\<close>

theorem revoked_lineage_stays_dead:
  assumes "unique_by credential_conflict (issued_credentials s)"
    and "a \<in> set (issued_credentials s)" "cred_active now a"
    and "delegated_within 50 now (issued_credentials s) a d"
    and "api_run M (RevokeCredential now (c_ID a) (c_AccountID a) (c_ProjectID a) reason s) s'" "c_JTI d \<notin> M"
    and "parseToken E t tok True = Some cl" "claim_str cl ''jti'' = c_JTI d"
  shows "Introspect E t tok s' = InactiveToken \<and>
    (\<forall>prm header. TrimSpace (trim_prefix ''Bearer '' header) = tok \<longrightarrow>
       (\<exists>challenge. authVerifyHandler E prm t header s' = Inl challenge)) \<and>
    (\<forall>w req. tk_auth w = t \<and> tr_SubjectToken req = tok \<and> tr_ActorToken req \<noteq> [] \<longrightarrow>
       (\<exists>e. tokenExchange E w req s' = (Inl e, s')))"
proof -
  let ?s1 = "RevokeCredential now (c_ID a) (c_AccountID a) (c_ProjectID a) reason s"
  have "token_dead t (c_JTI d) (issued_credentials ?s1)"
    using cascade_kills [OF assms(1,2) _ assms(3,4)] by (simp add: RevokeCredential_def Credential_Revoke_def)
  then have dead: "token_dead t (c_JTI d) (issued_credentials s')"
    using api_run_cred [OF assms(5)] cred_evolves_dead assms(6) unfolding cred_step_def by blast
  have i: "Introspect E t tok s' = InactiveToken" by (rule dead_token_refused [OF dead assms(7,8)])
  have x: "\<exists>e. tokenExchange E w req s' = (Inl e, s')"
    if "tk_auth w = t" "tr_SubjectToken req = tok" "tr_ActorToken req \<noteq> []" for w req
    by (rule dead_token_no_exchange) (use that dead assms(7,8) in auto)
  from i have "authVerifyHandler E prm t header s' \<in> range Inl"
    if "TrimSpace (trim_prefix ''Bearer '' header) = tok" for prm header
    using that by (simp add: authVerifyHandler_def Let_def)
  with i x show ?thesis by blast
qed

definition tree_env :: env where
  "tree_env = sample_env\<lparr>parse_jwks := (\<lambda>v t x. Some [''jti'' \<mapsto> CStr ''leaf''])\<rparr>"

theorem revoked_lineage_stays_dead_witness:
  "\<exists>s'. api_run {} (RevokeCredential 10 ''1'' [] [] ''why'' (empty_db\<lparr>issued_credentials := sample_tree\<rparr>)) s' \<and>
     Introspect tree_env 20 ''e.t'' s' = InactiveToken"
proof -
  let ?s = "empty_db\<lparr>issued_credentials := sample_tree\<rparr>"
  let ?a = "sample_tree ! 0" and ?d = "sample_tree ! 2"
  let ?s1 = "RevokeCredential 10 (c_ID ?a) (c_AccountID ?a) (c_ProjectID ?a) ''why'' ?s"
  have a: "c_ID ?a = ''1''" "c_AccountID ?a = []" "c_ProjectID ?a = []" "?a \<in> set (issued_credentials ?s)" "cred_active 10 ?a"
    by (simp_all add: sample_tree_def zero_credential_def cred_active_def)
  have "(?a, sample_tree ! 1) \<in> delegation 10 sample_tree" "(sample_tree ! 1, ?d) \<in> delegation 10 sample_tree"
    by (simp_all add: delegation_iff sample_tree_def zero_credential_def cred_active_def)
  then have "(?a, ?d) \<in> delegation 10 sample_tree ^^ 2" by (auto simp: numeral_2_eq_2)
  then have d: "delegated_within 50 10 (issued_credentials ?s) ?a ?d"
    unfolding delegated_within_def by (intro exI [of _ 2]) simp
  let ?s2 = "RunOnce False None 15 16 ?s1"
  have "api_run ({} \<union> {}) ?s1 ?s2" by (rule api_run.step [OF api_run.stop api_step.cleanup])
  then have run: "api_run {} ?s1 ?s2" by simp
  have tok: "parseToken tree_env 20 ''e.t'' True = Some [''jti'' \<mapsto> CStr ''leaf'']"
    by (simp add: parseToken_def jwtalg_Validate_def tree_env_def sample_env_def jwt_svid_algs_def)
  have u: "unique_by credential_conflict (issued_credentials ?s)" using sample_tree_unique by simp
  have "Introspect tree_env 20 ''e.t'' ?s2 = InactiveToken"
    using revoked_lineage_stays_dead [OF u a(4,5) d run _ tok]
    by (simp add: claim_str_def sample_tree_def)
  with run show ?thesis unfolding a(1-3) by blast
qed

end
