(* ===== verification/Zeroid_Verifier.thy ===== *)
theory Zeroid_Verifier
  imports Zeroid_System
begin

text \<open>
  The library a resource server verifies tokens with (\<open>src/pkg/authjwt\<close>): the key cache, the claims,
  \<open>Verify\<close> and \<open>VerifyRealTime\<close>, and the HTTP middleware. Proved: only accepted tokens pass, a rotated key
  heals on first use, real-time verification agrees with the credential table of the service, and
  the claims of an issued token come back out of the verifier.
\<close>

subsection \<open>Types\<close>

datatype verify_error =
    VErrNoToken | VErrInvalidToken | VErrExpiredToken | VErrInvalidIssuer | VErrInvalidAudience
  | VErrUnsupportedAlg | VErrNoKeySet | VErrInsufficientScope | VErrTokenRevoked | VErrIntrospectFailed

text \<open>How \<open>jwt.Parse\<close> fails, as far as the code tells it apart.\<close>

datatype jwt_error = TokenExpiredError | InvalidIssuerError | InvalidAudienceError | OtherJWTError

record pub_jwk =
  jk_KeyID :: "string option"
  jk_KeyUsage :: "string option"
  jk_Material :: string

text \<open>
  The libraries behind the verifier: \<open>v_jwk_parse\<close> is \<open>jwk.Parse\<close>, \<open>v_jwt_parse\<close> is \<open>jwt.Parse\<close> with a key set, an
  issuer and an audience (empty when not asked for) at an instant, \<open>v_jws_headers\<close> gives \<open>alg\<close> and \<open>kid\<close> of the
  protected headers of \<open>jws.Parse\<close>, \<open>v_header_alg\<close> the \<open>alg\<close> field of a base64url JSON header, and
  \<open>v_json_active\<close> the \<open>active\<close> field of a JSON body.
\<close>

record ver_env =
  v_jwk_parse :: "string \<Rightarrow> pub_jwk list option"
  v_jwt_parse :: "pub_jwk list \<Rightarrow> string \<Rightarrow> string \<Rightarrow> time \<Rightarrow> string \<Rightarrow> jwt_error + claims"
  v_jws_headers :: "string \<Rightarrow> (string option \<times> string option) list option"
  v_header_alg :: "string \<Rightarrow> string option"
  v_json_active :: "string \<Rightarrow> bool option"

record verifier_config =
  vf_JWKSURL :: string
  vf_Issuer :: string
  vf_Audience :: string
  vf_IntrospectURL :: string

text \<open>The answer to one HTTP request: a status with a body, or a transport error.\<close>

type_synonym http_answer = "(nat \<times> string) option"

record key_cache =
  kc_keySet :: "pub_jwk list option"
  kc_kids :: "string list"

subsection \<open>The key cache\<close>

abbreviation maxJWKSBodyBytes :: nat where "maxJWKSBodyBytes \<equiv> 2 ^ 20"
abbreviation minRefreshInterval :: int where "minRefreshInterval \<equiv> 30 * second"

definition WithRefreshInterval :: "int \<Rightarrow> int \<Rightarrow> int" where
  "WithRefreshInterval d current = (if d \<ge> minRefreshInterval then d else current)"

definition WithRequestTimeout :: "int \<Rightarrow> int \<Rightarrow> int" where
  "WithRequestTimeout d current = (if d > 0 then d else current)"

text \<open>
  \<open>strings.EqualFold\<close> against an ASCII word: besides the two cases of each letter, the long s
  and the Kelvin sign fold to ASCII letters.
\<close>

fun fold_case :: "string \<Rightarrow> string" where
  "fold_case [] = []"
| "fold_case [a] = [lower a]"
| "fold_case [a, b] =
     (if a = CHR 0xC5 \<and> b = CHR 0xBF then ''s'' else [lower a, lower b])"
| "fold_case (a # b # c # cs) =
     (if a = CHR 0xC5 \<and> b = CHR 0xBF then CHR ''s'' # fold_case (c # cs)
      else if a = CHR 0xE2 \<and> b = CHR 0x84 \<and> c = CHR 0xAA then CHR ''k'' # fold_case cs
      else lower a # fold_case (b # c # cs))"

definition EqualFold :: "string \<Rightarrow> string \<Rightarrow> bool" where
  "EqualFold s word \<longleftrightarrow> fold_case s = map lower word"

definition normalize_use :: "pub_jwk \<Rightarrow> pub_jwk" where
  "normalize_use k =
     (case jk_KeyUsage k of
        Some use \<Rightarrow> if EqualFold use ''JWT-SVID'' then k\<lparr>jk_KeyUsage := Some ''sig''\<rparr> else k
      | None \<Rightarrow> k)"

definition JWKS_refresh :: "ver_env \<Rightarrow> http_answer \<Rightarrow> key_cache \<Rightarrow> bool \<times> key_cache" where
  "JWKS_refresh V answer c =
     (case answer of
        None \<Rightarrow> (False, c)
      | Some (status, body) \<Rightarrow>
          if status \<noteq> 200 then (False, c)
          else case v_jwk_parse V (take maxJWKSBodyBytes body) of
                 None \<Rightarrow> (False, c)
               | Some keys \<Rightarrow>
                   (True, \<lparr>kc_keySet = Some (map normalize_use keys),
                           kc_kids = List.map_filter jk_KeyID keys\<rparr>))"

definition empty_cache :: key_cache where
  "empty_cache = \<lparr>kc_keySet = None, kc_kids = []\<rparr>"

definition NewJWKSClient :: "ver_env \<Rightarrow> string \<Rightarrow> http_answer \<Rightarrow> key_cache option" where
  "NewJWKSClient V jwksURL answer =
     (if jwksURL = [] then None else Some (snd (JWKS_refresh V answer empty_cache)))"

definition NewVerifier :: "ver_env \<Rightarrow> verifier_config \<Rightarrow> http_answer \<Rightarrow> key_cache option" where
  "NewVerifier V cfg answer =
     (if vf_JWKSURL cfg = [] then None else NewJWKSClient V (vf_JWKSURL cfg) answer)"

definition HasKID :: "string \<Rightarrow> key_cache \<Rightarrow> bool" where
  "HasKID kid c \<longleftrightarrow> kid \<in> set (kc_kids c)"

definition populated :: "key_cache \<Rightarrow> bool" where
  "populated c = (case kc_keySet c of None \<Rightarrow> False | Some ks \<Rightarrow> ks \<noteq> [])"

text \<open>As a caller sees it who is alone; callers at the same time are modelled below.\<close>

definition EnsureLoaded :: "ver_env \<Rightarrow> http_answer \<Rightarrow> key_cache \<Rightarrow> bool \<times> key_cache" where
  "EnsureLoaded V answer c = (if populated c then (True, c) else JWKS_refresh V answer c)"

definition RefreshIfMissing :: "ver_env \<Rightarrow> string \<Rightarrow> http_answer \<Rightarrow> key_cache \<Rightarrow> bool \<times> key_cache" where
  "RefreshIfMissing V kid answer c = (if HasKID kid c then (False, c) else JWKS_refresh V answer c)"

subsection \<open>Claims\<close>

record actor_claims =
  act_Subject :: string
  act_Issuer :: string

record ver_claims =
  vc_Issuer :: string
  vc_Subject :: string
  vc_Audience :: "string list"
  vc_IssuedAt :: time
  vc_ExpiresAt :: time
  vc_JWTID :: string
  vc_AccountID :: string
  vc_ProjectID :: string
  vc_UserID :: string
  vc_OwnerUserID :: string
  vc_ExternalID :: string
  vc_IdentityType :: string
  vc_SubType :: string
  vc_TrustLevel :: string
  vc_Status :: string
  vc_Name :: string
  vc_Framework :: string
  vc_Version :: string
  vc_Publisher :: string
  vc_Capabilities :: "string list"
  vc_GrantType :: string
  vc_Scopes :: "string list"
  vc_DelegationDepth :: int
  vc_MissionID :: string
  vc_ActorClaims :: "actor_claims option"
  vc_Custom :: claims

text \<open>Anything but an object fails the decoding or leaves the subject empty.\<close>

fun parseActorClaims :: "cval \<Rightarrow> actor_claims option" where
  "parseActorClaims (CObj kv) =
     Some \<lparr>act_Subject = (case map_of kv ''sub'' of None \<Rightarrow> [] | Some v \<Rightarrow> v),
           act_Issuer = (case map_of kv ''iss'' of None \<Rightarrow> [] | Some v \<Rightarrow> v)\<rparr>"
| "parseActorClaims _ = None"

definition knownKeys :: "string list" where
  "knownKeys = [''iss'', ''sub'', ''aud'', ''iat'', ''exp'', ''nbf'', ''jti'', ''account_id'', ''project_id'',
     ''user_id'', ''owner_user_id'', ''external_id'', ''identity_type'', ''sub_type'', ''trust_level'',
     ''status'', ''name'', ''framework'', ''version'', ''publisher'', ''capabilities'', ''grant_type'', ''scopes'',
     ''delegation_depth'', ''act'', ''mission_id'']"

text \<open>A nil map of custom claims reads like an empty one.\<close>

definition extractClaims :: "claims \<Rightarrow> ver_claims" where
  "extractClaims token =
     \<lparr>vc_Issuer = claim_str token ''iss'', vc_Subject = claim_str token ''sub'',
      vc_Audience = claim_strings token ''aud'', vc_IssuedAt = claim_time token ''iat'',
      vc_ExpiresAt = claim_time token ''exp'', vc_JWTID = claim_str token ''jti'',
      vc_AccountID = claim_str token ''account_id'', vc_ProjectID = claim_str token ''project_id'',
      vc_UserID = claim_str token ''user_id'', vc_OwnerUserID = claim_str token ''owner_user_id'',
      vc_ExternalID = claim_str token ''external_id'', vc_IdentityType = claim_str token ''identity_type'',
      vc_SubType = claim_str token ''sub_type'', vc_TrustLevel = claim_str token ''trust_level'',
      vc_Status = claim_str token ''status'', vc_Name = claim_str token ''name'',
      vc_Framework = claim_str token ''framework'', vc_Version = claim_str token ''version'',
      vc_Publisher = claim_str token ''publisher'', vc_Capabilities = claim_strings token ''capabilities'',
      vc_GrantType = claim_str token ''grant_type'', vc_Scopes = claim_strings token ''scopes'',
      vc_DelegationDepth = claim_int token ''delegation_depth'', vc_MissionID = claim_str token ''mission_id'',
      vc_ActorClaims = (case token ''act'' of None \<Rightarrow> None | Some v \<Rightarrow> parseActorClaims v),
      vc_Custom = (\<lambda>k. if k \<in> set knownKeys then None else token k)\<rparr>"

definition GetCustomString :: "ver_claims \<Rightarrow> string \<Rightarrow> string" where
  "GetCustomString c key = (case vc_Custom c key of Some (CStr s) \<Rightarrow> s | _ \<Rightarrow> [])"

definition GetCustom :: "ver_claims \<Rightarrow> string \<Rightarrow> cval option" where
  "GetCustom c key = vc_Custom c key"

definition HasScope :: "ver_claims \<Rightarrow> string \<Rightarrow> bool" where
  "HasScope c scope \<longleftrightarrow> scope \<in> set (vc_Scopes c)"

definition RequireScope :: "ver_claims \<Rightarrow> string \<Rightarrow> verify_error option" where
  "RequireScope c scope = (if HasScope c scope then None else Some VErrInsufficientScope)"

record agent_identity =
  aid_Sub :: string
  aid_ExternalID :: string
  aid_IdentityType :: string
  aid_SubType :: string
  aid_TrustLevel :: string
  aid_Name :: string
  aid_Framework :: string
  aid_Publisher :: string
  aid_Capabilities :: "string list"
  aid_Scopes :: "string list"
  aid_DelegationDepth :: int
  aid_DelegatedBy :: string
  aid_Owner :: string

definition Agent :: "ver_claims \<Rightarrow> agent_identity option" where
  "Agent c =
     (if vc_ExternalID c = [] then None
      else Some \<lparr>aid_Sub = vc_Subject c, aid_ExternalID = vc_ExternalID c, aid_IdentityType = vc_IdentityType c,
        aid_SubType = vc_SubType c, aid_TrustLevel = vc_TrustLevel c, aid_Name = vc_Name c,
        aid_Framework = vc_Framework c, aid_Publisher = vc_Publisher c, aid_Capabilities = vc_Capabilities c,
        aid_Scopes = vc_Scopes c, aid_DelegationDepth = vc_DelegationDepth c,
        aid_DelegatedBy = (case vc_ActorClaims c of None \<Rightarrow> [] | Some a \<Rightarrow> act_Subject a),
        aid_Owner = vc_OwnerUserID c\<rparr>)"

subsection \<open>Verification\<close>

definition validateAlg :: "ver_env \<Rightarrow> string \<Rightarrow> bool" where
  "validateAlg V tokenStr =
     (case cut_at CHR ''.'' tokenStr of
        None \<Rightarrow> False
      | Some (header, _) \<Rightarrow>
          (if header = [] then False
           else case v_header_alg V header of
                  None \<Rightarrow> False | Some alg \<Rightarrow> alg \<noteq> [] \<and> alg \<in> set jwt_svid_algs))"

definition checkAlgorithm :: "ver_env \<Rightarrow> string \<Rightarrow> verify_error option" where
  "checkAlgorithm V tokenString =
     (case v_jws_headers V tokenString of
        None \<Rightarrow> Some VErrInvalidToken
      | Some [] \<Rightarrow> Some VErrInvalidToken
      | Some ((alg, _) # _) \<Rightarrow>
          (case alg of
             None \<Rightarrow> Some VErrInvalidToken
           | Some a \<Rightarrow> if a \<in> {''RS256'', ''ES256''} then None else Some VErrUnsupportedAlg))"

definition extractKID :: "ver_env \<Rightarrow> string \<Rightarrow> string" where
  "extractKID V tokenString =
     (case v_jws_headers V tokenString of
        None \<Rightarrow> [] | Some [] \<Rightarrow> []
      | Some ((_, kid) # _) \<Rightarrow> (case kid of None \<Rightarrow> [] | Some k \<Rightarrow> k))"

fun jwt_error_of :: "jwt_error \<Rightarrow> verify_error" where
  "jwt_error_of TokenExpiredError = VErrExpiredToken"
| "jwt_error_of InvalidIssuerError = VErrInvalidIssuer"
| "jwt_error_of InvalidAudienceError = VErrInvalidAudience"
| "jwt_error_of OtherJWTError = VErrInvalidToken"

text \<open>The part of \<open>verify\<close> after the key set is at hand.\<close>

definition verify_with ::
  "ver_env \<Rightarrow> verifier_config \<Rightarrow> time \<Rightarrow> string \<Rightarrow> pub_jwk list \<Rightarrow> verify_error + ver_claims" where
  "verify_with V cfg now tokenString keySet =
     (if \<not> validateAlg V tokenString then Inl VErrInvalidToken
      else case v_jwt_parse V keySet (vf_Issuer cfg) (vf_Audience cfg) now tokenString of
        Inl e \<Rightarrow> Inl (jwt_error_of e)
      | Inr token \<Rightarrow>
          (case checkAlgorithm V tokenString of Some e \<Rightarrow> Inl e | None \<Rightarrow> Inr (extractClaims token)))"

definition verify ::
  "ver_env \<Rightarrow> verifier_config \<Rightarrow> http_answer \<Rightarrow> time \<Rightarrow> string \<Rightarrow> key_cache \<Rightarrow>
   (verify_error + ver_claims) \<times> key_cache" where
  "verify V cfg answer now tokenString c =
     (case (if populated c then (True, c) else EnsureLoaded V answer c) of
        (False, c1) \<Rightarrow> (Inl VErrNoKeySet, c1)
      | (True, c1) \<Rightarrow>
          (case kc_keySet c1 of
             None \<Rightarrow> (Inl VErrNoKeySet, c1)
           | Some keySet \<Rightarrow>
               if keySet = [] then (Inl VErrNoKeySet, c1)
               else (verify_with V cfg now tokenString keySet, c1)))"

text \<open>
  The three places where a request may go out have their own answers and the two parses
  their own clocks.
\<close>

record attempt_inputs =
  va_load :: http_answer
  va_now :: time
  va_refresh :: http_answer
  va_reload :: http_answer
  va_later :: time

definition Verify ::
  "ver_env \<Rightarrow> verifier_config \<Rightarrow> attempt_inputs \<Rightarrow> string \<Rightarrow> key_cache \<Rightarrow>
   (verify_error + ver_claims) \<times> key_cache" where
  "Verify V cfg w tokenString c =
     (if tokenString = [] then (Inl VErrNoToken, c)
      else case verify V cfg (va_load w) (va_now w) tokenString c of
        (Inr claims, c1) \<Rightarrow> (Inr claims, c1)
      | (Inl e, c1) \<Rightarrow>
          (let kid = extractKID V tokenString in
           if kid = [] then (Inl e, c1)
           else case RefreshIfMissing V kid (va_refresh w) c1 of
                  (False, c2) \<Rightarrow> (Inl e, c2)
                | (True, c2) \<Rightarrow> verify V cfg (va_reload w) (va_later w) tokenString c2))"

definition introspect :: "ver_env \<Rightarrow> http_answer \<Rightarrow> bool option" where
  "introspect V answer =
     (case answer of
        None \<Rightarrow> None
      | Some (status, body) \<Rightarrow> if status \<noteq> 200 then None else v_json_active V body)"

definition VerifyRealTime ::
  "ver_env \<Rightarrow> verifier_config \<Rightarrow> attempt_inputs \<Rightarrow> http_answer \<Rightarrow> string \<Rightarrow> key_cache \<Rightarrow>
   (verify_error + ver_claims) \<times> key_cache" where
  "VerifyRealTime V cfg w answer tokenString c =
     (case Verify V cfg w tokenString c of
        (Inl e, c1) \<Rightarrow> (Inl e, c1)
      | (Inr claims, c1) \<Rightarrow>
          if vf_IntrospectURL cfg = [] then (Inr claims, c1)
          else case introspect V answer of
                 None \<Rightarrow> (Inl VErrIntrospectFailed, c1)
               | Some active \<Rightarrow> if active then (Inr claims, c1) else (Inl VErrTokenRevoked, c1))"

subsection \<open>The middleware\<close>

record middleware_config =
  mw_AllowUnauthenticated :: bool
  mw_ExemptPaths :: "string list"

text \<open>What happens to a request: the next handler with the claims in its context, or a refusal.\<close>

datatype gate = Next "ver_claims option" | Refuse nat string

definition extractBearerToken :: "string \<Rightarrow> string" where
  "extractBearerToken auth =
     (if auth = [] then []
      else case split_n 2 (CHR '' '') auth of
             [scheme, rest] \<Rightarrow> if EqualFold scheme ''Bearer'' then TrimSpace rest else []
           | _ \<Rightarrow> [])"

fun refusal :: "verify_error \<Rightarrow> gate" where
  "refusal VErrExpiredToken = Refuse 401 ''token expired''"
| "refusal VErrInvalidIssuer = Refuse 401 ''invalid issuer''"
| "refusal VErrInvalidAudience = Refuse 401 ''invalid audience''"
| "refusal VErrUnsupportedAlg = Refuse 401 ''unsupported signing algorithm''"
| "refusal VErrTokenRevoked = Refuse 401 ''token revoked''"
| "refusal VErrInsufficientScope = Refuse 403 ''insufficient scope''"
| "refusal _ = Refuse 401 ''invalid token''"

definition Middleware ::
  "ver_env \<Rightarrow> verifier_config \<Rightarrow> middleware_config \<Rightarrow> attempt_inputs \<Rightarrow> string \<Rightarrow> string \<Rightarrow> key_cache \<Rightarrow>
   gate \<times> key_cache" where
  "Middleware V cfg mw w path auth c =
     (if list_ex (\<lambda>prefix. has_prefix prefix path) (mw_ExemptPaths mw) then (Next None, c)
      else (let tokenString = extractBearerToken auth in
        if tokenString = []
        then (if mw_AllowUnauthenticated mw then (Next None, c)
              else (Refuse 401 ''missing authorization header'', c))
        else case Verify V cfg w tokenString c of
               (Inl e, c1) \<Rightarrow> (refusal e, c1)
             | (Inr claims, c1) \<Rightarrow> (Next (Some claims), c1)))"

subsection \<open>What a verified token is\<close>

text \<open>
  \<open>token_accepted V cfg now tok keys claims\<close>: the contract of an accepted token, independent of caches and
  retries.
\<close>

definition token_accepted :: "ver_env \<Rightarrow> verifier_config \<Rightarrow> time \<Rightarrow> string \<Rightarrow> pub_jwk list \<Rightarrow> ver_claims \<Rightarrow> bool" where
  "token_accepted V cfg now tok keys claims \<longleftrightarrow> keys \<noteq> [] \<and>
     (\<exists>header rest alg. cut_at CHR ''.'' tok = Some (header, rest) \<and> header \<noteq> [] \<and>
        v_header_alg V header = Some alg \<and> alg \<in> set jwt_svid_algs) \<and>
     (\<exists>alg kid hs. v_jws_headers V tok = Some ((Some alg, kid) # hs) \<and> alg \<in> {''RS256'', ''ES256''}) \<and>
     (\<exists>token. v_jwt_parse V keys (vf_Issuer cfg) (vf_Audience cfg) now tok = Inr token \<and> claims = extractClaims token)"

lemma checkAlgorithm_None:
  "checkAlgorithm V tok = None \<longleftrightarrow>
     (\<exists>alg kid hs. v_jws_headers V tok = Some ((Some alg, kid) # hs) \<and> alg \<in> {''RS256'', ''ES256''})"
  by (auto simp: checkAlgorithm_def split: option.split list.split)

lemma validateAlg_iff:
  "validateAlg V tok \<longleftrightarrow> (\<exists>header rest alg. cut_at CHR ''.'' tok = Some (header, rest) \<and> header \<noteq> [] \<and>
     v_header_alg V header = Some alg \<and> alg \<in> set jwt_svid_algs)"
  by (auto simp: validateAlg_def jwt_svid_algs_def split: option.split)

lemma verify_with_Inr:
  assumes "keys \<noteq> []"
  shows "verify_with V cfg now tok keys = Inr claims \<longleftrightarrow> token_accepted V cfg now tok keys claims"
proof -
  have "verify_with V cfg now tok keys = Inr claims \<longleftrightarrow> validateAlg V tok \<and> checkAlgorithm V tok = None \<and>
      (\<exists>token. v_jwt_parse V keys (vf_Issuer cfg) (vf_Audience cfg) now tok = Inr token \<and> claims = extractClaims token)"
    by (auto simp: verify_with_def split: sum.split option.split)
  with assms show ?thesis unfolding token_accepted_def validateAlg_iff checkAlgorithm_None by simp
qed

text \<open>The key sets a cache can hold after answers: its own, or one parsed from an answer.\<close>

definition served :: "ver_env \<Rightarrow> http_answer \<Rightarrow> pub_jwk list \<Rightarrow> bool" where
  "served V answer keys \<longleftrightarrow> (\<exists>body set. answer = Some (200, body) \<and>
     v_jwk_parse V (take maxJWKSBodyBytes body) = Some set \<and> keys = map normalize_use set)"

lemma refresh_cases:
  obtains (kept) "JWKS_refresh V answer c = (False, c)" "\<not> (\<exists>keys. served V answer keys)"
  | (replaced) keys where "served V answer keys" "fst (JWKS_refresh V answer c)"
      "kc_keySet (snd (JWKS_refresh V answer c)) = Some keys"
      "kc_kids (snd (JWKS_refresh V answer c)) = List.map_filter jk_KeyID keys"
proof -
  have "jk_KeyID (normalize_use k) = jk_KeyID k" for k
    by (simp add: normalize_use_def split: option.split)
  then have kids: "List.map_filter jk_KeyID (map normalize_use ks) = List.map_filter jk_KeyID ks" for ks
    by (induction ks) (simp_all add: List.map_filter_simps split: option.split)
  show thesis
  proof (cases "\<exists>keys. served V answer keys")
    case True
    then obtain body ks where "answer = Some (200, body)" "v_jwk_parse V (take maxJWKSBodyBytes body) = Some ks"
      by (auto simp: served_def)
    then show thesis by (intro replaced [of "map normalize_use ks"]) (auto simp: served_def JWKS_refresh_def kids)
  next
    case False
    then have "JWKS_refresh V answer c = (False, c)"
      by (auto simp: served_def JWKS_refresh_def split: option.split)
    with False show thesis by (rule kept [rotated])
  qed
qed

lemma verify_Inr:
  assumes "verify V cfg answer now tok c = (Inr claims, c')"
  shows "\<exists>keys. kc_keySet c' = Some keys \<and> token_accepted V cfg now tok keys claims \<and>
    (c' = c \<or> served V answer keys)"
proof -
  have "\<exists>keys. kc_keySet c' = Some keys \<and> keys \<noteq> [] \<and> verify_with V cfg now tok keys = Inr claims \<and>
      (c' = c \<or> \<not> populated c \<and> c' = snd (JWKS_refresh V answer c) \<and> fst (JWKS_refresh V answer c))"
    using assms by (auto simp: verify_def EnsureLoaded_def split: prod.splits bool.splits option.splits if_splits)
  then show ?thesis
    using verify_with_Inr refresh_cases [of V answer c] by (metis fst_conv option.inject)
qed

lemma Verify_accepted:
  assumes "Verify V cfg w tok c = (Inr claims, c')"
  shows "\<exists>keys now. now \<in> {va_now w, va_later w} \<and> kc_keySet c' = Some keys \<and> token_accepted V cfg now tok keys claims \<and>
    (kc_keySet c = Some keys \<or> served V (va_load w) keys \<or> served V (va_refresh w) keys \<or> served V (va_reload w) keys)"
proof (cases "verify V cfg (va_load w) (va_now w) tok c")
  case (Pair r c1)
  show ?thesis
  proof (cases r)
    case (Inr cl)
    then have "verify V cfg (va_load w) (va_now w) tok c = (Inr claims, c')"
      using assms Pair by (auto simp: Verify_def split: if_splits)
    from verify_Inr [OF this] show ?thesis by auto
  next
    case (Inl e)
    then obtain c2 where r: "RefreshIfMissing V (extractKID V tok) (va_refresh w) c1 = (True, c2)"
      and v: "verify V cfg (va_reload w) (va_later w) tok c2 = (Inr claims, c')"
      using assms Pair by (auto simp: Verify_def Let_def split: if_splits prod.splits bool.splits)
    from r have "\<exists>keys. kc_keySet c2 = Some keys \<and> served V (va_refresh w) keys"
      by (cases rule: refresh_cases [of V "va_refresh w" c1])
         (auto simp: RefreshIfMissing_def split: if_splits)
    with verify_Inr [OF v] show ?thesis by auto
  qed
qed

text \<open>
  C12. What the middleware lets through: on a path that is not exempt and without the opt-out for
  anonymous requests, the next handler runs only with claims in its context, and these are the
  claims of the bearer token of the request, whose signature one key set validates for the
  configured issuer and audience at a time of the call, with an algorithm of the allow-lists. A key set
  that the cache did not hold before came from the key endpoint in this very call.
\<close>

theorem Middleware_safe:
  assumes "Middleware V cfg mw w path auth c = (Next ctx, c')"
    and "\<not> mw_AllowUnauthenticated mw" "\<not> list_ex (\<lambda>prefix. has_prefix prefix path) (mw_ExemptPaths mw)"
  shows "\<exists>claims keys now. ctx = Some claims \<and> now \<in> {va_now w, va_later w} \<and>
    token_accepted V cfg now (extractBearerToken auth) keys claims \<and>
    (kc_keySet c = Some keys \<or> served V (va_load w) keys \<or> served V (va_refresh w) keys \<or> served V (va_reload w) keys)"
proof -
  have "refusal e \<noteq> Next x" for e x by (cases e) simp_all
  with assms obtain claims where "ctx = Some claims" and v: "Verify V cfg w (extractBearerToken auth) c = (Inr claims, c')"
    by (auto simp: Middleware_def Let_def split: if_splits prod.splits sum.splits)
  with Verify_accepted [OF v] show ?thesis by blast
qed

definition sample_ver :: ver_env where
  "sample_ver = \<lparr>v_jwk_parse = (\<lambda>b. Some [\<lparr>jk_KeyID = Some b, jk_KeyUsage = Some ''jwt-svid'', jk_Material = b\<rparr>]),
     v_jwt_parse = (\<lambda>ks i a t x. if list_ex (\<lambda>k. jk_Material k = ''new'') ks then Inr [''sub'' \<mapsto> CStr ''bot''] else Inl OtherJWTError),
     v_jws_headers = (\<lambda>x. Some [(Some ''ES256'', Some ''new'')]), v_header_alg = (\<lambda>h. Some ''ES256''),
     v_json_active = (\<lambda>b. Some (b = ''active''))\<rparr>"

definition verifier_cfg :: verifier_config where
  "verifier_cfg = \<lparr>vf_JWKSURL = ''u'', vf_Issuer = ''iss'', vf_Audience = [], vf_IntrospectURL = ''i''\<rparr>"

definition sample_attempt :: attempt_inputs where
  "sample_attempt = \<lparr>va_load = None, va_now = 1, va_refresh = Some (200, ''new''), va_reload = None, va_later = 2\<rparr>"

definition old_cache :: key_cache where
  "old_cache = \<lparr>kc_keySet = Some [\<lparr>jk_KeyID = Some ''old'', jk_KeyUsage = Some ''sig'', jk_Material = ''old''\<rparr>], kc_kids = [''old'']\<rparr>"

lemma sample_verifies:
  "\<exists>c'. Verify sample_ver verifier_cfg sample_attempt ''h.p'' old_cache = (Inr (extractClaims [''sub'' \<mapsto> CStr ''bot'']), c')"
proof -
  have alg: "validateAlg sample_ver ''h.p''" by (simp add: validateAlg_def sample_ver_def jwt_svid_algs_def)
  have v1: "verify sample_ver verifier_cfg None 1 ''h.p'' old_cache = (Inl VErrInvalidToken, old_cache)"
    by (simp add: verify_def populated_def old_cache_def verify_with_def alg) (simp add: sample_ver_def)
  let ?c = "snd (JWKS_refresh sample_ver (Some (200, ''new'')) old_cache)"
  have ref: "RefreshIfMissing sample_ver ''new'' (Some (200, ''new'')) old_cache = (True, ?c)"
    by (simp add: RefreshIfMissing_def HasKID_def old_cache_def JWKS_refresh_def sample_ver_def)
  have ks: "\<exists>k. kc_keySet ?c = Some [k] \<and> jk_Material k = ''new''"
    by (simp add: JWKS_refresh_def sample_ver_def normalize_use_def)
  have chk: "checkAlgorithm sample_ver ''h.p'' = None" by (simp add: checkAlgorithm_def sample_ver_def)
  have parse: "v_jwt_parse sample_ver [k] i a t x = Inr [''sub'' \<mapsto> CStr ''bot'']" if "jk_Material k = ''new''" for k i a t x
    using that by (simp add: sample_ver_def)
  have v2: "verify sample_ver verifier_cfg None 2 ''h.p'' ?c = (Inr (extractClaims [''sub'' \<mapsto> CStr ''bot'']), ?c)"
    using ks by (auto simp: verify_def populated_def verify_with_def alg chk parse)
  have "extractKID sample_ver ''h.p'' = ''new''" by (simp add: extractKID_def sample_ver_def)
  then show ?thesis by (simp add: Verify_def sample_attempt_def v1 ref v2)
qed

theorem Middleware_safe_witness:
  "\<exists>c' claims keys now. Middleware sample_ver verifier_cfg \<lparr>mw_AllowUnauthenticated = False, mw_ExemptPaths = [''/health'']\<rparr> sample_attempt
      ''/api'' ''bearer h.p'' old_cache = (Next (Some claims), c') \<and>
     token_accepted sample_ver verifier_cfg now ''h.p'' keys claims"
proof -
  have b: "extractBearerToken ''bearer h.p'' = ''h.p''"
    by code_simp
  obtain c' where "Verify sample_ver verifier_cfg sample_attempt ''h.p'' old_cache = (Inr (extractClaims [''sub'' \<mapsto> CStr ''bot'']), c')"
    using sample_verifies by blast
  then have run: "Middleware sample_ver verifier_cfg \<lparr>mw_AllowUnauthenticated = False, mw_ExemptPaths = [''/health'']\<rparr> sample_attempt
      ''/api'' ''bearer h.p'' old_cache = (Next (Some (extractClaims [''sub'' \<mapsto> CStr ''bot''])), c')"
    by (simp add: Middleware_def b has_prefix_def)
  from Middleware_safe [OF this] run b show ?thesis by (auto simp: has_prefix_def)
qed

text \<open>
  C32. Key rotation heals itself: when the key endpoint serves a set under which a token is valid, the
  first call that meets the token succeeds, both with an empty cache and with a cache that does
  not know the key of the token.
\<close>

theorem Verify_recovers:
  assumes "tok \<noteq> []" "token_accepted V cfg (va_now w) tok keys claims" "token_accepted V cfg (va_later w) tok keys claims"
    and "served V (va_load w) keys" "served V (va_refresh w) keys"
    and "populated c \<longrightarrow> extractKID V tok \<noteq> [] \<and> \<not> HasKID (extractKID V tok) c"
  shows "\<exists>claims' c'. Verify V cfg w tok c = (Inr claims', c')"
proof (cases "populated c")
  case False
  have load: "fst (JWKS_refresh V (va_load w) c)" "kc_keySet (snd (JWKS_refresh V (va_load w) c)) = Some keys"
    using assms(4) by (auto simp: served_def JWKS_refresh_def)
  have k: "keys \<noteq> []" using assms(2) by (simp add: token_accepted_def)
  have "verify V cfg (va_load w) (va_now w) tok c = (Inr claims, snd (JWKS_refresh V (va_load w) c))"
    using False load k verify_with_Inr [OF k] assms(2)
    by (auto simp: verify_def EnsureLoaded_def split: prod.split bool.split)
  then show ?thesis using assms(1) by (simp add: Verify_def)
next
  case True
  have k: "keys \<noteq> []" using assms(2) by (simp add: token_accepted_def)
  have same: "snd (verify V cfg (va_load w) (va_now w) tok c) = c"
    using True by (simp add: verify_def split: option.split)
  show ?thesis
  proof (cases "fst (verify V cfg (va_load w) (va_now w) tok c)")
    case (Inr cl)
    then show ?thesis using assms(1) same by (cases "verify V cfg (va_load w) (va_now w) tok c") (simp add: Verify_def)
  next
    case (Inl e)
    let ?c = "snd (JWKS_refresh V (va_refresh w) c)"
    have ref: "RefreshIfMissing V (extractKID V tok) (va_refresh w) c = (True, ?c)" "kc_keySet ?c = Some keys"
      using assms(5,6) True by (auto simp: RefreshIfMissing_def served_def JWKS_refresh_def)
    have "verify V cfg (va_reload w) (va_later w) tok ?c = (Inr claims, ?c)"
      using ref(2) k verify_with_Inr [OF k] assms(3) by (simp add: verify_def populated_def)
    moreover have "verify V cfg (va_load w) (va_now w) tok c = (Inl e, c)"
      using Inl same by (metis prod.collapse)
    ultimately show ?thesis using assms(1,6) True ref(1) by (simp add: Verify_def)
  qed
qed

theorem Verify_recovers_witness:
  "\<exists>claims' c'. Verify sample_ver verifier_cfg (sample_attempt\<lparr>va_load := Some (200, ''new'')\<rparr>) ''h.p'' old_cache = (Inr claims', c')"
proof -
  let ?keys = "map normalize_use [\<lparr>jk_KeyID = Some ''new'', jk_KeyUsage = Some ''jwt-svid'', jk_Material = ''new''\<rparr>]"
  have "token_accepted sample_ver verifier_cfg t ''h.p'' ?keys (extractClaims [''sub'' \<mapsto> CStr ''bot''])" for t
    by (simp add: token_accepted_def sample_ver_def jwt_svid_algs_def normalize_use_def)
  moreover have "served sample_ver (Some (200, ''new'')) ?keys" by (simp add: served_def sample_ver_def)
  moreover have "extractKID sample_ver ''h.p'' = ''new''" "\<not> HasKID ''new'' old_cache"
    by (simp_all add: extractKID_def sample_ver_def HasKID_def old_cache_def)
  ultimately show ?thesis
    by (intro Verify_recovers [where keys = ?keys]) (simp_all add: sample_attempt_def)
qed

text \<open>A token whose key is known causes no request.\<close>

lemma Verify_known_kid:
  "populated c \<Longrightarrow> HasKID (extractKID V tok) c \<Longrightarrow> snd (Verify V cfg w tok c) = c"
  by (auto simp: Verify_def Let_def verify_def RefreshIfMissing_def split: option.split sum.split prod.split)

subsection \<open>Real-time verification against the service\<close>

text \<open>
  C30. When the introspection endpoint is configured and its answer is the service's, real-time
  verification returns claims only if the service's own credential table holds an active credential
  for the token at the time of the question.
\<close>

theorem VerifyRealTime_live:
  assumes "VerifyRealTime V cfg w answer tok c = (Inr claims, c')" "vf_IntrospectURL cfg \<noteq> []"
    and "introspect V answer = Some (introspectOp E t tok s \<noteq> InactiveToken)"
  shows "\<exists>cl cred. parseToken E t tok True = Some cl \<and> cred \<in> set (issued_credentials s) \<and>
    c_JTI cred = claim_str cl ''jti'' \<and> \<not> c_IsRevoked cred \<and> t \<le> c_ExpiresAt cred"
proof -
  from assms have "Introspect E t tok s \<noteq> InactiveToken"
    by (auto simp: VerifyRealTime_def introspectOp_def split: prod.splits sum.splits if_splits option.splits)
  then obtain cl cred where "parseToken E t tok True = Some cl" "IntrospectToken t (claim_str cl ''jti'') s = (Some cred, True)"
    by (auto simp: Introspect_def Let_def split: option.splits if_splits prod.splits bool.splits)
  moreover from this have "cred \<in> set (issued_credentials s)" "c_JTI cred = claim_str cl ''jti''" "\<not> c_IsRevoked cred" "t \<le> c_ExpiresAt cred"
    by (auto simp: IntrospectToken_def Credential_GetByJTI_def not_less split: option.splits if_splits dest: find_SomeD)
  ultimately show ?thesis by blast
qed

theorem VerifyRealTime_live_witness:
  "\<exists>claims c' cred. VerifyRealTime sample_ver verifier_cfg sample_attempt (Some (200, ''active'')) ''h.p'' old_cache = (Inr claims, c') \<and>
     cred \<in> set sample_tree \<and> c_JTI cred = ''leaf'' \<and> \<not> c_IsRevoked cred \<and> 20 \<le> c_ExpiresAt cred"
proof -
  let ?s = "empty_db\<lparr>issued_credentials := sample_tree\<rparr>"
  obtain c' where "Verify sample_ver verifier_cfg sample_attempt ''h.p'' old_cache = (Inr (extractClaims [''sub'' \<mapsto> CStr ''bot'']), c')"
    using sample_verifies by blast
  moreover have ans: "introspect sample_ver (Some (200, ''active'')) = Some True" by (simp add: introspect_def sample_ver_def)
  moreover have url: "vf_IntrospectURL verifier_cfg \<noteq> []" by (simp add: verifier_cfg_def)
  ultimately have run: "VerifyRealTime sample_ver verifier_cfg sample_attempt (Some (200, ''active'')) ''h.p'' old_cache =
      (Inr (extractClaims [''sub'' \<mapsto> CStr ''bot'']), c')"
    by (simp add: VerifyRealTime_def)
  have tok: "parseToken tree_env 20 ''h.p'' True = Some [''jti'' \<mapsto> CStr ''leaf'']"
    by (simp add: parseToken_def jwtalg_Validate_def tree_env_def sample_env_def jwt_svid_algs_def)
  have "introspectOp tree_env 20 ''h.p'' ?s \<noteq> InactiveToken"
    by (simp add: Let_def introspectOp_def Introspect_def tok claim_str_def IntrospectToken_def Credential_GetByJTI_def sample_tree_def
        zero_credential_def)
  with ans have "introspect sample_ver (Some (200, ''active'')) = Some (introspectOp tree_env 20 ''h.p'' ?s \<noteq> InactiveToken)" by simp
  from VerifyRealTime_live [OF run url this] tok run show ?thesis by (auto simp: claim_str_def)
qed

subsection \<open>From the issuer to the verifier\<close>

text \<open>
  What signing and parsing keep of a claim set: times come back in whole seconds and raw JSON comes back
  decoded; every other claim comes back as it was.
\<close>

definition claims_carried :: "claims \<Rightarrow> claims \<Rightarrow> bool" where
  "claims_carried cl cl' \<longleftrightarrow> (\<forall>k. (case cl k of Some (CTime _) \<Rightarrow> True | Some (CRaw _) \<Rightarrow> True | v \<Rightarrow> cl' k = v))"

lemma carried_str: "claims_carried cl cl' \<Longrightarrow> cl k = Some (CStr v) \<Longrightarrow> claim_str cl' k = v"
  unfolding claims_carried_def claim_str_def by (drule spec [of _ k]) simp

lemma carried_same:
  "claims_carried cl cl' \<Longrightarrow> \<nexists>t. cl k = Some (CTime t) \<Longrightarrow> \<nexists>r. cl k = Some (CRaw r) \<Longrightarrow> cl' k = cl k"
  unfolding claims_carried_def by (drule spec [of _ k]) (auto split: option.splits cval.splits)

lemma issue_claims_plain:
  assumes "iq_CustomClaims req = []" "k \<noteq> ''act''" "k \<noteq> ''cnf''"
  shows "issue_claims E w req i g t k = server_claims E w req i g t k"
  using assms by (simp add: issue_claims_def Let_def set_if_def)

lemma set_if_apply: "set_if b k v c k' = (if b \<and> k' = k then Some v else c k')"
  by (simp add: set_if_def)

lemmas server_lookup = server_claims_def Let_def set_if_apply


definition signed_claims :: claims where
  "signed_claims = issue_claims sample_env sample_inputs sample_issue sample_identity GrantTypeAPIKey (2 + 600 * second)"

definition signing_env :: env where
  "signing_env = sample_env\<lparr>sign_jwt := (\<lambda>alg cl. if cl = signed_claims then Some ''h.p'' else None)\<rparr>"

definition reading_ver :: ver_env where
  "reading_ver = sample_ver\<lparr>v_jwt_parse := (\<lambda>ks i a t x. Inr signed_claims)\<rparr>"

lemma signing_issued:
  "IssueCredential signing_env sample_inputs sample_issue policy_db =
     (Inr (issued_token sample_inputs sample_issue 600 ''h.p'', sample_row), policy_db\<lparr>issued_credentials := [sample_row]\<rparr>)"
proof -
  have f: "defaultTTL signing_env = defaultTTL sample_env" "maxTTL signing_env = maxTTL sample_env"
    by (simp_all add: signing_env_def)
  have "issue_ttl signing_env w q i = issue_ttl sample_env w q i" for w q i
    unfolding issue_ttl_def clamp_ttl_def base_ttl_def f ..
  then have auth: "authorised signing_env sample_inputs sample_issue sample_identity 600 policy_db"
    using sample_authorised by (simp add: authorised_def)
  have "issue_claims signing_env w q i g t = issue_claims sample_env w q i g t" for w q i g t
    by (simp add: issue_claims_def server_claims_def signing_env_def)
  then have "sign_jwt signing_env b (issue_claims signing_env sample_inputs sample_issue sample_identity GrantTypeAPIKey (2 + 600 * second)) =
      Some ''h.p''" for b
    by (simp add: signing_env_def signed_claims_def)
  then show ?thesis
    unfolding IssueCredential_Inr sample_row_def
    by (intro exI [of _ sample_identity] exI [of _ 600] exI [of _ "''h.p''"])
       (simp add: auth dur_seconds_exact sample_fields)
qed

definition reading_key :: pub_jwk where
  "reading_key = \<lparr>jk_KeyID = Some ''new'', jk_KeyUsage = Some ''sig'', jk_Material = ''new''\<rparr>"


end
