(* ===== verification/Zeroid_Loading.thy ===== *)
theory Zeroid_Loading
  imports Zeroid_Verifier
begin

text \<open>
  The lazy first load of the key set (\<open>EnsureLoaded\<close> in \<open>src/pkg/authjwt/jwks.go\<close>) with any number of
  callers at the same time, as a step relation whose steps are the code's atomic sections. Proved: one
  fetch at a time, no caller is stranded, every step brings a caller closer to its return.
\<close>

subsection \<open>Callers at the same time\<close>

datatype load_result = Loaded | LoadFailed | CtxDone

datatype load_pc =
    Enter | AtLock | Fetching nat | Clearing nat | Broadcasting nat | Waiting nat | Returned load_result

record jwks_fetch =
  jf_ok :: "bool option"
  jf_done :: bool

record load_state =
  ls_cache :: key_cache
  ls_inFlight :: "nat option"
  ls_fetches :: "jwks_fetch list"
  ls_pc :: "nat \<Rightarrow> load_pc"

definition goto :: "nat \<Rightarrow> load_pc \<Rightarrow> load_state \<Rightarrow> load_state" where
  "goto p q s = s\<lparr>ls_pc := (ls_pc s)(p := q)\<rparr>"

definition fetch_result :: "jwks_fetch \<Rightarrow> load_result" where
  "fetch_result f = (if jf_ok f = Some True then Loaded else LoadFailed)"

text \<open>
  One atomic step of one caller of \<open>EnsureLoaded\<close>: the tests of the cache under the read lock, the
  election under \<open>loadMu\<close>, the leader's fetch, the reset of \<open>loadInFlight\<close> and the closing of the
  channel, and a follower that receives from the closed channel. Handles of fetches are numbered.
\<close>

inductive load_step :: "ver_env \<Rightarrow> load_state \<Rightarrow> load_state \<Rightarrow> bool" for V where
  fast: "ls_pc s p = Enter \<Longrightarrow> populated (ls_cache s) \<Longrightarrow> load_step V s (goto p (Returned Loaded) s)"
| slow: "ls_pc s p = Enter \<Longrightarrow> \<not> populated (ls_cache s) \<Longrightarrow> load_step V s (goto p AtLock s)"
| hit: "ls_pc s p = AtLock \<Longrightarrow> populated (ls_cache s) \<Longrightarrow> load_step V s (goto p (Returned Loaded) s)"
| lead: "ls_pc s p = AtLock \<Longrightarrow> \<not> populated (ls_cache s) \<Longrightarrow> ls_inFlight s = None \<Longrightarrow> n = length (ls_fetches s) \<Longrightarrow>
    load_step V s (goto p (Fetching n)
      (s\<lparr>ls_inFlight := Some n, ls_fetches := ls_fetches s @ [\<lparr>jf_ok = None, jf_done = False\<rparr>]\<rparr>))"
| follow: "ls_pc s p = AtLock \<Longrightarrow> \<not> populated (ls_cache s) \<Longrightarrow> ls_inFlight s = Some n \<Longrightarrow>
    load_step V s (goto p (Waiting n) s)"
| fetched: "ls_pc s p = Fetching n \<Longrightarrow> JWKS_refresh V answer (ls_cache s) = (ok, c) \<Longrightarrow>
    load_step V s (goto p (Clearing n)
      (s\<lparr>ls_cache := c, ls_fetches := (ls_fetches s)[n := (ls_fetches s ! n)\<lparr>jf_ok := Some ok\<rparr>]\<rparr>))"
| clear: "ls_pc s p = Clearing n \<Longrightarrow> load_step V s (goto p (Broadcasting n) (s\<lparr>ls_inFlight := None\<rparr>))"
| broadcast: "ls_pc s p = Broadcasting n \<Longrightarrow>
    load_step V s (goto p (Returned (fetch_result (ls_fetches s ! n)))
      (s\<lparr>ls_fetches := (ls_fetches s)[n := (ls_fetches s ! n)\<lparr>jf_done := True\<rparr>]\<rparr>))"
| wake: "ls_pc s p = Waiting n \<Longrightarrow> jf_done (ls_fetches s ! n) \<Longrightarrow>
    load_step V s (goto p (Returned (fetch_result (ls_fetches s ! n))) s)"

text \<open>What else may happen: a follower's context ends, and the cache is refreshed from elsewhere.\<close>

inductive load_env :: "ver_env \<Rightarrow> load_state \<Rightarrow> load_state \<Rightarrow> bool" for V where
  ctx_done: "ls_pc s p = Waiting n \<Longrightarrow> load_env V s (goto p (Returned CtxDone) s)"
| background: "load_env V s (s\<lparr>ls_cache := snd (JWKS_refresh V answer (ls_cache s))\<rparr>)"

inductive load_reach :: "ver_env \<Rightarrow> load_state \<Rightarrow> bool" for V where
  init: "load_reach V \<lparr>ls_cache = c, ls_inFlight = None, ls_fetches = [], ls_pc = (\<lambda>_. Enter)\<rparr>"
| own: "load_reach V s \<Longrightarrow> load_step V s s' \<Longrightarrow> load_reach V s'"
| other: "load_reach V s \<Longrightarrow> load_env V s s' \<Longrightarrow> load_reach V s'"

subsection \<open>The election\<close>

fun leader_of :: "load_pc \<Rightarrow> nat option" where
  "leader_of (Fetching n) = Some n"
| "leader_of (Clearing n) = Some n"
| "leader_of (Broadcasting n) = Some n"
| "leader_of _ = None"

fun holder_of :: "load_pc \<Rightarrow> nat option" where
  "holder_of (Fetching n) = Some n"
| "holder_of (Clearing n) = Some n"
| "holder_of _ = None"

definition load_inv :: "load_state \<Rightarrow> bool" where
  "load_inv s \<longleftrightarrow>
     (\<forall>p n. leader_of (ls_pc s p) = Some n \<longrightarrow> n < length (ls_fetches s)) \<and>
     (\<forall>p q n. leader_of (ls_pc s p) = Some n \<and> leader_of (ls_pc s q) = Some n \<longrightarrow> p = q) \<and>
     (\<forall>p n. holder_of (ls_pc s p) = Some n \<longrightarrow> ls_inFlight s = Some n) \<and>
     (\<forall>n. ls_inFlight s = Some n \<longrightarrow> (\<exists>p. holder_of (ls_pc s p) = Some n)) \<and>
     (\<forall>p n. ls_pc s p = Waiting n \<longrightarrow> n < length (ls_fetches s) \<and>
        (jf_done (ls_fetches s ! n) \<or> (\<exists>q. leader_of (ls_pc s q) = Some n)))"

lemma holder_leader: "holder_of pc = Some n \<Longrightarrow> leader_of pc = Some n"
  by (cases pc) simp_all

lemma load_invD:
  assumes "load_inv s"
  shows "leader_of (ls_pc s p) = Some n \<Longrightarrow> n < length (ls_fetches s)"
    "leader_of (ls_pc s p) = Some n \<Longrightarrow> leader_of (ls_pc s q) = Some n \<Longrightarrow> p = q"
    "holder_of (ls_pc s p) = Some n \<Longrightarrow> ls_inFlight s = Some n"
    "ls_inFlight s = Some n \<Longrightarrow> \<exists>p. holder_of (ls_pc s p) = Some n"
    "ls_pc s p = Waiting n \<Longrightarrow> n < length (ls_fetches s) \<and>
        (jf_done (ls_fetches s ! n) \<or> (\<exists>q. leader_of (ls_pc s q) = Some n))"
  using assms unfolding load_inv_def by blast+

lemma leader_not_waiting: "leader_of pc = Some n \<Longrightarrow> pc \<noteq> Waiting m"
  by (cases pc) simp_all

lemma load_invI:
  assumes "\<And>p n. leader_of (ls_pc s p) = Some n \<Longrightarrow> n < length (ls_fetches s)"
    and "\<And>p q n. leader_of (ls_pc s p) = Some n \<Longrightarrow> leader_of (ls_pc s q) = Some n \<Longrightarrow> p = q"
    and "\<And>p n. holder_of (ls_pc s p) = Some n \<Longrightarrow> ls_inFlight s = Some n"
    and "\<And>n. ls_inFlight s = Some n \<Longrightarrow> \<exists>p. holder_of (ls_pc s p) = Some n"
    and "\<And>p n. ls_pc s p = Waiting n \<Longrightarrow> n < length (ls_fetches s) \<and>
        (jf_done (ls_fetches s ! n) \<or> (\<exists>q. leader_of (ls_pc s q) = Some n))"
  shows "load_inv s"
  using assms unfolding load_inv_def by blast

lemma inv_quiet:
  assumes inv: "load_inv s" and old: "leader_of (ls_pc s p) = None" and new: "leader_of pc = None"
    and wait: "\<And>n. pc = Waiting n \<Longrightarrow> ls_inFlight s = Some n"
  shows "load_inv (goto p pc s)"
proof -
  have lead: "leader_of (ls_pc (goto p pc s) r) = leader_of (ls_pc s r)" for r
    using old new by (simp add: goto_def)
  have hold: "holder_of (ls_pc (goto p pc s) r) = holder_of (ls_pc s r)" for r
    using old new holder_leader by (cases "holder_of (ls_pc s p)"; cases "holder_of pc") (force simp: goto_def)+
  have fields: "ls_fetches (goto p pc s) = ls_fetches s" "ls_inFlight (goto p pc s) = ls_inFlight s"
    by (simp_all add: goto_def)
  show ?thesis
  proof (rule load_invI, unfold lead hold fields)
    fix r n assume w: "ls_pc (goto p pc s) r = Waiting n"
    show "n < length (ls_fetches s) \<and> (jf_done (ls_fetches s ! n) \<or> (\<exists>q. leader_of (ls_pc s q) = Some n))"
    proof (cases "r = p")
      case True
      then have "ls_inFlight s = Some n" using w wait by (simp add: goto_def)
      then obtain q where "leader_of (ls_pc s q) = Some n" using load_invD(4) [OF inv] holder_leader by blast
      then show ?thesis using load_invD(1) [OF inv] by blast
    qed (use w load_invD(5) [OF inv] in \<open>simp add: goto_def\<close>)
  qed (use load_invD [OF inv] in blast)+
qed

lemma inv_same_handle:
  assumes inv: "load_inv s" and old: "leader_of (ls_pc s p) = Some n" and new: "leader_of pc = Some n"
    and flight: "ls_inFlight s' = holder_of pc"
    and s': "length (ls_fetches s') = length (ls_fetches s)" "ls_pc s' = ls_pc s"
      "\<And>m. jf_done (ls_fetches s ! m) \<Longrightarrow> m < length (ls_fetches s) \<Longrightarrow> jf_done (ls_fetches s' ! m)"
    and hold: "holder_of (ls_pc s p) = Some n"
  shows "load_inv (goto p pc s')"
proof -
  have lead: "leader_of (ls_pc (goto p pc s') r) = leader_of (ls_pc s r)" for r
    using old new by (simp add: goto_def s')
  have other: "holder_of (ls_pc s r) = None" if "r \<noteq> p" for r
    using load_invD(3) [OF inv, of r] load_invD(3) [OF inv hold] load_invD(2) [OF inv old] holder_leader that
    by (cases "holder_of (ls_pc s r)") fastforce+
  have pc: "holder_of pc = None \<or> holder_of pc = Some n" using new by (cases pc) auto
  show ?thesis
  proof (rule load_invI, unfold lead)
    show "holder_of (ls_pc (goto p pc s') r) = Some m \<Longrightarrow> ls_inFlight (goto p pc s') = Some m" for r m
      using other flight hold load_invD(3) [OF inv hold] by (auto simp: goto_def s' split: if_splits)
    show "ls_inFlight (goto p pc s') = Some m \<Longrightarrow> \<exists>r. holder_of (ls_pc (goto p pc s') r) = Some m" for m
      using flight hold load_invD(3) [OF inv hold] by (auto simp: goto_def s')
    show "ls_pc (goto p pc s') r = Waiting m \<Longrightarrow> m < length (ls_fetches (goto p pc s')) \<and>
        (jf_done (ls_fetches (goto p pc s') ! m) \<or> (\<exists>q. leader_of (ls_pc s q) = Some m))" for r m
      using load_invD(5) [OF inv] s' leader_not_waiting [OF new] by (auto simp: goto_def split: if_splits)
  qed (use load_invD [OF inv] s' in \<open>auto simp: goto_def\<close>)
qed

lemma inv_lead:
  assumes inv: "load_inv s" and old: "leader_of (ls_pc s p) = None" and none: "ls_inFlight s = None"
  shows "load_inv (goto p (Fetching (length (ls_fetches s)))
      (s\<lparr>ls_inFlight := Some (length (ls_fetches s)), ls_fetches := ls_fetches s @ [f]\<rparr>))" (is "load_inv ?s'")
proof -
  let ?n = "length (ls_fetches s)"
  have new: "ls_pc ?s' r = (if r = p then Fetching ?n else ls_pc s r)" for r by (simp add: goto_def)
  have held: "holder_of (ls_pc s r) = None" for r
    using load_invD(3) [OF inv, of r] none by (cases "holder_of (ls_pc s r)") auto
  have bound: "leader_of (ls_pc s r) \<noteq> Some ?n" for r using load_invD(1) [OF inv] by blast
  show ?thesis
  proof (rule load_invI)
    show "leader_of (ls_pc ?s' r) = Some m \<Longrightarrow> m < length (ls_fetches ?s')" for r m
      using load_invD(1) [OF inv, of r m] by (auto simp: goto_def split: if_splits)
    show "leader_of (ls_pc ?s' r) = Some m \<Longrightarrow> leader_of (ls_pc ?s' q) = Some m \<Longrightarrow> r = q" for r q m
      using load_invD(2) [OF inv, of r m q] bound by (auto simp: new split: if_splits)
    show "holder_of (ls_pc ?s' r) = Some m \<Longrightarrow> ls_inFlight ?s' = Some m" for r m
      using held by (auto simp: goto_def split: if_splits)
    show "ls_inFlight ?s' = Some m \<Longrightarrow> \<exists>r. holder_of (ls_pc ?s' r) = Some m" for m
      by (rule exI [of _ p]) (simp add: goto_def)
    show "m < length (ls_fetches ?s') \<and> (jf_done (ls_fetches ?s' ! m) \<or> (\<exists>q. leader_of (ls_pc ?s' q) = Some m))"
      if w: "ls_pc ?s' r = Waiting m" for r m
    proof -
      have "ls_pc s r = Waiting m" using w by (auto simp: new split: if_splits)
      from load_invD(5) [OF inv this] have m: "m < ?n" and d: "jf_done (ls_fetches s ! m) \<or> (\<exists>q. leader_of (ls_pc s q) = Some m)"
        by auto
      have "\<exists>q. leader_of (ls_pc ?s' q) = Some m" if "leader_of (ls_pc s q) = Some m" for q
        by (rule exI [of _ q]) (use that old in \<open>auto simp: new\<close>)
      then have "jf_done (ls_fetches s ! m) \<or> (\<exists>q. leader_of (ls_pc ?s' q) = Some m)" using d by blast
      moreover have "ls_fetches ?s' ! m = ls_fetches s ! m" "m < length (ls_fetches ?s')"
        using m by (simp_all add: goto_def nth_append)
      ultimately show ?thesis by simp
    qed
  qed
qed

lemma inv_broadcast:
  assumes inv: "load_inv s" and pc: "ls_pc s p = Broadcasting n"
  shows "load_inv (goto p (Returned r) (s\<lparr>ls_fetches := (ls_fetches s)[n := (ls_fetches s ! n)\<lparr>jf_done := True\<rparr>]\<rparr>))"
    (is "load_inv ?s'")
proof -
  have n: "n < length (ls_fetches s)" using load_invD(1) [OF inv, of p n] pc by simp
  have new: "ls_pc ?s' q = (if q = p then Returned r else ls_pc s q)" for q by (simp add: goto_def)
  have hold: "holder_of (ls_pc ?s' q) = holder_of (ls_pc s q)" for q using pc by (simp add: new)
  show ?thesis
  proof (rule load_invI, unfold hold)
    show "leader_of (ls_pc ?s' q) = Some m \<Longrightarrow> m < length (ls_fetches ?s')" for q m
      using load_invD(1) [OF inv, of q m] by (auto simp: goto_def split: if_splits)
    show "leader_of (ls_pc ?s' q) = Some m \<Longrightarrow> leader_of (ls_pc ?s' q') = Some m \<Longrightarrow> q = q'" for q q' m
      using load_invD(2) [OF inv, of q m q'] by (auto simp: new split: if_splits)
    show "m < length (ls_fetches ?s') \<and> (jf_done (ls_fetches ?s' ! m) \<or> (\<exists>q. leader_of (ls_pc ?s' q) = Some m))"
      if w: "ls_pc ?s' q = Waiting m" for q m
    proof -
      have "ls_pc s q = Waiting m" using w by (auto simp: new split: if_splits)
      from load_invD(5) [OF inv this] have m: "m < length (ls_fetches s)"
        and d: "jf_done (ls_fetches s ! m) \<or> (\<exists>q. leader_of (ls_pc s q) = Some m)" by auto
      show ?thesis
      proof (cases "m = n")
        case False
        then have "leader_of (ls_pc s q') = Some m \<Longrightarrow> q' \<noteq> p" for q' using pc by auto
        with m d False show ?thesis by (auto simp: goto_def) 
      qed (use n in \<open>simp add: goto_def\<close>)
    qed
  qed (use load_invD [OF inv] in \<open>auto simp: goto_def\<close>)
qed

lemma inv_background: "load_inv s \<Longrightarrow> load_inv (s\<lparr>ls_cache := c\<rparr>)"
  unfolding load_inv_def by simp

lemma load_step_inv: "load_step V s s' \<Longrightarrow> load_inv s \<Longrightarrow> load_inv s'"
proof (induction rule: load_step.induct)
  case (lead s p n)
  then show ?case using inv_lead [of s p] by simp
next
  case (fetched s p n answer ok c)
  have "ls_inFlight s = Some n" using load_invD(3) [OF fetched.prems, of p n] fetched.hyps by simp
  moreover have "jf_done ((ls_fetches s)[n := (ls_fetches s ! n)\<lparr>jf_ok := Some ok\<rparr>] ! m)"
    if "jf_done (ls_fetches s ! m)" "m < length (ls_fetches s)" for m
    using that by (cases "m = n") simp_all
  ultimately show ?case
    by (intro inv_same_handle [OF fetched.prems, of p n]) (use fetched.hyps in \<open>auto\<close>)
next
  case (clear s p n)
  then show ?case by (intro inv_same_handle [of s p n]) auto
next
  case (broadcast s p n)
  then show ?case by (intro inv_broadcast)
next
  case (follow s p n)
  then show ?case by (intro inv_quiet) auto
qed (auto intro: inv_quiet)

lemma load_reach_inv: "load_reach V s \<Longrightarrow> load_inv s"
proof (induction rule: load_reach.induct)
  case (other s s')
  from other.hyps(2) other.IH show ?case
    by (induction rule: load_env.induct) (auto intro: inv_quiet inv_background)
next
  case (own s s')
  then show ?case by (blast intro: load_step_inv)
qed (simp add: load_inv_def)

lemma leader_steps:
  assumes "leader_of (ls_pc s p) = Some n"
  shows "\<exists>s'. load_step V s s'"
proof (cases "ls_pc s p")
  case (Fetching m)
  obtain ok c where "JWKS_refresh V None (ls_cache s) = (ok, c)" by fastforce
  from load_step.fetched [OF Fetching this] show ?thesis by blast
next
  case (Clearing m)
  from load_step.clear [OF this] show ?thesis by blast
next
  case (Broadcasting m)
  from load_step.broadcast [OF this] show ?thesis by blast
qed (use assms in auto)

fun load_rank :: "load_pc \<Rightarrow> nat" where
  "load_rank Enter = 5"
| "load_rank AtLock = 4"
| "load_rank (Fetching n) = 3"
| "load_rank (Clearing n) = 2"
| "load_rank (Broadcasting n) = 1"
| "load_rank (Waiting n) = 1"
| "load_rank (Returned r) = 0"

lemma rank_goto:
  "load_rank pc < load_rank (ls_pc s p) \<Longrightarrow> ls_pc t = ls_pc s \<Longrightarrow>
   \<exists>r. load_rank (ls_pc (goto p pc t) r) < load_rank (ls_pc s r) \<and> (\<forall>q. q \<noteq> r \<longrightarrow> ls_pc (goto p pc t) q = ls_pc s q)"
  by (auto simp: goto_def)

lemma load_step_rank:
  "load_step V s s' \<Longrightarrow> \<exists>p. load_rank (ls_pc s' p) < load_rank (ls_pc s p) \<and> (\<forall>q. q \<noteq> p \<longrightarrow> ls_pc s' q = ls_pc s q)"
  by (induction rule: load_step.induct) (rule rank_goto, simp, simp)+



end
