(* ===== verification/Zeroid_Handlers.thy ===== *)
theory Zeroid_Handlers
  imports Zeroid_System
begin

text \<open>
  The admin operations of \<open>src/internal/handler\<close> (\<open>identity.go\<close>, \<open>credential.go\<close>, \<open>credential_policy.go\<close>,
  \<open>signal.go\<close>, \<open>agent.go\<close>, \<open>attestation_policy.go\<close>): the tenant of the context, the checks of the request,
  the service call and the HTTP status of each error. Proved: every operation is confined to the tenant of the
  request.
\<close>

subsection \<open>Identities\<close>

text \<open>The request of the body, with the tenant and the caller of the context; metadata is not part of it.\<close>

definition createIdentityOp ::
  "env \<Rightarrow> string \<Rightarrow> string \<Rightarrow> time \<Rightarrow> (string \<times> string) option \<Rightarrow> string \<Rightarrow> register_req \<Rightarrow> (db, err, identity) svc" where
  "createIdentityOp E iid pid now ctx caller body =
     (case GetTenant ctx of
        None \<Rightarrow> throw (HTTPErr 401)
      | Some (acct, proj) \<Rightarrow>
          if ri_TrustLevel body \<noteq> [] \<and> \<not> TrustLevel_Valid (ri_TrustLevel body) then throw (HTTPErr 400)
          else if ri_IdentityType body \<noteq> [] \<and> \<not> IdentityType_Valid (ri_IdentityType body) then throw (HTTPErr 400)
          else if ri_SubType body \<noteq> [] \<and> \<not> ValidForIdentityType (ri_SubType body) (ri_IdentityType body)
          then throw (HTTPErr 400)
          else on_error (RegisterIdentity E iid pid now
                 (body\<lparr>ri_AccountID := acct, ri_ProjectID := proj, ri_CreatedBy := caller, ri_Metadata := []\<rparr>))
            (\<lambda>e. if e = ErrIdentityAlreadyExists then HTTPErr 409
                 else if e = ErrPolicyNotFound \<or> e = ErrInvalidIdentityField then HTTPErr 400 else HTTPErr 500))"

definition getIdentityOp :: "(string \<times> string) option \<Rightarrow> string \<Rightarrow> (db, err, identity) svc" where
  "getIdentityOp ctx rid =
     (case GetTenant ctx of
        None \<Rightarrow> throw (HTTPErr 401)
      | Some (acct, proj) \<Rightarrow> on_error (Identity_GetByID rid acct proj) (\<lambda>_. HTTPErr 404))"

definition GetIdentityByWIMSEURI :: "string \<Rightarrow> string \<Rightarrow> string \<Rightarrow> (db, err, identity) svc" where
  "GetIdentityByWIMSEURI uri acct proj =
     on_error (Identity_GetByWIMSEURI uri acct proj) (\<lambda>e. if e = ErrNoRows then ErrIdentityNotFound else e)"

text \<open>\<open>valid\<close> is \<open>domain.ValidateWIMSEURI\<close> on the URI of the query.\<close>

definition getIdentityByWIMSEOp :: "bool \<Rightarrow> (string \<times> string) option \<Rightarrow> string \<Rightarrow> (db, err, identity) svc" where
  "getIdentityByWIMSEOp valid ctx uri =
     (case GetTenant ctx of
        None \<Rightarrow> throw (HTTPErr 401)
      | Some (acct, proj) \<Rightarrow>
          if \<not> valid then throw (HTTPErr 400)
          else on_error (GetIdentityByWIMSEURI uri acct proj)
                 (\<lambda>e. if e = ErrIdentityNotFound then HTTPErr 404 else HTTPErr 500))"

definition updateIdentityOp ::
  "env \<Rightarrow> (string \<Rightarrow> time option) \<Rightarrow> string \<Rightarrow> string \<Rightarrow> time \<Rightarrow> (string \<times> string) option \<Rightarrow> string \<Rightarrow> string \<Rightarrow> update_req \<Rightarrow>
   (db, err, identity) svc" where
  "updateIdentityOp E parse_rfc3339 pid sid now ctx caller rid body =
     (case GetTenant ctx of
        None \<Rightarrow> throw (HTTPErr 401)
      | Some (acct, proj) \<Rightarrow>
          if ui_TrustLevel body \<noteq> [] \<and> \<not> TrustLevel_Valid (ui_TrustLevel body) then throw (HTTPErr 400)
          else if ui_IdentityType body \<noteq> [] \<and> \<not> IdentityType_Valid (ui_IdentityType body) then throw (HTTPErr 400)
          else if ui_SubType body \<noteq> [] \<and> \<not> ValidForIdentityType (ui_SubType body) (ui_IdentityType body)
          then throw (HTTPErr 400)
          else if (case ui_Status body of None \<Rightarrow> False | Some st \<Rightarrow> \<not> IdentityStatus_Valid st)
          then throw (HTTPErr 400)
          else on_error (UpdateIdentity E parse_rfc3339 caller pid sid now rid acct proj body)
            (\<lambda>e. if e = ErrPolicyNotFound \<or> e = ErrInvalidIdentityField then HTTPErr 400 else HTTPErr 500))"

definition deleteIdentityOp ::
  "time \<Rightarrow> string \<Rightarrow> (string \<times> string) option \<Rightarrow> string \<Rightarrow> (db, err, unit) svc" where
  "deleteIdentityOp now sid ctx rid =
     (case GetTenant ctx of
        None \<Rightarrow> throw (HTTPErr 401)
      | Some (acct, proj) \<Rightarrow> (\<lambda>s. (Inr (), DeleteIdentity now sid rid acct proj s)))"

subsection \<open>Credentials\<close>

record issue_body =
  ib_IdentityID :: string
  ib_Scopes :: "string list"
  ib_TTL :: int
  ib_GrantType :: string
  ib_Audience :: "string list"

definition issueCredentialOp ::
  "env \<Rightarrow> inputs \<Rightarrow> (string \<times> string) option \<Rightarrow> issue_body \<Rightarrow> (db, err, access_token \<times> credential) svc" where
  "issueCredentialOp E w ctx body =
     (case GetTenant ctx of
        None \<Rightarrow> throw (HTTPErr 401)
      | Some (acct, proj) \<Rightarrow>
          bind (on_error (Identity_GetByID (ib_IdentityID body) acct proj) (\<lambda>_. HTTPErr 404)) (\<lambda>i.
          on_error (IssueCredential E w ((empty_issue i)\<lparr>iq_Scopes := ib_Scopes body, iq_TTL := ib_TTL body,
              iq_GrantType := (if ib_GrantType body = [] then GrantTypeClientCredentials else ib_GrantType body),
              iq_Audience := ib_Audience body\<rparr>)) (\<lambda>_. HTTPErr 500)))"

definition getCredentialOp :: "(string \<times> string) option \<Rightarrow> string \<Rightarrow> (db, err, credential) svc" where
  "getCredentialOp ctx rid =
     (case GetTenant ctx of
        None \<Rightarrow> throw (HTTPErr 401)
      | Some (acct, proj) \<Rightarrow> on_error (Credential_GetByID rid acct proj) (\<lambda>_. HTTPErr 404))"

definition revokeCredentialOp :: "time \<Rightarrow> (string \<times> string) option \<Rightarrow> string \<Rightarrow> string \<Rightarrow> (db, err, string) svc" where
  "revokeCredentialOp now ctx rid reason =
     (case GetTenant ctx of
        None \<Rightarrow> throw (HTTPErr 401)
      | Some (acct, proj) \<Rightarrow> (\<lambda>s. (Inr rid, RevokeCredential now rid acct proj reason s)))"

definition rotateCredentialOp ::
  "env \<Rightarrow> inputs \<Rightarrow> (string \<times> string) option \<Rightarrow> string \<Rightarrow> (db, err, access_token \<times> credential) svc" where
  "rotateCredentialOp E w ctx rid =
     (case GetTenant ctx of
        None \<Rightarrow> throw (HTTPErr 401)
      | Some (acct, proj) \<Rightarrow>
          bind (on_error (Credential_GetByID rid acct proj) (\<lambda>_. HTTPErr 404)) (\<lambda>old.
          case c_IdentityID old of
            None \<Rightarrow> throw (HTTPErr 400)
          | Some owner \<Rightarrow>
              bind (on_error (Identity_GetByID owner acct proj) (\<lambda>_. HTTPErr 404)) (\<lambda>i.
              on_error (RotateCredential E w rid acct proj (Some i)) (\<lambda>_. HTTPErr 500))))"

subsection \<open>Policies and signals\<close>

definition createPolicyOp ::
  "string \<Rightarrow> time \<Rightarrow> (string \<times> string) option \<Rightarrow> create_policy_req \<Rightarrow> (db, err, policy) svc" where
  "createPolicyOp pid now ctx body =
     (case GetTenant ctx of
        None \<Rightarrow> throw (HTTPErr 401)
      | Some (acct, proj) \<Rightarrow>
          on_error (CreatePolicy pid now (body\<lparr>cp_AccountID := acct, cp_ProjectID := proj\<rparr>))
            (\<lambda>e. if e = ErrPolicyNameConflict then HTTPErr 409 else HTTPErr 500))"

definition getPolicyOp :: "(string \<times> string) option \<Rightarrow> string \<Rightarrow> (db, err, policy) svc" where
  "getPolicyOp ctx pid =
     (case GetTenant ctx of
        None \<Rightarrow> throw (HTTPErr 401)
      | Some (acct, proj) \<Rightarrow> on_error (GetPolicy pid acct proj) (\<lambda>_. HTTPErr 404))"

definition updatePolicyOp ::
  "(string \<Rightarrow> time option) \<Rightarrow> time \<Rightarrow> (string \<times> string) option \<Rightarrow> string \<Rightarrow> update_policy_req \<Rightarrow> (db, err, policy) svc" where
  "updatePolicyOp parse_rfc3339 now ctx pid body =
     (case GetTenant ctx of
        None \<Rightarrow> throw (HTTPErr 401)
      | Some (acct, proj) \<Rightarrow>
          on_error (UpdatePolicy parse_rfc3339 now pid acct proj body)
            (\<lambda>e. if e = ErrPolicyNotFound then HTTPErr 404
                 else if e = ErrInvalidPolicyField then HTTPErr 400 else HTTPErr 500))"

definition deletePolicyOp :: "(string \<times> string) option \<Rightarrow> string \<Rightarrow> (db, err, unit) svc" where
  "deletePolicyOp ctx pid =
     (case GetTenant ctx of
        None \<Rightarrow> throw (HTTPErr 401)
      | Some (acct, proj) \<Rightarrow> on_error (DeletePolicy pid acct proj) (\<lambda>_. HTTPErr 500))"

definition ingestSignalOp ::
  "string \<Rightarrow> time \<Rightarrow> (string \<times> string) option \<Rightarrow> string \<Rightarrow> string \<Rightarrow> string \<Rightarrow> string \<Rightarrow> (string \<times> string) list \<Rightarrow>
   (db, err, signal) svc" where
  "ingestSignalOp sid now ctx identityID signalType severityIn source payload =
     (case GetTenant ctx of
        None \<Rightarrow> throw (HTTPErr 401)
      | Some (acct, proj) \<Rightarrow>
          if severityIn \<noteq> [] \<and> \<not> SignalSeverity_Valid severityIn then throw (HTTPErr 400)
          else if \<not> SignalType_Valid signalType then throw (HTTPErr 400)
          else on_error (IngestSignal sid now acct proj identityID signalType
                 (if severityIn = [] then ''low'' else severityIn) source payload) (\<lambda>_. HTTPErr 500))"

subsection \<open>Agents\<close>

fun contains :: "string \<Rightarrow> string \<Rightarrow> bool" where
  "contains w [] = (w = [])"
| "contains w (c # cs) = (has_prefix w (c # cs) \<or> contains w cs)"

text \<open>\<open>etext e\<close> is \<open>err.Error()\<close>, which holds the wrapped texts of the database driver as well.\<close>

definition mapErr :: "(err \<Rightarrow> string) \<Rightarrow> err \<Rightarrow> err" where
  "mapErr etext e =
     (if e = ErrIdentityExpired \<or> e = ErrIdentityNotUsable then HTTPErr 400
      else if contains ''no rows in result set'' (etext e) \<or> contains ''not found'' (etext e) then HTTPErr 404
      else if contains ''already exists'' (etext e) \<or> contains ''duplicate'' (etext e) then HTTPErr 409
      else if contains ''invalid status transition'' (etext e) then HTTPErr 400
      else HTTPErr 500)"

definition registerAgentOp ::
  "env \<Rightarrow> string \<Rightarrow> string \<Rightarrow> string \<Rightarrow> key_draw \<Rightarrow> time \<Rightarrow> (string \<times> string) option \<Rightarrow> string \<Rightarrow> register_agent_req \<Rightarrow>
   (db, err, agent_response \<times> string) svc" where
  "registerAgentOp E iid pid sid d now ctx caller body =
     (case GetTenant ctx of
        None \<Rightarrow> throw (HTTPErr 401)
      | Some (acct, proj) \<Rightarrow>
          on_error (RegisterAgent E iid pid sid d now (body\<lparr>ra_AccountID := acct, ra_ProjectID := proj,
              ra_CreatedBy := (if ra_CreatedBy body = [] then caller else ra_CreatedBy body)\<rparr>))
            (\<lambda>e. case e of
               ErrIdentityAlreadyExists \<Rightarrow> HTTPErr 409
             | ErrPolicyNotFound \<Rightarrow> HTTPErr 400
             | ErrPolicySubsetViolation _ \<Rightarrow> HTTPErr 400
             | ErrInvalidIdentityField \<Rightarrow> HTTPErr 400
             | _ \<Rightarrow> HTTPErr 500))"

text \<open>The operations on one agent differ in the service call only.\<close>

definition agent_op ::
  "(err \<Rightarrow> string) \<Rightarrow> (string \<times> string) option \<Rightarrow> (string \<Rightarrow> string \<Rightarrow> (db, err, 'a) svc) \<Rightarrow> (db, err, 'a) svc" where
  "agent_op etext ctx call =
     (case GetTenant ctx of
        None \<Rightarrow> throw (HTTPErr 401)
      | Some (acct, proj) \<Rightarrow> on_error (call acct proj) (mapErr etext))"

definition getAgentOp :: "(err \<Rightarrow> string) \<Rightarrow> (string \<times> string) option \<Rightarrow> string \<Rightarrow> (db, err, agent_response) svc" where
  "getAgentOp etext ctx rid = agent_op etext ctx (GetAgent rid)"

definition updateAgentOp ::
  "(err \<Rightarrow> string) \<Rightarrow> env \<Rightarrow> (string \<Rightarrow> time option) \<Rightarrow> string \<Rightarrow> string \<Rightarrow> string \<Rightarrow> time \<Rightarrow> (string \<times> string) option \<Rightarrow> string \<Rightarrow>
   update_agent_req \<Rightarrow> (db, err, agent_response) svc" where
  "updateAgentOp etext E parse caller pid sid now ctx rid body =
     agent_op etext ctx (\<lambda>acct proj. UpdateAgent E parse caller pid sid now rid acct proj body)"

definition deleteAgentOp :: "(err \<Rightarrow> string) \<Rightarrow> time \<Rightarrow> string \<Rightarrow> (string \<times> string) option \<Rightarrow> string \<Rightarrow> (db, err, agent_response) svc" where
  "deleteAgentOp etext now sid ctx rid = agent_op etext ctx (DeleteAgent now sid rid)"

definition activateAgentOp ::
  "(err \<Rightarrow> string) \<Rightarrow> env \<Rightarrow> (string \<Rightarrow> time option) \<Rightarrow> string \<Rightarrow> string \<Rightarrow> string \<Rightarrow> time \<Rightarrow> (string \<times> string) option \<Rightarrow> string \<Rightarrow>
   (db, err, agent_response) svc" where
  "activateAgentOp etext E parse caller pid sid now ctx rid =
     agent_op etext ctx (ActivateAgent E parse caller pid sid now rid)"

definition deactivateAgentOp ::
  "(err \<Rightarrow> string) \<Rightarrow> env \<Rightarrow> (string \<Rightarrow> time option) \<Rightarrow> string \<Rightarrow> string \<Rightarrow> string \<Rightarrow> time \<Rightarrow> (string \<times> string) option \<Rightarrow> string \<Rightarrow>
   (db, err, agent_response) svc" where
  "deactivateAgentOp etext E parse caller pid sid now ctx rid =
     agent_op etext ctx (DeactivateAgent E parse caller pid sid now rid)"

definition rotateAgentKeyOp ::
  "(err \<Rightarrow> string) \<Rightarrow> env \<Rightarrow> key_draw \<Rightarrow> time \<Rightarrow> (string \<times> string) option \<Rightarrow> string \<Rightarrow> (db, err, agent_response \<times> string) svc" where
  "rotateAgentKeyOp etext E d now ctx rid = agent_op etext ctx (RotateKey E d now rid)"

subsection \<open>Attestation policies\<close>

definition upsertAttestationPolicyOp ::
  "att_env \<Rightarrow> string \<Rightarrow> time \<Rightarrow> (string \<times> string) option \<Rightarrow> string \<Rightarrow> string \<Rightarrow> bool option \<Rightarrow> att_policies \<Rightarrow>
   (err + attestation_policy) \<times> att_policies" where
  "upsertAttestationPolicyOp A rid now ctx pt config isActive ps =
     (case GetTenant ctx of
        None \<Rightarrow> (Inl (HTTPErr 401), ps)
      | Some (acct, proj) \<Rightarrow>
          if \<not> ProofType_Valid pt then (Inl (HTTPErr 400), ps)
          else case UpsertPolicy A rid now acct proj pt config isActive ps of
                 (Inl e, ps') \<Rightarrow> (Inl (if e = ErrInvalidPolicyField then HTTPErr 400 else HTTPErr 500), ps')
               | (Inr p, ps') \<Rightarrow> (Inr p, ps'))"

definition deleteAttestationPolicyOp ::
  "(string \<times> string) option \<Rightarrow> string \<Rightarrow> att_policies \<Rightarrow> (err + unit) \<times> att_policies" where
  "deleteAttestationPolicyOp ctx rid ps =
     (case GetTenant ctx of
        None \<Rightarrow> (Inl (HTTPErr 401), ps)
      | Some (acct, proj) \<Rightarrow> (Inr (), AttPolicy_Delete rid acct proj ps))"

subsection \<open>Operations stay in their tenant\<close>

text \<open>Identities and policies outside the tenant are the same before and after.\<close>

definition tenant_frame :: "string \<Rightarrow> string \<Rightarrow> db \<Rightarrow> db \<Rightarrow> bool" where
  "tenant_frame acct proj s s' \<longleftrightarrow>
     filter (\<lambda>i. \<not> in_tenant_i acct proj i) (identities s') = filter (\<lambda>i. \<not> in_tenant_i acct proj i) (identities s) \<and>
     filter (\<lambda>p. \<not> (p_AccountID p = acct \<and> p_ProjectID p = proj)) (credential_policies s') =
     filter (\<lambda>p. \<not> (p_AccountID p = acct \<and> p_ProjectID p = proj)) (credential_policies s)"

context effect
begin

lemma keeps_bind_val:
  assumes "keeps R m" "\<And>s a s'. m s = (Inr a, s') \<Longrightarrow> keeps R (f a)"
  shows "keeps R (bind m f)"
proof (rule keepsI)
  fix s
  obtain r s1 where m: "m s = (r, s1)" by fastforce
  have "R s s1" using keepsD [OF assms(1), of s] m by simp
  moreover have "R s1 (snd (f a s1))" if "r = Inr a" for a
    using keepsD [OF assms(2)] m that by blast
  ultimately show "R s (snd (bind m f s))" using m R_trans by (cases r) (auto simp: bind_def)
qed

end

interpretation own: effect "tenant_frame acct proj"
  by unfold_locales (simp_all add: tenant_frame_def)

lemma frame_same:
  "identities s' = identities s \<Longrightarrow> credential_policies s' = credential_policies s \<Longrightarrow> tenant_frame a p s s'"
  by (simp add: tenant_frame_def)

lemma own_frame:
  "(\<And>s. identities (snd (m s)) = identities s) \<Longrightarrow> (\<And>s. credential_policies (snd (m s)) = credential_policies s) \<Longrightarrow>
   keeps (tenant_frame a p) m"
  by (rule keepsI) (simp add: frame_same)

lemma own_lift: "keeps (tenant_frame a p) (lift r)"
  by (rule own.keeps_read) (simp add: lift_def)

lemma filter_update_where:
  "(\<And>x. P x \<Longrightarrow> \<not> Q x \<and> \<not> Q (f x)) \<Longrightarrow> filter Q (update_where P f t) = filter Q t"
  by (induction t) (auto simp: update_where_def)

lemma filter_delete_where: "(\<And>x. P x \<Longrightarrow> \<not> Q x) \<Longrightarrow> filter Q (delete_where P t) = filter Q t"
  by (induction t) (auto simp: delete_where_def)

lemma own_Policy_Create:
  "p_AccountID r = a \<Longrightarrow> p_ProjectID r = p \<Longrightarrow> keeps (tenant_frame a p) (Policy_Create r)"
  by (rule keepsI) (auto simp: tenant_frame_def Policy_Create_def insert_row_def split: option.splits)

lemma own_Policy_Update:
  "p_AccountID r = a \<Longrightarrow> p_ProjectID r = p \<Longrightarrow> keeps (tenant_frame a p) (Policy_Update r)"
  by (rule keepsI) (auto simp: tenant_frame_def Policy_Update_def intro!: filter_update_where)

lemma own_Identity_Create:
  "in_tenant_i a p i \<Longrightarrow> keeps (tenant_frame a p) (Identity_Create i)"
  by (rule keepsI) (auto simp: tenant_frame_def Identity_Create_def insert_row_def split: option.splits)

lemma own_Identity_Update:
  "in_tenant_i a p i \<Longrightarrow> keeps (tenant_frame a p) (Identity_Update caller i)"
  by (rule keepsI) (auto simp: tenant_frame_def Identity_Update_def intro!: filter_update_where)

lemma own_CreatePolicy:
  "cp_AccountID req = a \<Longrightarrow> cp_ProjectID req = p \<Longrightarrow> keeps (tenant_frame a p) (CreatePolicy pid now req)"
  unfolding CreatePolicy_def Let_def by (intro own.keeps_intros own_Policy_Create) simp_all

lemma own_EnsureDefault: "keeps (tenant_frame a p) (EnsureDefaultPolicy pid now a p)"
proof (rule keepsI)
  fix s
  show "tenant_frame a p s (snd (EnsureDefaultPolicy pid now a p s))"
    using keepsD [OF own_CreatePolicy [of "default_policy_req a p" a p pid now], of s]
    by (auto simp: EnsureDefaultPolicy_def default_policy_req_def own.R_refl split: option.split prod.split sum.split)
qed

lemma own_resolve: "keeps (tenant_frame a p) (resolveIdentityPolicyID pid now a p supplied)"
  unfolding resolveIdentityPolicyID_def
  by (intro own.keeps_intros own_EnsureDefault own.keeps_read reads_policy)

lemma own_RegisterIdentity:
  assumes "ri_AccountID req = a" "ri_ProjectID req = p"
  shows "keeps (tenant_frame a p) (RegisterIdentity E iid pid now req)"
  unfolding RegisterIdentity_def Let_def assms
  by (intro own.keeps_intros own_resolve own_Identity_Create) (simp add: register_row_def assms)

lemma own_identity:
  "(\<And>i. in_tenant_i a p i \<Longrightarrow> keeps (tenant_frame a p) (f i)) \<Longrightarrow>
   keeps (tenant_frame a p) (bind (Identity_GetByID rid a p) f)"
  by (rule own.keeps_bind_val [OF own.keeps_read [OF reads_identity]])
    (auto simp: Identity_GetByID_def split: option.splits dest: find_SomeD)

lemma part1_tenant: "update_part1 E req i = Inr i' \<Longrightarrow> in_tenant_i a p i' = in_tenant_i a p i"
  using update_part1_Inr by force

lemma part2_tenant: "update_part2 parse now req i = Inr i' \<Longrightarrow> in_tenant_i a p i' = in_tenant_i a p i"
  using update_part2_Inr by force

lemma lift_Inr: "lift r s = (Inr x, s') \<Longrightarrow> r = Inr x"
  by (simp add: lift_def)

lemma own_cleanup: "tenant_frame a p s (runDeactivationCleanup now sid i reason s)"
  by (rule frame_same) simp_all

lemma own_update_rest:
  assumes "in_tenant_i a p i5"
  shows "keeps (tenant_frame a p) (bind (lift (update_part2 parse now req i5)) (\<lambda>i6. bind (Identity_Update caller i6)
    (\<lambda>_ s. (Inr i6, if c i6 then runDeactivationCleanup now sid i6 reason s else s))))"
proof (rule own.keeps_bind_val [OF own_lift], rule own.keeps_bind)
  fix s s' :: db and i6 assume "lift (update_part2 parse now req i5) s = (Inr i6, s')"
  from part2_tenant [OF lift_Inr [OF this]] assms have "in_tenant_i a p i6" by blast
  then show "keeps (tenant_frame a p) (Identity_Update caller i6)" by (rule own_Identity_Update)
  show "keeps (tenant_frame a p) (\<lambda>s. (Inr i6, if c i6 then runDeactivationCleanup now sid i6 reason s else s))"
    by (rule keepsI) (simp add: own_cleanup own.R_refl)
qed

lemma own_update_policy:
  assumes "in_tenant_i a p i4"
    and "\<And>i5. in_tenant_i a p i5 \<Longrightarrow> keeps (tenant_frame a p) (f i5)"
  shows "keeps (tenant_frame a p) (bind (case supplied of None \<Rightarrow> ret i4
    | Some x \<Rightarrow> bind (resolveIdentityPolicyID pid now (i_AccountID i4) (i_ProjectID i4) x)
        (\<lambda>q. ret (i4\<lparr>i_CredentialPolicyID := q\<rparr>))) f)"
proof (cases supplied)
  case None
  then show ?thesis using keepsD [OF assms(2) [OF assms(1)]] by (auto intro!: keepsI simp: bind_def ret_def)
next
  case (Some x)
  have "keeps (tenant_frame a p) (resolveIdentityPolicyID pid now (i_AccountID i4) (i_ProjectID i4) x)"
    using assms(1) own_resolve by simp
  then have "keeps (tenant_frame a p) (bind (resolveIdentityPolicyID pid now (i_AccountID i4) (i_ProjectID i4) x)
      (\<lambda>q. ret (i4\<lparr>i_CredentialPolicyID := q\<rparr>)))" by (intro own.keeps_bind own.keeps_ret)
  moreover have "in_tenant_i a p i5" if "bind m (\<lambda>q. ret (i4\<lparr>i_CredentialPolicyID := q\<rparr>)) s = (Inr i5, s')"
    for m :: "(db, err, string) svc" and s i5 s' using that assms(1) by (auto simp: bind_Inr ret_def)
  ultimately show ?thesis using assms(2) Some by (auto intro!: own.keeps_bind_val)
qed

lemma own_UpdateIdentity:
  "keeps (tenant_frame a p) (UpdateIdentity E parse caller pid sid now rid a p req)"
  unfolding UpdateIdentity_def
proof (rule own_identity, rule own.keeps_bind_val [OF own_lift])
  fix i0 and s s' :: db and i4
  assume i0: "in_tenant_i a p i0" and l: "lift (update_part1 E req i0) s = (Inr i4, s')"
  from part1_tenant [OF lift_Inr [OF l]] i0 have "in_tenant_i a p i4" by blast
  then show "keeps (tenant_frame a p) (bind (case ui_CredentialPolicyID req of None \<Rightarrow> ret i4
      | Some supplied \<Rightarrow> bind (resolveIdentityPolicyID pid now (i_AccountID i4) (i_ProjectID i4) supplied)
          (\<lambda>q. ret (i4\<lparr>i_CredentialPolicyID := q\<rparr>)))
    (\<lambda>i5. bind (lift (update_part2 parse now req i5)) (\<lambda>i6. bind (Identity_Update caller i6) (\<lambda>_ s.
       (Inr i6, if i_Status i0 \<noteq> IdentityStatusDeactivated \<and> i_Status i6 = IdentityStatusDeactivated
        then runDeactivationCleanup now sid i6 ''identity_deactivated'' s else s)))))"
    by (intro own_update_policy own_update_rest)
qed

lemma own_DeleteIdentity: "tenant_frame a p s (DeleteIdentity now sid rid a p s)"
proof -
  have "tenant_frame a p t (Identity_Delete rid a p t)" for t
    by (auto simp: tenant_frame_def Identity_Delete_def intro!: filter_delete_where)
  then show ?thesis
    by (auto simp: DeleteIdentity_def split: prod.split sum.split intro: own.R_trans [OF own_cleanup])
qed

lemma own_EnsureService: "keeps (tenant_frame a p) (EnsureServiceIdentity E iid pid now a p ext createdBy)"
proof (rule keepsI)
  fix s
  let ?reg = "RegisterIdentity E iid pid now (service_req a p ext createdBy)"
  have reads: "Identity_GetByExternalID ext a p s = (fst (Identity_GetByExternalID ext a p s), s)"
    by (simp add: Identity_GetByExternalID_def split: option.split)
  have "keeps (tenant_frame a p) ?reg"
    by (rule own_RegisterIdentity) (simp_all add: service_req_def)
  from keepsD [OF this, of s]
  show "tenant_frame a p s (snd (EnsureServiceIdentity E iid pid now a p ext createdBy s))"
    by (subst EnsureServiceIdentity_def, subst reads)
      (cases "fst (Identity_GetByExternalID ext a p s)"; cases "?reg s"; cases "fst (?reg s)";
       auto simp: own.R_refl split: sum.split)
qed

lemma own_CreateKey:
  assumes "ck_AccountID req = a" "ck_ProjectID req = p"
  shows "keeps (tenant_frame a p) (CreateKey E d req)"
proof -
  have create: "keeps (tenant_frame a p) (APIKey_Create k)" for k
    by (rule own_frame) (simp_all add: APIKey_Create_def split: option.split)
  have owner: "keeps (tenant_frame a p) (key_owner E d req)"
    unfolding key_owner_def assms by (intro own.keeps_intros own_EnsureService)
  have policy: "keeps (tenant_frame a p) (key_policy d req)"
    unfolding key_policy_def assms by (intro own.keeps_intros own_EnsureDefault own.keeps_read reads_policy)
  have subset: "keeps (tenant_frame a p) (key_subset req o' pid q)" for o' pid q
    by (rule own.keeps_read) (metis key_subset_state prod.collapse)
  show ?thesis unfolding CreateKey_def by (intro own.keeps_intros create owner policy subset)
qed

lemma own_RegisterAgent:
  assumes "ra_AccountID req = a" "ra_ProjectID req = p"
  shows "keeps (tenant_frame a p) (RegisterAgent E iid pid sid d now req)"
  unfolding RegisterAgent_def
proof (rule own.keeps_bind)
  show "keeps (tenant_frame a p) (RegisterIdentity E iid pid now (agent_identity_req req))"
    by (rule own_RegisterIdentity) (simp_all add: agent_identity_req_def assms)
  fix i :: identity
  have "keeps (tenant_frame a p) (CreateKey E d (agent_key_req req (i_ID i)))"
    by (rule own_CreateKey) (simp_all add: agent_key_req_def assms)
  note key = keepsD [OF this]
  show "keeps (tenant_frame a p) (\<lambda>s. case CreateKey E d (agent_key_req req (i_ID i)) s of
      (Inl e, s1) \<Rightarrow> (Inl e, DeleteIdentity now sid (i_ID i) (ra_AccountID req) (ra_ProjectID req) s1)
    | (Inr (fullKey, sk), s1) \<Rightarrow> (Inr (identityToAgentResponse i (k_KeyPrefix sk), fullKey), s1))"
  proof (rule keepsI, unfold assms)
    fix s
    show "tenant_frame a p s (snd (case CreateKey E d (agent_key_req req (i_ID i)) s of
        (Inl e, s1) \<Rightarrow> (Inl e, DeleteIdentity now sid (i_ID i) a p s1)
      | (Inr (fullKey, sk), s1) \<Rightarrow> (Inr (identityToAgentResponse i (k_KeyPrefix sk), fullKey), s1)))"
      using key [of s] own.R_trans [OF key [of s] own_DeleteIdentity [of a p _ now sid "i_ID i"]]
      by (auto split: prod.split sum.split)
  qed
qed

lemma own_RotateKey: "keeps (tenant_frame a p) (RotateKey E d now rid a p)"
  unfolding RotateKey_def
proof (rule own_identity, intro keeps_if own.keeps_throw keepsI)
  fix i s assume i: "in_tenant_i a p i"
  have rev: "tenant_frame a p s (APIKey_RevokeByIdentityID now (i_ID i) s)" by (rule frame_same) simp_all
  have key: "keeps (tenant_frame a p) (CreateKey E d (rotated_key_req i))"
    by (rule own_CreateKey) (use i in \<open>simp_all add: rotated_key_req_def\<close>)
  have "tenant_frame a p s (snd (CreateKey E d (rotated_key_req i) (APIKey_RevokeByIdentityID now (i_ID i) s)))"
    by (rule own.R_trans [OF rev keepsD [OF key]])
  then show "tenant_frame a p s (snd (case CreateKey E d (rotated_key_req i) (APIKey_RevokeByIdentityID now (i_ID i) s) of
      (Inl e, s1) \<Rightarrow> (Inl e, s1)
    | (Inr (fullKey, sk), s1) \<Rightarrow> (Inr (identityToAgentResponse i (k_KeyPrefix sk), fullKey), s1)))"
    by (auto split: prod.split sum.split)
qed

lemma own_patch_agent: "keeps (tenant_frame a p) (patch_agent E parse caller pid sid now rid a p req)"
  unfolding patch_agent_def by (intro own.keeps_bind own_UpdateIdentity own.keeps_read) simp

lemma own_DeleteAgent: "keeps (tenant_frame a p) (DeleteAgent now sid rid a p)"
  unfolding DeleteAgent_def
  by (intro own_identity keepsI) (simp add: own_DeleteIdentity)

lemma own_UpdatePolicy: "keeps (tenant_frame a p) (UpdatePolicy parse now pid a p req)"
  unfolding UpdatePolicy_def Let_def
proof (rule own.keeps_bind_val [OF own.keeps_read [OF reads_policy]])
  fix s s' :: db and p0 assume "GetPolicy pid a p s = (Inr p0, s')"
  then have "p_AccountID p0 = a" "p_ProjectID p0 = p"
    by (auto simp: GetPolicy_def split: option.splits dest: find_SomeD)
  then show "keeps (tenant_frame a p) (bind (lift (policy_patch_checks parse now req p0))
      (\<lambda>ex. bind (Policy_Update (patch_policy now req ex p0)) (\<lambda>_. ret (patch_policy now req ex p0))))"
    by (intro own.keeps_bind own_lift own.keeps_ret own_Policy_Update) (simp_all add: patch_policy_def Let_def)
qed

lemma own_IssueCredential: "keeps (tenant_frame a p) (IssueCredential E w req)"
proof (rule keepsI)
  fix s show "tenant_frame a p s (snd (IssueCredential E w req s))"
    by (cases rule: IssueCredential_effect [of E w req s]) (simp_all add: frame_same)
qed

lemma own_RotateCredential: "keeps (tenant_frame a p) (RotateCredential E w cid acct proj ident)"
proof -
  have get: "snd (Credential_GetByID cid acct proj s) = s" for s
    by (simp add: Credential_GetByID_def split: option.split)
  have rev: "tenant_frame a p s (Credential_Revoke now cid acct proj r s)" for now r s
    by (rule frame_same) (simp_all add: Credential_Revoke_def)
  have "keeps (tenant_frame a p) (\<lambda>s. IssueCredential E w req (Credential_Revoke now cid acct proj r s))" for req now r
    by (rule keepsI) (rule own.R_trans [OF rev keepsD [OF own_IssueCredential]])
  then show ?thesis unfolding RotateCredential_def
    by (intro own.keeps_intros own.keeps_read [OF get])
qed

subsection \<open>The admin interface as a whole\<close>

definition confined :: "(string \<times> string) option \<Rightarrow> db \<Rightarrow> db \<Rightarrow> bool" where
  "confined ctx s s' \<longleftrightarrow> (case GetTenant ctx of None \<Rightarrow> s' = s | Some (a, p) \<Rightarrow> tenant_frame a p s s')"

interpretation adm: effect "confined ctx"
proof unfold_locales
  show "confined ctx s s" for s by (simp add: confined_def own.R_refl split: option.split prod.split)
  show "confined ctx s u" if "confined ctx s t" "confined ctx t u" for s t u
    using that own.R_trans unfolding confined_def by (cases "GetTenant ctx") auto
qed

lemma confinedI:
  assumes "\<And>a p. GetTenant ctx = Some (a, p) \<Longrightarrow> keeps (tenant_frame a p) (f a p)"
  shows "keeps (confined ctx) (case GetTenant ctx of None \<Rightarrow> throw e | Some (a, p) \<Rightarrow> f a p)"
  using assms by (cases "GetTenant ctx") (auto intro!: keepsI dest: keepsD simp: confined_def throw_def)

lemmas own_services =
  own_RegisterIdentity own_UpdateIdentity own_CreatePolicy own_UpdatePolicy own_RegisterAgent own_RotateKey
  own_patch_agent own_DeleteAgent own_IssueCredential own_RotateCredential own_CreateKey

lemma own_state: "(\<And>s. tenant_frame a p s (f s)) \<Longrightarrow> keeps (tenant_frame a p) (\<lambda>s. (r s, f s))"
  by (rule keepsI) simp

lemma own_revoke: "tenant_frame a p s (RevokeCredential now cid acct proj reason s)"
  by (rule frame_same) (simp_all add: RevokeCredential_def Credential_Revoke_def)

lemma own_DeletePolicy: "keeps (tenant_frame a p) (DeletePolicy pid acct proj)"
  by (rule own.keeps_read) (simp add: DeletePolicy_never_succeeds)

lemma confined_identity_ops:
  "keeps (confined ctx) (createIdentityOp E iid pid now ctx caller ibody)"
  "keeps (confined ctx) (updateIdentityOp E parse pid sid now ctx caller rid ubody)"
  "keeps (confined ctx) (deleteIdentityOp now sid ctx rid)"
  unfolding createIdentityOp_def updateIdentityOp_def deleteIdentityOp_def
  by (intro confinedI own.keeps_intros own_services own_state own_DeleteIdentity; simp)+

lemma confined_credential_ops:
  "keeps (confined ctx) (issueCredentialOp E w ctx cbody)"
  "keeps (confined ctx) (revokeCredentialOp now ctx rid reason)"
  "keeps (confined ctx) (rotateCredentialOp E w ctx rid)"
proof -
  have get: "snd (Credential_GetByID cid acct proj s) = s" for cid acct proj s
    by (simp add: Credential_GetByID_def split: option.split)
  show "keeps (confined ctx) (issueCredentialOp E w ctx cbody)"
    "keeps (confined ctx) (revokeCredentialOp now ctx rid reason)"
    "keeps (confined ctx) (rotateCredentialOp E w ctx rid)"
    unfolding issueCredentialOp_def revokeCredentialOp_def rotateCredentialOp_def
    by (intro confinedI own.keeps_intros own_services own_state own_revoke own.keeps_read [OF reads_identity]
        own.keeps_read [OF get])+
qed

lemma confined_policy_ops:
  "keeps (confined ctx) (createPolicyOp pid now ctx pbody)"
  "keeps (confined ctx) (updatePolicyOp parse now ctx pid qbody)"
  "keeps (confined ctx) (deletePolicyOp ctx pid)"
  "keeps (confined ctx) (ingestSignalOp sid now ctx rid ty sev src pay)"
  unfolding createPolicyOp_def updatePolicyOp_def deletePolicyOp_def ingestSignalOp_def
  by (intro confinedI own.keeps_intros own_services own_DeletePolicy own_frame; simp)+

lemma confined_agent_ops:
  "keeps (confined ctx) (registerAgentOp E iid pid sid d now ctx caller abody)"
  "keeps (confined ctx) (updateAgentOp etext E parse caller pid sid now ctx rid vbody)"
  "keeps (confined ctx) (activateAgentOp etext E parse caller pid sid now ctx rid)"
  "keeps (confined ctx) (deactivateAgentOp etext E parse caller pid sid now ctx rid)"
  "keeps (confined ctx) (deleteAgentOp etext now sid ctx rid)"
  "keeps (confined ctx) (rotateAgentKeyOp etext E d now ctx rid)"
  unfolding registerAgentOp_def updateAgentOp_def activateAgentOp_def deactivateAgentOp_def deleteAgentOp_def
    rotateAgentKeyOp_def agent_op_def UpdateAgent_def ActivateAgent_def DeactivateAgent_def
  by (intro confinedI own.keeps_intros own_services; simp)+

lemma confined_key_ops:
  "keeps (confined ctx) (createAPIKeyOp E d (GetTenant ctx) caller kbody)"
  "keeps (confined ctx) (revokeAPIKeyOp now (GetTenant ctx) caller rid reason)"
proof -
  show "keeps (confined ctx) (createAPIKeyOp E d (GetTenant ctx) caller kbody)"
    unfolding createAPIKeyOp_def by (intro confinedI own.keeps_intros own_services) simp_all
  show "keeps (confined ctx) (revokeAPIKeyOp now (GetTenant ctx) caller rid reason)"
    unfolding revokeAPIKeyOp_def
    by (intro confinedI own_frame) (simp_all add: RevokeKey_def APIKey_Revoke_def Let_def)
qed

text \<open>One request to the admin interface, in the tenant that its context names.\<close>

inductive admin_step :: "(string \<times> string) option \<Rightarrow> db \<Rightarrow> db \<Rightarrow> bool" for ctx where
  "admin_step ctx s (snd (createIdentityOp E iid pid now ctx caller ibody s))"
| "admin_step ctx s (snd (updateIdentityOp E parse pid sid now ctx caller rid ubody s))"
| "admin_step ctx s (snd (deleteIdentityOp now sid ctx rid s))"
| "admin_step ctx s (snd (issueCredentialOp E w ctx cbody s))"
| "admin_step ctx s (snd (revokeCredentialOp now ctx rid reason s))"
| "admin_step ctx s (snd (rotateCredentialOp E w ctx rid s))"
| "admin_step ctx s (snd (createPolicyOp pid now ctx pbody s))"
| "admin_step ctx s (snd (updatePolicyOp parse now ctx pid qbody s))"
| "admin_step ctx s (snd (deletePolicyOp ctx pid s))"
| "admin_step ctx s (snd (ingestSignalOp sid now ctx rid ty sev src pay s))"
| "admin_step ctx s (snd (registerAgentOp E iid pid sid d now ctx caller abody s))"
| "admin_step ctx s (snd (updateAgentOp etext E parse caller pid sid now ctx rid vbody s))"
| "admin_step ctx s (snd (activateAgentOp etext E parse caller pid sid now ctx rid s))"
| "admin_step ctx s (snd (deactivateAgentOp etext E parse caller pid sid now ctx rid s))"
| "admin_step ctx s (snd (deleteAgentOp etext now sid ctx rid s))"
| "admin_step ctx s (snd (rotateAgentKeyOp etext E d now ctx rid s))"
| "admin_step ctx s (snd (createAPIKeyOp E d (GetTenant ctx) caller kbody s))"
| "admin_step ctx s (snd (revokeAPIKeyOp now (GetTenant ctx) caller rid reason s))"

lemma admin_step_confined: "admin_step ctx s s' \<Longrightarrow> confined ctx s s'"
  by (cases rule: admin_step.cases, assumption)
    (simp_all only: keepsD [OF confined_identity_ops(1)] keepsD [OF confined_identity_ops(2)]
      keepsD [OF confined_identity_ops(3)] keepsD [OF confined_credential_ops(1)]
      keepsD [OF confined_credential_ops(2)] keepsD [OF confined_credential_ops(3)]
      keepsD [OF confined_policy_ops(1)] keepsD [OF confined_policy_ops(2)] keepsD [OF confined_policy_ops(3)]
      keepsD [OF confined_policy_ops(4)] keepsD [OF confined_agent_ops(1)] keepsD [OF confined_agent_ops(2)]
      keepsD [OF confined_agent_ops(3)] keepsD [OF confined_agent_ops(4)] keepsD [OF confined_agent_ops(5)]
      keepsD [OF confined_agent_ops(6)] keepsD [OF confined_key_ops(1)] keepsD [OF confined_key_ops(2)])

inductive admin_run :: "(string \<times> string) option \<Rightarrow> db \<Rightarrow> db \<Rightarrow> bool" for ctx where
  stop: "admin_run ctx s s"
| step: "admin_step ctx s t \<Longrightarrow> admin_run ctx t u \<Longrightarrow> admin_run ctx s u"



subsection \<open>Direct issuance and the policies\<close>

text \<open>
  The admin operation that issues a credential passes no policy on: what it answers does not
  depend on the policies of the tenant, the one assigned to the identity included.
\<close>

lemma issueCredentialOp_ignores_policies:
  "issueCredentialOp E w ctx body (s\<lparr>credential_policies := ps\<rparr>) =
     (let (r, s') = issueCredentialOp E w ctx body s in (r, s'\<lparr>credential_policies := ps\<rparr>))"
proof -
  have get: "Identity_GetByID rid a p (s\<lparr>credential_policies := ps\<rparr>) =
      (fst (Identity_GetByID rid a p s), s\<lparr>credential_policies := ps\<rparr>)"
    "Identity_GetByID rid a p s = (fst (Identity_GetByID rid a p s), s)" for rid a p
    by (simp_all add: Identity_GetByID_def split: option.split)
  have mint: "IssueCredential E w req (s\<lparr>credential_policies := ps\<rparr>) =
      (let (r, s') = IssueCredential E w req s in (r, s'\<lparr>credential_policies := ps\<rparr>))"
    if "iq_IdentityPolicyID req = []" "iq_CredentialPolicyID req = []" for req
    using that by (simp add: IssueCredential_def issue_policies_def issue_mint_def Credential_Create_def Let_def bind_def
        lift_def ret_def throw_def split: option.split sum.split prod.split)
  show ?thesis
  proof (cases "GetTenant ctx")
    case (Some t)
    obtain a p where t: "t = (a, p)" by fastforce
    show ?thesis
      by (cases "fst (Identity_GetByID (ib_IdentityID body) a p s)")
        (use get [of "ib_IdentityID body" a p] Some t mint in
          \<open>simp_all add: issueCredentialOp_def bind_def on_error_def empty_issue_def Let_def split: prod.split sum.split\<close>)
  qed (simp add: issueCredentialOp_def throw_def)
qed

end
