(* ===== verification/Zeroid_Config.thy ===== *)
theory Zeroid_Config
  imports Zeroid_Handlers
begin

text \<open>
  The configuration (\<open>src/config.go\<close>): defaults, file and environment variables as layers of keys, the
  checks of the settings, and the names built from the trust domain (\<open>ValidateWIMSEURI\<close> in
  \<open>src/domain/identity.go\<close>). Proved: which layer decides a key, and that identities are found under
  the URIs they were registered with.
\<close>

subsection \<open>Strings as the standard library reads them\<close>

definition has_suffix :: "string \<Rightarrow> string \<Rightarrow> bool" where
  "has_suffix p s \<longleftrightarrow> has_prefix (rev p) (rev s)"

text \<open>\<open>strings.Split(s, sep)\<close> with a separator of one byte.\<close>

fun split_all :: "char \<Rightarrow> string \<Rightarrow> string list" where
  "split_all c [] = [[]]"
| "split_all c (x # xs) =
     (if x = c then [] # split_all c xs
      else case split_all c xs of [] \<Rightarrow> [[x]] | w # ws \<Rightarrow> (x # w) # ws)"

text \<open>\<open>strconv.ParseBool\<close>.\<close>

definition ParseBool :: "string \<Rightarrow> bool option" where
  "ParseBool s =
     (if s \<in> {''1'', ''t'', ''T'', ''TRUE'', ''true'', ''True''} then Some True
      else if s \<in> {''0'', ''f'', ''F'', ''FALSE'', ''false'', ''False''} then Some False
      else None)"

text \<open>\<open>strconv.Atoi\<close>: an optional sign, decimal digits, the range of 64 bits.\<close>

definition ascii_digit :: "char \<Rightarrow> bool" where
  "ascii_digit c \<longleftrightarrow> CHR ''0'' \<le> c \<and> c \<le> CHR ''9''"

definition decimal :: "string \<Rightarrow> int" where
  "decimal ds = foldl (\<lambda>n d. 10 * n + (of_char d - 48)) 0 ds"

definition Atoi :: "string \<Rightarrow> int option" where
  "Atoi s =
     (let (neg, ds) = (case s of [] \<Rightarrow> (False, [])
                       | c # cs \<Rightarrow> if c = CHR ''-'' then (True, cs)
                                   else if c = CHR ''+'' then (False, cs) else (False, s));
          v = (if neg then - decimal ds else decimal ds)
      in if ds = [] \<or> \<not> list_all ascii_digit ds then None
         else if - (2 ^ 63) \<le> v \<and> v < 2 ^ 63 then Some v else None)"

subsection \<open>The configuration\<close>

record server_config =
  sc_Port :: string
  sc_Env :: string
  sc_ReadTimeout :: string
  sc_WriteTimeout :: string
  sc_IdleTimeout :: string
  sc_ShutdownTimeoutSeconds :: int
  sc_AdminPathPrefix :: "string option"
  sc_TrustForwardedHeaders :: bool

record database_config =
  dc_URL :: string
  dc_Host :: string
  dc_Port :: string
  dc_User :: string
  dc_Password :: string
  dc_Name :: string
  dc_SSLMode :: string
  dc_MaxOpenConns :: int
  dc_MaxIdleConns :: int
  dc_AutoMigrate :: "bool option"

record keys_config =
  kc_PrivateKeyPath :: string
  kc_PublicKeyPath :: string
  kc_KeyID :: string
  kc_RSAPrivateKeyPath :: string
  kc_RSAPublicKeyPath :: string
  kc_RSAKeyID :: string

record token_config =
  tc_Issuer :: string
  tc_DefaultTTL :: int
  tc_MaxTTL :: int
  tc_HMACSecret :: string
  tc_AuthCodeIssuer :: string

record signing_creds_config =
  sg_MaxTTLSeconds :: int
  sg_AuditRetentionDays :: int
  sg_AllowedPurposes :: "string list"
  sg_JWKSPurpose :: string
  sg_WellKnownJWKSName :: string

text \<open>Telemetry and logging settings reach no decision of the server and are left out.\<close>

record config =
  cf_Server :: server_config
  cf_Database :: database_config
  cf_Keys :: keys_config
  cf_Token :: token_config
  cf_AllowUnsafeDevStub :: bool
  cf_AllowPrivateEndpoints :: bool
  cf_SigningCreds :: signing_creds_config
  cf_WIMSEDomain :: string

abbreviation DefaultAdminPathPrefix :: string where "DefaultAdminPathPrefix \<equiv> ''/api/v1''"

definition GetAdminPathPrefix :: "server_config \<Rightarrow> string" where
  "GetAdminPathPrefix s = (case sc_AdminPathPrefix s of Some p \<Rightarrow> p | None \<Rightarrow> DefaultAdminPathPrefix)"

subsection \<open>Loading\<close>

datatype cfgval = CfgStr string | CfgInt int | CfgBool bool | CfgFloat string

type_synonym koanf = "string \<rightharpoonup> cfgval"

record parsed_url =
  u_Scheme :: string
  u_Host :: string
  u_Path :: string
  u_HasUser :: bool
  u_RawQuery :: string
  u_ForceQuery :: bool
  u_Fragment :: string

text \<open>
  What the process is started in: the environment variables, the flattened contents of a readable
  YAML file, \<open>strconv.ParseFloat\<close> (numbers stay texts), the decoding of the collected keys into the
  struct, the files that exist, and \<open>net/url.Parse\<close>.
\<close>

record cfg_env =
  ce_getenv :: "string \<Rightarrow> string option"
  ce_yaml :: "string \<Rightarrow> koanf option"
  ce_float :: "string \<Rightarrow> string option"
  ce_unmarshal :: "koanf \<Rightarrow> config option"
  ce_stat :: "string \<Rightarrow> bool"
  ce_url :: "string \<Rightarrow> parsed_url option"

datatype cfg_error = ErrConfigFile | ErrRemovedKey string | ErrUnmarshal | ErrSetting string

definition loadDefaults :: "(string \<times> cfgval) list" where
  "loadDefaults =
     [(''server.port'', CfgStr ''8899''), (''server.env'', CfgStr ''development''),
      (''server.read_timeout'', CfgStr ''15s''), (''server.write_timeout'', CfgStr ''15s''),
      (''server.idle_timeout'', CfgStr ''60s''), (''server.shutdown_timeout_seconds'', CfgInt 30),
      (''database.port'', CfgStr ''5432''), (''database.ssl_mode'', CfgStr ''disable''),
      (''database.max_open_conns'', CfgInt 25), (''database.max_idle_conns'', CfgInt 5),
      (''keys.private_key_path'', CfgStr ''./keys/private.pem''),
      (''keys.public_key_path'', CfgStr ''./keys/public.pem''), (''keys.key_id'', CfgStr ''zeroid-key-1''),
      (''keys.rsa_private_key_path'', CfgStr []), (''keys.rsa_public_key_path'', CfgStr []),
      (''keys.rsa_key_id'', CfgStr ''v1''),
      (''token.issuer'', CfgStr ''https://auth.highflame.ai''), (''token.default_ttl'', CfgInt 3600),
      (''token.max_ttl'', CfgInt 7776000), (''wimse_domain'', CfgStr ''highflame.ai''),
      (''telemetry.enabled'', CfgBool False), (''telemetry.service_name'', CfgStr ''zeroid''),
      (''telemetry.sampling_rate'', CfgFloat ''1.0''),
      (''server.admin_path_prefix'', CfgStr DefaultAdminPathPrefix),
      (''attestation.allow_unsafe_dev_stub'', CfgBool True),
      (''signing_credentials.max_ttl_seconds'', CfgInt 3600),
      (''signing_credentials.audit_retention_days'', CfgInt 400),
      (''signing_credentials.well_known_jwks_name'', CfgStr ''signing-keys''),
      (''logging.level'', CfgStr ''info'')]"

definition envMapping :: "(string \<times> string) list" where
  "envMapping =
     [(''ZEROID_PORT'', ''server.port''), (''ZEROID_ENV'', ''server.env''),
      (''ZEROID_ADMIN_PATH_PREFIX'', ''server.admin_path_prefix''),
      (''ZEROID_DATABASE_URL'', ''database.url''), (''DB_HOST'', ''database.host''), (''DB_PORT'', ''database.port''),
      (''DB_USERNAME'', ''database.user''), (''DB_PASSWORD'', ''database.password''),
      (''ZEROID_DB_NAME'', ''database.name''), (''DB_SSL_MODE'', ''database.ssl_mode''),
      (''ZEROID_AUTO_MIGRATE'', ''database.auto_migrate''),
      (''ZEROID_PRIVATE_KEY_PATH'', ''keys.private_key_path''), (''ZEROID_PUBLIC_KEY_PATH'', ''keys.public_key_path''),
      (''ZEROID_KEY_ID'', ''keys.key_id''), (''ZEROID_RSA_PRIVATE_KEY_PATH'', ''keys.rsa_private_key_path''),
      (''ZEROID_RSA_PUBLIC_KEY_PATH'', ''keys.rsa_public_key_path''), (''ZEROID_RSA_KEY_ID'', ''keys.rsa_key_id''),
      (''ZEROID_SIGNING_CREDS_MAX_TTL_SECONDS'', ''signing_credentials.max_ttl_seconds''),
      (''ZEROID_SIGNING_CREDS_AUDIT_RETENTION_DAYS'', ''signing_credentials.audit_retention_days''),
      (''ZEROID_SIGNING_CREDS_JWKS_PURPOSE'', ''signing_credentials.jwks_purpose''),
      (''ZEROID_SIGNING_CREDS_WELL_KNOWN_JWKS_NAME'', ''signing_credentials.well_known_jwks_name''),
      (''ZEROID_ISSUER'', ''token.issuer''), (''ZEROID_TOKEN_TTL_SECONDS'', ''token.default_ttl''),
      (''ZEROID_MAX_TOKEN_TTL_SECONDS'', ''token.max_ttl''), (''ZEROID_WIMSE_DOMAIN'', ''wimse_domain''),
      (''ZEROID_ALLOW_UNSAFE_DEV_STUB'', ''attestation.allow_unsafe_dev_stub''),
      (''OTEL_ENABLED'', ''telemetry.enabled''), (''OTEL_TRACES_SAMPLER_ARG'', ''telemetry.sampling_rate''),
      (''ZEROID_LOG_LEVEL'', ''logging.level'')]"

text \<open>The value a variable sets, by the suffix of its key; \<open>None\<close> leaves the key as it is.\<close>

definition env_value :: "cfg_env \<Rightarrow> string \<Rightarrow> string \<Rightarrow> cfgval option" where
  "env_value C configPath value =
     (if has_suffix ''.enabled'' configPath \<or> has_suffix ''.allow_unsafe_dev_stub'' configPath
      then map_option CfgBool (ParseBool value)
      else if has_suffix ''.max_open_conns'' configPath \<or> has_suffix ''.max_idle_conns'' configPath \<or>
              has_suffix ''.default_ttl'' configPath \<or> has_suffix ''.max_ttl'' configPath \<or>
              has_suffix ''.shutdown_timeout_seconds'' configPath
      then map_option CfgInt (Atoi value)
      else if has_suffix ''.sampling_rate'' configPath then map_option CfgFloat (ce_float C value)
      else Some (CfgStr value))"

fun set_env :: "cfg_env \<Rightarrow> (string \<times> string) list \<Rightarrow> koanf \<Rightarrow> koanf" where
  "set_env C [] k = k"
| "set_env C ((envVar, configPath) # rest) k =
     (case ce_getenv C envVar of
        None \<Rightarrow> set_env C rest k
      | Some value \<Rightarrow>
          (case env_value C configPath value of
             None \<Rightarrow> set_env C rest k
           | Some v \<Rightarrow> set_env C rest (k(configPath \<mapsto> v))))"

definition loadEnvVars :: "cfg_env \<Rightarrow> koanf \<Rightarrow> koanf" where
  "loadEnvVars C k = set_env C envMapping k"

definition rejectRemovedKeys :: "cfg_env \<Rightarrow> koanf \<Rightarrow> cfg_error option" where
  "rejectRemovedKeys C k =
     (if k ''token.base_url'' \<noteq> None then Some (ErrRemovedKey ''token.base_url'')
      else if (case ce_getenv C ''ZEROID_BASE_URL'' of None \<Rightarrow> False | Some v \<Rightarrow> v \<noteq> [])
      then Some (ErrRemovedKey ''ZEROID_BASE_URL'') else None)"

definition buildDatabaseURL :: "database_config \<Rightarrow> string" where
  "buildDatabaseURL d =
     (let userInfo = dc_User d @ (if dc_Password d \<noteq> [] then CHR '':'' # dc_Password d else []);
          url = ''postgres://'' @ userInfo @ CHR ''@'' # dc_Host d @ CHR '':'' # dc_Port d @ CHR ''/'' # dc_Name d
      in if dc_SSLMode d \<noteq> [] then url @ ''?sslmode='' @ dc_SSLMode d else url)"

definition with_database_url :: "config \<Rightarrow> config" where
  "with_database_url cfg =
     (if dc_URL (cf_Database cfg) = [] \<and> dc_Host (cf_Database cfg) \<noteq> []
      then cfg\<lparr>cf_Database := (cf_Database cfg)\<lparr>dc_URL := buildDatabaseURL (cf_Database cfg)\<rparr>\<rparr> else cfg)"

definition LoadConfig :: "cfg_env \<Rightarrow> string \<Rightarrow> cfg_error + config" where
  "LoadConfig C configPath =
     (case (if configPath = [] then Some Map.empty else ce_yaml C configPath) of
        None \<Rightarrow> Inl ErrConfigFile
      | Some yaml \<Rightarrow>
          (let k = loadEnvVars C (map_of loadDefaults ++ yaml)
           in case rejectRemovedKeys C k of
                Some e \<Rightarrow> Inl e
              | None \<Rightarrow>
                  (case ce_unmarshal C k of
                     None \<Rightarrow> Inl ErrUnmarshal
                   | Some cfg \<Rightarrow> Inr (with_database_url cfg))))"

subsection \<open>Validation\<close>

definition dns_char :: "char \<Rightarrow> bool" where
  "dns_char r \<longleftrightarrow> (CHR ''a'' \<le> r \<and> r \<le> CHR ''z'') \<or> ascii_digit r \<or> r = CHR ''-''"

text \<open>Whether a label passes; the order of the tests decides the text of the error only.\<close>

definition label_ok :: "string \<Rightarrow> bool" where
  "label_ok label \<longleftrightarrow> \<not> (label = [] \<or> length label > 63 \<or> hd label = CHR ''-'' \<or> last label = CHR ''-'') \<and>
     list_all dns_char label"

definition validateWIMSEDomain :: "string \<Rightarrow> bool" where
  "validateWIMSEDomain s \<longleftrightarrow> \<not> (s = [] \<or> has_prefix ''spiffe://'' s \<or> length s > 253) \<and>
     list_all label_ok (split_all CHR ''.'' s)"

definition validateIssuer :: "cfg_env \<Rightarrow> string \<Rightarrow> bool" where
  "validateIssuer C s \<longleftrightarrow> \<not> (s = [] \<or> has_suffix ''/'' s) \<and>
     (case ce_url C s of
        None \<Rightarrow> False
      | Some u \<Rightarrow> u_Scheme u \<in> {''http'', ''https''} \<and> u_Host u \<noteq> [] \<and> \<not> u_HasUser u \<and>
                  u_RawQuery u = [] \<and> u_Fragment u = [])"

definition Validate :: "cfg_env \<Rightarrow> config \<Rightarrow> cfg_error option" where
  "Validate C c =
     (if sc_Port (cf_Server c) = [] then Some (ErrSetting ''server.port'')
      else if dc_URL (cf_Database c) = [] then Some (ErrSetting ''database URL'')
      else if kc_PrivateKeyPath (cf_Keys c) = [] then Some (ErrSetting ''keys.private_key_path'')
      else if \<not> ce_stat C (kc_PrivateKeyPath (cf_Keys c)) then Some (ErrSetting ''private key not found'')
      else if kc_PublicKeyPath (cf_Keys c) = [] then Some (ErrSetting ''keys.public_key_path'')
      else if \<not> ce_stat C (kc_PublicKeyPath (cf_Keys c)) then Some (ErrSetting ''public key not found'')
      else if dc_MaxOpenConns (cf_Database c) \<le> 0 then Some (ErrSetting ''database.max_open_conns'')
      else if dc_MaxIdleConns (cf_Database c) < 0 \<or>
              dc_MaxIdleConns (cf_Database c) > dc_MaxOpenConns (cf_Database c)
      then Some (ErrSetting ''database.max_idle_conns'')
      else if \<not> validateWIMSEDomain (cf_WIMSEDomain c) then Some (ErrSetting ''wimse_domain'')
      else if \<not> validateIssuer C (tc_Issuer (cf_Token c)) then Some (ErrSetting ''token.issuer'')
      else None)"

subsection \<open>Layers\<close>

lemma mapping_distinct: "distinct (map snd envMapping)"
  by (simp add: envMapping_def)

lemma set_env_value:
  assumes "distinct (map snd ms)"
  shows "set_env C ms k key =
    (case map_of (map prod.swap ms) key of
       None \<Rightarrow> k key
     | Some var \<Rightarrow> (case ce_getenv C var of
           None \<Rightarrow> k key
         | Some v \<Rightarrow> (case env_value C key v of None \<Rightarrow> k key | Some x \<Rightarrow> Some x)))"
  using assms
proof (induction ms arbitrary: k)
  case (Cons m ms)
  obtain envVar configPath where m: "m = (envVar, configPath)" by fastforce
  have none: "map_of (map prod.swap ms) configPath = None"
    using Cons.prems m by (force simp: map_of_eq_None_iff)
  note IH = Cons.IH [of k] Cons.IH [of "k(configPath \<mapsto> v)" for v]
  show ?case
  proof (cases "key = configPath")
    case True
    then show ?thesis using Cons.prems m none IH by (auto simp del: fun_upd_apply simp: fun_upd_same split: option.split)
  next
    case False
    then have "(k(configPath \<mapsto> v)) key = k key"
      "((map_of (map prod.swap ms))(configPath \<mapsto> envVar)) key = map_of (map prod.swap ms) key" for v by simp_all
    with False Cons.prems m none IH show ?thesis by (auto simp del: fun_upd_apply split: option.split)
  qed
qed simp

definition setting_of_env :: "cfg_env \<Rightarrow> string \<Rightarrow> cfgval option" where
  "setting_of_env C key = Option.bind (map_of (map prod.swap envMapping) key)
     (\<lambda>var. Option.bind (ce_getenv C var) (env_value C key))"

lemma loadEnvVars_value:
  "loadEnvVars C k key = (case setting_of_env C key of None \<Rightarrow> k key | Some v \<Rightarrow> Some v)"
  unfolding loadEnvVars_def set_env_value [OF mapping_distinct] setting_of_env_def
  by (simp split: option.split)

text \<open>
  The three layers of the configuration: the struct is decoded from keys of which each has
  the value of its environment variable when that is set and readable, else the value of the file, else the
  default; the removed key is set by none of them, and the database URL is the configured one or the one built from the parts.
\<close>

theorem LoadConfig_layers:
  assumes "LoadConfig C path = Inr cfg"
  shows "\<exists>yaml k cfg0. (if path = [] then yaml = Map.empty else ce_yaml C path = Some yaml) \<and>
    (\<forall>key. k key = (case setting_of_env C key of Some v \<Rightarrow> Some v
       | None \<Rightarrow> (case yaml key of Some v \<Rightarrow> Some v | None \<Rightarrow> map_of loadDefaults key))) \<and>
    k ''token.base_url'' = None \<and> ce_unmarshal C k = Some cfg0 \<and>
    cfg = cfg0\<lparr>cf_Database := (cf_Database cfg0)\<lparr>dc_URL :=
      (if dc_URL (cf_Database cfg0) = [] \<and> dc_Host (cf_Database cfg0) \<noteq> []
       then buildDatabaseURL (cf_Database cfg0) else dc_URL (cf_Database cfg0))\<rparr>\<rparr>"
proof -
  from assms obtain yaml cfg0 where y: "(if path = [] then Some Map.empty else ce_yaml C path) = Some yaml"
    and r: "rejectRemovedKeys C (loadEnvVars C (map_of loadDefaults ++ yaml)) = None"
    and u: "ce_unmarshal C (loadEnvVars C (map_of loadDefaults ++ yaml)) = Some cfg0"
    and c: "cfg = with_database_url cfg0"
    by (auto simp: LoadConfig_def Let_def split: option.splits)
  let ?k = "loadEnvVars C (map_of loadDefaults ++ yaml)"
  have "?k key = (case setting_of_env C key of Some v \<Rightarrow> Some v
       | None \<Rightarrow> (case yaml key of Some v \<Rightarrow> Some v | None \<Rightarrow> map_of loadDefaults key))" for key
    by (simp add: loadEnvVars_value map_add_def split: option.split)
  moreover have "?k ''token.base_url'' = None" using r by (auto simp: rejectRemovedKeys_def split: if_splits)
  moreover have "if path = [] then yaml = Map.empty else ce_yaml C path = Some yaml" using y by (auto split: if_splits)
  ultimately show ?thesis using u c by (intro exI [of _ yaml] exI [of _ ?k] exI [of _ cfg0]) (simp add: with_database_url_def)
qed

text \<open>The parts of the database URL are not escaped: different settings give the same URL.\<close>

definition plain_db :: database_config where
  "plain_db = \<lparr>dc_URL = [], dc_Host = ''db'', dc_Port = ''5432'', dc_User = ''u'', dc_Password = ''p@evil'',
     dc_Name = ''z'', dc_SSLMode = [], dc_MaxOpenConns = 25, dc_MaxIdleConns = 5, dc_AutoMigrate = None\<rparr>"

lemma buildDatabaseURL_ambiguous:
  "buildDatabaseURL plain_db = buildDatabaseURL (plain_db\<lparr>dc_Password := ''p'', dc_Host := ''evil@db''\<rparr>)"
  by (simp add: buildDatabaseURL_def plain_db_def)

definition str_at :: "koanf \<Rightarrow> string \<Rightarrow> string" where
  "str_at k key = (case k key of Some (CfgStr v) \<Rightarrow> v | _ \<Rightarrow> [])"

definition sample_config :: config where
  "sample_config =
     \<lparr>cf_Server = \<lparr>sc_Port = ''8899'', sc_Env = [], sc_ReadTimeout = ''15s'', sc_WriteTimeout = [], sc_IdleTimeout = [],
        sc_ShutdownTimeoutSeconds = 30, sc_AdminPathPrefix = None, sc_TrustForwardedHeaders = False\<rparr>,
      cf_Database = plain_db,
      cf_Keys = \<lparr>kc_PrivateKeyPath = ''k'', kc_PublicKeyPath = ''q'', kc_KeyID = ''zeroid-key-1'',
        kc_RSAPrivateKeyPath = [], kc_RSAPublicKeyPath = [], kc_RSAKeyID = ''v1''\<rparr>,
      cf_Token = \<lparr>tc_Issuer = ''https://id.example'', tc_DefaultTTL = 3600, tc_MaxTTL = 7776000,
        tc_HMACSecret = ''s'', tc_AuthCodeIssuer = []\<rparr>,
      cf_AllowUnsafeDevStub = True, cf_AllowPrivateEndpoints = False,
      cf_SigningCreds = \<lparr>sg_MaxTTLSeconds = 3600, sg_AuditRetentionDays = 400, sg_AllowedPurposes = [],
        sg_JWKSPurpose = [], sg_WellKnownJWKSName = ''signing-keys''\<rparr>,
      cf_WIMSEDomain = ''z.dev''\<rparr>"

text \<open>A parser for the URLs of the examples: scheme, host up to the next slash, the rest as the path.\<close>

definition sample_url :: "string \<Rightarrow> parsed_url option" where
  "sample_url s = (case cut_at CHR '':'' s of
      Some (scheme, rest) \<Rightarrow>
        (let h = takeWhile (\<lambda>c. c \<noteq> CHR ''/'') (drop 2 rest)
         in Some \<lparr>u_Scheme = scheme, u_Host = h, u_Path = drop (length h) (drop 2 rest), u_HasUser = False,
                  u_RawQuery = [], u_ForceQuery = False, u_Fragment = []\<rparr>)
    | None \<Rightarrow> None)"

definition sample_cfg_env :: cfg_env where
  "sample_cfg_env =
     \<lparr>ce_getenv = [''ZEROID_ISSUER'' \<mapsto> ''https://id.example'', ''ZEROID_ALLOW_UNSAFE_DEV_STUB'' \<mapsto> ''off''],
      ce_yaml = (\<lambda>p. Some [''token.issuer'' \<mapsto> CfgStr ''https://file.example'', ''server.port'' \<mapsto> CfgStr ''9000'']),
      ce_float = Some,
      ce_unmarshal = (\<lambda>k. Some (sample_config\<lparr>
         cf_Token := (cf_Token sample_config)\<lparr>tc_Issuer := str_at k ''token.issuer''\<rparr>,
         cf_Server := (cf_Server sample_config)\<lparr>sc_Port := str_at k ''server.port''\<rparr>,
         cf_WIMSEDomain := str_at k ''wimse_domain''\<rparr>)),
      ce_stat = (\<lambda>p. True), ce_url = sample_url\<rparr>"

theorem LoadConfig_layers_witness:
  "\<exists>cfg. LoadConfig sample_cfg_env ''f.yaml'' = Inr cfg \<and> tc_Issuer (cf_Token cfg) = ''https://id.example'' \<and>
     sc_Port (cf_Server cfg) = ''9000'' \<and> cf_WIMSEDomain cfg = ''highflame.ai''"
proof -
  have env: "setting_of_env sample_cfg_env ''token.issuer'' = Some (CfgStr ''https://id.example'')"
    "setting_of_env sample_cfg_env ''server.port'' = None" "setting_of_env sample_cfg_env ''wimse_domain'' = None"
    "setting_of_env sample_cfg_env ''token.base_url'' = None"
    by (simp_all add: setting_of_env_def envMapping_def sample_cfg_env_def env_value_def has_suffix_def has_prefix_def)
  obtain cfg where c: "LoadConfig sample_cfg_env ''f.yaml'' = Inr cfg"
    using env(4) by (simp add: LoadConfig_def Let_def rejectRemovedKeys_def loadEnvVars_value sample_cfg_env_def loadDefaults_def)
  from LoadConfig_layers [OF c] obtain yaml k cfg0 where y: "ce_yaml sample_cfg_env ''f.yaml'' = Some yaml"
    and k: "\<And>key. k key = (case setting_of_env sample_cfg_env key of Some v \<Rightarrow> Some v
       | None \<Rightarrow> (case yaml key of Some v \<Rightarrow> Some v | None \<Rightarrow> map_of loadDefaults key))"
    and u: "ce_unmarshal sample_cfg_env k = Some cfg0"
    and e: "cfg = cfg0\<lparr>cf_Database := (cf_Database cfg0)\<lparr>dc_URL :=
      (if dc_URL (cf_Database cfg0) = [] \<and> dc_Host (cf_Database cfg0) \<noteq> []
       then buildDatabaseURL (cf_Database cfg0) else dc_URL (cf_Database cfg0))\<rparr>\<rparr>" by auto
  have "k ''token.issuer'' = Some (CfgStr ''https://id.example'')" "k ''server.port'' = Some (CfgStr ''9000'')"
    "k ''wimse_domain'' = Some (CfgStr ''highflame.ai'')"
    using k env y by (auto simp: sample_cfg_env_def loadDefaults_def)
  then show ?thesis using c u by (intro exI [of _ cfg]) (auto simp: e sample_cfg_env_def str_at_def)
qed

text \<open>A misspelt switch is ignored, so the permissive default of the attestation stub stays on.\<close>

lemma dev_stub_typo_ignored:
  "loadEnvVars sample_cfg_env (map_of loadDefaults) ''attestation.allow_unsafe_dev_stub'' = Some (CfgBool True)"
  by (simp add: loadEnvVars_value setting_of_env_def envMapping_def sample_cfg_env_def env_value_def has_suffix_def
      has_prefix_def ParseBool_def loadDefaults_def)

subsection \<open>WIMSE URIs: what is built is accepted\<close>

definition ValidateWIMSEURI :: "(string \<Rightarrow> parsed_url option) \<Rightarrow> string \<Rightarrow> bool" where
  "ValidateWIMSEURI url_Parse uri \<longleftrightarrow>
     uri \<noteq> [] \<and> length uri \<le> MaxSPIFFEIDBytes \<and> has_prefix ''spiffe://'' uri \<and>
     (case url_Parse uri of
        None \<Rightarrow> False
      | Some u \<Rightarrow>
          u_Scheme u = ''spiffe'' \<and> u_Host u \<noteq> [] \<and> CHR '':'' \<notin> set (u_Host u) \<and> \<not> u_HasUser u \<and>
          \<not> (u_RawQuery u \<noteq> [] \<or> u_ForceQuery u \<or> u_Fragment u \<noteq> []) \<and>
          \<not> (u_Path u = [] \<or> u_Path u = ''/'') \<and> \<not> has_suffix ''/'' (u_Path u) \<and>
          \<not> contains ''//'' (u_Path u) \<and>
          list_all ValidateSPIFFEPathSegment (split_all CHR ''/'' (trim_prefix ''/'' (u_Path u))))"

text \<open>How \<open>net/url.Parse\<close> reads a URI of plain characters: nothing is escaped, so the parts come out as they went in.\<close>

definition plain_parse :: "(string \<Rightarrow> parsed_url option) \<Rightarrow> bool" where
  "plain_parse url_Parse \<longleftrightarrow> (\<forall>h p. h \<noteq> [] \<and> list_all (\<lambda>c. dns_char c \<or> c = CHR ''.'') h \<and>
     list_all (\<lambda>c. spiffe_char c \<or> c = CHR ''/'') p \<longrightarrow>
     url_Parse (''spiffe://'' @ h @ CHR ''/'' # p) =
       Some \<lparr>u_Scheme = ''spiffe'', u_Host = h, u_Path = CHR ''/'' # p, u_HasUser = False, u_RawQuery = [],
             u_ForceQuery = False, u_Fragment = []\<rparr>)"

lemma split_all_one: "c \<notin> set a \<Longrightarrow> split_all c a = [a]"
  by (induction a) auto

lemma split_all_append: "c \<notin> set a \<Longrightarrow> split_all c (a @ c # b) = a # split_all c b"
  by (induction a) auto

lemma split_all_chars: "x \<in> set s \<Longrightarrow> x = c \<or> (\<exists>w \<in> set (split_all c s). x \<in> set w)"
  by (induction c s rule: split_all.induct) (auto split: list.split)

lemma split_all_nonempty: "split_all c s \<noteq> []"
  by (cases s) (auto split: list.split)

lemma double_slash_empty: "contains [c, c] s \<Longrightarrow> [] \<in> set (tl (split_all c s))"
proof (induction s)
  case (Cons x xs)
  show ?case
  proof (cases "has_prefix [c, c] (x # xs)")
    case True
    then obtain r where "x = c" "xs = c # r" by (cases xs) (auto simp: has_prefix_def)
    then show ?thesis by simp
  next
    case False
    with Cons have "[] \<in> set (tl (split_all c xs))" by simp
    then show ?thesis by (cases "split_all c xs") (auto split: list.split)
  qed
qed simp

lemma domain_chars:
  assumes "validateWIMSEDomain d"
  shows "d \<noteq> []" "list_all (\<lambda>c. dns_char c \<or> c = CHR ''.'') d"
  using assms split_all_chars [of _ d "CHR ''.''"]
  by (auto simp: validateWIMSEDomain_def list_all_iff label_ok_def)

lemma no_colon: "list_all (\<lambda>c. dns_char c \<or> c = CHR ''.'') d \<Longrightarrow> CHR '':'' \<notin> set d"
  by (auto simp: list_all_iff dns_char_def ascii_digit_def less_eq_char_def)

lemma built_URI_valid:
  assumes dom: "validateWIMSEDomain d" and parse: "plain_parse url_Parse"
    and seg: "list_all ValidateSPIFFEPathSegment [a, p, t, e]"
    and uri: "BuildWIMSEURI d a p t e = Some uri"
  shows "ValidateWIMSEURI url_Parse uri"
proof -
  let ?path = "a @ CHR ''/'' # p @ CHR ''/'' # t @ CHR ''/'' # e"
  have u: "uri = ''spiffe://'' @ d @ CHR ''/'' # ?path" and len: "length uri \<le> MaxSPIFFEIDBytes"
    using uri by (auto simp: BuildWIMSEURI_def Let_def split: if_splits)
  have ns: "CHR ''/'' \<notin> set a" "CHR ''/'' \<notin> set p" "CHR ''/'' \<notin> set t" "CHR ''/'' \<notin> set e" "e \<noteq> []"
    using seg spiffe_no_slash by auto
  have split: "split_all CHR ''/'' ?path = [a, p, t, e]"
    using ns by (simp add: split_all_append split_all_one)
  have chars: "list_all (\<lambda>c. spiffe_char c \<or> c = CHR ''/'') ?path"
    using seg by (auto simp: list_all_iff ValidateSPIFFEPathSegment_def)
  have "url_Parse uri = Some \<lparr>u_Scheme = ''spiffe'', u_Host = d, u_Path = CHR ''/'' # ?path, u_HasUser = False,
      u_RawQuery = [], u_ForceQuery = False, u_Fragment = []\<rparr>"
    using parse domain_chars [OF dom] chars unfolding plain_parse_def u by blast
  moreover have "\<not> contains ''//'' (CHR ''/'' # ?path)"
    using double_slash_empty [of "CHR ''/''" "CHR ''/'' # ?path"] split seg by (auto simp: ValidateSPIFFEPathSegment_def)
  moreover have "\<not> has_suffix ''/'' (CHR ''/'' # ?path)"
    using ns(4,5) by (cases e rule: rev_cases) (auto simp: has_suffix_def has_prefix_def)
  ultimately show ?thesis
    using len split seg domain_chars [OF dom] no_colon ns(5)
    by (simp add: ValidateWIMSEURI_def u has_prefix_append trim_prefix_def has_prefix_def)
qed

text \<open>Every row's URI ends in its external identifier, so two rows of a tenant never share a URI.\<close>

definition uris_ok :: "db \<Rightarrow> bool" where
  "uris_ok s \<longleftrightarrow> (\<forall>i \<in> set (identities s). \<exists>pre. i_WIMSEURI i = pre @ CHR ''/'' # i_ExternalID i \<and>
     CHR ''/'' \<notin> set (i_ExternalID i))"

lemma last_segment:
  assumes "pre @ CHR ''/'' # x = pre' @ CHR ''/'' # y" "CHR ''/'' \<notin> set x" "CHR ''/'' \<notin> set y"
  shows "x = y"
proof -
  have tail: "takeWhile (\<lambda>c. c \<noteq> CHR ''/'') (rev (q @ CHR ''/'' # z)) = rev z" if "CHR ''/'' \<notin> set z" for q z :: string
    using takeWhile_append2 [of "rev z" "\<lambda>c. c \<noteq> CHR ''/''" "CHR ''/'' # rev q"] that by auto
  from assms have "rev x = rev y" using tail by metis
  then show ?thesis by simp
qed

lemma registered_uri_form:
  assumes "RegisterIdentity E iid pid now req s = (Inr i, s')"
  shows "\<exists>pre. i_WIMSEURI i = pre @ CHR ''/'' # i_ExternalID i" "CHR ''/'' \<notin> set (i_ExternalID i)"
    "list_all ValidateSPIFFEPathSegment [i_AccountID i, i_ProjectID i, reg_type req, i_ExternalID i]"
    "BuildWIMSEURI (wimseDomain E) (i_AccountID i) (i_ProjectID i) (reg_type req) (i_ExternalID i) = Some (i_WIMSEURI i)"
    "i_AccountID i = ri_AccountID req" "i_ProjectID i = ri_ProjectID req"
proof -
  from RegisterIdentity_Inr [OF assms] obtain policyID uri where
    ck: "register_checks E req = None" and
    u: "BuildWIMSEURI (wimseDomain E) (ri_AccountID req) (ri_ProjectID req) (reg_type req)
       (ri_ExternalID req) = Some uri" and
    i: "i = register_row iid now req policyID uri" by blast
  from ck show seg: "list_all ValidateSPIFFEPathSegment [i_AccountID i, i_ProjectID i, reg_type req, i_ExternalID i]"
    by (auto simp: register_checks_def i register_row_def split: if_splits)
  then show "CHR ''/'' \<notin> set (i_ExternalID i)" using spiffe_no_slash by auto
  show b: "BuildWIMSEURI (wimseDomain E) (i_AccountID i) (i_ProjectID i) (reg_type req) (i_ExternalID i) = Some (i_WIMSEURI i)"
    "i_AccountID i = ri_AccountID req" "i_ProjectID i = ri_ProjectID req"
    using u by (simp_all add: i register_row_def)
  from b(1) show "\<exists>pre. i_WIMSEURI i = pre @ CHR ''/'' # i_ExternalID i"
    by (intro exI [of _ "''spiffe://'' @ wimseDomain E @ CHR ''/'' # i_AccountID i @ CHR ''/'' # i_ProjectID i @ CHR ''/'' # reg_type req"])
      (auto simp: BuildWIMSEURI_def Let_def split: if_splits)
qed

lemma RegisterIdentity_uris: "uris_ok s \<Longrightarrow> uris_ok (snd (RegisterIdentity E iid pid now req s))"
proof (cases "RegisterIdentity E iid pid now req s")
  case (Pair r s')
  assume ok: "uris_ok s"
  show ?thesis
  proof (cases r)
    case (Inl e)
    with Pair RegisterIdentity_Inl obtain ps where "s' = s\<lparr>credential_policies := credential_policies s @ ps\<rparr>" by blast
    with ok Pair show ?thesis by (simp add: uris_ok_def)
  next
    case (Inr i)
    with Pair have r: "RegisterIdentity E iid pid now req s = (Inr i, s')" by simp
    from RegisterIdentity_Inr [OF r] have "identities s' = identities s @ [i]" by auto
    with ok r registered_uri_form(1,2) [OF r] show ?thesis by (auto simp: uris_ok_def)
  qed
qed

lemma UpdateIdentity_uris:
  assumes ok: "uris_ok s"
  shows "uris_ok (snd (UpdateIdentity E parse caller pid sid now rid acct proj req s))"
proof (cases "UpdateIdentity E parse caller pid sid now rid acct proj req s")
  case (Pair r s')
  show ?thesis
  proof (cases r)
    case (Inl e)
    with Pair UpdateIdentity_Inl obtain ps where "s' = s\<lparr>credential_policies := credential_policies s @ ps\<rparr>" by blast
    with ok Pair show ?thesis by (simp add: uris_ok_def)
  next
    case (Inr i)
    with Pair have "UpdateIdentity E parse caller pid sid now rid acct proj req s = (Inr i, s')" by simp
    then obtain i0 i4 i5 ps p s1 where a: "Identity_GetByID rid acct proj s = (Inr i0, s)" "update_part1 E req i0 = Inr i4"
      "i5 = i4\<lparr>i_CredentialPolicyID := p\<rparr>" "s1 = s\<lparr>credential_policies := credential_policies s @ ps\<rparr>"
      "update_part2 parse now req i5 = Inr i"
      "s' = (let s2 = s1\<lparr>identities := update_where (\<lambda>r. i_ID r = i_ID i \<and> in_tenant_i (i_AccountID i) (i_ProjectID i) r)
             (\<lambda>_. i\<lparr>i_ModifiedBy := caller\<rparr>) (identities s)\<rparr>
           in if i_Status i0 \<noteq> IdentityStatusDeactivated \<and> i_Status i = IdentityStatusDeactivated
              then runDeactivationCleanup now sid i ''identity_deactivated'' s2 else s2)"
      by (rule UpdateIdentity_Inr) blast
    have "i0 \<in> set (identities s)"
      using a(1) by (auto simp: Identity_GetByID_def split: option.splits dest: find_SomeD)
    moreover have "i_WIMSEURI i = i_WIMSEURI i0" "i_ExternalID i = i_ExternalID i0"
      using update_part1_Inr [OF a(2)] update_part2_Inr [OF a(5)] a(3) by auto
    ultimately have "\<exists>pre. i_WIMSEURI i = pre @ CHR ''/'' # i_ExternalID i \<and> CHR ''/'' \<notin> set (i_ExternalID i)"
      using ok by (simp add: uris_ok_def)
    moreover have "set (identities s') \<subseteq> insert (i\<lparr>i_ModifiedBy := caller\<rparr>) (set (identities s))"
      by (auto simp: a(4,6) Let_def update_where_def)
    ultimately show ?thesis using ok Pair by (auto simp: uris_ok_def)
  qed
qed

lemma Sweep_uris: "uris_ok s \<Longrightarrow> uris_ok (snd (SweepExpiredIdentities sid now s))"
  by (auto simp: uris_ok_def SweepExpiredIdentities_def sweep_identities swept_def)

text \<open>
  C18. An identity can be found under the name it was given. With a trust domain that passed the
  check of the configuration, a URI built at registration is one that the lookup endpoint accepts, and right after the
  registration the lookup returns that identity; every operation on identities keeps the
  invariant of the URIs that this needs.
\<close>

theorem registered_URI_found:
  assumes "validateWIMSEDomain (wimseDomain E)" "plain_parse url_Parse" "uris_ok s"
    and "RegisterIdentity E iid pid now req s = (Inr i, s')"
  shows "getIdentityByWIMSEOp (ValidateWIMSEURI url_Parse (i_WIMSEURI i)) (Some (ri_AccountID req, ri_ProjectID req))
      (i_WIMSEURI i) s' = (Inr i, s') \<and>
    uris_ok s' \<and> uris_ok (snd (UpdateIdentity E parse caller pid2 sid now2 rid acct proj ureq s')) \<and>
    uris_ok (DeleteIdentity now2 sid rid acct proj s') \<and> uris_ok (snd (SweepExpiredIdentities sids now2 s'))"
proof -
  note form = registered_uri_form [OF assms(4)]
  have valid: "ValidateWIMSEURI url_Parse (i_WIMSEURI i)"
    by (rule built_URI_valid [OF assms(1,2) form(3,4)])
  from RegisterIdentity_Inr [OF assms(4)] have ids: "identities s' = identities s @ [i]"
    and ins: "insert_row identity_conflict i (identities s) = Some (identities s @ [i])" by auto
  have fresh: "\<not> (i_WIMSEURI j = i_WIMSEURI i \<and> in_tenant_i (i_AccountID i) (i_ProjectID i) j)" if "j \<in> set (identities s)" for j
  proof
    assume j: "i_WIMSEURI j = i_WIMSEURI i \<and> in_tenant_i (i_AccountID i) (i_ProjectID i) j"
    from assms(3) that obtain pre where "i_WIMSEURI j = pre @ CHR ''/'' # i_ExternalID j" "CHR ''/'' \<notin> set (i_ExternalID j)"
      by (auto simp: uris_ok_def)
    with j form(1,2) have "i_ExternalID j = i_ExternalID i" using last_segment by metis
    with j ins that show False by (auto simp: insert_row_def identity_conflict_def split: if_splits)
  qed
  then have "find (\<lambda>j. i_WIMSEURI j = i_WIMSEURI i \<and> in_tenant_i (i_AccountID i) (i_ProjectID i) j) (identities s) = None"
    by (simp add: find_None_iff)
  then have found: "Identity_GetByWIMSEURI (i_WIMSEURI i) (i_AccountID i) (i_ProjectID i) s' = (Inr i, s')"
    by (simp add: Identity_GetByWIMSEURI_def ids find_append)
  have tenant: "GetTenant (Some (ri_AccountID req, ri_ProjectID req)) = Some (i_AccountID i, i_ProjectID i)"
    using form(3,5,6) by (simp add: GetTenant_def ValidateSPIFFEPathSegment_def)
  have ok: "uris_ok s'" using RegisterIdentity_uris [OF assms(3)] assms(4) by (metis snd_conv)
  moreover have "uris_ok (DeleteIdentity now2 sid rid acct proj s')"
    using ok DeleteIdentity_rows(2) unfolding uris_ok_def by blast
  ultimately show ?thesis
    using UpdateIdentity_uris Sweep_uris found tenant valid
    by (simp add: getIdentityByWIMSEOp_def GetIdentityByWIMSEURI_def on_error_def)
qed

lemma sample_url_plain: "plain_parse sample_url"
proof -
  have "takeWhile (\<lambda>c. c \<noteq> CHR ''/'') (h @ CHR ''/'' # p) = h" if "list_all (\<lambda>c. dns_char c \<or> c = CHR ''.'') h" for h p
  proof -
    have "CHR ''/'' \<notin> set h" using that by (auto simp: list_all_iff dns_char_def ascii_digit_def less_eq_char_def)
    then show ?thesis by (induction h) auto
  qed
  then show ?thesis by (simp add: plain_parse_def sample_url_def Let_def)
qed

theorem registered_URI_found_witness:
  "\<exists>i s'. RegisterIdentity sample_env ''i1'' ''fp'' 5 sample_reg policy_db = (Inr i, s') \<and>
     getIdentityByWIMSEOp (ValidateWIMSEURI sample_url (i_WIMSEURI i))
       (Some (ri_AccountID sample_reg, ri_ProjectID sample_reg)) (i_WIMSEURI i) s' = (Inr i, s')"
proof -
  have d: "validateWIMSEDomain (wimseDomain sample_env)"
    by (simp add: validateWIMSEDomain_def sample_env_def label_ok_def dns_char_def ascii_digit_def has_prefix_def)
  have "uris_ok policy_db" by (simp add: uris_ok_def policy_db_def empty_db_def)
  moreover obtain i s' where "RegisterIdentity sample_env ''i1'' ''fp'' 5 sample_reg policy_db = (Inr i, s')"
    using sample_registered by blast
  ultimately show ?thesis using registered_URI_found [OF d sample_url_plain] by blast
qed

text \<open>\<open>.\<close> and \<open>..\<close> pass as path segments.\<close>

lemma dot_segments_accepted: "ValidateSPIFFEPathSegment ''..''" "ValidateSPIFFEPathSegment ''.''"
  by (simp_all add: ValidateSPIFFEPathSegment_def spiffe_char_def)

end
