(* ===== verification/Zeroid_Waiting.thy ===== *)
theory Zeroid_Waiting
  imports Zeroid_Prelude
begin

text \<open>
  Waiting for the database at start-up (\<open>src/internal/database/wait.go\<close>): pings with capped exponential
  delays within a budget. Proved: the loop ends within the budget, its attempts are bounded, and it finds a database
  that comes up in time.
\<close>

subsection \<open>Waiting for the database\<close>

record wait_options =
  wo_Budget :: int
  wo_InitialBackoff :: int
  wo_MaxBackoff :: int
  wo_AttemptTimeout :: int

definition withDefaults :: "wait_options \<Rightarrow> wait_options" where
  "withDefaults o' =
     \<lparr>wo_Budget = (if wo_Budget o' = 0 then 60 * second else wo_Budget o'),
      wo_InitialBackoff = (if wo_InitialBackoff o' = 0 then 500 * 1000000 else wo_InitialBackoff o'),
      wo_MaxBackoff = (if wo_MaxBackoff o' = 0 then 5 * second else wo_MaxBackoff o'),
      wo_AttemptTimeout = (if wo_AttemptTimeout o' = 0 then 5 * second else wo_AttemptTimeout o')\<rparr>"

datatype wait_result = Reachable nat | NotReachable nat | Aborted nat

text \<open>
  What the loop meets: \<open>wp_ping n now deadline\<close> is the outcome of the n-th ping and the time it returns, with
  the deadline of its context; \<open>wp_cancel\<close> the time at which the caller's context ends, if it does;
  \<open>wp_timer n\<close> says which branch of the \<open>select\<close> is taken when timer and context are ready together.
\<close>

record wait_world =
  wp_ping :: "nat \<Rightarrow> time \<Rightarrow> time \<Rightarrow> bool \<times> time"
  wp_cancel :: "time option"
  wp_timer :: "nat \<Rightarrow> bool"

definition ctx_end :: "wait_world \<Rightarrow> time \<Rightarrow> time" where
  "ctx_end W deadline = (case wp_cancel W of None \<Rightarrow> deadline | Some c \<Rightarrow> min c deadline)"

definition DeadlineExceeded :: "wait_world \<Rightarrow> time \<Rightarrow> bool" where
  "DeadlineExceeded W deadline \<longleftrightarrow> (case wp_cancel W of None \<Rightarrow> True | Some c \<Rightarrow> deadline \<le> c)"

partial_function (option) wait_loop ::
  "wait_world \<Rightarrow> wait_options \<Rightarrow> time \<Rightarrow> nat \<Rightarrow> int \<Rightarrow> time \<Rightarrow> (wait_result \<times> time) option" where
  "wait_loop W opts deadline attempt backoff now =
     (case wp_ping W attempt now (min (ctx_end W deadline) (now + wo_AttemptTimeout opts)) of (ok, t) \<Rightarrow>
        if ok then Some (Reachable attempt, t)
        else if ctx_end W deadline \<le> t then Some (NotReachable attempt, t)
        else if ctx_end W deadline < t + max 0 backoff \<or>
                ctx_end W deadline = t + max 0 backoff \<and> \<not> wp_timer W attempt
        then Some (if DeadlineExceeded W deadline then NotReachable attempt else Aborted attempt,
                   ctx_end W deadline)
        else wait_loop W opts deadline (Suc attempt)
               (let b = int64 (backoff * 2) in if b > wo_MaxBackoff opts then wo_MaxBackoff opts else b)
               (t + max 0 backoff))"

definition waitForPing :: "wait_world \<Rightarrow> wait_options \<Rightarrow> time \<Rightarrow> (wait_result \<times> time) option" where
  "waitForPing W opts now =
     (let opts = withDefaults opts
      in wait_loop W opts (now + wo_Budget opts) 1 (wo_InitialBackoff opts) now)"

definition WaitForReachable :: "wait_world \<Rightarrow> wait_options \<Rightarrow> time \<Rightarrow> (wait_result \<times> time) option" where
  "WaitForReachable W opts now = waitForPing W opts now"

text \<open>A ping takes time and returns when its context ends.\<close>

definition pings_return :: "wait_world \<Rightarrow> bool" where
  "pings_return W \<longleftrightarrow> (\<forall>n now d. now \<le> snd (wp_ping W n now d) \<and> snd (wp_ping W n now d) \<le> max now d)"

definition sane :: "wait_options \<Rightarrow> bool" where
  "sane opts \<longleftrightarrow> 0 \<le> wo_Budget opts \<and> 0 \<le> wo_InitialBackoff opts \<and> wo_InitialBackoff opts < 2 ^ 62 \<and>
     0 \<le> wo_MaxBackoff opts \<and> wo_MaxBackoff opts < 2 ^ 62 \<and> 0 \<le> wo_AttemptTimeout opts"

lemma sane_defaults:
  assumes "sane opts" "o' = withDefaults opts"
  shows "0 < wo_Budget o'" "0 < wo_InitialBackoff o'" "wo_InitialBackoff o' < 2 ^ 62" "0 < wo_MaxBackoff o'"
    "wo_MaxBackoff o' < 2 ^ 62" "0 < wo_AttemptTimeout o'"
  using assms by (auto simp: sane_def withDefaults_def)

text \<open>The next delay: doubled and capped, never shorter than the smaller of this delay and the cap.\<close>

definition next_backoff :: "wait_options \<Rightarrow> int \<Rightarrow> int" where
  "next_backoff opts b = min (wo_MaxBackoff opts) (b * 2)"

lemma backoff_step:
  assumes "0 < b" "b < 2 ^ 62"
  shows "(let b' = int64 (b * 2) in if b' > wo_MaxBackoff opts then wo_MaxBackoff opts else b') = next_backoff opts b"
  using assms int64_id [of "b * 2"] by (simp add: next_backoff_def Let_def)

text \<open>
  One round of the loop, as long as delays are positive: it ends, or it goes on later with the
  next delay and time left.
\<close>

lemma wait_loop_round:
  assumes "pings_return W" "0 < b" "b < 2 ^ 62"
  obtains (found) t where "wait_loop W opts d n b now = Some (Reachable n, t)" "now \<le> t" "t \<le> max now (ctx_end W d)"
      "wp_ping W n now (min (ctx_end W d) (now + wo_AttemptTimeout opts)) = (True, t)"
  | (late) r t where "wait_loop W opts d n b now = Some (r, t)" "r = NotReachable n \<or> r = Aborted n \<and> wp_cancel W \<noteq> None"
      "now \<le> t" "t \<le> max now (ctx_end W d)" "\<not> fst (wp_ping W n now (min (ctx_end W d) (now + wo_AttemptTimeout opts)))"
      "ctx_end W d \<le> max now (now + wo_AttemptTimeout opts) + b"
  | (again) now' where "wait_loop W opts d n b now = wait_loop W opts d (Suc n) (next_backoff opts b) now'"
      "now + b \<le> now'" "now' \<le> ctx_end W d" "now' \<le> max now (now + wo_AttemptTimeout opts) + b"
      "\<not> fst (wp_ping W n now (min (ctx_end W d) (now + wo_AttemptTimeout opts)))"
proof -
  obtain ok t where p: "wp_ping W n now (min (ctx_end W d) (now + wo_AttemptTimeout opts)) = (ok, t)" by fastforce
  with assms(1) have t: "now \<le> t" "t \<le> max now (min (ctx_end W d) (now + wo_AttemptTimeout opts))"
    unfolding pings_return_def by (metis snd_conv)+
  have unf: "wait_loop W opts d n b now =
      (if ok then Some (Reachable n, t)
       else if ctx_end W d \<le> t then Some (NotReachable n, t)
       else if ctx_end W d < t + b \<or> ctx_end W d = t + b \<and> \<not> wp_timer W n
       then Some (if DeadlineExceeded W d then NotReachable n else Aborted n, ctx_end W d)
       else wait_loop W opts d (Suc n) (next_backoff opts b) (t + b))"
    using assms(2) backoff_step [OF assms(2,3)] by (subst wait_loop.simps) (simp add: p)
  show thesis
  proof (cases ok)
    case True
    with unf p t show thesis by (intro found [of t]) auto
  next
    case False
    note no = this
    show thesis
    proof (cases "ctx_end W d \<le> t")
      case True
      with unf no p t assms(2) show thesis by (intro late [of "NotReachable n" t]) auto
    next
      case False
      show thesis
      proof (cases "ctx_end W d < t + b \<or> ctx_end W d = t + b \<and> \<not> wp_timer W n")
        case True
        with unf no p t False show thesis
          by (intro late [of "if DeadlineExceeded W d then NotReachable n else Aborted n" "ctx_end W d"])
            (auto simp: DeadlineExceeded_def split: option.splits)
      next
        case go: False
        with unf no p t False show thesis by (intro again [of "t + b"]) auto
      qed
    qed
  qed
qed

fun attempts :: "wait_result \<Rightarrow> nat" where
  "attempts (Reachable n) = n"
| "attempts (NotReachable n) = n"
| "attempts (Aborted n) = n"

lemma next_backoff_range:
  assumes "0 < c" "c \<le> b" "c \<le> wo_MaxBackoff opts" "wo_MaxBackoff opts < 2 ^ 62"
  shows "c \<le> next_backoff opts b" "next_backoff opts b < 2 ^ 62" "next_backoff opts b \<le> wo_MaxBackoff opts"
  using assms by (auto simp: next_backoff_def)

lemma wait_loop_ends:
  assumes "pings_return W" "0 < c" "c \<le> b" "b < 2 ^ 62" "c \<le> wo_MaxBackoff opts" "wo_MaxBackoff opts < 2 ^ 62"
  shows "\<exists>r t. wait_loop W opts d n b now = Some (r, t) \<and> now \<le> t \<and> t \<le> max now (ctx_end W d) \<and>
    n \<le> attempts r \<and> (int (attempts r) - int n) * c \<le> max 0 (ctx_end W d - now)"
  using assms(3,4)
proof (induction "nat (ctx_end W d - now)" arbitrary: n b now rule: less_induct)
  case less
  have "0 < b" using assms(2) less.prems(1) by simp
  from assms(1) this less.prems(2) show ?case
  proof (cases rule: wait_loop_round [where opts = opts and d = d and n = n and now = now])
    case (again now')
    have later: "nat (ctx_end W d - now') < nat (ctx_end W d - now)" using again(2,3) \<open>0 < b\<close> by simp
    from less.hyps [OF later, of "next_backoff opts b" "Suc n"]
      next_backoff_range [OF assms(2) less.prems(1) assms(5,6)]
    obtain r t where w: "wait_loop W opts d (Suc n) (next_backoff opts b) now' = Some (r, t)" "now' \<le> t"
      "t \<le> max now' (ctx_end W d)" "Suc n \<le> attempts r"
      "(int (attempts r) - int (Suc n)) * c \<le> max 0 (ctx_end W d - now')" by blast
    have "(int (attempts r) - int n) * c = (int (attempts r) - int (Suc n)) * c + c" by (simp add: algebra_simps)
    then show ?thesis using w again(1,2,3) less.prems(1) \<open>0 < b\<close> by auto
  qed auto
qed

lemma wait_loop_finds:
  assumes "pings_return W" "0 < c" "c \<le> b" "b \<le> B" "B < 2 ^ 62" "c \<le> wo_MaxBackoff opts" "wo_MaxBackoff opts \<le> B"
    and "0 < wo_AttemptTimeout opts" "now < ctx_end W d"
    and "\<And>n now d. T \<le> now \<Longrightarrow> now < d \<Longrightarrow> fst (wp_ping W n now d)" "T + wo_AttemptTimeout opts + B \<le> ctx_end W d"
  shows "\<exists>m t. wait_loop W opts d n b now = Some (Reachable m, t)"
  using assms(3,4,9)
proof (induction "nat (ctx_end W d - now)" arbitrary: n b now rule: less_induct)
  case less
  have b: "0 < b" "b < 2 ^ 62" using assms(2,5) less.prems by auto
  have early: "now < T" if "\<not> fst (wp_ping W n now (min (ctx_end W d) (now + wo_AttemptTimeout opts)))"
    using assms(10) [of now "min (ctx_end W d) (now + wo_AttemptTimeout opts)" n] that assms(8) less.prems(3) by force
  from assms(1) b show ?case
  proof (cases rule: wait_loop_round [where opts = opts and d = d and n = n and now = now])
    case (late r t)
    then show ?thesis using early [OF late(5)] assms(8,11) less.prems(2) by simp
  next
    case (again now')
    have soon: "now' < ctx_end W d" using again(4) early [OF again(5)] assms(8,11) less.prems(2) by simp
    have later: "nat (ctx_end W d - now') < nat (ctx_end W d - now)" using again(2) soon b by simp
    have cap: "wo_MaxBackoff opts < 2 ^ 62" using assms(5,7) by simp
    have "next_backoff opts b \<le> B" using assms(7) by (simp add: next_backoff_def)
    with less.hyps [OF later, of "next_backoff opts b" "Suc n"] soon
      next_backoff_range [OF assms(2) less.prems(1) assms(6) cap] show ?thesis by (simp add: again(1))
  qed blast
qed

text \<open>
  C20. Waiting for the database always ends within the budget, after at most one attempt more than
  the smaller of the two delays fits into it, and when the database answers from some instant on that leaves the
  time of one attempt and one delay, it is found.
\<close>

theorem waitForPing_bounded:
  assumes "pings_return W" "sane opts" "o' = withDefaults opts"
  shows "\<exists>r t. waitForPing W opts now = Some (r, t) \<and> now \<le> t \<and> t \<le> now + wo_Budget o' \<and>
    (int (attempts r) - 1) * min (wo_InitialBackoff o') (wo_MaxBackoff o') \<le> wo_Budget o' \<and>
    (wp_cancel W = None \<longrightarrow>
     (\<forall>T. T + wo_AttemptTimeout o' + max (wo_InitialBackoff o') (wo_MaxBackoff o') \<le> now + wo_Budget o' \<longrightarrow>
       (\<forall>n s d. T \<le> s \<longrightarrow> s < d \<longrightarrow> fst (wp_ping W n s d)) \<longrightarrow> (\<exists>m. r = Reachable m)))"
proof -
  note o' = sane_defaults [OF assms(2,3)]
  let ?c = "min (wo_InitialBackoff o') (wo_MaxBackoff o')" and ?d = "now + wo_Budget o'"
  have def: "waitForPing W opts now = wait_loop W o' ?d 1 (wo_InitialBackoff o') now"
    by (simp add: waitForPing_def assms(3) Let_def)
  have c: "0 < ?c" "?c \<le> wo_InitialBackoff o'" "?c \<le> wo_MaxBackoff o'" using o' by auto
  from wait_loop_ends [OF assms(1) c(1,2) o'(3) c(3) o'(5), of ?d 1 now] obtain r t where
    w: "waitForPing W opts now = Some (r, t)" "now \<le> t" "t \<le> max now (ctx_end W ?d)"
      "(int (attempts r) - 1) * ?c \<le> max 0 (ctx_end W ?d - now)" unfolding def by auto
  have e: "ctx_end W ?d \<le> ?d" by (simp add: ctx_end_def split: option.split)
  have "\<exists>m. r = Reachable m" if cancel: "wp_cancel W = None" and
      T: "T + wo_AttemptTimeout o' + max (wo_InitialBackoff o') (wo_MaxBackoff o') \<le> ?d"
      "\<forall>n s d. T \<le> s \<longrightarrow> s < d \<longrightarrow> fst (wp_ping W n s d)" for T
  proof -
    have end_: "ctx_end W ?d = ?d" using cancel by (simp add: ctx_end_def)
    have "\<exists>m t. wait_loop W o' ?d 1 (wo_InitialBackoff o') now = Some (Reachable m, t)"
      by (rule wait_loop_finds [OF assms(1) c(1,2) _ _ c(3), where T = T and B = "max (wo_InitialBackoff o') (wo_MaxBackoff o')"])
        (use o' T in \<open>auto simp: end_\<close>)
    then show ?thesis using w(1) def by auto
  qed
  moreover have "t \<le> ?d" "(int (attempts r) - 1) * ?c \<le> wo_Budget o'" using w(3,4) e o'(1) by auto
  ultimately show ?thesis using w(1,2) by blast
qed

text \<open>The database comes up after 20 seconds; a refused connection returns at once.\<close>

definition slow_start :: wait_world where
  "slow_start = \<lparr>wp_ping = (\<lambda>n now d. (20 * second \<le> now \<and> now < d, now)), wp_cancel = None, wp_timer = (\<lambda>n. True)\<rparr>"

definition no_options :: wait_options where
  "no_options = \<lparr>wo_Budget = 0, wo_InitialBackoff = 0, wo_MaxBackoff = 0, wo_AttemptTimeout = 0\<rparr>"

theorem waitForPing_bounded_witness:
  "\<exists>m t. waitForPing slow_start no_options 0 = Some (Reachable m, t) \<and> t \<le> 60 * second"
proof -
  have p: "pings_return slow_start" by (simp add: pings_return_def slow_start_def)
  have s: "sane no_options" by (simp add: sane_def no_options_def)
  have up: "\<forall>n s d. 20 * second \<le> s \<longrightarrow> s < d \<longrightarrow> fst (wp_ping slow_start n s d)" by (simp add: slow_start_def)
  have c: "wp_cancel slow_start = None" by (simp add: slow_start_def)
  from waitForPing_bounded [OF p s refl, of 0] c up show ?thesis
    by (auto simp: withDefaults_def no_options_def)
qed

text \<open>The cap does not apply to the first delay.\<close>

lemma first_delay_uncapped:
  "wp_ping W n now (min (ctx_end W d) (now + wo_AttemptTimeout opts)) = (False, now) \<Longrightarrow> 0 < b \<Longrightarrow> b < 2 ^ 62 \<Longrightarrow>
   now + b < ctx_end W d \<Longrightarrow>
   wait_loop W opts d n b now = wait_loop W opts d (Suc n) (next_backoff opts b) (now + b)"
  by (subst wait_loop.simps) (simp add: backoff_step)

end
