(* ===== verification/Zeroid_Signing.thy ===== *)
theory Zeroid_Signing
  imports Zeroid_Worker "HOL-Library.List_Lexorder"
begin

text \<open>
  Workload-attested signing keys (\<open>src/domain/signing_credential.go\<close>,
  \<open>src/internal/store/postgres/signing_credential.go\<close>, \<open>src/internal/service/signing_credential.go\<close> and the
  operations of \<open>src/internal/handler/signing_credential.go\<close>): attestation, the published key set,
  revocation and pruning. The table is a state of its own; the random bytes and the row
  identifier that the database draws are arguments.
\<close>

subsection \<open>The record and its two clocks\<close>

record signing_credential =
  sc_ID :: string
  sc_AccountID :: string
  sc_ProjectID :: string
  sc_KID :: string
  sc_Workload :: string
  sc_Purpose :: string
  sc_Algorithm :: string
  sc_PublicKey :: string
  sc_NotAfter :: time
  sc_AuditRetentionUntil :: time
  sc_Revoked :: bool
  sc_RevokedReason :: string
  sc_RevokedAt :: "time option"
  sc_CreatedAt :: time

type_synonym sc_table = "signing_credential list"

abbreviation SigningAlgorithmEdDSA :: string where "SigningAlgorithmEdDSA \<equiv> ''EdDSA''"

definition VerifiableNow :: "time \<Rightarrow> signing_credential \<Rightarrow> bool" where
  "VerifiableNow now c \<longleftrightarrow> \<not> sc_Revoked c \<and> now < sc_AuditRetentionUntil c"

definition SignableNow :: "time \<Rightarrow> signing_credential \<Rightarrow> bool" where
  "SignableNow now c \<longleftrightarrow> \<not> sc_Revoked c \<and> now < sc_NotAfter c"

subsection \<open>Runes\<close>

text \<open>
  A Go string as \<open>range\<close> reads it: the byte sequences of its runes, a byte that starts no
  well-formed sequence alone. \<open>IsSpace\<close> is \<open>unicode.IsSpace\<close>, and \<open>blank\<close> says that \<open>strings.TrimSpace\<close> leaves
  nothing.
\<close>

function runes :: "string \<Rightarrow> string list" where
  "runes [] = []"
| "runes (c # cs) = (c # take (first_rune c cs - 1) cs) # runes (drop (first_rune c cs - 1) cs)"
  by pat_completeness auto
termination by (relation "measure length") auto

definition IsSpace :: "string \<Rightarrow> bool" where
  "IsSpace r \<longleftrightarrow> (length r = 1 \<and> is_space (hd r)) \<or>
     map of_char r \<in> set ([[0xC2, 0x85], [0xC2, 0xA0], [0xE1, 0x9A, 0x80], [0xE2, 0x80, 0xA8],
       [0xE2, 0x80, 0xA9], [0xE2, 0x80, 0xAF], [0xE2, 0x81, 0x9F], [0xE3, 0x80, 0x80 :: nat]] @
       map (\<lambda>b. [0xE2, 0x80, b]) [0x80..<0x8B])"

definition blank :: "string \<Rightarrow> bool" where
  "blank s \<longleftrightarrow> list_all IsSpace (runes s)"

subsection \<open>Key identifiers\<close>

text \<open>
  The two maps of \<open>mintKID\<close> on one rune: outside ASCII only the dotted capital I and the Kelvin
  sign have a lower case among the letters that are kept. \<open>rnd\<close> are the eight random bytes, or \<open>None\<close> when the
  random source fails.
\<close>

definition kid_char :: "char \<Rightarrow> bool" where
  "kid_char c \<longleftrightarrow> c = CHR ''-'' \<or> c = CHR ''_'' \<or> byte_in 97 122 c \<or> byte_in 48 57 c"

definition clean_rune :: "string \<Rightarrow> char" where
  "clean_rune r =
     (if length r = 1 then (if kid_char (lower (hd r)) then lower (hd r) else CHR ''-'')
      else if map of_char r = [0xC4, 0xB0 :: nat] then CHR ''i''
      else if map of_char r = [0xE2, 0x84, 0xAA :: nat] then CHR ''k'' else CHR ''-'')"

definition clean :: "string \<Rightarrow> string" where
  "clean s = map clean_rune (runes s)"

definition hex_digit :: "nat \<Rightarrow> char" where
  "hex_digit n = (if n < 10 then char_of (48 + n) else char_of (87 + n))"

definition EncodeToString :: "nat list \<Rightarrow> string" where
  "EncodeToString bs = concat (map (\<lambda>b. [hex_digit (b div 16), hex_digit (b mod 16)]) bs)"

definition mintKID :: "nat list option \<Rightarrow> string \<Rightarrow> string \<Rightarrow> string option" where
  "mintKID rnd purpose workload =
     (case rnd of None \<Rightarrow> None
      | Some bs \<Rightarrow> Some (clean purpose @ ''-'' @ clean workload @ ''-'' @ EncodeToString bs))"

subsection \<open>Base64\<close>

text \<open>
  \<open>base64.RawURLEncoding.DecodeString\<close>: carriage returns and line feeds are skipped, left-over bits
  of the last sextet are dropped, a single left-over sextet is an error.
\<close>

definition sextet :: "char \<Rightarrow> nat option" where
  "sextet c =
     (if byte_in 65 90 c then Some (of_char c - 65) else if byte_in 97 122 c then Some (of_char c - 71)
      else if byte_in 48 57 c then Some (of_char c + 4) else if c = CHR ''-'' then Some 62
      else if c = CHR ''_'' then Some 63 else None)"

fun pack :: "nat list \<Rightarrow> nat list option" where
  "pack [] = Some []"
| "pack [a] = None"
| "pack [a, b] = Some [a * 4 + b div 16]"
| "pack [a, b, c] = Some [a * 4 + b div 16, b mod 16 * 16 + c div 4]"
| "pack (a # b # c # d # r) =
     map_option (\<lambda>bs. (a * 4 + b div 16) # (b mod 16 * 16 + c div 4) # (c mod 4 * 64 + d) # bs) (pack r)"

definition DecodeString :: "string \<Rightarrow> nat list option" where
  "DecodeString s =
     (let vs = map sextet (filter (\<lambda>c. c \<noteq> CHR 0x0A \<and> c \<noteq> CHR 0x0D) s)
      in if None \<in> set vs then None else pack (map the vs))"

subsection \<open>The repository\<close>

text \<open>The column widths of the table; a text column takes valid UTF-8 without a zero byte.\<close>

definition text_ok :: "string \<Rightarrow> bool" where
  "text_ok s \<longleftrightarrow> CHR 0x00 \<notin> set s \<and> list_all (\<lambda>r. length r = 1 \<longrightarrow> byte_in 0 0x7F (hd r)) (runes s)"

definition varchar :: "nat \<Rightarrow> string \<Rightarrow> bool" where
  "varchar n s \<longleftrightarrow> text_ok s \<and> length (runes s) \<le> n"

definition signing_check :: "signing_credential \<Rightarrow> bool" where
  "signing_check c \<longleftrightarrow> varchar 255 (sc_AccountID c) \<and> varchar 255 (sc_ProjectID c) \<and>
     varchar 255 (sc_KID c) \<and> varchar 255 (sc_Workload c) \<and> varchar 64 (sc_Purpose c) \<and>
     varchar 32 (sc_Algorithm c) \<and> text_ok (sc_PublicKey c)"

definition signing_conflict :: "signing_credential \<Rightarrow> signing_credential \<Rightarrow> bool" where
  "signing_conflict a b \<longleftrightarrow> sc_ID a = sc_ID b \<or> sc_KID a = sc_KID b"

definition Signing_Create :: "signing_credential \<Rightarrow> (sc_table, err, unit) svc" where
  "Signing_Create c = (\<lambda>t.
     if \<not> signing_check c then (Inl (ErrMsg ''failed to create signing credential''), t)
     else case insert_row signing_conflict c t of
            None \<Rightarrow> (Inl (ErrMsg ''failed to create signing credential''), t)
          | Some t' \<Rightarrow> (Inr (), t'))"

definition in_tenant_sc :: "string \<Rightarrow> string \<Rightarrow> signing_credential \<Rightarrow> bool" where
  "in_tenant_sc acct proj c \<longleftrightarrow> sc_AccountID c = acct \<and> sc_ProjectID c = proj"

definition GetByKID :: "string \<Rightarrow> string \<Rightarrow> string \<Rightarrow> sc_table \<Rightarrow> signing_credential option" where
  "GetByKID kid acct proj t = find (\<lambda>c. sc_KID c = kid \<and> in_tenant_sc acct proj c) t"

definition ListVerifiable :: "string \<Rightarrow> time \<Rightarrow> sc_table \<Rightarrow> sc_table" where
  "ListVerifiable purpose now t =
     sort_key sc_KID (filter (\<lambda>c. sc_Purpose c = purpose \<and> \<not> sc_Revoked c \<and> now < sc_AuditRetentionUntil c) t)"

definition revoke_sc :: "string \<Rightarrow> time \<Rightarrow> signing_credential \<Rightarrow> signing_credential" where
  "revoke_sc reason at c = c\<lparr>sc_Revoked := True, sc_RevokedReason := reason, sc_RevokedAt := Some at\<rparr>"

definition Repo_RevokeWorkload ::
  "string \<Rightarrow> string \<Rightarrow> string \<Rightarrow> string \<Rightarrow> time \<Rightarrow> sc_table \<Rightarrow> nat \<times> sc_table" where
  "Repo_RevokeWorkload workload acct proj reason at t =
     (let P = (\<lambda>c. sc_Workload c = workload \<and> in_tenant_sc acct proj c \<and> \<not> sc_Revoked c)
      in (length (filter P t), update_where P (revoke_sc reason at) t))"

definition Repo_RevokeKID ::
  "string \<Rightarrow> string \<Rightarrow> string \<Rightarrow> string \<Rightarrow> string \<Rightarrow> time \<Rightarrow> sc_table \<Rightarrow> nat \<times> sc_table" where
  "Repo_RevokeKID kid workload acct proj reason at t =
     (let P = (\<lambda>c. sc_KID c = kid \<and> sc_Workload c = workload \<and> in_tenant_sc acct proj c \<and> \<not> sc_Revoked c)
      in (length (filter P t), update_where P (revoke_sc reason at) t))"

definition PruneExpiredRetention :: "time \<Rightarrow> sc_table \<Rightarrow> nat \<times> sc_table" where
  "PruneExpiredRetention now t =
     (let P = (\<lambda>c. \<not> sc_Revoked c \<and> sc_AuditRetentionUntil c \<le> now)
      in (length (filter P t), delete_where P t))"

subsection \<open>The service\<close>

record signing_svc =
  sg_maxTTL :: int
  sg_retentionWindow :: int
  sg_allowedPurposes :: "string list"
  sg_jwksPurpose :: string
  sg_wellKnownName :: string

definition NewSigningCredentialService ::
  "int \<Rightarrow> int \<Rightarrow> string list \<Rightarrow> string \<Rightarrow> string \<Rightarrow> signing_svc" where
  "NewSigningCredentialService ttlSeconds retentionDays allowedPurposes jwksPurpose wellKnownName =
     (let maxTTL = dur_seconds ttlSeconds; retention = int64 (retentionDays * 24 * (3600 * second))
      in \<lparr>sg_maxTTL = (if maxTTL \<le> 0 then 3600 * second else maxTTL),
          sg_retentionWindow = (if retention \<le> 0 then 400 * 24 * (3600 * second) else retention),
          sg_allowedPurposes = filter (\<lambda>p. p \<noteq> []) allowedPurposes, sg_jwksPurpose = jwksPurpose,
          sg_wellKnownName = (if wellKnownName = [] then ''signing-keys'' else wellKnownName)\<rparr>)"

definition WellKnownPath :: "signing_svc \<Rightarrow> string" where
  "WellKnownPath g = ''/.well-known/'' @ sg_wellKnownName g"

definition JWKSEnabled :: "signing_svc \<Rightarrow> bool" where
  "JWKSEnabled g \<longleftrightarrow> sg_jwksPurpose g \<noteq> []"

record attest_req =
  ar_Workload :: string
  ar_AccountID :: string
  ar_ProjectID :: string
  ar_PublicKey :: string
  ar_Algorithm :: string
  ar_Purpose :: string
  ar_TTLSeconds :: int

abbreviation ErrSigningCredInvalid :: err where
  "ErrSigningCredInvalid \<equiv> ErrMsg ''invalid signing-credential attestation request''"

definition signing_ttl :: "signing_svc \<Rightarrow> int \<Rightarrow> int" where
  "signing_ttl g n = (let ttl = dur_seconds n in if ttl \<le> 0 \<or> ttl > sg_maxTTL g then sg_maxTTL g else ttl)"

definition signing_row :: "signing_svc \<Rightarrow> string \<Rightarrow> string \<Rightarrow> time \<Rightarrow> attest_req \<Rightarrow> signing_credential" where
  "signing_row g uid kid now r =
     \<lparr>sc_ID = uid, sc_AccountID = ar_AccountID r, sc_ProjectID = ar_ProjectID r, sc_KID = kid,
      sc_Workload = ar_Workload r, sc_Purpose = ar_Purpose r, sc_Algorithm = SigningAlgorithmEdDSA,
      sc_PublicKey = ar_PublicKey r, sc_NotAfter = now + signing_ttl g (ar_TTLSeconds r),
      sc_AuditRetentionUntil = now + sg_retentionWindow g, sc_Revoked = False, sc_RevokedReason = [],
      sc_RevokedAt = None, sc_CreatedAt = now\<rparr>"

definition Attest ::
  "signing_svc \<Rightarrow> string \<Rightarrow> nat list option \<Rightarrow> time \<Rightarrow> attest_req \<Rightarrow> (sc_table, err, string \<times> time) svc" where
  "Attest g uid rnd now r = (\<lambda>t.
     if blank (ar_Workload r) then (Inl ErrSigningCredInvalid, t)
     else if ar_Algorithm r \<noteq> SigningAlgorithmEdDSA then (Inl ErrSigningCredInvalid, t)
     else if ar_Purpose r \<notin> set (sg_allowedPurposes g) then (Inl ErrSigningCredInvalid, t)
     else (case DecodeString (ar_PublicKey r) of
             None \<Rightarrow> (Inl ErrSigningCredInvalid, t)
           | Some pub \<Rightarrow>
               if length pub \<noteq> 32 then (Inl ErrSigningCredInvalid, t)
               else (case mintKID rnd (ar_Purpose r) (ar_Workload r) of
                       None \<Rightarrow> (Inl (ErrMsg ''minting kid''), t)
                     | Some kid \<Rightarrow>
                         (case Signing_Create (signing_row g uid kid now r) t of
                            (Inl e, t') \<Rightarrow> (Inl e, t')
                          | (Inr _, t') \<Rightarrow> (Inr (kid, sc_NotAfter (signing_row g uid kid now r)), t')))))"

record ok_jwk =
  jw_Kty :: string
  jw_Crv :: string
  jw_X :: string
  jw_Use :: string
  jw_Alg :: string
  jw_Kid :: string

definition JWK_of :: "signing_credential \<Rightarrow> ok_jwk" where
  "JWK_of c = \<lparr>jw_Kty = ''OKP'', jw_Crv = ''Ed25519'', jw_X = sc_PublicKey c, jw_Use = ''sig'',
     jw_Alg = SigningAlgorithmEdDSA, jw_Kid = sc_KID c\<rparr>"

definition VerificationJWKS :: "signing_svc \<Rightarrow> time \<Rightarrow> sc_table \<Rightarrow> ok_jwk list" where
  "VerificationJWKS g now t = sort_key jw_Kid (map JWK_of (ListVerifiable (sg_jwksPurpose g) now t))"

definition RevokeKID ::
  "string \<Rightarrow> string \<Rightarrow> string \<Rightarrow> string \<Rightarrow> string \<Rightarrow> time \<Rightarrow> sc_table \<Rightarrow> bool \<times> sc_table" where
  "RevokeKID kid workload acct proj reason now t =
     (let (n, t') = Repo_RevokeKID kid workload acct proj reason now t in (n > 0, t'))"

definition RevokeWorkload ::
  "string \<Rightarrow> string \<Rightarrow> string \<Rightarrow> string \<Rightarrow> time \<Rightarrow> sc_table \<Rightarrow> nat \<times> sc_table" where
  "RevokeWorkload workload acct proj reason now t = Repo_RevokeWorkload workload acct proj reason now t"

subsection \<open>The operations\<close>

definition attestSigningKeyOp ::
  "signing_svc \<Rightarrow> (string \<times> string) option \<Rightarrow> string \<Rightarrow> nat list option \<Rightarrow> time \<Rightarrow> string \<Rightarrow> string \<Rightarrow> string \<Rightarrow>
   string \<Rightarrow> int \<Rightarrow> (sc_table, err, string \<times> time) svc" where
  "attestSigningKeyOp g tenant uid rnd now workload publicKey algorithm purpose ttlSeconds = (\<lambda>t.
     case tenant of
       None \<Rightarrow> (Inl (HTTPErr 401), t)
     | Some (acct, proj) \<Rightarrow>
         if workload = [] then (Inl (HTTPErr 401), t)
         else (case Attest g uid rnd now \<lparr>ar_Workload = workload, ar_AccountID = acct, ar_ProjectID = proj,
                      ar_PublicKey = publicKey, ar_Algorithm = algorithm, ar_Purpose = purpose,
                      ar_TTLSeconds = ttlSeconds\<rparr> t of
                 (Inr res, t') \<Rightarrow> (Inr res, t')
               | (Inl e, t') \<Rightarrow> (Inl (HTTPErr (if e = ErrSigningCredInvalid then 400 else 500)), t')))"

definition revokeSigningKeyOp ::
  "(string \<times> string) option \<Rightarrow> string \<Rightarrow> string \<Rightarrow> string \<Rightarrow> time \<Rightarrow> (sc_table, err, string \<times> bool) svc" where
  "revokeSigningKeyOp tenant workload kid reason now = (\<lambda>t.
     case tenant of
       None \<Rightarrow> (Inl (HTTPErr 401), t)
     | Some (acct, proj) \<Rightarrow>
         if workload = [] then (Inl (HTTPErr 401), t)
         else (case RevokeKID kid workload acct proj reason now t of
                 (True, t') \<Rightarrow> (Inr (kid, True), t')
               | (False, t') \<Rightarrow> (Inl (HTTPErr 404), t')))"

text \<open>Without a configured purpose the route is not registered.\<close>

definition signingJWKSOp :: "signing_svc \<Rightarrow> time \<Rightarrow> sc_table \<Rightarrow> ok_jwk list option" where
  "signingJWKSOp g now t = (if JWKSEnabled g then Some (VerificationJWKS g now t) else None)"

subsection \<open>The published key set\<close>

lemma VerificationJWKS_set:
  "set (VerificationJWKS g now t) = JWK_of ` {c \<in> set t. sc_Purpose c = sg_jwksPurpose g \<and> VerifiableNow now c}"
  by (auto simp: VerificationJWKS_def ListVerifiable_def VerifiableNow_def)

lemma JWK_of_Kid [simp]: "jw_Kid (JWK_of c) = sc_KID c"
  by (simp add: JWK_of_def)

lemma unique_kid:
  "unique_by signing_conflict t \<Longrightarrow> a \<in> set t \<Longrightarrow> b \<in> set t \<Longrightarrow> sc_KID a = sc_KID b \<Longrightarrow> a = b"
  by (induction t) (auto simp: unique_by_def signing_conflict_def)

lemma distinct_kids: "unique_by signing_conflict t \<Longrightarrow> distinct (map sc_KID t)"
  by (induction t) (auto simp: unique_by_def signing_conflict_def)

lemma pruned_verifiable:
  "now \<le> later \<Longrightarrow> filter (\<lambda>c. P c \<and> \<not> sc_Revoked c \<and> later < sc_AuditRetentionUntil c) (snd (PruneExpiredRetention now t)) =
     filter (\<lambda>c. P c \<and> \<not> sc_Revoked c \<and> later < sc_AuditRetentionUntil c) t"
  by (induction t) (auto simp: PruneExpiredRetention_def delete_where_def Let_def)

text \<open>
  The key set that verifiers fetch is the reference set of the two-clock model: exactly the
  keys of the configured purpose that \<open>VerifiableNow\<close> accepts (expired for signing or not), in strictly
  ascending order of their identifiers, and pruning rows at any earlier time changes nothing in it.
\<close>

theorem VerificationJWKS_exact:
  assumes "unique_by signing_conflict t" and "pruned \<le> now"
  shows "set (VerificationJWKS g now t) =
      JWK_of ` {c \<in> set t. sc_Purpose c = sg_jwksPurpose g \<and> VerifiableNow now c} \<and>
    sorted_wrt (\<lambda>a b. jw_Kid a < jw_Kid b) (VerificationJWKS g now t) \<and>
    VerificationJWKS g now (snd (PruneExpiredRetention pruned t)) = VerificationJWKS g now t"
proof (intro conjI)
  let ?l = "map jw_Kid (VerificationJWKS g now t)"
  let ?f = "filter (\<lambda>c. sc_Purpose c = sg_jwksPurpose g \<and> \<not> sc_Revoked c \<and> now < sc_AuditRetentionUntil c) t"
  have "distinct (map sc_KID ?f)" using distinct_kids [OF assms(1)] by (rule distinct_map_filter)
  then have "distinct (map jw_Kid (map JWK_of (ListVerifiable (sg_jwksPurpose g) now t)))"
    by (simp add: ListVerifiable_def distinct_map comp_def)
  then have "distinct ?l" unfolding VerificationJWKS_def by (simp only: distinct_map set_sort distinct_sort)
  moreover have "sorted ?l" by (simp add: VerificationJWKS_def)
  ultimately have "sorted_wrt (<) ?l" by (simp add: strict_sorted_iff)
  then show "sorted_wrt (\<lambda>a b. jw_Kid a < jw_Kid b) (VerificationJWKS g now t)" by (simp only: sorted_wrt_map)
qed (rule VerificationJWKS_set,
    simp only: VerificationJWKS_def ListVerifiable_def pruned_verifiable [OF assms(2)])

subsection \<open>Revocation is final\<close>

text \<open>Everything that changes the table, in any order and with any clock readings.\<close>

datatype sc_call =
    AttestCall string "nat list option" time attest_req
  | RevokeKIDCall string string string string string time
  | RevokeWorkloadCall string string string string time
  | PruneCall time

fun sc_step :: "signing_svc \<Rightarrow> sc_call \<Rightarrow> sc_table \<Rightarrow> sc_table" where
  "sc_step g (AttestCall uid rnd now r) t = snd (Attest g uid rnd now r t)"
| "sc_step g (RevokeKIDCall kid workload acct proj reason now) t = snd (RevokeKID kid workload acct proj reason now t)"
| "sc_step g (RevokeWorkloadCall workload acct proj reason now) t = snd (RevokeWorkload workload acct proj reason now t)"
| "sc_step g (PruneCall now) t = snd (PruneExpiredRetention now t)"

lemma revoke_sc_simps [simp]:
  "sc_KID (revoke_sc reason at c) = sc_KID c" "sc_ID (revoke_sc reason at c) = sc_ID c"
  "sc_Revoked (revoke_sc reason at c)" "sc_Workload (revoke_sc reason at c) = sc_Workload c"
  by (simp_all add: revoke_sc_def)

lemma Attest_table:
  "snd (Attest g uid rnd now r t) = t \<or>
   (\<exists>c. insert_row signing_conflict c t = Some (snd (Attest g uid rnd now r t)))"
  by (auto simp: Attest_def Signing_Create_def split: option.split sum.split)

lemma unique_revoked:
  "unique_by signing_conflict t \<Longrightarrow> unique_by signing_conflict (update_where P (revoke_sc reason at) t)"
  by (rule unique_by_update) (auto simp: signing_conflict_def)

lemma sc_step_unique: "unique_by signing_conflict t \<Longrightarrow> unique_by signing_conflict (sc_step g k t)"
proof (cases k)
  case (AttestCall uid rnd now r)
  assume "unique_by signing_conflict t"
  with Attest_table [of g uid rnd now r t] AttestCall show ?thesis
    by (auto intro: unique_by_insert)
qed (auto simp: RevokeKID_def Repo_RevokeKID_def RevokeWorkload_def Repo_RevokeWorkload_def
    PruneExpiredRetention_def Let_def unique_revoked unique_by_delete)

definition kid_revoked :: "string \<Rightarrow> sc_table \<Rightarrow> bool" where
  "kid_revoked kid t \<longleftrightarrow> (\<exists>c \<in> set t. sc_KID c = kid \<and> sc_Revoked c)"

lemma update_kid:
  assumes "c \<in> set t" "sc_KID c = kid" "sc_Revoked c \<or> P c"
  shows "kid_revoked kid (update_where P (revoke_sc reason at) t)"
  unfolding kid_revoked_def set_update_where
  using assms by (intro bexI [of _ "if P c then revoke_sc reason at c else c"]) (auto simp only: revoke_sc_simps split: if_splits)

lemma update_kid_revoked:
  "kid_revoked kid t \<Longrightarrow> kid_revoked kid (update_where P (revoke_sc reason at) t)"
  by (subst (asm) kid_revoked_def) (auto intro: update_kid)

lemma sc_step_revoked: "kid_revoked kid t \<Longrightarrow> kid_revoked kid (sc_step g k t)"
proof (cases k)
  case (AttestCall uid rnd now r)
  assume "kid_revoked kid t"
  with Attest_table [of g uid rnd now r t] AttestCall show ?thesis
    by (auto simp: kid_revoked_def table_simps)
next
  case (PruneCall now)
  assume "kid_revoked kid t"
  with PruneCall show ?thesis
    by (auto simp: PruneExpiredRetention_def kid_revoked_def table_simps Let_def)
qed (auto simp: RevokeKID_def Repo_RevokeKID_def RevokeWorkload_def Repo_RevokeWorkload_def Let_def update_kid_revoked)

lemma fold_sc_step:
  "unique_by signing_conflict t \<Longrightarrow> kid_revoked kid t \<Longrightarrow>
   unique_by signing_conflict (fold (sc_step g) calls t) \<and> kid_revoked kid (fold (sc_step g) calls t)"
  by (induction calls arbitrary: t) (simp_all add: sc_step_unique sc_step_revoked)

lemma revoked_unlisted:
  "unique_by signing_conflict t \<Longrightarrow> kid_revoked kid t \<Longrightarrow> kid \<notin> jw_Kid ` set (VerificationJWKS g now t)"
  by (auto simp: VerificationJWKS_set kid_revoked_def VerifiableNow_def dest: unique_kid)

text \<open>
  C37. A revocation that the operation acknowledges is final: after whatever attestations,
  revocations and prunings follow, the key identifier is in no key set that is served at any time,
  under whatever configuration; revocation beats the audit-retention window and the row is never
  pruned, so the identifier cannot be attested again either.
\<close>

theorem revoked_key_stays_out:
  assumes "unique_by signing_conflict t"
    and "revokeSigningKeyOp tenant workload kid reason now t = (Inr res, t')"
  shows "kid \<notin> jw_Kid ` set (VerificationJWKS g' later (fold (sc_step g) calls t')) \<and>
    (\<forall>uid rnd at r na t''. Attest g uid rnd at r (fold (sc_step g) calls t') \<noteq> (Inr (kid, na), t''))"
proof -
  obtain acct proj where r: "RevokeKID kid workload acct proj reason now t = (True, t')"
    using assms(2) by (auto simp: revokeSigningKeyOp_def split: option.splits if_splits prod.splits bool.splits)
  let ?P = "\<lambda>c. sc_KID c = kid \<and> sc_Workload c = workload \<and> in_tenant_sc acct proj c \<and> \<not> sc_Revoked c"
  from r have t': "t' = update_where ?P (revoke_sc reason now) t" and "filter ?P t \<noteq> []"
    by (auto simp: RevokeKID_def Repo_RevokeKID_def Let_def)
  then obtain c where "c \<in> set t" "?P c" by (auto simp: filter_empty_conv)
  then have "kid_revoked kid t'" unfolding t' by (intro update_kid [of c]) auto
  moreover have "unique_by signing_conflict t'" unfolding t' by (rule unique_revoked) fact
  ultimately have f: "unique_by signing_conflict (fold (sc_step g) calls t')" "kid_revoked kid (fold (sc_step g) calls t')"
    using fold_sc_step by blast+
  show ?thesis
  proof (intro conjI allI notI)
    fix uid rnd at r na t''
    assume "Attest g uid rnd at r (fold (sc_step g) calls t') = (Inr (kid, na), t'')"
    then have "\<forall>x \<in> set (fold (sc_step g) calls t'). sc_KID x \<noteq> kid"
      by (auto simp: Attest_def Signing_Create_def signing_row_def signing_conflict_def table_simps
          split: option.splits if_splits sum.splits prod.splits)
    with f(2) show False by (auto simp: kid_revoked_def)
  qed (use revoked_unlisted [OF f] in blast)
qed

subsection \<open>What an attestation records\<close>

lemma kid_char_hex: "n < 16 \<Longrightarrow> kid_char (hex_digit n)"
  by (simp add: kid_char_def hex_digit_def byte_in_def)

lemma clean_chars: "c \<in> set (clean s) \<Longrightarrow> kid_char c"
  by (auto simp: clean_def clean_rune_def kid_char_def byte_in_def)

lemma mintKID_chars:
  assumes "mintKID rnd purpose workload = Some kid" "\<forall>bs. rnd = Some bs \<longrightarrow> (\<forall>b \<in> set bs. b < 256)"
  shows "list_all kid_char kid"
proof -
  from assms(1) obtain bs where bs: "rnd = Some bs"
    "kid = clean purpose @ ''-'' @ clean workload @ ''-'' @ EncodeToString bs"
    by (auto simp: mintKID_def split: option.splits)
  with assms(2) have "\<forall>c \<in> set (EncodeToString bs). kid_char c"
    by (auto simp: EncodeToString_def intro!: kid_char_hex)
  with clean_chars show ?thesis by (auto simp: bs(2) list_all_iff kid_char_def)
qed

lemma signing_ttl_bounds: "0 < sg_maxTTL g \<Longrightarrow> 0 < signing_ttl g n \<and> signing_ttl g n \<le> sg_maxTTL g"
  by (auto simp: signing_ttl_def Let_def)

lemma service_bounds:
  "0 < sg_maxTTL (NewSigningCredentialService n d ps jp wk)"
  "0 < sg_retentionWindow (NewSigningCredentialService n d ps jp wk)"
  by (auto simp: NewSigningCredentialService_def Let_def)

text \<open>
  What a successful attestation leaves behind, for a service built by its constructor from
  whatever settings and for a request with whatever 64-bit lifetime (its product wraps around): one new row
  with a 32-byte key, an identifier made of lower-case letters, digits, \<open>-\<close> and \<open>_\<close> only, a signing
  window that is positive and within the maximum, and a key set that lists the key at every
  time before its retention ends.
\<close>

theorem Attest_records:
  assumes "g = NewSigningCredentialService ttlSeconds retentionDays purposes jwksPurpose wellKnown"
    and "\<forall>bs. rnd = Some bs \<longrightarrow> (\<forall>b \<in> set bs. b < 256)"
    and "Attest g uid rnd now r t = (Inr (kid, notAfter), t')"
  shows "\<exists>c. insert_row signing_conflict c t = Some t' \<and> sc_KID c = kid \<and> list_all kid_char kid \<and>
    map_option length (DecodeString (sc_PublicKey c)) = Some 32 \<and>
    sc_Purpose c \<in> set purposes \<and> sc_Purpose c \<noteq> [] \<and> SignableNow now c \<and> notAfter = sc_NotAfter c \<and>
    now < notAfter \<and> notAfter \<le> now + sg_maxTTL g \<and>
    (sc_Purpose c = jwksPurpose \<longrightarrow>
      (\<forall>later < now + sg_retentionWindow g. JWK_of c \<in> set (VerificationJWKS g later t')))"
proof -
  from assms(3) obtain pub where
    a: "ar_Purpose r \<in> set (sg_allowedPurposes g)" "DecodeString (ar_PublicKey r) = Some pub" "length pub = 32"
      "mintKID rnd (ar_Purpose r) (ar_Workload r) = Some kid"
      "Signing_Create (signing_row g uid kid now r) t = (Inr (), t')"
      "notAfter = sc_NotAfter (signing_row g uid kid now r)"
    by (auto simp: Attest_def split: if_splits option.splits prod.splits sum.splits)
  have ttl: "0 < signing_ttl g n \<and> signing_ttl g n \<le> sg_maxTTL g" for n
    unfolding assms(1) by (rule signing_ttl_bounds [OF service_bounds(1)])
  have "insert_row signing_conflict (signing_row g uid kid now r) t = Some t'"
    using a(5) by (auto simp: Signing_Create_def split: if_splits option.splits)
  moreover have "ar_Purpose r \<in> set purposes" "ar_Purpose r \<noteq> []" "sg_jwksPurpose g = jwksPurpose"
    using a(1) assms(1) by (auto simp: NewSigningCredentialService_def Let_def)
  ultimately show ?thesis
    using a mintKID_chars [OF a(4) assms(2)] ttl
    by (intro exI [of _ "signing_row g uid kid now r"])
       (auto simp: signing_row_def SignableNow_def VerificationJWKS_set VerifiableNow_def table_simps)
qed

subsection \<open>Samples\<close>

definition sample_signer :: signing_svc where
  "sample_signer = NewSigningCredentialService 600 30 [''receipt''] ''receipt'' []"

definition sample_ask_sc :: attest_req where
  "sample_ask_sc = \<lparr>ar_Workload = ''Pay Svc'', ar_AccountID = ''acme'', ar_ProjectID = ''p'',
     ar_PublicKey = replicate 43 (CHR ''A''), ar_Algorithm = ''EdDSA'', ar_Purpose = ''receipt'', ar_TTLSeconds = 99999\<rparr>"

definition sample_keys :: sc_table where
  "sample_keys = snd (Attest sample_signer ''1'' (Some [1, 255]) 0 sample_ask_sc [])"

lemma sample_attest:
  "Attest sample_signer ''1'' (Some [1, 255]) 0 sample_ask_sc [] = (Inr (''receipt-pay-svc-01ff'', 600 * second), sample_keys)"
  unfolding sample_keys_def prod_eq_iff by (rule conjI, code_simp, simp)

lemma sample_keys_unique: "unique_by signing_conflict sample_keys"
  using sc_step_unique [of "[]" sample_signer "AttestCall ''1'' (Some [1, 255]) 0 sample_ask_sc"]
  by (simp add: sample_keys_def unique_by_def)

theorem Attest_records_witness:
  "\<exists>c. insert_row signing_conflict c [] = Some sample_keys \<and> sc_KID c = ''receipt-pay-svc-01ff'' \<and>
     list_all kid_char (sc_KID c) \<and> sc_NotAfter c = 600 * second"
proof -
  have "\<forall>bs. Some [1, 255] = Some bs \<longrightarrow> (\<forall>b \<in> set bs. b < (256 :: nat))" by simp
  from Attest_records [OF sample_signer_def this sample_attest] show ?thesis by auto
qed

theorem VerificationJWKS_exact_witness:
  "map jw_Kid (VerificationJWKS sample_signer (700 * second) sample_keys) = [''receipt-pay-svc-01ff''] \<and>
   VerificationJWKS sample_signer (700 * second) (snd (PruneExpiredRetention 5 sample_keys)) =
     VerificationJWKS sample_signer (700 * second) sample_keys"
proof
  show "map jw_Kid (VerificationJWKS sample_signer (700 * second) sample_keys) = [''receipt-pay-svc-01ff'']"
    by code_simp
  show "VerificationJWKS sample_signer (700 * second) (snd (PruneExpiredRetention 5 sample_keys)) =
     VerificationJWKS sample_signer (700 * second) sample_keys"
    using VerificationJWKS_exact [OF sample_keys_unique, of 5 "700 * second" sample_signer] by simp
qed

theorem revoked_key_stays_out_witness:
  "\<exists>t'. revokeSigningKeyOp (Some (''acme'', ''p'')) ''Pay Svc'' ''receipt-pay-svc-01ff'' ''leak'' 9 sample_keys =
       (Inr (''receipt-pay-svc-01ff'', True), t') \<and>
     ''receipt-pay-svc-01ff'' \<notin> jw_Kid ` set (VerificationJWKS sample_signer 10
       (fold (sc_step sample_signer) [PruneCall (10 ^ 18), AttestCall ''2'' (Some [1, 255]) 9 sample_ask_sc] t'))"
proof -
  let ?k = "''receipt-pay-svc-01ff''"
  define x where "x = revokeSigningKeyOp (Some (''acme'', ''p'')) ''Pay Svc'' ?k ''leak'' 9 sample_keys"
  have "fst x = Inr (?k, True)" unfolding x_def by code_simp
  then have x: "x = (Inr (?k, True), snd x)" by (simp add: prod_eq_iff)
  from revoked_key_stays_out [OF sample_keys_unique this [unfolded x_def]]
  show ?thesis using x unfolding x_def by blast
qed

text \<open>
  The key is published as it was submitted: a line break inside it is skipped by the decoder and
  ends up in the key set.
\<close>

lemma line_break_published:
  "let r = sample_ask_sc\<lparr>ar_PublicKey := CHR 0x0A # replicate 43 (CHR ''A'')\<rparr>
   in map jw_X (VerificationJWKS sample_signer 5 (snd (Attest sample_signer ''1'' (Some [1]) 0 r []))) =
      [CHR 0x0A # replicate 43 (CHR ''A'')]"
  by code_simp

text \<open>A retention shorter than the signing window: the key signs after it stopped verifying.\<close>

lemma retention_below_window:
  "let g = NewSigningCredentialService 172800 1 [''receipt''] ''receipt'' [];
       t = snd (Attest g ''1'' (Some [1]) 0 (sample_ask_sc\<lparr>ar_TTLSeconds := 0\<rparr>) []);
       now = 100000 * second
   in list_all (SignableNow now) t \<and> t \<noteq> [] \<and> VerificationJWKS g now t = []"
  by code_simp

end
