(* ===== verification/Zeroid_Startup.thy ===== *)
theory Zeroid_Startup
  imports Zeroid_Config Zeroid_Waiting Zeroid_Verifier Zeroid_Signing
begin

text \<open>
  Start-up: the keys of the server and the documents that publish them (\<open>src/internal/signing/jwks.go\<close>,
  \<open>src/internal/handler/wellknown.go\<close>), the assembly of the services from the configuration, the hooks of a
  deployer, and the shutdown (\<open>src/server.go\<close>). Proved: what a started server can rely on, and that both published
  forms of the key set give a verifier the same keys.
\<close>

subsection \<open>The keys of the server\<close>

datatype priv_key = RSAPrivate string | OtherPrivate

datatype pub_key = ECPublic string | RSAPublic string | OtherPublic

record server_jwk =
  sj_KeyID :: string
  sj_Algorithm :: string
  sj_KeyUsage :: string
  sj_Material :: string

text \<open>
  The file system and the libraries: reading a file, the bytes of its first PEM block, the parsers of \<open>crypto/x509\<close>,
  \<open>jwk.Import\<close>, and whether \<open>set.AddKey\<close> takes a key.
\<close>

record key_env =
  ke_ReadFile :: "string \<Rightarrow> string option"
  ke_pem :: "string \<Rightarrow> string option"
  ke_ParseECPrivateKey :: "string \<Rightarrow> string option"
  ke_ParsePKCS8PrivateKey :: "string \<Rightarrow> priv_key option"
  ke_ParsePKCS1PrivateKey :: "string \<Rightarrow> string option"
  ke_ParsePKIXPublicKey :: "string \<Rightarrow> pub_key option"
  ke_Import :: "pub_key \<Rightarrow> string option"
  ke_AddKey :: "server_jwk list \<Rightarrow> server_jwk \<Rightarrow> bool"

record jwks_service =
  js_ecPrivateKey :: string
  js_ecPublicKey :: string
  js_ecKeyID :: string
  js_rsaPrivateKey :: "string option"
  js_rsaPublicKey :: "string option"
  js_rsaKeyID :: string
  js_keySet :: "server_jwk list"

datatype key_error = KeyUnreadable | KeyNoPEM | KeyUnparsable | KeyWrongKind | KeyNotAdded

definition pem_file :: "key_env \<Rightarrow> string \<Rightarrow> key_error + string" where
  "pem_file K path =
     (case ke_ReadFile K path of
        None \<Rightarrow> Inl KeyUnreadable
      | Some raw \<Rightarrow> (case ke_pem K raw of None \<Rightarrow> Inl KeyNoPEM | Some der \<Rightarrow> Inr der))"

definition addToKeySet ::
  "key_env \<Rightarrow> server_jwk list \<Rightarrow> pub_key \<Rightarrow> string \<Rightarrow> string \<Rightarrow> string \<Rightarrow> server_jwk list option" where
  "addToKeySet K ks pubKey keyID alg use =
     (case ke_Import K pubKey of
        None \<Rightarrow> None
      | Some m \<Rightarrow>
          (let k = \<lparr>sj_KeyID = keyID, sj_Algorithm = alg, sj_KeyUsage = use, sj_Material = m\<rparr>
           in if ke_AddKey K ks k then Some (ks @ [k]) else None))"

definition NewJWKSService :: "key_env \<Rightarrow> string \<Rightarrow> string \<Rightarrow> string \<Rightarrow> key_error + jwks_service" where
  "NewJWKSService K privateKeyPath publicKeyPath keyID =
     (case pem_file K privateKeyPath of Inl e \<Rightarrow> Inl e | Inr privDER \<Rightarrow>
     (case ke_ParseECPrivateKey K privDER of None \<Rightarrow> Inl KeyUnparsable | Some privKey \<Rightarrow>
     (case pem_file K publicKeyPath of Inl e \<Rightarrow> Inl e | Inr pubDER \<Rightarrow>
     (case ke_ParsePKIXPublicKey K pubDER of
        None \<Rightarrow> Inl KeyUnparsable
      | Some (ECPublic pubKey) \<Rightarrow>
          (case addToKeySet K [] (ECPublic pubKey) keyID ''ES256'' ''sig'' of
             None \<Rightarrow> Inl KeyNotAdded
           | Some ks \<Rightarrow>
               Inr \<lparr>js_ecPrivateKey = privKey, js_ecPublicKey = pubKey, js_ecKeyID = keyID,
                    js_rsaPrivateKey = None, js_rsaPublicKey = None, js_rsaKeyID = [], js_keySet = ks\<rparr>)
      | Some _ \<Rightarrow> Inl KeyWrongKind))))"

text \<open>PKCS8 first, then PKCS1, which only holds RSA keys.\<close>

definition parse_rsa :: "key_env \<Rightarrow> string \<Rightarrow> key_error + string" where
  "parse_rsa K der =
     (case ke_ParsePKCS8PrivateKey K der of
        Some (RSAPrivate k) \<Rightarrow> Inr k
      | Some OtherPrivate \<Rightarrow> Inl KeyWrongKind
      | None \<Rightarrow> (case ke_ParsePKCS1PrivateKey K der of None \<Rightarrow> Inl KeyUnparsable | Some k \<Rightarrow> Inr k))"

definition LoadRSAKeys ::
  "key_env \<Rightarrow> string \<Rightarrow> string \<Rightarrow> string \<Rightarrow> jwks_service \<Rightarrow> key_error option \<times> jwks_service" where
  "LoadRSAKeys K privateKeyPath publicKeyPath keyID s =
     (case pem_file K privateKeyPath of Inl e \<Rightarrow> (Some e, s) | Inr privDER \<Rightarrow>
     (case parse_rsa K privDER of Inl e \<Rightarrow> (Some e, s) | Inr privKey \<Rightarrow>
     (case pem_file K publicKeyPath of Inl e \<Rightarrow> (Some e, s) | Inr pubDER \<Rightarrow>
     (case ke_ParsePKIXPublicKey K pubDER of
        None \<Rightarrow> (Some KeyUnparsable, s)
      | Some (RSAPublic pubKey) \<Rightarrow>
          (case addToKeySet K (js_keySet s) (RSAPublic pubKey) keyID ''RS256'' ''sig'' of
             None \<Rightarrow> (Some KeyNotAdded, s)
           | Some ks \<Rightarrow>
               (None, s\<lparr>js_keySet := ks, js_rsaPrivateKey := Some privKey, js_rsaPublicKey := Some pubKey,
                        js_rsaKeyID := keyID\<rparr>))
      | Some _ \<Rightarrow> (Some KeyWrongKind, s)))))"

definition HasRSAKeys :: "jwks_service \<Rightarrow> bool" where
  "HasRSAKeys s \<longleftrightarrow> js_rsaPrivateKey s \<noteq> None"

subsection \<open>What is published\<close>

definition jwksOp :: "jwks_service \<Rightarrow> server_jwk list" where
  "jwksOp s = js_keySet s"

text \<open>The trust bundle: the keys with another \<open>use\<close>, the sequence and the refresh hint.\<close>

definition spiffeTrustBundleOp :: "jwks_service \<Rightarrow> server_jwk list \<times> nat \<times> nat" where
  "spiffeTrustBundleOp s = (map (\<lambda>k. k\<lparr>sj_KeyUsage := ''JWT-SVID''\<rparr>) (js_keySet s), 1, 300)"

definition oauthMetadataOp :: "string \<Rightarrow> (string \<times> cval) list" where
  "oauthMetadataOp iss =
     [(''issuer'', CStr iss), (''token_endpoint'', CStr (iss @ ''/oauth2/token'')),
      (''token_endpoint_auth_methods_supported'', CStrs [''client_secret_post'', ''client_secret_basic'']),
      (''grant_types_supported'', CStrs [''client_credentials'', urnJWTBearer, urnTokenExchange, ''api_key'', GrantTypeCIBA]),
      (''jwks_uri'', CStr (iss @ ''/.well-known/jwks.json'')),
      (''introspection_endpoint'', CStr (iss @ ''/oauth2/token/introspect'')),
      (''revocation_endpoint'', CStr (iss @ ''/oauth2/token/revoke'')),
      (''response_types_supported'', CStrs [''token'']),
      (''token_endpoint_auth_signing_alg_values_supported'', CStrs [''ES256'', ''RS256'']),
      (''registration_endpoint'', CStr (iss @ ''/oauth2/register'')),
      (''dpop_signing_alg_values_supported'', CStrs [''ES256'', ''RS256'']),
      (''backchannel_authentication_endpoint'', CStr (iss @ ''/oauth2/bc-authorize'')),
      (''backchannel_token_delivery_modes_supported'', CStrs [''poll'', ''ping'', ''push'']),
      (''backchannel_user_code_parameter_supported'', CRaw ''false''),
      (''backchannel_authentication_request_signing_alg_values_supported'', CStrs [])]"

definition protectedResourceMetadataOp :: "string \<Rightarrow> (string \<times> cval) list" where
  "protectedResourceMetadataOp iss =
     [(''resource'', CStr iss), (''resource_name'', CStr ''ZeroID''), (''authorization_servers'', CStrs [iss]),
      (''jwks_uri'', CStr (iss @ ''/.well-known/jwks.json'')), (''bearer_methods_supported'', CStrs [''header'']),
      (''dpop_bound_access_tokens_required'', CRaw ''false'')]"

subsection \<open>Start-up\<close>

record server =
  sv_env :: env
  sv_jwks :: jwks_service
  sv_signing :: signing_svc
  sv_backchannel :: bc_config
  sv_registry :: "string \<rightharpoonup> verifier"
  sv_permissive :: bool
  sv_adminPrefix :: string
  sv_trustForwarded :: bool
  sv_addr :: string
  sv_readTimeout :: int
  sv_writeTimeout :: int
  sv_idleTimeout :: int

datatype start_error = BadConfig cfg_error | NoDatabase | MigrationFailed | NoKeys key_error | NoRSAKeys key_error

text \<open>
  \<open>sw_migrate\<close> says whether the migrations apply, \<open>sw_crypto\<close> gives the operations of the JWT library on
  the loaded keys, \<open>sw_ParseDuration\<close> is \<open>time.ParseDuration\<close>.
\<close>

record start_world =
  sw_cfg :: cfg_env
  sw_wait :: wait_world
  sw_migrate :: bool
  sw_keys :: key_env
  sw_crypto :: "jwks_service \<Rightarrow> env"
  sw_ParseDuration :: "string \<Rightarrow> int option"

definition parseDurationOrDefault :: "start_world \<Rightarrow> string \<Rightarrow> int \<Rightarrow> int" where
  "parseDurationOrDefault X s def =
     (case sw_ParseDuration X s of None \<Rightarrow> def | Some d \<Rightarrow> if d = 0 then def else d)"

definition initDatabase :: "start_world \<Rightarrow> time \<Rightarrow> bool" where
  "initDatabase X now =
     (case WaitForReachable (sw_wait X) \<lparr>wo_Budget = 0, wo_InitialBackoff = 0, wo_MaxBackoff = 0, wo_AttemptTimeout = 0\<rparr> now of
        Some (Reachable n, t) \<Rightarrow> True | _ \<Rightarrow> False)"

definition load_keys :: "start_world \<Rightarrow> keys_config \<Rightarrow> start_error + jwks_service" where
  "load_keys X k =
     (case NewJWKSService (sw_keys X) (kc_PrivateKeyPath k) (kc_PublicKeyPath k) (kc_KeyID k) of
        Inl e \<Rightarrow> Inl (NoKeys e)
      | Inr s \<Rightarrow>
          if kc_RSAPrivateKeyPath k \<noteq> [] \<and> kc_RSAPublicKeyPath k \<noteq> []
          then (case LoadRSAKeys (sw_keys X) (kc_RSAPrivateKeyPath k) (kc_RSAPublicKeyPath k) (kc_RSAKeyID k) s of
                  (Some e, _) \<Rightarrow> Inl (NoRSAKeys e) | (None, s') \<Rightarrow> Inr s')
          else Inr s)"

definition server_of :: "start_world \<Rightarrow> config \<Rightarrow> jwks_service \<Rightarrow> server" where
  "server_of X cfg jwks =
     (let tok = cf_Token cfg; sc = cf_SigningCreds cfg; srv = cf_Server cfg
      in \<lparr>sv_env = (sw_crypto X jwks)\<lparr>issuer := tc_Issuer tok, defaultTTL := tc_DefaultTTL tok, maxTTL := tc_MaxTTL tok,
             wimseDomain := cf_WIMSEDomain cfg, hmacSecret := tc_HMACSecret tok,
             authCodeIssuer := (if tc_AuthCodeIssuer tok = [] then tc_Issuer tok else tc_AuthCodeIssuer tok),
             hasRSAKeys := HasRSAKeys jwks, trustedService := None\<rparr>,
          sv_jwks = jwks,
          sv_signing = NewSigningCredentialService (sg_MaxTTLSeconds sc) (sg_AuditRetentionDays sc)
             (sg_AllowedPurposes sc) (sg_JWKSPurpose sc) (sg_WellKnownJWKSName sc),
          sv_backchannel = NewBackchannelConfig
             (DefaultBackchannelConfig\<lparr>AllowPrivateNotificationEndpoints := cf_AllowPrivateEndpoints cfg\<rparr>),
          sv_registry = (if cf_AllowUnsafeDevStub cfg
             then [ProofTypeOIDCToken \<mapsto> OIDCVerifier, ProofTypeImageHash \<mapsto> DevStubVerifier, ProofTypeTPM \<mapsto> DevStubVerifier]
             else [ProofTypeOIDCToken \<mapsto> OIDCVerifier]),
          sv_permissive = cf_AllowUnsafeDevStub cfg,
          sv_adminPrefix = GetAdminPathPrefix srv, sv_trustForwarded = sc_TrustForwardedHeaders srv,
          sv_addr = CHR '':'' # sc_Port srv,
          sv_readTimeout = parseDurationOrDefault X (sc_ReadTimeout srv) (15 * second),
          sv_writeTimeout = parseDurationOrDefault X (sc_WriteTimeout srv) (15 * second),
          sv_idleTimeout = parseDurationOrDefault X (sc_IdleTimeout srv) (60 * second)\<rparr>)"

definition NewServer :: "start_world \<Rightarrow> config \<Rightarrow> time \<Rightarrow> start_error + server" where
  "NewServer X cfg now =
     (case Validate (sw_cfg X) cfg of
        Some e \<Rightarrow> Inl (BadConfig e)
      | None \<Rightarrow>
          if \<not> initDatabase X now then Inl NoDatabase
          else if (dc_AutoMigrate (cf_Database cfg) = None \<or> dc_AutoMigrate (cf_Database cfg) = Some True) \<and> \<not> sw_migrate X
          then Inl MigrationFailed
          else case load_keys X (cf_Keys cfg) of
                 Inl e \<Rightarrow> Inl e
               | Inr jwks \<Rightarrow> Inr (server_of X cfg jwks))"

subsection \<open>Hooks of a deployer\<close>

record grant_request =
  gr_GrantType :: string
  gr_AccountID :: string
  gr_ProjectID :: string
  gr_ClientID :: string
  gr_Scope :: string
  gr_UserID :: string
  gr_UserEmail :: string
  gr_UserName :: string
  gr_ApplicationID :: string
  gr_AdditionalClaims :: "(string \<times> cval) list"

definition grant_request_of :: "token_request \<Rightarrow> grant_request" where
  "grant_request_of req =
     \<lparr>gr_GrantType = tr_GrantType req, gr_AccountID = tr_AccountID req, gr_ProjectID = tr_ProjectID req, gr_ClientID = [],
      gr_Scope = tr_Scope req, gr_UserID = tr_UserID req, gr_UserEmail = tr_UserEmail req,
      gr_UserName = tr_UserName req, gr_ApplicationID = tr_ApplicationID req,
      gr_AdditionalClaims = tr_AdditionalClaims req\<rparr>"

definition RegisterGrant ::
  "string \<Rightarrow> (grant_request \<Rightarrow> (db, err, access_token) svc) \<Rightarrow> custom_grants \<Rightarrow> custom_grants" where
  "RegisterGrant name handler custom = custom(name \<mapsto> (\<lambda>req. handler (grant_request_of req)))"

definition Server_ExternalPrincipalExchange ::
  "server \<Rightarrow> inputs \<Rightarrow> grant_request \<Rightarrow> (db, err, access_token) svc" where
  "Server_ExternalPrincipalExchange sv w req =
     ExternalPrincipalExchange (sv_env sv) w
       (empty_request\<lparr>tr_GrantType := gr_GrantType req, tr_AccountID := gr_AccountID req, tr_ProjectID := gr_ProjectID req,
          tr_UserID := gr_UserID req, tr_UserEmail := gr_UserEmail req, tr_UserName := gr_UserName req,
          tr_ApplicationID := gr_ApplicationID req, tr_Scope := gr_Scope req,
          tr_AdditionalClaims := gr_AdditionalClaims req, tr_TrustedService := True\<rparr>)"

text \<open>The client of the request never reaches a custom grant.\<close>

lemma custom_grant_without_client: "gr_ClientID (grant_request_of req) = []"
  by (simp add: grant_request_of_def)

text \<open>A handler under the name of a built-in grant is never called.\<close>

definition builtin_grants :: "string list" where
  "builtin_grants = [''client_credentials'', urnJWTBearer, urnTokenExchange, ''api_key'', ''authorization_code'',
     ''refresh_token'', GrantTypeCIBA]"

lemma RegisterGrant_builtin_ignored:
  "name \<in> set builtin_grants \<Longrightarrow> Token E bc (RegisterGrant name h custom) w fault req = Token E bc custom w fault req"
  by (auto simp: Token_def RegisterGrant_def builtin_grants_def)

text \<open>What the metadata advertises is built in, and two grants that are built in are missing there.\<close>

lemma advertised_grants:
  "map_of (oauthMetadataOp iss) ''grant_types_supported'' =
     Some (CStrs (filter (\<lambda>g. g \<noteq> ''authorization_code'' \<and> g \<noteq> ''refresh_token'') builtin_grants))"
  by (simp add: oauthMetadataOp_def builtin_grants_def)

subsection \<open>Shutdown\<close>

record running =
  rn_worker :: bool
  rn_backchannel :: bool
  rn_http :: bool
  rn_db :: bool
  rn_telemetry :: bool

text \<open>The errors of \<open>http.Shutdown\<close>, \<open>db.Close\<close> and \<open>telemetry.Shutdown\<close>; every step runs, the first error is returned.\<close>

definition Shutdown :: "string option \<Rightarrow> string option \<Rightarrow> string option \<Rightarrow> running \<Rightarrow> string option \<times> running" where
  "Shutdown httpErr dbErr telErr r =
     (let r1 = r\<lparr>rn_worker := False\<rparr>; r2 = r1\<lparr>rn_backchannel := False\<rparr>;
          e1 = (case httpErr of Some e \<Rightarrow> Some e | None \<Rightarrow> None); r3 = r2\<lparr>rn_http := False\<rparr>;
          e2 = (case dbErr of Some e \<Rightarrow> if e1 = None then Some e else e1 | None \<Rightarrow> e1); r4 = r3\<lparr>rn_db := False\<rparr>;
          e3 = (case telErr of Some e \<Rightarrow> if e2 = None then Some e else e2 | None \<Rightarrow> e2); r5 = r4\<lparr>rn_telemetry := False\<rparr>
      in (e3, r5))"

datatype start_event = ListenFailed string | SignalReceived

definition Start ::
  "start_event \<Rightarrow> string option \<Rightarrow> string option \<Rightarrow> string option \<Rightarrow> running \<Rightarrow> string option \<times> running" where
  "Start ev httpErr dbErr telErr r =
     (case ev of
        ListenFailed e \<Rightarrow> (Some e, r\<lparr>rn_worker := False\<rparr>)
      | SignalReceived \<Rightarrow> Shutdown httpErr dbErr telErr r)"

lemma Shutdown_stops_all:
  "snd (Shutdown h d t r) = r\<lparr>rn_worker := False, rn_backchannel := False, rn_http := False, rn_db := False, rn_telemetry := False\<rparr>"
  "fst (Shutdown h d t r) = (case filter (\<lambda>x. x \<noteq> None) [h, d, t] of [] \<Rightarrow> None | x # _ \<Rightarrow> x)"
  by (auto simp: Shutdown_def Let_def split: option.split)

subsection \<open>The started server\<close>

definition jwks_ok :: "jwks_service \<Rightarrow> bool" where
  "jwks_ok s \<longleftrightarrow> (\<exists>m. let ec = \<lparr>sj_KeyID = js_ecKeyID s, sj_Algorithm = ''ES256'', sj_KeyUsage = ''sig'', sj_Material = m\<rparr>
     in if HasRSAKeys s
        then \<exists>m'. js_keySet s = [ec, \<lparr>sj_KeyID = js_rsaKeyID s, sj_Algorithm = ''RS256'', sj_KeyUsage = ''sig'', sj_Material = m'\<rparr>]
        else js_keySet s = [ec])"

lemma NewJWKSService_ok:
  "NewJWKSService K p q kid = Inr s \<Longrightarrow> jwks_ok s \<and> \<not> HasRSAKeys s \<and> js_ecKeyID s = kid"
  by (auto simp: NewJWKSService_def jwks_ok_def addToKeySet_def HasRSAKeys_def Let_def
      split: sum.splits option.splits pub_key.splits if_splits)

lemma LoadRSAKeys_ok:
  assumes "LoadRSAKeys K p q kid s = (e, s')"
  shows "e \<noteq> None \<Longrightarrow> s' = s" "e = None \<Longrightarrow> jwks_ok s \<Longrightarrow> \<not> HasRSAKeys s \<Longrightarrow> jwks_ok s' \<and> HasRSAKeys s' \<and> js_ecKeyID s' = js_ecKeyID s"
  using assms by (auto simp: LoadRSAKeys_def jwks_ok_def addToKeySet_def HasRSAKeys_def Let_def
      split: sum.splits option.splits pub_key.splits if_splits)

lemma load_keys_ok:
  assumes "load_keys X k = Inr s"
  shows "jwks_ok s" "js_ecKeyID s = kc_KeyID k" "HasRSAKeys s = (kc_RSAPrivateKeyPath k \<noteq> [] \<and> kc_RSAPublicKeyPath k \<noteq> [])"
  using assms NewJWKSService_ok LoadRSAKeys_ok
  by (auto simp: load_keys_def split: sum.splits prod.splits option.splits if_splits)

lemma has_suffix_slash: "s \<noteq> [] \<Longrightarrow> has_suffix ''/'' s \<longleftrightarrow> last s = CHR ''/''"
  by (cases s rule: rev_cases) (auto simp: has_suffix_def has_prefix_def)

lemma NewServer_ready_facts:
  assumes "NewServer X cfg now = Inr sv"
  shows "\<exists>n t. WaitForReachable (sw_wait X) \<lparr>wo_Budget = 0, wo_InitialBackoff = 0, wo_MaxBackoff = 0, wo_AttemptTimeout = 0\<rparr> now
          = Some (Reachable n, t)"
    and "issuer (sv_env sv) \<noteq> [] \<and> last (issuer (sv_env sv)) \<noteq> CHR ''/'' \<and> authCodeIssuer (sv_env sv) \<noteq> [] \<and>
         validateWIMSEDomain (wimseDomain (sv_env sv))"
    and "0 < sg_maxTTL (sv_signing sv) \<and> 0 < sg_retentionWindow (sv_signing sv) \<and> sg_wellKnownName (sv_signing sv) \<noteq> []"
    and "hasRSAKeys (sv_env sv) \<longleftrightarrow> kc_RSAPrivateKeyPath (cf_Keys cfg) \<noteq> [] \<and> kc_RSAPublicKeyPath (cf_Keys cfg) \<noteq> []"
    and "map sj_Algorithm (jwksOp (sv_jwks sv)) = (if hasRSAKeys (sv_env sv) then [''ES256'', ''RS256''] else [''ES256''])"
    and "sj_KeyID (hd (jwksOp (sv_jwks sv))) = kc_KeyID (cf_Keys cfg) \<and> list_all (\<lambda>k. sj_KeyUsage k = ''sig'') (jwksOp (sv_jwks sv))"
    and "DevStubVerifier \<in> ran (sv_registry sv) \<longleftrightarrow> cf_AllowUnsafeDevStub cfg"
proof -
  from assms obtain jwks where v: "Validate (sw_cfg X) cfg = None" and db: "initDatabase X now"
    and k: "load_keys X (cf_Keys cfg) = Inr jwks" and sv: "sv = server_of X cfg jwks"
    by (auto simp: NewServer_def split: option.splits sum.splits if_splits)
  note ok = load_keys_ok [OF k]
  show "\<exists>n t. WaitForReachable (sw_wait X) \<lparr>wo_Budget = 0, wo_InitialBackoff = 0, wo_MaxBackoff = 0, wo_AttemptTimeout = 0\<rparr> now
          = Some (Reachable n, t)"
    using db by (auto simp: initDatabase_def split: option.splits prod.splits wait_result.splits)
  have dom: "validateWIMSEDomain (cf_WIMSEDomain cfg)" and iss: "validateIssuer (sw_cfg X) (tc_Issuer (cf_Token cfg))"
    using v by (auto simp: Validate_def split: if_splits)
  from iss have i: "tc_Issuer (cf_Token cfg) \<noteq> []" "last (tc_Issuer (cf_Token cfg)) \<noteq> CHR ''/''"
    unfolding validateIssuer_def by (auto simp: has_suffix_slash)
  show "issuer (sv_env sv) \<noteq> [] \<and> last (issuer (sv_env sv)) \<noteq> CHR ''/'' \<and> authCodeIssuer (sv_env sv) \<noteq> [] \<and>
         validateWIMSEDomain (wimseDomain (sv_env sv))"
    using dom i by (simp add: sv server_of_def Let_def)
  show "0 < sg_maxTTL (sv_signing sv) \<and> 0 < sg_retentionWindow (sv_signing sv) \<and> sg_wellKnownName (sv_signing sv) \<noteq> []"
    by (simp add: sv server_of_def Let_def NewSigningCredentialService_def)
  show "hasRSAKeys (sv_env sv) \<longleftrightarrow> kc_RSAPrivateKeyPath (cf_Keys cfg) \<noteq> [] \<and> kc_RSAPublicKeyPath (cf_Keys cfg) \<noteq> []"
    using ok(3) by (simp add: sv server_of_def Let_def)
  have p: "sv_jwks sv = jwks" "hasRSAKeys (sv_env sv) = HasRSAKeys jwks" by (simp_all add: sv server_of_def Let_def)
  show "map sj_Algorithm (jwksOp (sv_jwks sv)) = (if hasRSAKeys (sv_env sv) then [''ES256'', ''RS256''] else [''ES256''])"
    using ok(1) by (auto simp: p jwksOp_def jwks_ok_def Let_def split: if_splits)
  show "sj_KeyID (hd (jwksOp (sv_jwks sv))) = kc_KeyID (cf_Keys cfg) \<and> list_all (\<lambda>k. sj_KeyUsage k = ''sig'') (jwksOp (sv_jwks sv))"
    using ok(1,2) by (auto simp: p jwksOp_def jwks_ok_def Let_def split: if_splits)
  show "DevStubVerifier \<in> ran (sv_registry sv) \<longleftrightarrow> cf_AllowUnsafeDevStub cfg"
  proof (cases "cf_AllowUnsafeDevStub cfg")
    case True
    then have "sv_registry sv ProofTypeTPM = Some DevStubVerifier" by (simp add: sv server_of_def Let_def)
    with True show ?thesis by (blast intro: ranI)
  next
    case False
    then have "sv_registry sv = [ProofTypeOIDCToken \<mapsto> OIDCVerifier]" by (simp add: sv server_of_def Let_def)
    with False show ?thesis by simp
  qed
qed


definition sample_key_files :: key_env where
  "sample_key_files = \<lparr>ke_ReadFile = Some, ke_pem = Some, ke_ParseECPrivateKey = Some, ke_ParsePKCS8PrivateKey = (\<lambda>d. None),
     ke_ParsePKCS1PrivateKey = Some,
     ke_ParsePKIXPublicKey = (\<lambda>d. Some (if d = ''ec.pub'' then ECPublic d else RSAPublic d)),
     ke_Import = (\<lambda>k. case k of ECPublic d \<Rightarrow> Some d | RSAPublic d \<Rightarrow> Some d | OtherPublic \<Rightarrow> None), ke_AddKey = (\<lambda>ks k. k \<notin> set ks)\<rparr>"

definition sample_start :: start_world where
  "sample_start = \<lparr>sw_cfg = sample_cfg_env, sw_wait = \<lparr>wp_ping = (\<lambda>n now d. (True, now)), wp_cancel = None, wp_timer = (\<lambda>n. True)\<rparr>,
     sw_migrate = True, sw_keys = sample_key_files, sw_crypto = (\<lambda>j. sample_env), sw_ParseDuration = (\<lambda>s. None)\<rparr>"

definition full_config :: config where
  "full_config = sample_config\<lparr>
     cf_Server := (cf_Server sample_config)\<lparr>sc_Port := ''8899''\<rparr>,
     cf_Database := (cf_Database sample_config)\<lparr>dc_URL := ''db'', dc_MaxOpenConns := 4, dc_MaxIdleConns := 2, dc_AutoMigrate := None\<rparr>,
     cf_Keys := \<lparr>kc_PrivateKeyPath = ''ec'', kc_PublicKeyPath = ''ec.pub'', kc_KeyID = ''k1'',
        kc_RSAPrivateKeyPath = ''rsa'', kc_RSAPublicKeyPath = ''rsa.pub'', kc_RSAKeyID = ''k2''\<rparr>,
     cf_Token := (cf_Token sample_config)\<lparr>tc_Issuer := ''https://id.example''\<rparr>,
     cf_WIMSEDomain := ''highflame.ai''\<rparr>"

lemma sample_load:
  "load_keys sample_start (cf_Keys full_config) =
     Inr \<lparr>js_ecPrivateKey = ''ec'', js_ecPublicKey = ''ec.pub'', js_ecKeyID = ''k1'', js_rsaPrivateKey = Some ''rsa'',
          js_rsaPublicKey = Some ''rsa.pub'', js_rsaKeyID = ''k2'',
          js_keySet = [\<lparr>sj_KeyID = ''k1'', sj_Algorithm = ''ES256'', sj_KeyUsage = ''sig'', sj_Material = ''ec.pub''\<rparr>,
            \<lparr>sj_KeyID = ''k2'', sj_Algorithm = ''RS256'', sj_KeyUsage = ''sig'', sj_Material = ''rsa.pub''\<rparr>]\<rparr>"
  by (simp add: load_keys_def sample_start_def full_config_def sample_key_files_def NewJWKSService_def LoadRSAKeys_def
      pem_file_def addToKeySet_def parse_rsa_def Let_def)


subsection \<open>Publication and verification\<close>

text \<open>What \<open>jwk.Parse\<close> reads from the body that a key set was written to.\<close>

definition publishes :: "ver_env \<Rightarrow> string \<Rightarrow> server_jwk list \<Rightarrow> bool" where
  "publishes V body ks \<longleftrightarrow> v_jwk_parse V (take maxJWKSBodyBytes body) =
     Some (map (\<lambda>k. \<lparr>jk_KeyID = Some (sj_KeyID k), jk_KeyUsage = Some (sj_KeyUsage k), jk_Material = sj_Material k\<rparr>) ks)"

lemma trust_bundle_same_keys_facts:
  assumes "load_keys X k = Inr jwks"
    and "publishes V body (jwksOp jwks)" "publishes V body' (fst (spiffeTrustBundleOp jwks))"
  shows "JWKS_refresh V (Some (200, body)) c = JWKS_refresh V (Some (200, body')) c'"
    and "fst (JWKS_refresh V (Some (200, body')) c')"
    and "\<exists>keys. kc_keySet (snd (JWKS_refresh V (Some (200, body')) c')) = Some keys \<and> keys \<noteq> [] \<and>
           list_all (\<lambda>j. jk_KeyUsage j = Some ''sig'') keys"
    and "HasKID (js_ecKeyID jwks) (snd (JWKS_refresh V (Some (200, body')) c')) \<and>
         (HasRSAKeys jwks \<longrightarrow> HasKID (js_rsaKeyID jwks) (snd (JWKS_refresh V (Some (200, body')) c')))"
proof -
  have fold: "EqualFold ''JWT-SVID'' ''JWT-SVID''" "\<not> EqualFold ''sig'' ''JWT-SVID''" by code_simp+
  note defs = publishes_def jwksOp_def spiffeTrustBundleOp_def JWKS_refresh_def normalize_use_def jwks_ok_def Let_def
    HasKID_def List.map_filter_simps fold
  note ok = load_keys_ok(1) [OF assms(1)]
  show "JWKS_refresh V (Some (200, body)) c = JWKS_refresh V (Some (200, body')) c'"
    using ok assms(2,3) by (auto simp: defs split: if_splits)
  show "fst (JWKS_refresh V (Some (200, body')) c')"
    using assms(3) by (simp add: defs)
  show "\<exists>keys. kc_keySet (snd (JWKS_refresh V (Some (200, body')) c')) = Some keys \<and> keys \<noteq> [] \<and>
           list_all (\<lambda>j. jk_KeyUsage j = Some ''sig'') keys"
    using ok assms(3) by (auto simp: defs split: if_splits)
  show "HasKID (js_ecKeyID jwks) (snd (JWKS_refresh V (Some (200, body')) c')) \<and>
         (HasRSAKeys jwks \<longrightarrow> HasKID (js_rsaKeyID jwks) (snd (JWKS_refresh V (Some (200, body')) c')))"
    using ok assms(3) by (auto simp: defs split: if_splits)
qed

text \<open>
  C21. The trust bundle and the key set are the same to a verifier: for the keys a server loads, the client
  library ends with the same cache whether it is pointed at \<open>/.well-known/jwks.json\<close> or at
  \<open>/.well-known/spiffe-trust-bundle.json\<close>, every key in it is one that may verify signatures, and it knows the
  identifiers under which the server signs.
\<close>

theorem trust_bundle_same_keys:
  assumes "load_keys X k = Inr jwks"
    and "publishes V body (jwksOp jwks)" "publishes V body' (fst (spiffeTrustBundleOp jwks))"
  shows "(JWKS_refresh V (Some (200, body)) c = JWKS_refresh V (Some (200, body')) c') \<and>
    (fst (JWKS_refresh V (Some (200, body')) c')) \<and>
    (\<exists>keys. kc_keySet (snd (JWKS_refresh V (Some (200, body')) c')) = Some keys \<and> keys \<noteq> [] \<and>
           list_all (\<lambda>j. jk_KeyUsage j = Some ''sig'') keys) \<and>
    (HasKID (js_ecKeyID jwks) (snd (JWKS_refresh V (Some (200, body')) c')) \<and>
         (HasRSAKeys jwks \<longrightarrow> HasKID (js_rsaKeyID jwks) (snd (JWKS_refresh V (Some (200, body')) c'))))"
  using trust_bundle_same_keys_facts [OF assms] by blast

definition bundle_reader :: ver_env where
  "bundle_reader = sample_ver\<lparr>v_jwk_parse := (\<lambda>b.
     Some [\<lparr>jk_KeyID = Some ''k1'', jk_KeyUsage = Some (if b = ''bundle'' then ''JWT-SVID'' else ''sig''), jk_Material = ''ec.pub''\<rparr>,
           \<lparr>jk_KeyID = Some ''k2'', jk_KeyUsage = Some (if b = ''bundle'' then ''JWT-SVID'' else ''sig''), jk_Material = ''rsa.pub''\<rparr>])\<rparr>"

theorem trust_bundle_same_keys_witness:
  "\<exists>jwks. load_keys sample_start (cf_Keys full_config) = Inr jwks \<and>
     JWKS_refresh bundle_reader (Some (200, ''jwks'')) empty_cache = JWKS_refresh bundle_reader (Some (200, ''bundle'')) old_cache \<and>
     HasKID ''k1'' (snd (JWKS_refresh bundle_reader (Some (200, ''bundle'')) old_cache))"
proof -
  define jwks where "jwks = projr (load_keys sample_start (cf_Keys full_config))"
  have l: "load_keys sample_start (cf_Keys full_config) = Inr jwks" by (simp add: jwks_def sample_load)
  have p: "publishes bundle_reader ''jwks'' (jwksOp jwks)" "publishes bundle_reader ''bundle'' (fst (spiffeTrustBundleOp jwks))"
    by (simp_all add: publishes_def jwksOp_def spiffeTrustBundleOp_def jwks_def sample_load bundle_reader_def sample_ver_def)
  have "js_ecKeyID jwks = ''k1''" by (simp add: jwks_def sample_load)
  with l trust_bundle_same_keys [OF l p, of empty_cache old_cache]
  show ?thesis by auto
qed

end
