(* ===== verification/Zeroid_Gateway.thy ===== *)
theory Zeroid_Gateway
  imports Zeroid_Config Zeroid_Verifier "HOL-Library.Multiset"
begin

text \<open>
  The middlewares that every request passes first (\<open>src/server.go\<close>): forms on the OAuth endpoints become JSON, other
  bodies must be JSON. The form encoding of \<open>net/url\<close> is modelled in both directions. Proved: what a form becomes,
  and that the forms of the client library arrive as they were sent.
\<close>

subsection \<open>Forms of \<open>net/url\<close>\<close>

type_synonym form_values = "(string \<times> string list) list"

definition unhex :: "char \<Rightarrow> nat option" where
  "unhex c =
     (let n = (of_char c :: nat)
      in if 48 \<le> n \<and> n \<le> 57 then Some (n - 48)
         else if 97 \<le> n \<and> n \<le> 102 then Some (n - 97 + 10)
         else if 65 \<le> n \<and> n \<le> 70 then Some (n - 65 + 10) else None)"

fun QueryUnescape :: "string \<Rightarrow> string option" where
  "QueryUnescape [] = Some []"
| "QueryUnescape (c # cs) =
     (if c = CHR ''%''
      then (case cs of
              a # b # rest \<Rightarrow>
                (case (unhex a, unhex b) of
                   (Some hi, Some lo) \<Rightarrow> map_option ((#) (char_of (16 * hi + lo))) (QueryUnescape rest)
                 | _ \<Rightarrow> None)
            | _ \<Rightarrow> None)
      else map_option ((#) (if c = CHR ''+'' then CHR '' '' else c)) (QueryUnescape cs))"

text \<open>One \<open>key=value\<close> of a query; \<open>None\<close> for a semicolon or a bad escape.\<close>

definition query_pair :: "string \<Rightarrow> (string \<times> string) option" where
  "query_pair seg =
     (if CHR '';'' \<in> set seg then None
      else case (case cut_at CHR ''='' seg of None \<Rightarrow> (seg, []) | Some kv \<Rightarrow> kv) of
             (k, v) \<Rightarrow> (case QueryUnescape k of
                          None \<Rightarrow> None
                        | Some k' \<Rightarrow> map_option (Pair k') (QueryUnescape v)))"

definition add_value :: "string \<Rightarrow> string \<Rightarrow> form_values \<Rightarrow> form_values" where
  "add_value k v m =
     (case map_of m k of
        None \<Rightarrow> m @ [(k, [v])]
      | Some vs \<Rightarrow> map (\<lambda>(k', vs'). (k', if k' = k then vs' @ [v] else vs')) m)"

text \<open>\<open>ParseQuery\<close>, whose result the callers drop when any pair is malformed or there are more than \<open>limit\<close> pairs.\<close>

fun query_values :: "string list \<Rightarrow> form_values \<Rightarrow> form_values option" where
  "query_values [] m = Some m"
| "query_values (seg # segs) m =
     (if seg = [] then query_values segs m
      else case query_pair seg of None \<Rightarrow> None | Some (k, v) \<Rightarrow> query_values segs (add_value k v m))"

definition ParseQuery :: "nat \<Rightarrow> string \<Rightarrow> form_values option" where
  "ParseQuery limit q =
     (if limit < length (split_all CHR ''&'' q) then None else query_values (split_all CHR ''&'' q) [])"

definition hexdigit :: "nat \<Rightarrow> char" where
  "hexdigit n = ''0123456789ABCDEF'' ! n"

definition unreserved :: "char \<Rightarrow> bool" where
  "unreserved c \<longleftrightarrow> (let n = (of_char c :: nat) in 97 \<le> n \<and> n \<le> 122 \<or> 65 \<le> n \<and> n \<le> 90 \<or> 48 \<le> n \<and> n \<le> 57) \<or>
     c \<in> {CHR ''-'', CHR ''_'', CHR ''.'', CHR ''~''}"

definition escape_char :: "char \<Rightarrow> string" where
  "escape_char c =
     (if unreserved c then [c]
      else if c = CHR '' '' then ''+''
      else [CHR ''%'', hexdigit (of_char c div 16), hexdigit (of_char c mod 16)])"

definition QueryEscape :: "string \<Rightarrow> string" where
  "QueryEscape s = concat (map escape_char s)"

text \<open>\<open>Values.Encode\<close>, given the pairs in the order of their keys.\<close>

definition encode_pair :: "string \<times> string \<Rightarrow> string" where
  "encode_pair kv = QueryEscape (fst kv) @ CHR ''='' # QueryEscape (snd kv)"

fun form_encode :: "(string \<times> string) list \<Rightarrow> string" where
  "form_encode [] = []"
| "form_encode [kv] = encode_pair kv"
| "form_encode (kv # kvs) = encode_pair kv @ CHR ''&'' # form_encode kvs"

subsection \<open>Requests\<close>

text \<open>A value of the re-encoded body: a JSON string, or the JSON text itself.\<close>

datatype form_value = FStr string | FRaw string

datatype http_body = RawBody string | JSONObject "(string \<times> form_value) list"

record http_request =
  hq_Method :: string
  hq_Path :: string
  hq_RawQuery :: string
  hq_ContentType :: string
  hq_Body :: http_body
  hq_Limit :: "nat option"

text \<open>
  Of the libraries: the media type that \<open>mime.ParseMediaType\<close> reads, \<open>json.Valid\<close>, the coercion of a string to
  valid UTF-8 by \<open>json.Marshal\<close>, the runtime's limit on form parameters and the order in which a map is ranged over.
\<close>

record gate_env =
  ga_ParseMediaType :: "string \<Rightarrow> string option"
  ga_Valid :: "string \<Rightarrow> bool"
  ga_utf8 :: "string \<Rightarrow> string"
  ga_maxParams :: nat
  ga_range :: "form_values \<Rightarrow> form_values"

datatype gate_error = MalformedForm | DuplicateParameter string | NoContentType | WrongContentType string

abbreviation maxBodySize :: nat where "maxBodySize \<equiv> 10 * 1024 * 1024"

definition OAuthFormEndpoints :: "string list" where
  "OAuthFormEndpoints = [''/oauth2/token'', ''/oauth2/token/introspect'', ''/oauth2/token/revoke'', ''/oauth2/bc-authorize'']"

definition jsonShapedFormFields :: "string list" where
  "jsonShapedFormFields = [''authorization_details'']"

definition mediaTypeEquals :: "gate_env \<Rightarrow> string \<Rightarrow> string \<Rightarrow> bool" where
  "mediaTypeEquals G headerValue want =
     (if headerValue = [] then False
      else case ga_ParseMediaType G headerValue of None \<Rightarrow> False | Some mt \<Rightarrow> EqualFold mt want)"

definition form_field :: "gate_env \<Rightarrow> string \<Rightarrow> string \<Rightarrow> form_value" where
  "form_field G k v =
     (if k \<in> set jsonShapedFormFields \<and> ga_Valid G v then FRaw v else FStr (ga_utf8 G v))"

fun flatten_form :: "gate_env \<Rightarrow> form_values \<Rightarrow> gate_error + (string \<times> form_value) list" where
  "flatten_form G [] = Inr []"
| "flatten_form G ((k, vs) # m) =
     (if length vs > 1 then Inl (DuplicateParameter k)
      else if vs = [] then flatten_form G m
      else if vs ! 0 = [] then flatten_form G m
      else case flatten_form G m of
             Inl e \<Rightarrow> Inl e
           | Inr flat \<Rightarrow> Inr ((ga_utf8 G k, form_field G k (vs ! 0)) # flat))"

text \<open>\<open>ParseForm\<close> fails on a body over the limit, a malformed body and a malformed query of the URL.\<close>

definition ParseForm :: "gate_env \<Rightarrow> http_request \<Rightarrow> form_values option" where
  "ParseForm G r =
     (case hq_Body r of
        JSONObject _ \<Rightarrow> None
      | RawBody body \<Rightarrow>
          if maxBodySize < length body then None
          else case ParseQuery (ga_maxParams G) body of
                 None \<Rightarrow> None
               | Some m \<Rightarrow> (case ParseQuery (ga_maxParams G) (hq_RawQuery r) of None \<Rightarrow> None | Some _ \<Rightarrow> Some m))"

definition form_request :: "gate_env \<Rightarrow> http_request \<Rightarrow> bool" where
  "form_request G r \<longleftrightarrow> hq_Method r = ''POST'' \<and> hq_Path r \<in> set OAuthFormEndpoints \<and>
     mediaTypeEquals G (hq_ContentType r) ''application/x-www-form-urlencoded''"

definition oauthFormCompatMiddleware :: "gate_env \<Rightarrow> http_request \<Rightarrow> gate_error + http_request" where
  "oauthFormCompatMiddleware G r =
     (if hq_Method r \<noteq> ''POST'' then Inr r
      else if hq_Path r \<notin> set OAuthFormEndpoints then Inr r
      else if \<not> mediaTypeEquals G (hq_ContentType r) ''application/x-www-form-urlencoded'' then Inr r
      else case ParseForm G r of
             None \<Rightarrow> Inl MalformedForm
           | Some m \<Rightarrow>
               (case flatten_form G (ga_range G m) of
                  Inl e \<Rightarrow> Inl e
                | Inr flat \<Rightarrow> Inr (r\<lparr>hq_Body := JSONObject flat, hq_ContentType := ''application/json''\<rparr>)))"

definition requestValidationMiddleware :: "http_request \<Rightarrow> gate_env \<Rightarrow> gate_error + http_request" where
  "requestValidationMiddleware r G =
     (let r = r\<lparr>hq_Limit := Some maxBodySize\<rparr>
      in if hq_Method r = ''POST'' \<or> hq_Method r = ''PUT'' \<or> hq_Method r = ''PATCH''
         then if hq_ContentType r = [] then Inl NoContentType
              else if \<not> mediaTypeEquals G (hq_ContentType r) ''application/json'' then Inl (WrongContentType (hq_ContentType r))
              else Inr r
         else Inr r)"

text \<open>The order in which \<open>NewServer\<close> installs the two.\<close>

definition gateway :: "gate_env \<Rightarrow> http_request \<Rightarrow> gate_error + http_request" where
  "gateway G r =
     (case oauthFormCompatMiddleware G r of Inl e \<Rightarrow> Inl e | Inr r' \<Rightarrow> requestValidationMiddleware r' G)"

text \<open>\<open>errorRecoveryMiddleware\<close>: a handler that panics answers 500.\<close>

definition errorRecoveryMiddleware :: "string + nat \<times> 'b \<Rightarrow> 'b \<Rightarrow> nat \<times> 'b" where
  "errorRecoveryMiddleware outcome internal = (case outcome of Inl panic \<Rightarrow> (500, internal) | Inr resp \<Rightarrow> resp)"

definition readyOp :: "bool \<Rightarrow> nat + bool" where
  "readyOp pinged = (if \<not> pinged then Inl 503 else Inr True)"

text \<open>The request of the client library for introspection.\<close>

definition introspect_request :: "string \<Rightarrow> string \<Rightarrow> http_request" where
  "introspect_request path tokenString =
     \<lparr>hq_Method = ''POST'', hq_Path = path, hq_RawQuery = [], hq_ContentType = ''application/x-www-form-urlencoded'',
      hq_Body = RawBody (form_encode [(''token'', tokenString)]), hq_Limit = None\<rparr>"

subsection \<open>Escaping\<close>

lemma less_16_cases: "n < 16 \<Longrightarrow> n = 0 \<or> n = 1 \<or> n = 2 \<or> n = 3 \<or> n = 4 \<or> n = 5 \<or> n = 6 \<or> n = 7 \<or> n = 8 \<or> n = 9 \<or>
    n = 10 \<or> n = 11 \<or> n = 12 \<or> n = 13 \<or> n = 14 \<or> n = (15::nat)"
  by presburger

lemma high_digit: "(of_char c :: nat) div 16 < 16"
  using nat_of_char_less_256 [of c] by linarith

lemma unhex_hexdigit: "n < 16 \<Longrightarrow> unhex (hexdigit n) = Some n"
  by (drule less_16_cases, elim disjE) (simp_all add: unhex_def hexdigit_def)

lemma hexdigit_plain: "n < 16 \<Longrightarrow> hexdigit n \<notin> {CHR ''&'', CHR '';'', CHR ''=''}"
  by (drule less_16_cases, elim disjE) (simp_all add: hexdigit_def)

lemma escape_plain: "set (escape_char c) \<inter> {CHR ''&'', CHR '';'', CHR ''=''} = {}"
  using hexdigit_plain [OF high_digit, of c] hexdigit_plain [of "of_char c mod 16"]
  by (auto simp: escape_char_def unreserved_def)

lemma QueryEscape_plain: "set (QueryEscape s) \<inter> {CHR ''&'', CHR '';'', CHR ''=''} = {}"
  using escape_plain by (auto simp: QueryEscape_def)

lemma unescape_char: "QueryUnescape (escape_char c @ s) = map_option ((#) c) (QueryUnescape s)"
proof (cases "unreserved c \<or> c = CHR '' ''")
  case True
  then show ?thesis by (auto simp: escape_char_def unreserved_def)
next
  case False
  have "unhex (hexdigit (of_char c mod 16)) = Some (of_char c mod 16)" by (simp add: unhex_hexdigit)
  then show ?thesis using False by (simp add: escape_char_def unhex_hexdigit high_digit)
qed

lemma QueryUnescape_QueryEscape: "QueryUnescape (QueryEscape s) = Some s"
  by (induction s) (simp_all add: QueryEscape_def unescape_char)

lemma query_pair_encode: "query_pair (encode_pair kv) = Some kv"
proof -
  have "cut_at CHR ''='' (encode_pair kv) = Some (QueryEscape (fst kv), QueryEscape (snd kv))"
    using QueryEscape_plain [of "fst kv"] by (simp add: encode_pair_def cut_at_append)
  moreover have "CHR '';'' \<notin> set (encode_pair kv)"
    using QueryEscape_plain [of "fst kv"] QueryEscape_plain [of "snd kv"] by (auto simp: encode_pair_def)
  ultimately show ?thesis by (simp add: query_pair_def QueryUnescape_QueryEscape)
qed

lemma encode_pair_plain: "CHR ''&'' \<notin> set (encode_pair kv)" "encode_pair kv \<noteq> []"
  using QueryEscape_plain [of "fst kv"] QueryEscape_plain [of "snd kv"] by (auto simp: encode_pair_def)

lemma split_form: "split_all CHR ''&'' (form_encode kvs) = (if kvs = [] then [[]] else map encode_pair kvs)"
  by (induction kvs rule: form_encode.induct) (simp_all add: split_all_append split_all_one encode_pair_plain)


subsection \<open>Forms at the gateway\<close>

text \<open>The pairs of a body in the order they were sent.\<close>

definition form_pairs :: "string \<Rightarrow> (string \<times> string) list option" where
  "form_pairs body = those (map query_pair (filter (\<lambda>seg. seg \<noteq> []) (split_all CHR ''&'' body)))"

definition collect :: "(string \<times> string) list \<Rightarrow> form_values \<Rightarrow> form_values" where
  "collect ps m = foldl (\<lambda>m (k, v). add_value k v m) m ps"

lemma query_values_pairs:
  "query_values segs m = map_option (\<lambda>ps. collect ps m) (those (map query_pair (filter (\<lambda>seg. seg \<noteq> []) segs)))"
  by (induction segs arbitrary: m) (auto simp: collect_def option.map_comp comp_def split: option.split)

lemma add_value_keys: "map fst (add_value k v m) = map fst m @ (if k \<in> fst ` set m then [] else [k])"
  by (auto simp: add_value_def comp_def split_def map_of_eq_None_iff split: option.split intro: map_of_SomeD)
     (metis map_of_eq_None_iff option.distinct(1))+

lemma add_value_lookup:
  "map_of (add_value k v m) x = (if x = k then Some (the_default [] (map_of m k) @ [v]) else map_of m x)"
  if "the_default = (\<lambda>d y. case y of None \<Rightarrow> d | Some z \<Rightarrow> z)"
proof (cases "map_of m k")
  case None
  then show ?thesis by (auto simp: add_value_def that map_add_def split: option.split)
next
  case (Some vs)
  have "map_of (map (\<lambda>(k', vs'). (k', if k' = k then vs' @ [v] else vs')) m) x =
      map_option (\<lambda>vs'. if x = k then vs' @ [v] else vs') (map_of m x)"
    by (induction m) auto
  then show ?thesis using Some by (auto simp: add_value_def that option.map_ident)
qed

lemma collect_distinct: "distinct (map fst m) \<Longrightarrow> distinct (map fst (collect ps m))"
proof (induction ps arbitrary: m)
  case (Cons p ps)
  from Cons.prems have "distinct (map fst (add_value (fst p) (snd p) m))" by (auto simp: add_value_keys)
  from Cons.IH [OF this] show ?case by (simp add: collect_def split_def)
qed (simp add: collect_def)

lemma collect_lookup:
  "map_of (collect ps m) x =
     (let vs = (case map_of m x of None \<Rightarrow> [] | Some ws \<Rightarrow> ws) @ map snd (filter (\<lambda>p. fst p = x) ps)
      in if map_of m x = None \<and> \<not> list_ex (\<lambda>p. fst p = x) ps then None else Some vs)"
proof (induction ps arbitrary: m)
  case Nil
  then show ?case by (auto simp: collect_def split: option.split)
next
  case (Cons p ps)
  have "collect (p # ps) m = collect ps (add_value (fst p) (snd p) m)" by (simp add: collect_def split_def)
  then show ?case by (auto simp: Cons.IH add_value_lookup [OF refl] Let_def split: option.split)
qed

lemma filter_lone:
  "distinct (map fst ps) \<Longrightarrow> map snd (filter (\<lambda>p. fst p = k) ps) = (case map_of ps k of None \<Rightarrow> [] | Some v \<Rightarrow> [v])"
proof (induction ps)
  case (Cons p ps)
  from Cons.prems have "fst p \<notin> fst ` set ps" by simp
  then have "fst p = k \<Longrightarrow> filter (\<lambda>p. fst p = k) ps = []" by (metis (mono_tags, lifting) filter_False image_eqI)
  then show ?case using Cons by (cases p) auto
qed simp

lemma filter_many:
  assumes "\<not> distinct (map fst ps)"
  shows "\<exists>k. 1 < length (filter (\<lambda>p. fst p = k) ps)"
proof -
  from assms obtain xs ys zs y where "map fst ps = xs @ [y] @ ys @ [y] @ zs" using not_distinct_decomp by blast
  then have "length (filter (\<lambda>k. k = y) (map fst ps)) > 1" by simp
  then show ?thesis by (auto simp: filter_map comp_def)
qed


fun keep_field :: "gate_env \<Rightarrow> string \<times> string list \<Rightarrow> (string \<times> form_value) option" where
  "keep_field G (k, vs) = (if vs = [] \<or> vs ! 0 = [] then None else Some (ga_utf8 G k, form_field G k (vs ! 0)))"

lemma flatten_Inr:
  "flatten_form G m = (if list_all (\<lambda>(k, vs). length vs \<le> 1) m then Inr (List.map_filter (keep_field G) m)
     else Inl (DuplicateParameter (fst (hd (dropWhile (\<lambda>(k, vs). length vs \<le> 1) m)))))"
  by (induction G m rule: flatten_form.induct) (auto simp: List.map_filter_simps list_all_iff split: sum.split)

lemma kept_keys:
  assumes "\<forall>k \<in> fst ` set m. ga_utf8 G k = k"
  shows "fst ` set (List.map_filter (keep_field G) m) \<subseteq> fst ` set m"
  using assms by (force simp: List.map_filter_def split: if_splits)

lemma kept_distinct:
  assumes "distinct (map fst m)" "\<forall>k \<in> fst ` set m. ga_utf8 G k = k"
  shows "distinct (map fst (List.map_filter (keep_field G) m))"
  using assms
proof (induction m)
  case (Cons p m)
  then have "fst ` set (List.map_filter (keep_field G) m) \<subseteq> fst ` set m" by (intro kept_keys) simp
  then show ?case using Cons by (cases p) (auto simp: List.map_filter_simps)
qed (simp add: List.map_filter_simps)

lemma kept_lookup:
  assumes "distinct (map fst m)" "\<forall>k \<in> fst ` set m. ga_utf8 G k = k"
  shows "map_of (List.map_filter (keep_field G) m) x =
     (case map_of m x of None \<Rightarrow> None | Some vs \<Rightarrow> map_option snd (keep_field G (x, vs)))"
  using assms
proof (induction m)
  case (Cons p m)
  then have "fst ` set (List.map_filter (keep_field G) m) \<subseteq> fst ` set m" by (intro kept_keys) simp
  then have "fst p = x \<Longrightarrow> map_of (List.map_filter (keep_field G) m) x = None"
    using Cons.prems(1) by (auto simp: map_of_eq_None_iff)
  then show ?case using Cons by (cases p) (auto simp: List.map_filter_simps split: option.split)
qed (simp add: List.map_filter_simps)

definition posted :: "gate_env \<Rightarrow> (string \<times> string) list \<Rightarrow> form_values" where
  "posted G ps = ga_range G (collect ps [])"

locale form_at_gateway =
  fixes G :: gate_env and r :: http_request and body :: string and ps :: "(string \<times> string) list"
  assumes mime: "mediaTypeEquals G ''application/json'' ''application/json''"
    and ranged: "\<And>m. mset (ga_range G m) = mset m"
    and form: "form_request G r"
    and raw: "hq_Body r = RawBody body" "length body \<le> maxBodySize" "length (split_all CHR ''&'' body) \<le> ga_maxParams G"
    and url: "ParseQuery (ga_maxParams G) (hq_RawQuery r) \<noteq> None"
    and pairs: "form_pairs body = Some ps"
    and utf8: "list_all (\<lambda>(k, v). ga_utf8 G k = k) ps"
begin

lemma posted_mset: "mset (posted G ps) = mset (collect ps [])"
  by (simp add: posted_def ranged)

lemma posted_distinct: "distinct (map fst (posted G ps))"
  using collect_distinct [of "[]" ps] posted_mset by (metis distinct.simps(1) list.simps(8) mset_eq_imp_distinct_iff mset_map)

lemma posted_lookup:
  "map_of (posted G ps) x = (if list_ex (\<lambda>p. fst p = x) ps then Some (map snd (filter (\<lambda>p. fst p = x) ps)) else None)"
proof -
  have "set (posted G ps) = set (collect ps [])" by (metis posted_mset set_mset_mset)
  then have "map_of (posted G ps) = map_of (collect ps [])"
    using posted_distinct collect_distinct [of "[]" ps] by (intro map_of_inject_set [THEN iffD2]) auto
  then show ?thesis by (simp add: collect_lookup Let_def)
qed

lemma posted_utf8: "\<forall>k \<in> fst ` set (posted G ps). ga_utf8 G k = k"
proof
  fix k assume "k \<in> fst ` set (posted G ps)"
  then have "map_of (posted G ps) k \<noteq> None" by (simp add: map_of_eq_None_iff)
  then have "k \<in> fst ` set ps" by (auto simp: posted_lookup list_ex_iff split: if_splits)
  then show "ga_utf8 G k = k" using utf8 by (auto simp: list_all_iff)
qed

lemma single_iff: "list_all (\<lambda>(k, vs). length vs \<le> 1) (posted G ps) \<longleftrightarrow> distinct (map fst ps)"
proof
  assume one: "list_all (\<lambda>(k, vs). length vs \<le> 1) (posted G ps)"
  show "distinct (map fst ps)"
  proof (rule ccontr)
    assume "\<not> distinct (map fst ps)"
    then obtain k where k: "1 < length (filter (\<lambda>p. fst p = k) ps)" using filter_many by blast
    then have "filter (\<lambda>p. fst p = k) ps \<noteq> []" by auto
    then have "list_ex (\<lambda>p. fst p = k) ps" by (auto simp: filter_empty_conv list_ex_iff)
    then have "(k, map snd (filter (\<lambda>p. fst p = k) ps)) \<in> set (posted G ps)" using posted_lookup [of k] by (auto dest: map_of_SomeD)
    with one k show False by (force simp: list_all_iff)
  qed
next
  assume d: "distinct (map fst ps)"
  have "length vs \<le> 1" if "(k, vs) \<in> set (posted G ps)" for k vs
  proof -
    from that have "map_of (posted G ps) k = Some vs" using posted_distinct by simp
    then have "vs = (case map_of ps k of None \<Rightarrow> [] | Some v \<Rightarrow> [v])"
      by (auto simp: posted_lookup filter_lone [OF d] split: if_splits)
    then show ?thesis by (simp split: option.splits)
  qed
  then show "list_all (\<lambda>(k, vs). length vs \<le> 1) (posted G ps)" by (auto simp: list_all_iff)
qed

lemma passes:
  "gateway G r = (case flatten_form G (posted G ps) of Inl e \<Rightarrow> Inl e
     | Inr flat \<Rightarrow> Inr (r\<lparr>hq_Body := JSONObject flat, hq_ContentType := ''application/json'', hq_Limit := Some maxBodySize\<rparr>))"
proof -
  have "ParseForm G r = Some (collect ps [])"
    using raw url pairs by (auto simp: ParseForm_def ParseQuery_def query_values_pairs form_pairs_def)
  then have "oauthFormCompatMiddleware G r = (case flatten_form G (posted G ps) of Inl e \<Rightarrow> Inl e
     | Inr flat \<Rightarrow> Inr (r\<lparr>hq_Body := JSONObject flat, hq_ContentType := ''application/json''\<rparr>))"
    using form by (simp add: oauthFormCompatMiddleware_def form_request_def posted_def)
  then show ?thesis using mime form
    by (simp add: gateway_def requestValidationMiddleware_def form_request_def Let_def split: sum.split)
qed

lemma exact:
  "if distinct (map fst ps)
   then \<exists>flat. gateway G r = Inr (r\<lparr>hq_Body := JSONObject flat, hq_ContentType := ''application/json'', hq_Limit := Some maxBodySize\<rparr>) \<and>
     distinct (map fst flat) \<and>
     (\<forall>k. map_of flat k = (case map_of ps k of None \<Rightarrow> None | Some v \<Rightarrow> if v = [] then None else Some (form_field G k v)))
   else \<exists>k. gateway G r = Inl (DuplicateParameter k) \<and> 1 < length (filter (\<lambda>p. fst p = k) ps)"
proof (cases "distinct (map fst ps)")
  case True
  let ?flat = "List.map_filter (keep_field G) (posted G ps)"
  have "gateway G r = Inr (r\<lparr>hq_Body := JSONObject ?flat, hq_ContentType := ''application/json'', hq_Limit := Some maxBodySize\<rparr>)"
    using True single_iff by (simp add: passes flatten_Inr)
  moreover have "map_of ?flat k = (case map_of ps k of None \<Rightarrow> None | Some v \<Rightarrow> if v = [] then None else Some (form_field G k v))" for k
  proof -
    have "list_ex (\<lambda>p. fst p = k) ps \<longleftrightarrow> map_of ps k \<noteq> None" by (auto simp: list_ex_iff map_of_eq_None_iff)
    then show ?thesis using True
      by (auto simp: kept_lookup [OF posted_distinct posted_utf8] posted_lookup filter_lone split: option.split)
  qed
  ultimately show ?thesis using True kept_distinct [OF posted_distinct posted_utf8] by auto
next
  case False
  let ?long = "dropWhile (\<lambda>(k, vs). length vs \<le> 1) (posted G ps)"
  from False single_iff have many: "\<not> list_all (\<lambda>(k, vs). length vs \<le> 1) (posted G ps)" by simp
  then obtain k vs rest where d: "?long = (k, vs) # rest"
    by (cases ?long) (auto simp: dropWhile_eq_Nil_conv list_all_iff)
  have "\<not> (\<lambda>(k, vs). length vs \<le> 1) (hd ?long)" by (rule hd_dropWhile) (simp only: d, simp)
  moreover have "(k, vs) \<in> set (posted G ps)" using d by (metis list.set_intros(1) set_dropWhileD)
  then have "map_of (posted G ps) k = Some vs" using posted_distinct by simp
  then have "vs = map snd (filter (\<lambda>p. fst p = k) ps)" by (auto simp: posted_lookup split: if_splits)
  ultimately show ?thesis using False many d by (simp add: passes flatten_Inr)
qed

end


text \<open>
  C16. What the JSON handlers see of a form. A readable form posted to one of the four OAuth endpoints passes both
  middlewares exactly when no parameter is sent twice; the request then carries a JSON object under the JSON media
  type in which a parameter with a value is the field of that name with that value, a parameter without one is absent
  and nothing else is present. Otherwise the answer names a parameter that was sent more than once, whatever the order in
  which the map of parameters is ranged over.
\<close>

theorem form_gateway_exact:
  assumes "mediaTypeEquals G ''application/json'' ''application/json''" "\<And>m. mset (ga_range G m) = mset m"
    and "form_request G r" "hq_Body r = RawBody body" "length body \<le> maxBodySize"
    and "length (split_all CHR ''&'' body) \<le> ga_maxParams G" "ParseQuery (ga_maxParams G) (hq_RawQuery r) \<noteq> None"
    and "form_pairs body = Some ps" "list_all (\<lambda>(k, v). ga_utf8 G k = k) ps"
  shows "if distinct (map fst ps)
   then \<exists>flat. gateway G r = Inr (r\<lparr>hq_Body := JSONObject flat, hq_ContentType := ''application/json'', hq_Limit := Some maxBodySize\<rparr>) \<and>
     distinct (map fst flat) \<and>
     (\<forall>k. map_of flat k = (case map_of ps k of None \<Rightarrow> None | Some v \<Rightarrow> if v = [] then None else Some (form_field G k v)))
   else \<exists>k. gateway G r = Inl (DuplicateParameter k) \<and> 1 < length (filter (\<lambda>p. fst p = k) ps)"
  using assms by (intro form_at_gateway.exact) (unfold_locales; simp)

lemma escape_length: "length (escape_char c) \<le> 3"
  by (simp add: escape_char_def)

lemma QueryEscape_length: "length (QueryEscape s) \<le> 3 * length s"
proof (induction s)
  case (Cons c s)
  then show ?case using escape_length [of c] by (simp add: QueryEscape_def)
qed (simp add: QueryEscape_def)

lemma QueryEscape_token: "QueryEscape ''token'' = ''token''"
  by (simp add: QueryEscape_def escape_char_def unreserved_def)

text \<open>The bodies that \<open>Values.Encode\<close> writes are read back.\<close>

lemma form_pairs_encode: "form_pairs (form_encode kvs) = Some kvs"
proof -
  have "those (map query_pair (map encode_pair kvs)) = Some kvs"
    by (induction kvs) (simp_all add: query_pair_encode)
  moreover have "filter (\<lambda>seg. seg \<noteq> []) (map encode_pair kvs) = map encode_pair kvs"
    by (simp add: filter_id_conv encode_pair_plain)
  ultimately show ?thesis by (simp add: form_pairs_def split_form)
qed

lemma gateway_json_only:
  assumes "gateway G r = Inr r'"
  shows "hq_Method r' \<in> {''POST'', ''PUT'', ''PATCH''} \<longrightarrow> mediaTypeEquals G (hq_ContentType r') ''application/json''"
    and "hq_Limit r' = Some maxBodySize" "hq_Method r' = hq_Method r \<and> hq_Path r' = hq_Path r \<and> hq_RawQuery r' = hq_RawQuery r"
    and "\<not> form_request G r \<Longrightarrow> r' = r\<lparr>hq_Limit := Some maxBodySize\<rparr>"
  using assms
  by (auto simp: gateway_def oauthFormCompatMiddleware_def requestValidationMiddleware_def form_request_def Let_def
      split: if_splits option.splits sum.splits)

text \<open>A media type parser for the examples: what stands before the first semicolon.\<close>

definition sample_gate :: gate_env where
  "sample_gate = \<lparr>ga_ParseMediaType = (\<lambda>h. Some (takeWhile (\<lambda>c. c \<noteq> CHR '';'') h)), ga_Valid = (\<lambda>v. take 1 v = ''[''),
     ga_utf8 = (\<lambda>x. x), ga_maxParams = 10000, ga_range = rev\<rparr>"

lemma sample_media:
  "mediaTypeEquals sample_gate ''application/json'' ''application/json''"
  "mediaTypeEquals sample_gate ''application/x-www-form-urlencoded'' ''application/x-www-form-urlencoded''"
  unfolding sample_gate_def mediaTypeEquals_def by code_simp+

interpretation introspection: form_at_gateway sample_gate "introspect_request ''/oauth2/token/introspect'' ''a.b&c''"
    "form_encode [(''token'', ''a.b&c'')]" "[(''token'', ''a.b&c'')]"
proof
  show "form_request sample_gate (introspect_request ''/oauth2/token/introspect'' ''a.b&c'')"
    using sample_media by (simp add: form_request_def introspect_request_def OAuthFormEndpoints_def)
  show "length (form_encode [(''token'', ''a.b&c'')]) \<le> maxBodySize"
    by (simp add: encode_pair_def QueryEscape_def escape_char_def unreserved_def)
  show "form_pairs (form_encode [(''token'', ''a.b&c'')]) = Some [(''token'', ''a.b&c'')]" by (rule form_pairs_encode)
  show "length (split_all CHR ''&'' (form_encode [(''token'', ''a.b&c'')])) \<le> ga_maxParams sample_gate"
    by (simp add: split_form del: form_encode.simps) (simp add: sample_gate_def)
qed (simp_all add: sample_media(1) introspect_request_def ParseQuery_def, simp_all add: sample_gate_def)

theorem form_gateway_exact_witness:
  "(\<exists>flat. gateway sample_gate (introspect_request ''/oauth2/token/introspect'' ''a.b&c'') =
      Inr (introspect_request ''/oauth2/token/introspect'' ''a.b&c''
        \<lparr>hq_Body := JSONObject flat, hq_ContentType := ''application/json'', hq_Limit := Some maxBodySize\<rparr>) \<and>
      map_of flat ''token'' = Some (FStr ''a.b&c'') \<and> map_of flat ''scope'' = None)"
proof -
  note i = introspection.mime introspection.ranged introspection.form introspection.raw introspection.url
    introspection.pairs introspection.utf8
  have "form_field sample_gate ''token'' ''a.b&c'' = FStr ''a.b&c''"
    by (simp add: form_field_def jsonShapedFormFields_def sample_gate_def)
  with form_gateway_exact [OF i] show ?thesis by force
qed



text \<open>
  A form written by \<open>Values.Encode\<close>, as the client library of this repository does for introspection, and
  read by \<open>ParseQuery\<close> gives back the parameters that were put in: any bytes in names and values, any number of
  pairs, in their order.
\<close>

lemma form_roundtrip: "form_pairs (form_encode kvs) = Some kvs \<and>
  (distinct (map fst kvs) \<and> length kvs \<le> limit \<and> 0 < limit \<longrightarrow>
     (\<exists>m. ParseQuery limit (form_encode kvs) = Some m \<and> (\<forall>k. map_of m k = map_option (\<lambda>v. [v]) (map_of kvs k))))"
proof -
  have "ParseQuery limit (form_encode kvs) = Some (collect kvs [])" if "length kvs \<le> limit" "0 < limit"
    using that form_pairs_encode [of kvs]
    by (auto simp: ParseQuery_def query_values_pairs form_pairs_def split_form split: if_splits)
  moreover have "map_of (collect kvs []) k = map_option (\<lambda>v. [v]) (map_of kvs k)" if "distinct (map fst kvs)" for k
  proof -
    have "list_ex (\<lambda>p. fst p = k) kvs \<longleftrightarrow> map_of kvs k \<noteq> None" by (auto simp: list_ex_iff map_of_eq_None_iff)
    then show ?thesis using that by (auto simp: collect_lookup filter_lone split: option.split)
  qed
  ultimately show ?thesis using form_pairs_encode by blast
qed

end
