(* ===== verification/Zeroid_Delegation.thy ===== *)
theory Zeroid_Delegation
  imports Zeroid_OAuth
begin

text \<open>
  The delegation explorer (\<open>src/internal/service/delegation.go\<close>, the recursive queries of
  \<open>src/internal/store/postgres/delegation.go\<close>, the operations of \<open>src/internal/handler/delegation.go\<close>):
  walks up and down the \<open>parent_jti\<close> links, the graph with its scope attenuation, the summaries of
  chains. A query over a reachable database does not fail here.
\<close>

subsection \<open>Walking the delegation forest\<close>

text \<open>
  The recursive queries. \<open>NULL\<close> missions and parents are empty strings here and join nothing. Since
  \<open>jti\<close> is unique, at most one row is the parent of another, so the ordering by depth is the path
  itself; the \<open>CYCLE\<close> clause drops a row whose \<open>jti\<close> is on its path already.
\<close>

definition in_tenant_c :: "string \<Rightarrow> string \<Rightarrow> credential \<Rightarrow> bool" where
  "in_tenant_c acct proj c \<longleftrightarrow> c_AccountID c = acct \<and> c_ProjectID c = proj"

definition delegates :: "credential \<Rightarrow> credential \<Rightarrow> bool" where
  "delegates p c \<longleftrightarrow> c_ParentJTI c \<noteq> [] \<and> c_JTI p = c_ParentJTI c \<and>
     c_MissionID c \<noteq> [] \<and> c_MissionID p = c_MissionID c"

fun walk_up :: "nat \<Rightarrow> (credential \<Rightarrow> bool) \<Rightarrow> credential list \<Rightarrow> string list \<Rightarrow> credential \<Rightarrow> credential list" where
  "walk_up 0 scope t path c = [c]"
| "walk_up (Suc n) scope t path c =
     c # concat (map (\<lambda>p. if c_JTI p \<in> set path then [] else walk_up n scope t (c_JTI p # path) p)
           (filter (\<lambda>p. delegates p c \<and> scope p) t))"

definition WalkUp :: "string \<Rightarrow> string \<Rightarrow> string \<Rightarrow> int \<Rightarrow> db \<Rightarrow> credential list" where
  "WalkUp startJTI acct proj maxDepth s =
     rev (concat (map (\<lambda>c. walk_up (nat maxDepth) (in_tenant_c acct proj) (issued_credentials s) [c_JTI c] c)
       (filter (\<lambda>c. c_JTI c = startJTI \<and> in_tenant_c acct proj c) (issued_credentials s))))"

text \<open>Downwards level by level, each level in the order of issue; rows with their paths.\<close>

fun walk_down ::
  "nat \<Rightarrow> (credential \<Rightarrow> bool) \<Rightarrow> credential list \<Rightarrow> (string list \<times> credential) list \<Rightarrow> credential list" where
  "walk_down 0 scope t level = sort_key c_IssuedAt (map snd level)"
| "walk_down (Suc n) scope t level =
     sort_key c_IssuedAt (map snd level) @
     walk_down n scope t
       (concat (map (\<lambda>(path, c). map (\<lambda>k. (c_JTI k # path, k))
          (filter (\<lambda>k. delegates c k \<and> scope k \<and> c_JTI k \<notin> set path) t)) level))"

definition WalkDown :: "string \<Rightarrow> string \<Rightarrow> string \<Rightarrow> int \<Rightarrow> db \<Rightarrow> credential list" where
  "WalkDown startJTI acct proj maxDepth s =
     walk_down (nat maxDepth) (in_tenant_c acct proj) (issued_credentials s)
       (map (\<lambda>c. ([c_JTI c], c))
         (filter (\<lambda>c. c_JTI c = startJTI \<and> in_tenant_c acct proj c) (issued_credentials s)))"

definition ListByIdentity :: "string \<Rightarrow> string \<Rightarrow> string \<Rightarrow> db \<Rightarrow> credential list" where
  "ListByIdentity identityID acct proj s =
     sort_key (\<lambda>c. - c_IssuedAt c)
       (filter (\<lambda>c. c_IdentityID c = Some identityID \<and> in_tenant_c acct proj c) (issued_credentials s))"

record chain_summary =
  cs_ChainID :: string
  cs_StartedAt :: time
  cs_LastActivityAt :: time
  cs_CredentialCount :: nat
  cs_MaxDepth :: int

definition chain_of :: "credential \<Rightarrow> string" where
  "chain_of c = (if c_MissionID c \<noteq> [] then c_MissionID c else c_JTI c)"

definition summarise :: "credential list \<Rightarrow> string \<Rightarrow> chain_summary" where
  "summarise rows k =
     (let g = filter (\<lambda>c. chain_of c = k) rows
      in \<lparr>cs_ChainID = k, cs_StartedAt = Min (set (map c_IssuedAt g)),
          cs_LastActivityAt = Max (set (map c_IssuedAt g)), cs_CredentialCount = length g,
          cs_MaxDepth = Max (set (map c_DelegationDepth g))\<rparr>)"

definition Repo_ListChains ::
  "string \<Rightarrow> string \<Rightarrow> time \<Rightarrow> time \<Rightarrow> int \<Rightarrow> db \<Rightarrow> chain_summary list" where
  "Repo_ListChains acct proj since until limit s =
     (let rows = filter (\<lambda>c. in_tenant_c acct proj c \<and> since \<le> c_IssuedAt c \<and> c_IssuedAt c < until)
                   (issued_credentials s)
      in take (nat (if limit \<le> 0 then 50 else limit))
           (sort_key (\<lambda>x. - cs_LastActivityAt x) (map (summarise rows) (remdups (map chain_of rows)))))"

definition ListChains ::
  "time \<Rightarrow> time \<Rightarrow> time \<Rightarrow> int \<Rightarrow> string \<Rightarrow> string \<Rightarrow> db \<Rightarrow> chain_summary list" where
  "ListChains now since until limit acct proj s =
     (let u = (if until = zero_time then now else until);
          f = (if since = zero_time then u - 30 * 86400 * second else since);
          l = (if limit \<le> 0 then 50 else if limit > 500 then 500 else limit)
      in Repo_ListChains acct proj f u l s)"

subsection \<open>Graphs\<close>

abbreviation MaxGraphDepth :: int where "MaxGraphDepth \<equiv> 10"
abbreviation MaxGraphNodes :: nat where "MaxGraphNodes \<equiv> 500"

record graph_node =
  gn_ID :: string
  gn_WIMSEURI :: string
  gn_Name :: string
  gn_IdentityType :: string
  gn_TrustLevel :: string
  gn_Status :: string

record graph_edge =
  ge_From :: string
  ge_To :: string
  ge_JTI :: string
  ge_ParentJTI :: string
  ge_MissionID :: string
  ge_IssuedAt :: time
  ge_ExpiresAt :: time
  ge_GrantType :: string
  ge_DelegationDepth :: int
  ge_ScopesIn :: "string list"
  ge_ScopesOut :: "string list"
  ge_Attenuated :: "string list"
  ge_IsRevoked :: bool

record graph =
  g_Nodes :: "graph_node list"
  g_Edges :: "graph_edge list"
  g_FocalID :: string
  g_Truncated :: bool

definition identityIDOrEmpty :: "string option \<Rightarrow> string" where
  "identityIDOrEmpty p = (case p of None \<Rightarrow> [] | Some v \<Rightarrow> v)"

definition setDiff :: "string list \<Rightarrow> string list \<Rightarrow> string list" where
  "setDiff a b = filter (\<lambda>x. x \<notin> set b) a"

definition identityToNode :: "identity \<Rightarrow> graph_node" where
  "identityToNode i = \<lparr>gn_ID = i_ID i, gn_WIMSEURI = i_WIMSEURI i, gn_Name = i_Name i,
     gn_IdentityType = i_IdentityType i, gn_TrustLevel = i_TrustLevel i, gn_Status = i_Status i\<rparr>"

definition credentialToEdge :: "credential \<Rightarrow> graph_edge" where
  "credentialToEdge c =
     \<lparr>ge_From = [], ge_To = identityIDOrEmpty (c_IdentityID c), ge_JTI = c_JTI c,
      ge_ParentJTI = c_ParentJTI c, ge_MissionID = c_MissionID c, ge_IssuedAt = c_IssuedAt c,
      ge_ExpiresAt = c_ExpiresAt c, ge_GrantType = c_GrantType c,
      ge_DelegationDepth = c_DelegationDepth c, ge_ScopesIn = c_Scopes c, ge_ScopesOut = c_Scopes c,
      ge_Attenuated = [], ge_IsRevoked = c_IsRevoked c\<rparr>"

text \<open>The index by \<open>jti\<close> keeps the last credential of a duplicate.\<close>

definition edge_of :: "credential list \<Rightarrow> credential \<Rightarrow> graph_edge" where
  "edge_of creds c =
     (if c_ParentJTI c = [] then credentialToEdge c
      else case find (\<lambda>p. c_JTI p = c_ParentJTI c) (rev creds) of
             None \<Rightarrow> credentialToEdge c
           | Some p \<Rightarrow> (credentialToEdge c)\<lparr>ge_From := identityIDOrEmpty (c_IdentityID p),
               ge_ScopesIn := c_Scopes p, ge_Attenuated := setDiff (c_Scopes p) (c_Scopes c)\<rparr>)"

definition owner_ids :: "credential list \<Rightarrow> string list" where
  "owner_ids creds = filter (\<lambda>x. x \<noteq> []) (map (\<lambda>c. identityIDOrEmpty (c_IdentityID c)) creds)"

definition buildGraph ::
  "credential list \<Rightarrow> string \<Rightarrow> string \<Rightarrow> string \<Rightarrow> db \<Rightarrow> graph" where
  "buildGraph creds0 acct proj focalID s =
     (let creds = take MaxGraphNodes creds0
      in \<lparr>g_Nodes = map identityToNode (Identity_GetByIDs (owner_ids creds) acct proj s),
          g_Edges = map (edge_of creds) creds, g_FocalID = focalID,
          g_Truncated = (length creds0 > MaxGraphNodes)\<rparr>)"

fun dedup_jti :: "string list \<Rightarrow> credential list \<Rightarrow> credential list" where
  "dedup_jti seen [] = []"
| "dedup_jti seen (c # cs) =
     (if c_JTI c \<in> set seen then dedup_jti seen cs else c # dedup_jti (c_JTI c # seen) cs)"

definition mergeByJTI :: "credential list \<Rightarrow> credential list \<Rightarrow> credential list" where
  "mergeByJTI a b = dedup_jti [] (a @ b)"

definition GetGraph :: "string \<Rightarrow> int \<Rightarrow> string \<Rightarrow> string \<Rightarrow> db \<Rightarrow> graph" where
  "GetGraph identityID depth acct proj s =
     (let d = (if depth < 1 then 1 else if depth > MaxGraphDepth then MaxGraphDepth else depth)
      in case ListByIdentity identityID acct proj s of
           [] \<Rightarrow>
             (case Identity_GetByID identityID acct proj s of
                (Inl _, _) \<Rightarrow> \<lparr>g_Nodes = [], g_Edges = [], g_FocalID = identityID, g_Truncated = False\<rparr>
              | (Inr i, _) \<Rightarrow> \<lparr>g_Nodes = [identityToNode i], g_Edges = [], g_FocalID = identityID,
                              g_Truncated = False\<rparr>)
         | focal # _ \<Rightarrow>
             buildGraph (mergeByJTI (WalkUp (c_JTI focal) acct proj d s) (WalkDown (c_JTI focal) acct proj d s))
               acct proj identityID s)"

definition WalkByJTI :: "string \<Rightarrow> string \<Rightarrow> string \<Rightarrow> db \<Rightarrow> err + graph_node list \<times> graph_edge list" where
  "WalkByJTI jti acct proj s =
     (let creds = WalkUp jti acct proj MaxGraphDepth s
      in if creds = [] then Inl ErrCredentialNotFound
         else (let g = buildGraph creds acct proj [] s in Inr (g_Nodes g, g_Edges g)))"

definition delegationByJTIOp ::
  "(string \<times> string) option \<Rightarrow> string \<Rightarrow> db \<Rightarrow> err + graph_node list \<times> graph_edge list" where
  "delegationByJTIOp tenant jti s =
     (case tenant of
        None \<Rightarrow> Inl (HTTPErr 401)
      | Some (acct, proj) \<Rightarrow>
          (case WalkByJTI jti acct proj s of Inl e \<Rightarrow> Inl (HTTPErr 404) | Inr c \<Rightarrow> Inr c))"

definition delegationGraphOp :: "(string \<times> string) option \<Rightarrow> string \<Rightarrow> int \<Rightarrow> db \<Rightarrow> err + graph" where
  "delegationGraphOp tenant identityID depth s =
     (case tenant of
        None \<Rightarrow> Inl (HTTPErr 401)
      | Some (acct, proj) \<Rightarrow> Inr (GetGraph identityID depth acct proj s))"

definition delegationChainsOp ::
  "time \<Rightarrow> (string \<times> string) option \<Rightarrow> time \<Rightarrow> time \<Rightarrow> int \<Rightarrow> db \<Rightarrow> err + chain_summary list" where
  "delegationChainsOp now tenant since until limit s =
     (case tenant of
        None \<Rightarrow> Inl (HTTPErr 401)
      | Some (acct, proj) \<Rightarrow> Inr (ListChains now since until limit acct proj s))"

subsection \<open>A lineage is a path\<close>

lemma parent_filter:
  assumes "unique_by credential_conflict t"
  shows "filter (\<lambda>p. c_JTI p = j \<and> P p) t = [] \<or> (\<exists>p \<in> set t. filter (\<lambda>p. c_JTI p = j \<and> P p) t = [p])"
  using assms
proof (induction t)
  case (Cons a t)
  have u: "unique_by credential_conflict t" "\<forall>x \<in> set t. \<not> credential_conflict a x"
    using Cons.prems by (auto simp: unique_by_def)
  show ?case
  proof (cases "c_JTI a = j \<and> P a")
    case True
    then have "filter (\<lambda>p. c_JTI p = j \<and> P p) t = []"
      using u(2) by (auto simp: filter_empty_conv credential_conflict_def)
    with True show ?thesis by simp
  next
    case False
    with Cons.IH [OF u(1)] show ?thesis by auto
  qed
qed simp

lemma singleton_filter: "filter P t = [p] \<Longrightarrow> p \<in> set t \<and> P p"
  by (metis filter_set list.set_intros(1) filter_eq_Cons_iff in_set_conv_decomp)

text \<open>
  Upwards, every row is the parent of the one before it, within the scope and the depth, and the
  walk ends early only where no parent is left outside the path.
\<close>

definition exhausted :: "(credential \<Rightarrow> bool) \<Rightarrow> credential list \<Rightarrow> string set \<Rightarrow> credential \<Rightarrow> bool" where
  "exhausted scope t path c \<longleftrightarrow> (\<forall>p \<in> set t. delegates p c \<and> scope p \<longrightarrow> c_JTI p \<in> path)"

lemma walk_up_path:
  assumes "unique_by credential_conflict t" "c \<in> set t" "scope c"
  shows "\<exists>xs. walk_up n scope t path c = c # xs \<and> successively (\<lambda>a b. delegates b a) (c # xs) \<and>
    set (c # xs) \<subseteq> {x \<in> set t. scope x} \<and> length xs \<le> n \<and>
    (length xs = n \<or> exhausted scope t (set path \<union> c_JTI ` set xs) (last (c # xs)))"
  using assms(2,3)
proof (induction n arbitrary: c path)
  case (Suc n)
  have f: "filter (\<lambda>p. delegates p c \<and> scope p) t = filter (\<lambda>p. c_JTI p = c_ParentJTI c \<and> delegates p c \<and> scope p) t"
    by (rule filter_cong) (auto simp: delegates_def)
  from parent_filter [OF assms(1), of "c_ParentJTI c" "\<lambda>p. delegates p c \<and> scope p"] f
  consider "filter (\<lambda>p. delegates p c \<and> scope p) t = []"
    | p where "p \<in> set t" "filter (\<lambda>p. delegates p c \<and> scope p) t = [p]" by auto
  then show ?case
  proof cases
    case 1
    then have "exhausted scope t (set path) c" by (auto simp: exhausted_def filter_empty_conv)
    with 1 Suc.prems show ?thesis by simp
  next
    case 2
    then have p: "delegates p c" "scope p" using singleton_filter [OF 2(2)] by auto
    show ?thesis
    proof (cases "c_JTI p \<in> set path")
      case True
      then have "exhausted scope t (set path) c" by (auto simp: exhausted_def delegates_def p(1)[unfolded delegates_def])
      with True 2 Suc.prems show ?thesis by simp
    next
      case False
      from Suc.IH [OF 2(1) p(2), of "c_JTI p # path"] obtain xs where
        "walk_up n scope t (c_JTI p # path) p = p # xs" "successively (\<lambda>a b. delegates b a) (p # xs)"
        "set (p # xs) \<subseteq> {x \<in> set t. scope x}" "length xs \<le> n"
        "length xs = n \<or> exhausted scope t (set (c_JTI p # path) \<union> c_JTI ` set xs) (last (p # xs))" by blast
      with 2 p False Suc.prems show ?thesis by (intro exI [of _ "p # xs"]) simp
    qed
  qed
qed simp

lemma WalkUp_path:
  assumes "unique_by credential_conflict (issued_credentials s)" "WalkUp jti acct proj d s \<noteq> []"
  obtains c xs where "WalkUp jti acct proj d s = rev (c # xs)" "c_JTI c = jti"
    "successively (\<lambda>a b. delegates b a) (c # xs)" "length xs \<le> nat d"
    "set (c # xs) \<subseteq> {x \<in> set (issued_credentials s). in_tenant_c acct proj x}"
    "length xs = nat d \<or>
       exhausted (in_tenant_c acct proj) (issued_credentials s) (c_JTI ` set (c # xs)) (last (c # xs))"
proof -
  let ?t = "issued_credentials s" and ?P = "\<lambda>c. c_JTI c = jti \<and> in_tenant_c acct proj c"
  have "filter ?P ?t \<noteq> []"
  proof
    assume "filter ?P ?t = []"
    with assms(2) show False by (simp add: WalkUp_def)
  qed
  with parent_filter [OF assms(1), of jti "in_tenant_c acct proj"] obtain c where
    f: "filter ?P ?t = [c]" by blast
  then have c: "c \<in> set ?t" "c_JTI c = jti" "in_tenant_c acct proj c" using singleton_filter [OF f] by auto
  from walk_up_path [where scope = "in_tenant_c acct proj", OF assms(1) c(1,3), of "nat d" "[c_JTI c]"] obtain xs where
    "walk_up (nat d) (in_tenant_c acct proj) ?t [c_JTI c] c = c # xs" "successively (\<lambda>a b. delegates b a) (c # xs)"
    "set (c # xs) \<subseteq> {x \<in> set ?t. in_tenant_c acct proj x}" "length xs \<le> nat d"
    "length xs = nat d \<or> exhausted (in_tenant_c acct proj) ?t (set [c_JTI c] \<union> c_JTI ` set xs) (last (c # xs))"
    by blast
  with f c(2) that show ?thesis by (simp add: WalkUp_def)
qed

text \<open>The edge drawn for a credential whose parent is in the list.\<close>

lemma edge_of_parent:
  assumes u: "unique_by credential_conflict t" and s: "set creds \<subseteq> set t"
    and p: "p \<in> set creds" and d: "delegates p c"
  shows "edge_of creds c = (credentialToEdge c)\<lparr>ge_From := identityIDOrEmpty (c_IdentityID p),
    ge_ScopesIn := c_Scopes p, ge_Attenuated := setDiff (c_Scopes p) (c_Scopes c)\<rparr>"
proof -
  have "find (\<lambda>q. c_JTI q = c_ParentJTI c) (rev creds) \<noteq> None"
    using p d by (auto simp: find_None_iff delegates_def)
  then obtain q where q: "find (\<lambda>q. c_JTI q = c_ParentJTI c) (rev creds) = Some q" by blast
  then have "q \<in> set creds" "c_JTI q = c_JTI p" using d
    by (auto simp: find_Some_iff delegates_def) (metis nth_mem set_rev length_rev)
  then have "q = p" using u s p unique_cred_jti by blast
  with q d show ?thesis by (auto simp: edge_of_def delegates_def)
qed

lemma edge_of_simps [simp]:
  "ge_JTI (edge_of creds c) = c_JTI c" "ge_ParentJTI (edge_of creds c) = c_ParentJTI c"
  "ge_To (edge_of creds c) = identityIDOrEmpty (c_IdentityID c)" "ge_ScopesOut (edge_of creds c) = c_Scopes c"
  "ge_MissionID (edge_of creds c) = c_MissionID c" "ge_IsRevoked (edge_of creds c) = c_IsRevoked c"
  by (auto simp: edge_of_def credentialToEdge_def split: option.split)

definition next_hop :: "graph_edge \<Rightarrow> graph_edge \<Rightarrow> bool" where
  "next_hop e f \<longleftrightarrow> ge_ParentJTI f = ge_JTI e \<and> ge_From f = ge_To e \<and> ge_MissionID f = ge_MissionID e \<and>
     ge_ScopesIn f = ge_ScopesOut e \<and> ge_Attenuated f = setDiff (ge_ScopesOut e) (ge_ScopesOut f)"

lemma successively_edges:
  assumes u: "unique_by credential_conflict t" and s: "set creds \<subseteq> set t"
    and d: "successively delegates xs" "set xs \<subseteq> set creds"
  shows "successively next_hop (map (edge_of creds) xs)"
  unfolding successively_map using d(1)
proof (rule successively_mono)
  fix p c assume "p \<in> set xs" "c \<in> set xs" "delegates p c"
  with edge_of_parent [OF u s, of p c] d(2) show "next_hop (edge_of creds p) (edge_of creds c)"
    by (auto simp: next_hop_def delegates_def credentialToEdge_def)
qed

text \<open>
  C38. The lineage that \<open>/delegations/by-jti\<close> returns is one path of the delegation forest: it ends
  at the requested credential, every hop starts at the identity its parent credential was issued to,
  takes over the scopes of the parent and reports exactly the scopes the delegation dropped, and
  all of it lies in the caller's tenant and one mission. It has at most eleven hops, and fewer
  than eleven only if no further ancestor of the same tenant and mission is left out.
\<close>

theorem WalkByJTI_lineage:
  assumes "unique_by credential_conflict (issued_credentials s)"
    and "WalkByJTI jti acct proj s = Inr (nodes, edges)"
  shows "edges \<noteq> [] \<and> ge_JTI (last edges) = jti \<and> successively next_hop edges \<and>
    length edges \<le> 11 \<and>
    (\<forall>e \<in> set edges. \<exists>c \<in> set (issued_credentials s). in_tenant_c acct proj c \<and> c_JTI c = ge_JTI e \<and>
       ge_To e = identityIDOrEmpty (c_IdentityID c) \<and> ge_ScopesOut e = c_Scopes c \<and> ge_IsRevoked e = c_IsRevoked c) \<and>
    (length edges = 11 \<or>
     (\<forall>p \<in> set (issued_credentials s). in_tenant_c acct proj p \<and> c_JTI p = ge_ParentJTI (hd edges) \<and>
        ge_ParentJTI (hd edges) \<noteq> [] \<and> ge_MissionID (hd edges) \<noteq> [] \<and> c_MissionID p = ge_MissionID (hd edges) \<longrightarrow>
        c_JTI p \<in> ge_JTI ` set edges))"
proof -
  let ?w = "WalkUp jti acct proj MaxGraphDepth s"
  from assms(2) have "?w \<noteq> []" by (auto simp: WalkByJTI_def split: if_splits)
  from WalkUp_path [OF assms(1) this] obtain c xs where
    w: "?w = rev (c # xs)" and c: "c_JTI c = jti" "successively (\<lambda>a b. delegates b a) (c # xs)" "length xs \<le> 10"
      "set (c # xs) \<subseteq> {x \<in> set (issued_credentials s). in_tenant_c acct proj x}" and
    e: "length xs = 10 \<or> exhausted (in_tenant_c acct proj) (issued_credentials s) (c_JTI ` set (c # xs)) (last (c # xs))"
    by auto
  have "edges = map (edge_of ?w) ?w"
    using assms(2) c(3) by (auto simp: WalkByJTI_def buildGraph_def Let_def w split: if_splits)
  then have edges: "edges = map (edge_of (rev (c # xs))) (rev (c # xs))" by (simp only: w)
  have "successively delegates (rev (c # xs))" using c(2) by (simp only: successively_rev)
  then have hops: "successively next_hop edges"
    unfolding edges by (intro successively_edges [OF assms(1)]) (use c(4) in auto)
  have "hd edges = edge_of (rev (c # xs)) (last (c # xs))"
    unfolding edges by (simp only: hd_map hd_rev list.simps rev_is_Nil_conv not_False_eq_True)
  then have h: "ge_ParentJTI (hd edges) = c_ParentJTI (last (c # xs))"
    "ge_MissionID (hd edges) = c_MissionID (last (c # xs))" by simp_all
  have j: "ge_JTI ` set edges = c_JTI ` set (c # xs)"
    by (simp only: edges set_map set_rev image_image edge_of_simps)
  have "edges \<noteq> []" "ge_JTI (last edges) = jti" "length edges = Suc (length xs)"
    using c(1) by (simp_all add: edges)
  moreover have "length edges = 11 \<or> exhausted (in_tenant_c acct proj) (issued_credentials s)
      (ge_JTI ` set edges) (last (c # xs))"
    using e j by (simp add: edges)
  moreover have "\<exists>k \<in> set (issued_credentials s). in_tenant_c acct proj k \<and> c_JTI k = ge_JTI e \<and>
      ge_To e = identityIDOrEmpty (c_IdentityID k) \<and> ge_ScopesOut e = c_Scopes k \<and> ge_IsRevoked e = c_IsRevoked k"
    if "e \<in> set edges" for e
    using that c(4) by (auto simp: edges)
  moreover obtain r where "r = last (c # xs)" by blast
  ultimately show ?thesis using hops c(3) h unfolding exhausted_def delegates_def
    by (simp del: last.simps) metis
qed

theorem WalkByJTI_lineage_witness:
  "\<exists>edges. edges \<noteq> [] \<and> ge_JTI (last edges) = ''leaf'' \<and> map ge_From edges = [[], ''a'', ''b''] \<and>
     map ge_Attenuated edges = [[], [''write''], []] \<and> successively next_hop edges"
proof -
  define s where "s = empty_db\<lparr>issued_credentials :=
    [zero_credential\<lparr>c_ID := ''1'', c_JTI := ''root'', c_IdentityID := Some ''a'', c_MissionID := ''root'', c_Scopes := [''read'', ''write'']\<rparr>,
     zero_credential\<lparr>c_ID := ''2'', c_JTI := ''mid'', c_IdentityID := Some ''b'', c_ParentJTI := ''root'', c_MissionID := ''root'', c_Scopes := [''read'']\<rparr>,
     zero_credential\<lparr>c_ID := ''3'', c_JTI := ''leaf'', c_ParentJTI := ''mid'', c_MissionID := ''root'', c_Scopes := [''read'']\<rparr>]\<rparr>"
  have u: "unique_by credential_conflict (issued_credentials s)"
    by (simp add: s_def unique_by_def credential_conflict_def zero_credential_def)
  define g where "g = WalkByJTI ''leaf'' [] [] s"
  have g: "case g of Inl _ \<Rightarrow> False | Inr (n, es) \<Rightarrow> map ge_From es = [[], ''a'', ''b''] \<and>
      map ge_Attenuated es = [[], [''write''], []]"
    unfolding g_def s_def zero_credential_def empty_db_def by code_simp
  then obtain n es where "g = Inr (n, es)" by (auto split: sum.splits)
  with g WalkByJTI_lineage [OF u, of "''leaf''" "[]" "[]" n es] show ?thesis
    by (intro exI [of _ es]) (simp add: g_def)
qed

end
