(* ===== verification/Zeroid_Listings.thy ===== *)
theory Zeroid_Listings
  imports Zeroid_Config Zeroid_Delegation "HOL-Library.Multiset"
begin

text \<open>
  The listings of the admin API (\<open>src/internal/handler\<close>, \<open>src/internal/service\<close>, \<open>src/internal/store/postgres\<close>):
  filters, order and pages of identities, agents and API keys, the other tables of a tenant, the report on
  what expires soon and the audit log. Proved: pages cover a listing exactly, listings stay in
  their tenant, the report is exact.
\<close>

subsection \<open>Ordered and paged rows\<close>

text \<open>
  \<open>ORDER BY created_at DESC\<close>: rows with equal times come in any order, and a later query may order
  them otherwise; \<open>ties\<close> is the order the database chose for one query. \<open>LIMIT\<close> and \<open>OFFSET\<close> are
  written for positive numbers only.
\<close>

definition newest_first :: "('a \<Rightarrow> time) \<Rightarrow> ('a list \<Rightarrow> 'a list) \<Rightarrow> 'a list \<Rightarrow> 'a list" where
  "newest_first when ties rows = sort_key (\<lambda>r. - when r) (ties rows)"

definition paged :: "int \<Rightarrow> int \<Rightarrow> 'a list \<Rightarrow> 'a list" where
  "paged limit offset rows =
     (let rest = (if offset > 0 then drop (nat offset) rows else rows)
      in if limit > 0 then take (nat limit) rest else rest)"

text \<open>The operators of the database: \<open>ILIKE\<close> with its pattern and \<open>labels @> {k: v}\<close>.\<close>

record query_env =
  qe_ilike :: "string \<Rightarrow> string \<Rightarrow> bool"
  qe_contains :: "string \<Rightarrow> string \<Rightarrow> string \<Rightarrow> bool"

record identity_filter =
  fi_Types :: "string list"
  fi_Label :: string
  fi_TrustLevel :: string
  fi_IsActive :: string
  fi_Search :: string

definition label_parts :: "string \<Rightarrow> (string \<times> string) option" where
  "label_parts label =
     (case split_n 2 CHR '':'' label of
        [k, v] \<Rightarrow> if k = [] then None else Some (k, v)
      | _ \<Rightarrow> None)"

definition status_matches :: "string \<Rightarrow> identity \<Rightarrow> bool" where
  "status_matches isActive i =
     (if isActive = [] then True
      else case ParseBool isActive of
             None \<Rightarrow> True
           | Some True \<Rightarrow> i_Status i = IdentityStatusActive
           | Some False \<Rightarrow> i_Status i \<noteq> IdentityStatusActive)"

definition identity_matches :: "query_env \<Rightarrow> string \<Rightarrow> string \<Rightarrow> identity_filter \<Rightarrow> identity \<Rightarrow> bool" where
  "identity_matches Q acct proj f i \<longleftrightarrow>
     i_AccountID i = acct \<and> i_ProjectID i = proj \<and>
     (length (fi_Types f) = 1 \<longrightarrow> i_IdentityType i = fi_Types f ! 0) \<and>
     (length (fi_Types f) > 1 \<longrightarrow> i_IdentityType i \<in> set (fi_Types f)) \<and>
     (fi_Label f \<noteq> [] \<longrightarrow> (case label_parts (fi_Label f) of None \<Rightarrow> False | Some (k, v) \<Rightarrow> qe_contains Q (i_Labels i) k v)) \<and>
     (fi_TrustLevel f \<noteq> [] \<longrightarrow> i_TrustLevel i = fi_TrustLevel f) \<and>
     status_matches (fi_IsActive f) i \<and>
     (fi_Search f \<noteq> [] \<longrightarrow> qe_ilike Q (''%'' @ fi_Search f @ ''%'') (i_Name i) \<or>
        qe_ilike Q (''%'' @ fi_Search f @ ''%'') (i_ExternalID i))"

definition Identity_List ::
  "query_env \<Rightarrow> (identity list \<Rightarrow> identity list) \<Rightarrow> string \<Rightarrow> string \<Rightarrow> identity_filter \<Rightarrow> int \<Rightarrow> int \<Rightarrow> db \<Rightarrow>
   err + identity list \<times> nat" where
  "Identity_List Q ties acct proj f limit offset s =
     (if fi_Label f \<noteq> [] \<and> label_parts (fi_Label f) = None then Inl (ErrMsg ''invalid label format'')
      else let rows = filter (identity_matches Q acct proj f) (identities s)
           in Inr (paged limit offset (newest_first i_CreatedAt ties rows), length rows))"

definition ListIdentities ::
  "query_env \<Rightarrow> (identity list \<Rightarrow> identity list) \<Rightarrow> string \<Rightarrow> string \<Rightarrow> identity_filter \<Rightarrow> int \<Rightarrow> int \<Rightarrow> db \<Rightarrow>
   err + identity list \<times> nat" where
  "ListIdentities Q ties acct proj f limit offset s = Identity_List Q ties acct proj f limit offset s"

record 'a page_output =
  po_rows :: "'a list"
  po_Total :: nat
  po_Limit :: int
  po_Offset :: int

definition listIdentitiesOp ::
  "query_env \<Rightarrow> (identity list \<Rightarrow> identity list) \<Rightarrow> (string \<times> string) option \<Rightarrow> identity_filter \<Rightarrow> int \<Rightarrow> int \<Rightarrow> db \<Rightarrow>
   err + identity page_output" where
  "listIdentitiesOp Q ties ctx f limit offset s =
     (case GetTenant ctx of
        None \<Rightarrow> Inl (HTTPErr 401)
      | Some (acct, proj) \<Rightarrow>
          (let limit = (if limit \<le> 0 \<or> limit > 100 then 20 else limit); offset = max offset 0
           in case ListIdentities Q ties acct proj f limit offset s of
                Inl _ \<Rightarrow> Inl (HTTPErr 500)
              | Inr (rows, tot) \<Rightarrow> Inr \<lparr>po_rows = rows, po_Total = tot, po_Limit = limit, po_Offset = offset\<rparr>))"

definition ListAgents ::
  "query_env \<Rightarrow> (identity list \<Rightarrow> identity list) \<Rightarrow> identity_filter \<Rightarrow> int \<Rightarrow> int \<Rightarrow> string \<Rightarrow> string \<Rightarrow>
   (db, err, agent_response page_output) svc" where
  "ListAgents Q ties f limit offset acct proj = (\<lambda>s.
     let limit = (if limit \<le> 0 \<or> limit > 100 then 20 else limit); offset = (if offset < 0 then 0 else offset)
     in case ListIdentities Q ties acct proj f limit offset s of
          Inl e \<Rightarrow> (Inl e, s)
        | Inr (rows, tot) \<Rightarrow>
            (Inr \<lparr>po_rows = map (\<lambda>i. identityToAgentResponse i (getKeyPrefix (i_ID i) s)) rows, po_Total = tot,
                  po_Limit = limit, po_Offset = offset\<rparr>, s))"

text \<open>The parameter \<open>agent_type\<close> of the request is not read.\<close>

definition listAgentsOp ::
  "(err \<Rightarrow> string) \<Rightarrow> query_env \<Rightarrow> (identity list \<Rightarrow> identity list) \<Rightarrow> (string \<times> string) option \<Rightarrow> string \<Rightarrow> identity_filter \<Rightarrow>
   int \<Rightarrow> int \<Rightarrow> (db, err, agent_response page_output) svc" where
  "listAgentsOp etext Q ties ctx agentType f limit offset = agent_op etext ctx (ListAgents Q ties f limit offset)"

subsection \<open>API keys\<close>

definition key_matches :: "query_env \<Rightarrow> string \<Rightarrow> string \<Rightarrow> string \<Rightarrow> string \<Rightarrow> string \<Rightarrow> db \<Rightarrow> api_key \<Rightarrow> bool" where
  "key_matches Q acct proj applicationID product label s k \<longleftrightarrow>
     k_AccountID k = acct \<and> (proj \<noteq> [] \<longrightarrow> k_ProjectID k = proj) \<and>
     (applicationID \<noteq> [] \<longrightarrow> k_IdentityID k = applicationID) \<and> (product \<noteq> [] \<longrightarrow> k_Product k = product) \<and>
     (label \<noteq> [] \<longrightarrow> (case label_parts label of
        None \<Rightarrow> True
      | Some (key, v) \<Rightarrow> list_ex (\<lambda>i. i_ID i = k_IdentityID k \<and> qe_contains Q (i_Labels i) key v) (identities s)))"

definition ListByAccountProject ::
  "query_env \<Rightarrow> (api_key list \<Rightarrow> api_key list) \<Rightarrow> string \<Rightarrow> string \<Rightarrow> string \<Rightarrow> string \<Rightarrow> string \<Rightarrow> int \<Rightarrow> int \<Rightarrow> db \<Rightarrow>
   api_key list \<times> nat" where
  "ListByAccountProject Q ties acct proj applicationID product label limit offset s =
     (let rows = filter (key_matches Q acct proj applicationID product label s) (service_keys s)
      in (paged limit offset (newest_first k_CreatedAt ties rows), length rows))"

definition ListKeys ::
  "query_env \<Rightarrow> (api_key list \<Rightarrow> api_key list) \<Rightarrow> string \<Rightarrow> string \<Rightarrow> string \<Rightarrow> string \<Rightarrow> string \<Rightarrow> int \<Rightarrow> int \<Rightarrow> db \<Rightarrow>
   api_key list \<times> nat" where
  "ListKeys Q ties acct proj applicationID product label page limit s =
     (let page = (if page < 1 then 1 else page); limit = (if limit < 1 \<or> limit > 100 then 20 else limit)
      in ListByAccountProject Q ties acct proj applicationID product label limit (int64 ((page - 1) * limit)) s)"

text \<open>The answer repeats the page and the limit as they were asked for; its \<open>po_Offset\<close> is the page.\<close>

definition listAPIKeysOp ::
  "query_env \<Rightarrow> (api_key list \<Rightarrow> api_key list) \<Rightarrow> (string \<times> string) option \<Rightarrow> string \<Rightarrow> string \<Rightarrow> string \<Rightarrow> int \<Rightarrow> int \<Rightarrow> db \<Rightarrow>
   err + api_key page_output" where
  "listAPIKeysOp Q ties ctx applicationID product label page limit s =
     (case GetTenant ctx of
        None \<Rightarrow> Inl (HTTPErr 401)
      | Some (acct, proj) \<Rightarrow>
          (case ListKeys Q ties acct proj applicationID product label page limit s of
             (rows, tot) \<Rightarrow> Inr \<lparr>po_rows = rows, po_Total = tot, po_Limit = limit, po_Offset = page\<rparr>))"

subsection \<open>Credentials, signals, policies, clients\<close>

definition Credential_ListByMissionID :: "string \<Rightarrow> string \<Rightarrow> string \<Rightarrow> db \<Rightarrow> credential list" where
  "Credential_ListByMissionID missionID acct proj s =
     sort_key c_DelegationDepth (sort_key c_IssuedAt
       (filter (\<lambda>c. c_MissionID c = missionID \<and> in_tenant_c acct proj c) (issued_credentials s)))"

definition listCredentialsOp :: "(string \<times> string) option \<Rightarrow> string \<Rightarrow> string \<Rightarrow> db \<Rightarrow> err + credential list" where
  "listCredentialsOp ctx identityID missionID s =
     (case GetTenant ctx of
        None \<Rightarrow> Inl (HTTPErr 401)
      | Some (acct, proj) \<Rightarrow>
          (let hasIdentity = (identityID \<noteq> []); hasMission = (missionID \<noteq> [])
           in if hasIdentity = hasMission then Inl (HTTPErr 400)
              else if hasMission then Inr (Credential_ListByMissionID missionID acct proj s)
              else Inr (ListByIdentity identityID acct proj s)))"

definition Signal_List :: "(signal list \<Rightarrow> signal list) \<Rightarrow> string \<Rightarrow> string \<Rightarrow> int \<Rightarrow> db \<Rightarrow> signal list" where
  "Signal_List ties acct proj limit s =
     paged limit 0 (newest_first sg_CreatedAt ties
       (filter (\<lambda>g. sg_AccountID g = acct \<and> sg_ProjectID g = proj) (cae_signals s)))"

definition Signal_ListByMissionID :: "string \<Rightarrow> string \<Rightarrow> string \<Rightarrow> db \<Rightarrow> signal list" where
  "Signal_ListByMissionID missionID acct proj s =
     sort_key sg_CreatedAt
       (filter (\<lambda>g. sg_MissionID g = missionID \<and> sg_AccountID g = acct \<and> sg_ProjectID g = proj) (cae_signals s))"

definition listSignalsOp ::
  "(signal list \<Rightarrow> signal list) \<Rightarrow> (string \<times> string) option \<Rightarrow> int \<Rightarrow> string \<Rightarrow> db \<Rightarrow> err + signal list" where
  "listSignalsOp ties ctx limit missionID s =
     (case GetTenant ctx of
        None \<Rightarrow> Inl (HTTPErr 401)
      | Some (acct, proj) \<Rightarrow>
          (let limit = (if limit = 0 then 50 else limit)
           in if missionID \<noteq> [] then Inr (Signal_ListByMissionID missionID acct proj s)
              else Inr (Signal_List ties acct proj limit s)))"

text \<open>
  The stream: the subscription of the tenant, 400 without a tenant. When the connection cannot be flushed the error is written
  after the status line, so the client sees 200 with the body of an error.
\<close>

definition streamSignalsHandler ::
  "(string \<times> string) option \<Rightarrow> bool \<Rightarrow> string \<Rightarrow> subscribers \<Rightarrow> (err + string) \<times> subscribers" where
  "streamSignalsHandler ctx flusher uuid subs =
     (case GetTenant ctx of
        None \<Rightarrow> (Inl (HTTPErr 400), subs)
      | Some (acct, proj) \<Rightarrow>
          if \<not> flusher then (Inl (HTTPErr 200), subs)
          else (Inr (subscriber_id acct proj uuid), Subscribe (subscriber_id acct proj uuid) subs))"

definition Policy_List :: "(policy list \<Rightarrow> policy list) \<Rightarrow> string \<Rightarrow> string \<Rightarrow> db \<Rightarrow> policy list" where
  "Policy_List ties acct proj s =
     newest_first p_CreatedAt ties (filter (\<lambda>p. p_AccountID p = acct \<and> p_ProjectID p = proj) (credential_policies s))"

definition listPoliciesOp :: "(policy list \<Rightarrow> policy list) \<Rightarrow> (string \<times> string) option \<Rightarrow> db \<Rightarrow> err + policy list" where
  "listPoliciesOp ties ctx s =
     (case GetTenant ctx of None \<Rightarrow> Inl (HTTPErr 401) | Some (acct, proj) \<Rightarrow> Inr (Policy_List ties acct proj s))"

definition AttPolicy_List ::
  "(attestation_policy list \<Rightarrow> attestation_policy list) \<Rightarrow> string \<Rightarrow> string \<Rightarrow> att_policies \<Rightarrow> attestation_policy list" where
  "AttPolicy_List ties acct proj ps =
     newest_first atp_CreatedAt ties (filter (\<lambda>p. atp_AccountID p = acct \<and> atp_ProjectID p = proj) ps)"

definition listAttestationPoliciesOp ::
  "(attestation_policy list \<Rightarrow> attestation_policy list) \<Rightarrow> (string \<times> string) option \<Rightarrow> att_policies \<Rightarrow>
   err + attestation_policy list" where
  "listAttestationPoliciesOp ties ctx ps =
     (case GetTenant ctx of None \<Rightarrow> Inl (HTTPErr 401) | Some (acct, proj) \<Rightarrow> Inr (AttPolicy_List ties acct proj ps))"

definition OAuthClient_List :: "(oauth_client list \<Rightarrow> oauth_client list) \<Rightarrow> db \<Rightarrow> oauth_client list" where
  "OAuthClient_List ties s = newest_first o_CreatedAt ties (oauth_clients s)"

definition listOAuthClientsOp :: "(oauth_client list \<Rightarrow> oauth_client list) \<Rightarrow> db \<Rightarrow> err + oauth_client list" where
  "listOAuthClientsOp ties s = Inr (OAuthClient_List ties s)"

definition getOAuthClientOp :: "string \<Rightarrow> db \<Rightarrow> err + oauth_client" where
  "getOAuthClientOp rid s =
     (case OAuthClient_GetByID rid s of None \<Rightarrow> Inl (HTTPErr 404) | Some c \<Rightarrow> Inr c)"

definition rotateOAuthClientSecretOp ::
  "net_env \<Rightarrow> client_fresh \<Rightarrow> string \<Rightarrow> (db, err, oauth_client \<times> string) svc" where
  "rotateOAuthClientSecretOp N w rid =
     on_error (RotateSecret N w rid) (\<lambda>e. if e = ErrOAuthClientNotFound then HTTPErr 404 else HTTPErr 500)"

definition deleteOAuthClientOp :: "string \<Rightarrow> (db, err, string) svc" where
  "deleteOAuthClientOp rid = (\<lambda>s. (Inr rid, OAuthClient_Delete rid s))"

subsection \<open>What expires soon\<close>

abbreviation hours :: int where "hours \<equiv> 3600 * second"

definition maxExpiringSoonWindow :: int where "maxExpiringSoonWindow = 365 * 24 * hours"
definition defaultExpiringSoonWindow :: int where "defaultExpiringSoonWindow = 7 * 24 * hours"

text \<open>\<open>parse\<close> is \<open>time.ParseDuration\<close>.\<close>

definition parseLookaheadDuration :: "(string \<Rightarrow> int option) \<Rightarrow> string \<Rightarrow> int option" where
  "parseLookaheadDuration parse s =
     (let s = TrimSpace s
      in if s = [] then None
         else if last s \<noteq> CHR ''d'' \<and> last s \<noteq> CHR ''w'' then parse s
         else case Atoi (butlast s) of
                None \<Rightarrow> None
              | Some n \<Rightarrow>
                  (let unit = (if last s = CHR ''w'' then 7 * 24 * hours else 24 * hours);
                       maxN = maxExpiringSoonWindow div unit
                   in if n < 0 \<or> n > maxN then None else Some (n * unit)))"

abbreviation due :: "time option \<Rightarrow> time \<Rightarrow> int \<Rightarrow> bool" where
  "due t now within \<equiv> (case t of None \<Rightarrow> False | Some t \<Rightarrow> now \<le> t \<and> t \<le> now + within)"

abbreviation expiry :: "time option \<Rightarrow> time" where
  "expiry t \<equiv> (case t of None \<Rightarrow> 0 | Some t \<Rightarrow> t)"

definition Identity_ListExpiringSoon :: "string \<Rightarrow> string \<Rightarrow> time \<Rightarrow> int \<Rightarrow> db \<Rightarrow> identity list" where
  "Identity_ListExpiringSoon acct proj now within s =
     sort_key (\<lambda>i. expiry (i_ExpiresAt i))
       (filter (\<lambda>i. i_AccountID i = acct \<and> i_ProjectID i = proj \<and> due (i_ExpiresAt i) now within \<and>
                    i_Status i = IdentityStatusActive) (identities s))"

definition Policy_ListExpiringSoon :: "string \<Rightarrow> string \<Rightarrow> time \<Rightarrow> int \<Rightarrow> db \<Rightarrow> policy list" where
  "Policy_ListExpiringSoon acct proj now within s =
     sort_key (\<lambda>p. expiry (p_ExpiresAt p))
       (filter (\<lambda>p. p_AccountID p = acct \<and> p_ProjectID p = proj \<and> due (p_ExpiresAt p) now within \<and> p_IsActive p)
          (credential_policies s))"

record expiring_output =
  eo_Within :: int
  eo_Identities :: "identity list"
  eo_Policies :: "policy list"
  eo_APIKeys :: "api_key list"

definition expiringSoonOp ::
  "(string \<Rightarrow> int option) \<Rightarrow> time \<Rightarrow> (string \<times> string) option \<Rightarrow> string \<Rightarrow> db \<Rightarrow> err + expiring_output" where
  "expiringSoonOp parse now ctx within s =
     (case GetTenant ctx of
        None \<Rightarrow> Inl (HTTPErr 401)
      | Some (acct, proj) \<Rightarrow>
          (let answer = (\<lambda>d. Inr \<lparr>eo_Within = d, eo_Identities = Identity_ListExpiringSoon acct proj now d s,
                  eo_Policies = Policy_ListExpiringSoon acct proj now d s, eo_APIKeys = ListExpiringSoon acct proj now d s\<rparr>)
           in if within = [] then answer defaultExpiringSoonWindow
              else case parseLookaheadDuration parse within of
                     None \<Rightarrow> Inl (HTTPErr 400)
                   | Some parsed \<Rightarrow>
                       if parsed \<le> 0 then Inl (HTTPErr 400)
                       else if parsed > maxExpiringSoonWindow then Inl (HTTPErr 400) else answer parsed))"

subsection \<open>Audit log\<close>

text \<open>The table is filled by triggers of the migrations; \<open>parse\<close> is \<open>json.Unmarshal\<close> into a map, \<open>rfc3339\<close> the format of times.\<close>

record audit_entry =
  ae_ID :: string
  ae_AccountID :: string
  ae_ProjectID :: string
  ae_IdentityID :: string
  ae_TableName :: string
  ae_Action :: string
  ae_Status :: string
  ae_UserID :: string
  ae_OldData :: string
  ae_NewData :: string
  ae_CreatedAt :: time

record audit_filter =
  af_IdentityID :: string
  af_TableName :: string
  af_Action :: string
  af_UserID :: string

record audit_response =
  al_AuditID :: string
  al_AccountID :: string
  al_TableName :: string
  al_Action :: string
  al_Status :: string
  al_UserID :: string
  al_Timestamp :: string
  al_OldData :: "claims option"
  al_NewData :: "claims option"
  al_ChangedData :: "claims option"
  al_EntityName :: string

definition AuditLog_List ::
  "(audit_entry list \<Rightarrow> audit_entry list) \<Rightarrow> string \<Rightarrow> string \<Rightarrow> audit_filter \<Rightarrow> audit_entry list \<Rightarrow> audit_entry list" where
  "AuditLog_List ties acct proj f t =
     newest_first ae_CreatedAt ties (filter (\<lambda>e. ae_AccountID e = acct \<and> (proj \<noteq> [] \<longrightarrow> ae_ProjectID e = proj) \<and>
       (af_IdentityID f \<noteq> [] \<longrightarrow> ae_IdentityID e = af_IdentityID f) \<and> (af_TableName f \<noteq> [] \<longrightarrow> ae_TableName e = af_TableName f) \<and>
       (af_Action f \<noteq> [] \<longrightarrow> ae_Action e = af_Action f) \<and> (af_UserID f \<noteq> [] \<longrightarrow> ae_UserID e = af_UserID f)) t)"

definition name_of :: "claims option \<Rightarrow> string option" where
  "name_of m = (case m of None \<Rightarrow> None | Some c \<Rightarrow> (case c ''name'' of Some (CStr n) \<Rightarrow> Some n | _ \<Rightarrow> None))"

definition toAuditLogResponse ::
  "(string \<Rightarrow> claims option) \<Rightarrow> (time \<Rightarrow> string) \<Rightarrow> audit_entry \<Rightarrow> audit_response" where
  "toAuditLogResponse parse rfc3339 e =
     (let oldData = (if ae_OldData e = [] then None else parse (ae_OldData e));
          newData = (if ae_NewData e = [] then None else parse (ae_NewData e));
          entityName = (case name_of newData of Some n \<Rightarrow> n | None \<Rightarrow> (case name_of oldData of Some n \<Rightarrow> n | None \<Rightarrow> []))
      in \<lparr>al_AuditID = ae_ID e, al_AccountID = ae_AccountID e, al_TableName = ae_TableName e, al_Action = ae_Action e,
          al_Status = ae_Status e, al_UserID = ae_UserID e, al_Timestamp = rfc3339 (ae_CreatedAt e), al_OldData = oldData,
          al_NewData = newData, al_ChangedData = None, al_EntityName = entityName\<rparr>)"

definition ListAuditLogs ::
  "(string \<Rightarrow> claims option) \<Rightarrow> (time \<Rightarrow> string) \<Rightarrow> (audit_entry list \<Rightarrow> audit_entry list) \<Rightarrow> string \<Rightarrow> string \<Rightarrow> audit_filter \<Rightarrow>
   audit_entry list \<Rightarrow> audit_response list" where
  "ListAuditLogs parse rfc3339 ties acct proj f t = map (toAuditLogResponse parse rfc3339) (AuditLog_List ties acct proj f t)"

definition listAuditLogsOp ::
  "(string \<Rightarrow> claims option) \<Rightarrow> (time \<Rightarrow> string) \<Rightarrow> (audit_entry list \<Rightarrow> audit_entry list) \<Rightarrow> (string \<times> string) option \<Rightarrow>
   audit_filter \<Rightarrow> audit_entry list \<Rightarrow> err + audit_response list" where
  "listAuditLogsOp parse rfc3339 ties ctx f t =
     (case GetTenant ctx of
        None \<Rightarrow> Inl (HTTPErr 401)
      | Some (acct, proj) \<Rightarrow> Inr (ListAuditLogs parse rfc3339 ties acct proj f t))"


subsection \<open>Walking the pages\<close>

text \<open>A database may return rows of equal order in any order, and no others.\<close>

definition reorders :: "('a list \<Rightarrow> 'a list) \<Rightarrow> bool" where
  "reorders ties \<longleftrightarrow> (\<forall>rows. mset (ties rows) = mset rows)"

lemma reorders_set: "reorders ties \<Longrightarrow> set (ties rows) = set rows"
  by (metis mset_eq_setD reorders_def)

lemma newest_first_set [simp]: "reorders ties \<Longrightarrow> set (newest_first when ties rows) = set rows"
  by (simp add: newest_first_def reorders_set)

lemma newest_first_length [simp]: "reorders ties \<Longrightarrow> length (newest_first when ties rows) = length rows"
  by (metis length_sort newest_first_def reorders_def size_mset)

lemma paged_subset: "set (paged limit offset rows) \<subseteq> set rows"
  by (auto simp: paged_def Let_def dest: in_set_takeD in_set_dropD)

lemma newest_first_unique:
  assumes "reorders ties" "inj_on when (set rows)"
  shows "newest_first when ties rows = sort_key (\<lambda>r. - when r) rows"
proof -
  have "inj_on (\<lambda>r. - when r) (set (ties rows))"
    using assms by (simp add: reorders_set inj_on_def)
  then show ?thesis unfolding newest_first_def
    by (intro sort_key_inj_key_eq) (use assms(1) in \<open>simp_all add: reorders_def\<close>)
qed

lemma pages_concat: "concat (map (\<lambda>n. take l (drop (n * l) xs)) [0..<k]) = take (k * l) xs"
proof (induction k)
  case (Suc k)
  have "take (Suc k * l) xs = take (k * l) xs @ take l (drop (k * l) xs)" by (metis add.commute mult_Suc take_add)
  with Suc show ?case by simp
qed simp

lemma paged_nth: "0 < l \<Longrightarrow> paged l (int n * l) rows = take (nat l) (drop (n * nat l) rows)"
  by (auto simp: paged_def Let_def nat_mult_distrib mult_less_0_iff zero_less_mult_iff)


definition two_identities :: db where
  "two_identities = empty_db\<lparr>identities := [sample_identity\<lparr>i_ID := ''a'', i_CreatedAt := 1\<rparr>,
     sample_identity\<lparr>i_ID := ''b'', i_CreatedAt := 2, i_ExpiresAt := Some (90000 * second)\<rparr>]\<rparr>"

definition no_filter :: identity_filter where
  "no_filter = \<lparr>fi_Types = [], fi_Label = [], fi_TrustLevel = [], fi_IsActive = ''true'', fi_Search = []\<rparr>"

definition sample_query :: query_env where
  "sample_query = \<lparr>qe_ilike = (\<lambda>p v. True), qe_contains = (\<lambda>l k v. True)\<rparr>"

abbreviation sample_ctx :: "(string \<times> string) option" where
  "sample_ctx \<equiv> Some (i_AccountID sample_identity, i_ProjectID sample_identity)"

lemma sample_tenant: "GetTenant sample_ctx = Some (i_AccountID sample_identity, i_ProjectID sample_identity)"
  by (simp add: GetTenant_def sample_identity_def)

lemma sample_matches:
  "filter (identity_matches sample_query (i_AccountID sample_identity) (i_ProjectID sample_identity) no_filter)
     (identities two_identities) = identities two_identities"
  by (simp add: two_identities_def identity_matches_def no_filter_def status_matches_def ParseBool_def sample_identity_def)

lemma rev_reorders: "reorders rev"
  by (simp add: reorders_def)


text \<open>Rows of equal creation time can be listed twice, and others not at all: nothing else is ordered by.\<close>

lemma equal_times_repeat:
  assumes "i_CreatedAt a = i_CreatedAt b"
  shows "paged 1 0 (newest_first i_CreatedAt (\<lambda>x. x) [a, b]) = [a]" "paged 1 1 (newest_first i_CreatedAt rev [a, b]) = [a]"
  using assms by (simp_all add: paged_def newest_first_def)

subsection \<open>Listings stay in their tenant\<close>

lemma listings_in_tenant_facts:
  assumes "reorders ti" "reorders tk" "reorders tg" "reorders tp" "reorders ta"
  shows "listIdentitiesOp Q ti ctx f limit offset s = Inr out \<Longrightarrow>
      list_all (\<lambda>i. GetTenant ctx = Some (i_AccountID i, i_ProjectID i)) (po_rows out)"
    and "listAgentsOp etext Q ti ctx agentType f limit offset s = (Inr outA, s') \<Longrightarrow>
      s' = s \<and> list_all (\<lambda>a. GetTenant ctx = Some (ar_AccountID a, ar_ProjectID a)) (po_rows outA)"
    and "listAPIKeysOp Q tk ctx app product label page limit s = Inr outK \<Longrightarrow>
      list_all (\<lambda>k. GetTenant ctx = Some (k_AccountID k, k_ProjectID k)) (po_rows outK)"
    and "listCredentialsOp ctx rid mid s = Inr creds \<Longrightarrow>
      list_all (\<lambda>c. GetTenant ctx = Some (c_AccountID c, c_ProjectID c)) creds"
    and "listSignalsOp tg ctx limit mid s = Inr signals \<Longrightarrow>
      list_all (\<lambda>g. GetTenant ctx = Some (sg_AccountID g, sg_ProjectID g)) signals"
    and "listPoliciesOp tp ctx s = Inr policies \<Longrightarrow>
      list_all (\<lambda>p. GetTenant ctx = Some (p_AccountID p, p_ProjectID p)) policies"
    and "listAttestationPoliciesOp ta ctx aps = Inr atts \<Longrightarrow>
      list_all (\<lambda>p. GetTenant ctx = Some (atp_AccountID p, atp_ProjectID p)) atts"
proof -
  note rows = list_all_iff Let_def subset_eq
  show "listIdentitiesOp Q ti ctx f limit offset s = Inr out \<Longrightarrow>
      list_all (\<lambda>i. GetTenant ctx = Some (i_AccountID i, i_ProjectID i)) (po_rows out)"
    using assms(1) by (auto simp: listIdentitiesOp_def ListIdentities_def Identity_List_def rows identity_matches_def
        split: option.splits if_splits dest!: subsetD [OF paged_subset])
  show "listAgentsOp etext Q ti ctx agentType f limit offset s = (Inr outA, s') \<Longrightarrow>
      s' = s \<and> list_all (\<lambda>a. GetTenant ctx = Some (ar_AccountID a, ar_ProjectID a)) (po_rows outA)"
    using assms(1) by (auto simp: listAgentsOp_def agent_op_def on_error_def throw_def ListAgents_def ListIdentities_def Identity_List_def
        rows identity_matches_def identityToAgentResponse_def split: option.splits if_splits prod.splits sum.splits
        dest!: subsetD [OF paged_subset])
  show "listAPIKeysOp Q tk ctx app product label page limit s = Inr outK \<Longrightarrow>
      list_all (\<lambda>k. GetTenant ctx = Some (k_AccountID k, k_ProjectID k)) (po_rows outK)"
    using assms(2) by (auto simp: listAPIKeysOp_def ListKeys_def ListByAccountProject_def rows key_matches_def GetTenant_def
        split: option.splits if_splits prod.splits dest!: subsetD [OF paged_subset])
  show "listCredentialsOp ctx rid mid s = Inr creds \<Longrightarrow>
      list_all (\<lambda>c. GetTenant ctx = Some (c_AccountID c, c_ProjectID c)) creds"
    by (auto simp: listCredentialsOp_def Credential_ListByMissionID_def ListByIdentity_def rows in_tenant_c_def split: option.splits if_splits)
  show "listSignalsOp tg ctx limit mid s = Inr signals \<Longrightarrow>
      list_all (\<lambda>g. GetTenant ctx = Some (sg_AccountID g, sg_ProjectID g)) signals"
    using assms(3) by (auto simp: listSignalsOp_def Signal_List_def Signal_ListByMissionID_def rows
        split: option.splits if_splits dest!: subsetD [OF paged_subset])
  show "listPoliciesOp tp ctx s = Inr policies \<Longrightarrow>
      list_all (\<lambda>p. GetTenant ctx = Some (p_AccountID p, p_ProjectID p)) policies"
    using assms(4) by (auto simp: listPoliciesOp_def Policy_List_def rows split: option.splits)
  show "listAttestationPoliciesOp ta ctx aps = Inr atts \<Longrightarrow>
      list_all (\<lambda>p. GetTenant ctx = Some (atp_AccountID p, atp_ProjectID p)) atts"
    using assms(5) by (auto simp: listAttestationPoliciesOp_def AttPolicy_List_def rows split: option.splits)
qed

text \<open>
  C15. Whatever a listing returns belongs to the tenant of the request: identities, agents, API keys, credentials, signals,
  credential policies and attestation policies, for every filter, limit, page and offset, and without a
  tenant nothing is listed.
\<close>

theorem listings_in_tenant:
  assumes "reorders ti" "reorders tk" "reorders tg" "reorders tp" "reorders ta"
  shows "(listIdentitiesOp Q ti ctx f limit offset s = Inr out \<longrightarrow>
      list_all (\<lambda>i. GetTenant ctx = Some (i_AccountID i, i_ProjectID i)) (po_rows out)) \<and>
    (listAgentsOp etext Q ti ctx agentType f limit offset s = (Inr outA, s') \<longrightarrow>
      s' = s \<and> list_all (\<lambda>a. GetTenant ctx = Some (ar_AccountID a, ar_ProjectID a)) (po_rows outA)) \<and>
    (listAPIKeysOp Q tk ctx app product label page limit s = Inr outK \<longrightarrow>
      list_all (\<lambda>k. GetTenant ctx = Some (k_AccountID k, k_ProjectID k)) (po_rows outK)) \<and>
    (listCredentialsOp ctx rid mid s = Inr creds \<longrightarrow>
      list_all (\<lambda>c. GetTenant ctx = Some (c_AccountID c, c_ProjectID c)) creds) \<and>
    (listSignalsOp tg ctx limit mid s = Inr signals \<longrightarrow>
      list_all (\<lambda>g. GetTenant ctx = Some (sg_AccountID g, sg_ProjectID g)) signals) \<and>
    (listPoliciesOp tp ctx s = Inr policies \<longrightarrow>
      list_all (\<lambda>p. GetTenant ctx = Some (p_AccountID p, p_ProjectID p)) policies) \<and>
    (listAttestationPoliciesOp ta ctx aps = Inr atts \<longrightarrow>
      list_all (\<lambda>p. GetTenant ctx = Some (atp_AccountID p, atp_ProjectID p)) atts)"
  using listings_in_tenant_facts [OF assms] by (intro conjI impI) blast+

theorem listings_in_tenant_witness:
  "\<exists>out. listIdentitiesOp sample_query rev sample_ctx no_filter 500 (- 3) two_identities = Inr out \<and> po_Limit out = 20 \<and>
     length (po_rows out) = 2 \<and> list_all (\<lambda>i. GetTenant sample_ctx = Some (i_AccountID i, i_ProjectID i)) (po_rows out)"
proof -
  have l: "fi_Label no_filter = []" by (simp add: no_filter_def)
  obtain out where o: "listIdentitiesOp sample_query rev sample_ctx no_filter 500 (- 3) two_identities = Inr out"
    "po_Limit out = 20" "length (po_rows out) = length (identities two_identities)"
    by (simp add: listIdentitiesOp_def sample_tenant ListIdentities_def Identity_List_def l sample_matches paged_def rev_reorders)
       (simp add: two_identities_def newest_first_def)
  have "list_all (\<lambda>i. GetTenant sample_ctx = Some (i_AccountID i, i_ProjectID i)) (po_rows out)"
    by (rule listings_in_tenant [OF rev_reorders rev_reorders rev_reorders rev_reorders rev_reorders, THEN conjunct1, rule_format, OF o(1)])
  with o show ?thesis by (auto simp: two_identities_def)
qed

subsection \<open>The window of expiry\<close>

lemma lookahead_shorthand_bounds:
  assumes "parseLookaheadDuration parse s = Some d" "last (TrimSpace s) = CHR ''d'' \<or> last (TrimSpace s) = CHR ''w''"
  shows "0 \<le> d \<and> d \<le> maxExpiringSoonWindow"
  using assms by (auto simp: parseLookaheadDuration_def Let_def maxExpiringSoonWindow_def split: if_splits option.splits)

text \<open>
  The answer about what expires soon is exact. The window is positive and at most a year whatever was asked for, a week
  without a wish; the three lists hold the active rows of the tenant whose expiry lies between now and the end of the window,
  both ends included, no others, and in the order of their expiry.
\<close>

theorem expiring_soon_exact:
  assumes "expiringSoonOp parse now ctx within s = Inr out" "GetTenant ctx = Some (acct, proj)"
  shows "0 < eo_Within out \<and> eo_Within out \<le> 365 * 24 * 3600 * second \<and> (within = [] \<longrightarrow> eo_Within out = 7 * 24 * 3600 * second)"
    and "\<forall>i. i \<in> set (eo_Identities out) \<longleftrightarrow> i \<in> set (identities s) \<and> in_tenant_i acct proj i \<and> i_Status i = IdentityStatusActive \<and>
           (\<exists>t. i_ExpiresAt i = Some t \<and> now \<le> t \<and> t \<le> now + eo_Within out)"
    and "\<forall>p. p \<in> set (eo_Policies out) \<longleftrightarrow> p \<in> set (credential_policies s) \<and> p_AccountID p = acct \<and> p_ProjectID p = proj \<and>
           p_IsActive p \<and> (\<exists>t. p_ExpiresAt p = Some t \<and> now \<le> t \<and> t \<le> now + eo_Within out)"
    and "\<forall>k. k \<in> set (eo_APIKeys out) \<longleftrightarrow> k \<in> set (service_keys s) \<and> k_AccountID k = acct \<and> k_ProjectID k = proj \<and>
           k_State k = APIKeyStateActive \<and> (\<exists>t. k_ExpiresAt k = Some t \<and> now \<le> t \<and> t \<le> now + eo_Within out)"
    and "sorted (map (the \<circ> i_ExpiresAt) (eo_Identities out)) \<and> sorted (map (the \<circ> p_ExpiresAt) (eo_Policies out)) \<and>
         sorted (map (the \<circ> k_ExpiresAt) (eo_APIKeys out))"
proof -
  from assms obtain d where d: "0 < d" "d \<le> maxExpiringSoonWindow" "within = [] \<longrightarrow> d = defaultExpiringSoonWindow"
    and out: "out = \<lparr>eo_Within = d, eo_Identities = Identity_ListExpiringSoon acct proj now d s,
      eo_Policies = Policy_ListExpiringSoon acct proj now d s, eo_APIKeys = ListExpiringSoon acct proj now d s\<rparr>"
    by (auto simp: expiringSoonOp_def Let_def maxExpiringSoonWindow_def defaultExpiringSoonWindow_def
        split: if_splits option.splits)
  show "0 < eo_Within out \<and> eo_Within out \<le> 365 * 24 * 3600 * second \<and> (within = [] \<longrightarrow> eo_Within out = 7 * 24 * 3600 * second)"
    using d by (simp add: out maxExpiringSoonWindow_def defaultExpiringSoonWindow_def)
  show "\<forall>i. i \<in> set (eo_Identities out) \<longleftrightarrow> i \<in> set (identities s) \<and> in_tenant_i acct proj i \<and> i_Status i = IdentityStatusActive \<and>
           (\<exists>t. i_ExpiresAt i = Some t \<and> now \<le> t \<and> t \<le> now + eo_Within out)"
    by (auto simp: out Identity_ListExpiringSoon_def split: option.splits)
  show "\<forall>p. p \<in> set (eo_Policies out) \<longleftrightarrow> p \<in> set (credential_policies s) \<and> p_AccountID p = acct \<and> p_ProjectID p = proj \<and>
           p_IsActive p \<and> (\<exists>t. p_ExpiresAt p = Some t \<and> now \<le> t \<and> t \<le> now + eo_Within out)"
    by (auto simp: out Policy_ListExpiringSoon_def split: option.splits)
  show "\<forall>k. k \<in> set (eo_APIKeys out) \<longleftrightarrow> k \<in> set (service_keys s) \<and> k_AccountID k = acct \<and> k_ProjectID k = proj \<and>
           k_State k = APIKeyStateActive \<and> (\<exists>t. k_ExpiresAt k = Some t \<and> now \<le> t \<and> t \<le> now + eo_Within out)"
    by (auto simp: out ListExpiringSoon_def split: option.splits)
  have sorted_the: "sorted (map (the \<circ> e) xs)"
    if "sorted (map (\<lambda>x. expiry (e x)) xs)" "\<forall>x \<in> set xs. e x \<noteq> None" for e :: "'x \<Rightarrow> time option" and xs
  proof -
    have "map (the \<circ> e) xs = map (\<lambda>x. expiry (e x)) xs" using that(2) by (auto split: option.split)
    with that(1) show ?thesis by (simp only:)
  qed
  show "sorted (map (the \<circ> i_ExpiresAt) (eo_Identities out)) \<and> sorted (map (the \<circ> p_ExpiresAt) (eo_Policies out)) \<and>
         sorted (map (the \<circ> k_ExpiresAt) (eo_APIKeys out))"
    by (intro conjI sorted_the)
       (auto simp: out Identity_ListExpiringSoon_def Policy_ListExpiringSoon_def ListExpiringSoon_def split: option.splits)
qed


theorem expiring_soon_exact_witness:
  "\<exists>out. expiringSoonOp (\<lambda>x. None) 0 sample_ctx ''2d'' two_identities = Inr out \<and> eo_Within out \<le> 365 * 24 * 3600 * second \<and>
     eo_Identities out \<noteq> []"
proof -
  have w: "parseLookaheadDuration (\<lambda>x. None) ''2d'' = Some (2 * (24 * (3600 * second)))"
    by (simp add: parseLookaheadDuration_def TrimSpace_def is_space_def Atoi_def ascii_digit_def decimal_def Let_def
        maxExpiringSoonWindow_def less_eq_char_def)
  obtain out where o: "expiringSoonOp (\<lambda>x. None) 0 sample_ctx ''2d'' two_identities = Inr out" "eo_Within out = 2 * (24 * (3600 * second))"
    by (simp add: expiringSoonOp_def sample_tenant w maxExpiringSoonWindow_def)
  note e = expiring_soon_exact [OF o(1) sample_tenant]
  have "sample_identity\<lparr>i_ID := ''b'', i_CreatedAt := 2, i_ExpiresAt := Some (90000 * second)\<rparr> \<in> set (eo_Identities out)"
    by (simp only: e(2) [rule_format]) (simp add: o(2) two_identities_def sample_identity_def)
  then show ?thesis using o(1) e(1) by auto
qed

subsection \<open>The identity schema\<close>

text \<open>The values of the schema; labels and descriptions are texts for a user interface.\<close>

record identity_schema =
  is_IdentityTypes :: "(string \<times> string list) list"
  is_TrustLevels :: "string list"
  is_Statuses :: "string list"

definition GetIdentitySchema :: identity_schema where
  "GetIdentitySchema =
     \<lparr>is_IdentityTypes =
        [(IdentityTypeAgent, [''orchestrator'', ''autonomous'', SubTypeToolAgent, ''human_proxy'', ''evaluator'']),
         (IdentityTypeApplication, [''chatbot'', ''assistant'', ''api_service'', ''code_agent'', ''custom'']),
         (IdentityTypeMCPServer, []), (IdentityTypeService, [''llm_provider''])],
      is_TrustLevels = [TrustLevelFirstParty, TrustLevelVerifiedThirdParty, TrustLevelUnverified],
      is_Statuses = [IdentityStatusPending, IdentityStatusActive, IdentityStatusSuspended, IdentityStatusDeactivated]\<rparr>"

definition identitySchemaOp :: "err + identity_schema" where
  "identitySchemaOp = Inr GetIdentitySchema"

text \<open>The schema offers what the checks accept: every value of each kind, and per type every sub-type.\<close>

lemma schema_exact:
  "IdentityType_Valid t \<longleftrightarrow> map_of (is_IdentityTypes GetIdentitySchema) t \<noteq> None"
  "map_of (is_IdentityTypes GetIdentitySchema) t = Some subs \<Longrightarrow> sub \<noteq> [] \<Longrightarrow> ValidForIdentityType sub t \<longleftrightarrow> sub \<in> set subs"
  "TrustLevel_Valid l \<longleftrightarrow> l \<in> set (is_TrustLevels GetIdentitySchema)"
  "IdentityStatus_Valid st \<longleftrightarrow> st \<in> set (is_Statuses GetIdentitySchema)"
  by (auto simp: GetIdentitySchema_def IdentityType_Valid_def ValidForIdentityType_def TrustLevel_Valid_def IdentityStatus_Valid_def
      agentSubTypes_def applicationSubTypes_def serviceSubTypes_def split: if_splits)

end
