(* ===== verification/Zeroid_Routes.thy ===== *)
theory Zeroid_Routes
  imports Zeroid_Startup Zeroid_Gateway Zeroid_Listings
begin

text \<open>
  The routes of the server (\<open>src/internal/handler\<close>) and what stands in front of each group of them
  (\<open>src/server.go\<close>). Proved: routes do not clash, discovery leads to public routes, admin and agent routes are guarded.
\<close>

subsection \<open>The route table\<close>

text \<open>An operation with its method, its path and the status it declares, 0 when it declares none.\<close>

record route =
  ro_ID :: string
  ro_Method :: string
  ro_Path :: string
  ro_Status :: nat

definition mk_route :: "string \<Rightarrow> string \<Rightarrow> string \<Rightarrow> nat \<Rightarrow> route" where
  "mk_route op meth path status = \<lparr>ro_ID = op, ro_Method = meth, ro_Path = path, ro_Status = status\<rparr>"

definition registerHealthRoutes :: "route list" where
  "registerHealthRoutes =
     [mk_route ''health'' ''GET'' ''/health'' 0,
      mk_route ''ready'' ''GET'' ''/ready'' 0]"

definition registerWellKnownRoutes :: "route list" where
  "registerWellKnownRoutes =
     [mk_route ''jwks'' ''GET'' ''/.well-known/jwks.json'' 0,
      mk_route ''spiffe-trust-bundle'' ''GET'' ''/.well-known/spiffe-trust-bundle.json'' 0,
      mk_route ''oauth-server-metadata'' ''GET'' ''/.well-known/oauth-authorization-server'' 0,
      mk_route ''oauth-protected-resource'' ''GET'' ''/.well-known/oauth-protected-resource'' 0]"

definition registerSigningJWKSRoute :: "signing_svc \<Rightarrow> route list" where
  "registerSigningJWKSRoute g =
     (if \<not> JWKSEnabled g then [] else [mk_route ''signing-credential-jwks'' ''GET'' (WellKnownPath g) 0])"

definition registerOAuthRoutes :: "route list" where
  "registerOAuthRoutes =
     [mk_route ''oauth-token'' ''POST'' ''/oauth2/token'' 0,
      mk_route ''oauth-introspect'' ''POST'' ''/oauth2/token/introspect'' 0,
      mk_route ''oauth-revoke'' ''POST'' ''/oauth2/token/revoke'' 0,
      mk_route ''oauth-bc-authorize'' ''POST'' ''/oauth2/bc-authorize'' 0]"

definition registerDynamicRegistrationRoutes :: "route list" where
  "registerDynamicRegistrationRoutes =
     [mk_route ''oauth-register'' ''POST'' ''/oauth2/register'' 0,
      mk_route ''oauth-registration-get'' ''GET'' ''/oauth2/register/{client_id}'' 0,
      mk_route ''oauth-registration-update'' ''PUT'' ''/oauth2/register/{client_id}'' 0,
      mk_route ''oauth-registration-delete'' ''DELETE'' ''/oauth2/register/{client_id}'' 0]"

definition registerAuthVerifyRoute :: "route list" where
  "registerAuthVerifyRoute =
     [mk_route ''authVerifyHandler'' ''GET'' ''/oauth2/token/verify'' 0]"

definition registerIdentityRoutes :: "route list" where
  "registerIdentityRoutes =
     [mk_route ''identity-schema'' ''GET'' ''/identities/schema'' 0,
      mk_route ''create-identity'' ''POST'' ''/identities'' 201,
      mk_route ''get-identity-by-wimse'' ''GET'' ''/identities/by-wimse'' 0,
      mk_route ''get-identity'' ''GET'' ''/identities/{id}'' 0,
      mk_route ''list-identities'' ''GET'' ''/identities'' 0,
      mk_route ''update-identity'' ''PATCH'' ''/identities/{id}'' 0,
      mk_route ''delete-identity'' ''DELETE'' ''/identities/{id}'' 204]"

definition registerCredentialPolicyRoutes :: "route list" where
  "registerCredentialPolicyRoutes =
     [mk_route ''create-credential-policy'' ''POST'' ''/credential-policies'' 201,
      mk_route ''get-credential-policy'' ''GET'' ''/credential-policies/{id}'' 0,
      mk_route ''list-credential-policies'' ''GET'' ''/credential-policies'' 0,
      mk_route ''update-credential-policy'' ''PATCH'' ''/credential-policies/{id}'' 0,
      mk_route ''delete-credential-policy'' ''DELETE'' ''/credential-policies/{id}'' 204]"

definition registerCredentialRoutes :: "route list" where
  "registerCredentialRoutes =
     [mk_route ''issue-credential'' ''POST'' ''/credentials/issue'' 201,
      mk_route ''get-credential'' ''GET'' ''/credentials/{id}'' 0,
      mk_route ''list-credentials'' ''GET'' ''/credentials'' 0,
      mk_route ''revoke-credential'' ''POST'' ''/credentials/{id}/revoke'' 0,
      mk_route ''rotate-credential'' ''POST'' ''/credentials/{id}/rotate'' 201]"

definition registerAttestationRoutes :: "route list" where
  "registerAttestationRoutes =
     [mk_route ''submit-attestation'' ''POST'' ''/attestation/submit'' 201,
      mk_route ''verify-attestation'' ''POST'' ''/attestation/verify'' 0,
      mk_route ''get-attestation'' ''GET'' ''/attestation/{id}'' 0]"

definition registerAttestationPolicyRoutes :: "route list" where
  "registerAttestationPolicyRoutes =
     [mk_route ''upsert-attestation-policy'' ''PUT'' ''/attestation-policies'' 200,
      mk_route ''list-attestation-policies'' ''GET'' ''/attestation-policies'' 0,
      mk_route ''delete-attestation-policy'' ''DELETE'' ''/attestation-policies/{id}'' 204]"

definition registerOAuthClientRoutes :: "route list" where
  "registerOAuthClientRoutes =
     [mk_route ''create-oauth-client'' ''POST'' ''/oauth/clients'' 201,
      mk_route ''get-oauth-client'' ''GET'' ''/oauth/clients/{id}'' 0,
      mk_route ''list-oauth-clients'' ''GET'' ''/oauth/clients'' 0,
      mk_route ''rotate-oauth-client-secret'' ''POST'' ''/oauth/clients/{id}/rotate-secret'' 0,
      mk_route ''delete-oauth-client'' ''DELETE'' ''/oauth/clients/{id}'' 0]"

definition registerAPIKeyRoutes :: "route list" where
  "registerAPIKeyRoutes =
     [mk_route ''create-api-key'' ''POST'' ''/api-keys'' 201,
      mk_route ''get-api-key'' ''GET'' ''/api-keys/{id}'' 0,
      mk_route ''list-api-keys'' ''GET'' ''/api-keys'' 0,
      mk_route ''revoke-api-key'' ''POST'' ''/api-keys/{id}/revoke'' 0]"

definition registerAgentRoutes :: "route list" where
  "registerAgentRoutes =
     [mk_route ''register-agent'' ''POST'' ''/agents/register'' 201,
      mk_route ''get-agent'' ''GET'' ''/agents/registry/{id}'' 0,
      mk_route ''list-agents'' ''GET'' ''/agents/registry'' 0,
      mk_route ''update-agent'' ''PATCH'' ''/agents/registry/{id}'' 0,
      mk_route ''delete-agent'' ''DELETE'' ''/agents/registry/{id}'' 200,
      mk_route ''activate-agent'' ''POST'' ''/agents/registry/{id}/activate'' 0,
      mk_route ''deactivate-agent'' ''POST'' ''/agents/registry/{id}/deactivate'' 0,
      mk_route ''rotate-agent-key'' ''POST'' ''/agents/registry/{id}/rotate-key'' 0]"

definition registerSignalRoutes :: "route list" where
  "registerSignalRoutes =
     [mk_route ''ingest-signal'' ''POST'' ''/signals/ingest'' 201,
      mk_route ''list-signals'' ''GET'' ''/signals'' 0,
      mk_route ''streamSignalsHandler'' ''GET'' ''/signals/stream'' 0]"

definition registerProofVerifyRoute :: "route list" where
  "registerProofVerifyRoute =
     [mk_route ''verify-proof'' ''POST'' ''/proof/verify'' 0]"

definition registerAuditRoutes :: "route list" where
  "registerAuditRoutes =
     [mk_route ''list-identity-audit-logs'' ''GET'' ''/identity-audit-logs'' 0]"

definition registerBackchannelAdminRoutes :: "route list" where
  "registerBackchannelAdminRoutes =
     [mk_route ''oauth-bc-approve'' ''POST'' ''/oauth2/bc-authorize/{auth_req_id}/approve'' 0,
      mk_route ''oauth-bc-deny'' ''POST'' ''/oauth2/bc-authorize/{auth_req_id}/deny'' 0]"

definition registerExpiringSoonRoute :: "route list" where
  "registerExpiringSoonRoute =
     [mk_route ''expiring-soon'' ''GET'' ''/expiring-soon'' 0]"

definition registerSigningCredentialRoutes :: "route list" where
  "registerSigningCredentialRoutes =
     [mk_route ''attest-signing-credential'' ''POST'' ''/signing-credentials'' 0,
      mk_route ''revoke-signing-credential'' ''POST'' ''/signing-credentials/{kid}/revoke'' 0]"

definition registerDelegationRoutes :: "route list" where
  "registerDelegationRoutes =
     [mk_route ''delegation-graph'' ''GET'' ''/delegations/graph'' 0,
      mk_route ''delegation-by-jti'' ''GET'' ''/delegations/by-jti/{jti}'' 0,
      mk_route ''delegation-chains'' ''GET'' ''/delegations/chains'' 0]"

definition registerProofGenerateRoute :: "route list" where
  "registerProofGenerateRoute =
     [mk_route ''generate-proof'' ''POST'' ''/proof/generate'' 0]"

definition RegisterPublic :: "signing_svc \<Rightarrow> route list" where
  "RegisterPublic g =
     registerHealthRoutes @ registerWellKnownRoutes @ registerSigningJWKSRoute g @ registerOAuthRoutes @
     registerDynamicRegistrationRoutes @ registerAuthVerifyRoute"

definition RegisterAdmin :: "route list" where
  "RegisterAdmin =
     registerIdentityRoutes @ registerCredentialPolicyRoutes @ registerCredentialRoutes @ registerAttestationRoutes @
     registerAttestationPolicyRoutes @ registerOAuthClientRoutes @ registerAPIKeyRoutes @ registerAgentRoutes @
     registerSignalRoutes @ registerProofVerifyRoute @ registerAuditRoutes @ registerBackchannelAdminRoutes @
     registerExpiringSoonRoute @ registerSigningCredentialRoutes @ registerDelegationRoutes"

definition RegisterAgentAuth :: "route list" where
  "RegisterAgentAuth = registerProofGenerateRoute"

datatype route_group = PublicGroup | AdminGroup | AgentGroup

definition mounted :: "string \<Rightarrow> route \<Rightarrow> route" where
  "mounted pre r = r\<lparr>ro_Path := pre @ ro_Path r\<rparr>"

definition server_routes :: "server \<Rightarrow> (route_group \<times> route) list" where
  "server_routes sv =
     map (Pair PublicGroup) (RegisterPublic (sv_signing sv)) @
     map (\<lambda>r. (AdminGroup, mounted (sv_adminPrefix sv) r)) RegisterAdmin @
     map (\<lambda>r. (AgentGroup, mounted (sv_adminPrefix sv) r)) RegisterAgentAuth"

definition prmURL :: "string \<Rightarrow> string" where
  "prmURL iss = iss @ ''/.well-known/oauth-protected-resource''"

subsection \<open>The chain in front of a route\<close>

text \<open>
  The middlewares a deployer sets: \<open>None\<close> when it set none; a middleware answers itself (\<open>None\<close>) or hands a
  request on. The headers are those the built-in middlewares read.
\<close>

record hooks =
  hk_global :: "(http_request \<Rightarrow> http_request option) option"
  hk_admin :: "(http_request \<Rightarrow> http_request option) option"

record chain_headers =
  ch_AccountID :: string
  ch_ProjectID :: string
  ch_UserID :: string
  ch_Authorization :: string

record served_request =
  sr_request :: http_request
  sr_tenant :: "(string \<times> string) option"
  sr_caller :: string
  sr_agent :: "agent_claims option"

datatype chain_refusal = GateRefused gate_error | HookAnswered | Challenged string

definition run_hook :: "(http_request \<Rightarrow> http_request option) option \<Rightarrow> http_request \<Rightarrow> chain_refusal + http_request" where
  "run_hook hook r =
     (case hook of
        None \<Rightarrow> Inr r
      | Some mw \<Rightarrow> (case mw r of None \<Rightarrow> Inl HookAnswered | Some r' \<Rightarrow> Inr r'))"

text \<open>\<open>Server.Use\<close> and \<open>Server.AdminAuth\<close>.\<close>

definition Server_Use :: "(http_request \<Rightarrow> http_request option) option \<Rightarrow> hooks \<Rightarrow> hooks" where
  "Server_Use mw H = H\<lparr>hk_global := mw\<rparr>"

definition AdminAuth :: "(http_request \<Rightarrow> http_request option) option \<Rightarrow> hooks \<Rightarrow> hooks" where
  "AdminAuth mw H = H\<lparr>hk_admin := mw\<rparr>"

definition serve ::
  "gate_env \<Rightarrow> hooks \<Rightarrow> server \<Rightarrow> (string \<Rightarrow> claims option) \<Rightarrow> route_group \<Rightarrow> chain_headers \<Rightarrow> http_request \<Rightarrow>
   chain_refusal + served_request" where
  "serve G H sv parse g h r =
     (case gateway G r of Inl e \<Rightarrow> Inl (GateRefused e) | Inr r1 \<Rightarrow>
     (case run_hook (hk_global H) r1 of Inl e \<Rightarrow> Inl e | Inr r2 \<Rightarrow>
      if g = PublicGroup then Inr \<lparr>sr_request = r2, sr_tenant = None, sr_caller = [], sr_agent = None\<rparr>
      else (case run_hook (hk_admin H) r2 of Inl e \<Rightarrow> Inl e | Inr r3 \<Rightarrow>
        (case TenantContextMiddleware (ch_AccountID h) (ch_ProjectID h) (ch_UserID h) of (tenant, caller) \<Rightarrow>
          if g = AdminGroup then Inr \<lparr>sr_request = r3, sr_tenant = tenant, sr_caller = caller, sr_agent = None\<rparr>
          else (case AgentAuthMiddleware (sv_env sv) parse (prmURL (issuer (sv_env sv))) (ch_Authorization h) of
                  Inl challenge \<Rightarrow> Inl (Challenged challenge)
                | Inr claims \<Rightarrow> Inr \<lparr>sr_request = r3, sr_tenant = tenant, sr_caller = caller, sr_agent = Some claims\<rparr>)))))"


text \<open>A second middleware replaces the first.\<close>

lemma Use_replaces: "Server_Use b (Server_Use a H) = Server_Use b H"
  by (simp add: Server_Use_def)

lemmas route_defs = mk_route_def registerHealthRoutes_def registerWellKnownRoutes_def registerOAuthRoutes_def
  registerDynamicRegistrationRoutes_def registerAuthVerifyRoute_def registerIdentityRoutes_def
  registerCredentialPolicyRoutes_def registerCredentialRoutes_def registerAttestationRoutes_def
  registerAttestationPolicyRoutes_def registerOAuthClientRoutes_def registerAPIKeyRoutes_def registerAgentRoutes_def
  registerSignalRoutes_def registerProofVerifyRoute_def registerAuditRoutes_def registerBackchannelAdminRoutes_def
  registerExpiringSoonRoute_def registerSigningCredentialRoutes_def registerDelegationRoutes_def
  registerProofGenerateRoute_def RegisterAdmin_def RegisterAgentAuth_def

subsection \<open>Routes do not clash\<close>

definition fixed_public :: "route list" where
  "fixed_public = registerHealthRoutes @ registerWellKnownRoutes @ registerOAuthRoutes @ registerDynamicRegistrationRoutes @
     registerAuthVerifyRoute"

abbreviation key_of :: "route \<Rightarrow> string \<times> string" where
  "key_of r \<equiv> (ro_Method r, ro_Path r)"

definition fixed_keys :: "string \<Rightarrow> (string \<times> string) list" where
  "fixed_keys pre = map key_of (fixed_public @ map (mounted pre) (RegisterAdmin @ RegisterAgentAuth))"

definition wellknown_names :: "string list" where
  "wellknown_names = [''jwks.json'', ''spiffe-trust-bundle.json'', ''oauth-authorization-server'', ''oauth-protected-resource'']"

lemma fixed_distinct: "distinct (fixed_keys ''/api/v1'')" "distinct (fixed_keys [])"
  by code_simp+

lemma fixed_wellknown:
  "map (drop 13 \<circ> snd) (filter (\<lambda>k. take 13 (snd k) = ''/.well-known/'') (fixed_keys ''/api/v1'')) = wellknown_names"
  "map (drop 13 \<circ> snd) (filter (\<lambda>k. take 13 (snd k) = ''/.well-known/'') (fixed_keys [])) = wellknown_names"
  by code_simp+

lemma wellknown_free:
  assumes "map (drop 13 \<circ> snd) (filter (\<lambda>k. take 13 (snd k) = ''/.well-known/'') keys) = wellknown_names"
    and "name \<notin> set wellknown_names"
  shows "(m, ''/.well-known/'' @ name) \<notin> set keys"
proof
  assume "(m, ''/.well-known/'' @ name) \<in> set keys"
  then have "(drop 13 \<circ> snd) (m, ''/.well-known/'' @ name) \<in>
      set (map (drop 13 \<circ> snd) (filter (\<lambda>k. take 13 (snd k) = ''/.well-known/'') keys))"
    unfolding set_map by (intro imageI) simp
  then show False using assms by simp
qed

lemma route_keys:
  "mset (map (\<lambda>(g, r). key_of r) (server_routes sv)) = mset (fixed_keys (sv_adminPrefix sv) @
     map key_of (registerSigningJWKSRoute (sv_signing sv)))"
  by (simp add: server_routes_def RegisterPublic_def fixed_keys_def fixed_public_def comp_def)

text \<open>
  No two routes of a server answer the same method and path, so no handler replaces another: for the default prefix of the admin
  routes and for none, and whatever name the deployer gives the key set of signing keys, unless it is that of one of the four discovery
  documents.
\<close>

theorem routes_unambiguous:
  assumes "sv_adminPrefix sv = ''/api/v1'' \<or> sv_adminPrefix sv = []" "sg_wellKnownName (sv_signing sv) \<notin> set wellknown_names"
  shows "distinct (map (\<lambda>(g, r). (ro_Method r, ro_Path r)) (server_routes sv))"
proof -
  from assms(1) have free: "distinct (fixed_keys (sv_adminPrefix sv))"
    "(''GET'', ''/.well-known/'' @ sg_wellKnownName (sv_signing sv)) \<notin> set (fixed_keys (sv_adminPrefix sv))"
    by (auto simp only: fixed_distinct dest!: wellknown_free [OF fixed_wellknown(1) assms(2), THEN notE]
        wellknown_free [OF fixed_wellknown(2) assms(2), THEN notE])
  have "distinct (fixed_keys (sv_adminPrefix sv) @ map key_of (registerSigningJWKSRoute (sv_signing sv)))"
    using free by (auto simp: registerSigningJWKSRoute_def mk_route_def WellKnownPath_def)
  then show ?thesis by (simp only: mset_eq_imp_distinct_iff [OF route_keys])
qed

definition sample_server :: server where
  "sample_server = server_of sample_start full_config (projr (load_keys sample_start (cf_Keys full_config)))"

lemma sample_server_fields: "sv_adminPrefix sample_server = ''/api/v1''" "sg_wellKnownName (sv_signing sample_server) = ''signing-keys''"
  by (simp_all add: sample_server_def server_of_def full_config_def sample_config_def GetAdminPathPrefix_def
      NewSigningCredentialService_def Let_def)

theorem routes_unambiguous_witness:
  "distinct (map (\<lambda>(g, r). (ro_Method r, ro_Path r)) (server_routes sample_server))"
  by (rule routes_unambiguous) (simp_all add: sample_server_fields wellknown_names_def)

text \<open>The name of a discovery document is not refused, and the later route takes the place of the document.\<close>

lemma wellknown_collision:
  "sg_wellKnownName g = ''jwks.json'' \<Longrightarrow> JWKSEnabled g \<Longrightarrow>
     \<exists>a \<in> set registerWellKnownRoutes. \<exists>b \<in> set (registerSigningJWKSRoute g). key_of a = key_of b \<and> ro_ID a \<noteq> ro_ID b"
  by (simp add: registerWellKnownRoutes_def registerSigningJWKSRoute_def WellKnownPath_def mk_route_def)

subsection \<open>Discovery\<close>

definition served_at :: "server \<Rightarrow> string \<Rightarrow> string \<Rightarrow> string \<Rightarrow> bool" where
  "served_at sv meth url op \<longleftrightarrow> (\<exists>path. url = issuer (sv_env sv) @ path \<and>
     (\<exists>r. (PublicGroup, r) \<in> set (server_routes sv) \<and> ro_Method r = meth \<and> ro_Path r = path \<and> ro_ID r = op))"

lemma served_atI:
  "r \<in> set fixed_public \<Longrightarrow> url = issuer (sv_env sv) @ ro_Path r \<Longrightarrow> ro_Method r = m \<Longrightarrow> ro_ID r = op \<Longrightarrow> served_at sv m url op"
  by (auto simp: served_at_def server_routes_def RegisterPublic_def fixed_public_def)

abbreviation metadata :: "server \<Rightarrow> string \<rightharpoonup> cval" where
  "metadata sv \<equiv> map_of (oauthMetadataOp (issuer (sv_env sv)))"

text \<open>
  Discovery leads to routes that exist and need no credentials. A request to an agent route without a token is refused with a
  challenge whose resource metadata is a document served publicly; that document names the issuer, whose metadata is served
  publicly; each endpoint the metadata advertises is a public route of the operation it stands for, under the method the standard asks
  for; and the four that take forms are those whose forms the gateway turns into JSON.
\<close>

theorem discovery_leads_to_routes:
  shows "served_at sv ''GET'' (prmURL (issuer (sv_env sv))) ''oauth-protected-resource''"
    and "AgentAuthMiddleware (sv_env sv) parse (prmURL (issuer (sv_env sv))) [] =
           Inl (''Bearer resource_metadata='' @ httpQuotedString (prmURL (issuer (sv_env sv))))"
    and "map_of (protectedResourceMetadataOp (issuer (sv_env sv))) ''authorization_servers'' = Some (CStrs [issuer (sv_env sv)])"
    and "served_at sv ''GET'' (issuer (sv_env sv) @ ''/.well-known/oauth-authorization-server'') ''oauth-server-metadata''"
    and "metadata sv ''issuer'' = Some (CStr (issuer (sv_env sv)))"
    and "\<exists>url. metadata sv ''jwks_uri'' = Some (CStr url) \<and> served_at sv ''GET'' url ''jwks''"
    and "\<exists>url. metadata sv ''registration_endpoint'' = Some (CStr url) \<and> served_at sv ''POST'' url ''oauth-register''"
    and "map (\<lambda>f. case metadata sv f of Some (CStr url) \<Rightarrow> url | _ \<Rightarrow> [])
             [''token_endpoint'', ''introspection_endpoint'', ''revocation_endpoint'', ''backchannel_authentication_endpoint''] =
           map (\<lambda>p. issuer (sv_env sv) @ p) OAuthFormEndpoints"
    and "list_all2 (\<lambda>p op. served_at sv ''POST'' (issuer (sv_env sv) @ p) op) OAuthFormEndpoints
           [''oauth-token'', ''oauth-introspect'', ''oauth-revoke'', ''oauth-bc-authorize'']"
proof -
  note rt = fixed_public_def registerHealthRoutes_def registerWellKnownRoutes_def registerOAuthRoutes_def
    registerDynamicRegistrationRoutes_def mk_route_def
  show "served_at sv ''GET'' (prmURL (issuer (sv_env sv))) ''oauth-protected-resource''"
    by (rule served_atI [of "mk_route ''oauth-protected-resource'' ''GET'' ''/.well-known/oauth-protected-resource'' 0"])
      (simp_all add: rt prmURL_def)
  show "AgentAuthMiddleware (sv_env sv) parse (prmURL (issuer (sv_env sv))) [] =
           Inl (''Bearer resource_metadata='' @ httpQuotedString (prmURL (issuer (sv_env sv))))"
    by (simp add: AgentAuthMiddleware_def WWWAuthenticate_def prmURL_def)
  show "map_of (protectedResourceMetadataOp (issuer (sv_env sv))) ''authorization_servers'' = Some (CStrs [issuer (sv_env sv)])"
    by (simp add: protectedResourceMetadataOp_def)
  show "served_at sv ''GET'' (issuer (sv_env sv) @ ''/.well-known/oauth-authorization-server'') ''oauth-server-metadata''"
    by (rule served_atI [of "mk_route ''oauth-server-metadata'' ''GET'' ''/.well-known/oauth-authorization-server'' 0"])
      (simp_all add: rt)
  show "metadata sv ''issuer'' = Some (CStr (issuer (sv_env sv)))" by (simp add: oauthMetadataOp_def)
  have "served_at sv ''GET'' (issuer (sv_env sv) @ ''/.well-known/jwks.json'') ''jwks''"
    by (rule served_atI [of "mk_route ''jwks'' ''GET'' ''/.well-known/jwks.json'' 0"]) (simp_all add: rt)
  then show "\<exists>url. metadata sv ''jwks_uri'' = Some (CStr url) \<and> served_at sv ''GET'' url ''jwks''"
    by (simp add: oauthMetadataOp_def)
  have "served_at sv ''POST'' (issuer (sv_env sv) @ ''/oauth2/register'') ''oauth-register''"
    by (rule served_atI [of "mk_route ''oauth-register'' ''POST'' ''/oauth2/register'' 0"]) (simp_all add: rt)
  then show "\<exists>url. metadata sv ''registration_endpoint'' = Some (CStr url) \<and> served_at sv ''POST'' url ''oauth-register''"
    by (simp add: oauthMetadataOp_def)
  show "map (\<lambda>f. case metadata sv f of Some (CStr url) \<Rightarrow> url | _ \<Rightarrow> [])
             [''token_endpoint'', ''introspection_endpoint'', ''revocation_endpoint'', ''backchannel_authentication_endpoint''] =
           map (\<lambda>p. issuer (sv_env sv) @ p) OAuthFormEndpoints"
    by (simp add: oauthMetadataOp_def OAuthFormEndpoints_def)
  have "served_at sv ''POST'' (issuer (sv_env sv) @ p) op" if "mk_route op ''POST'' p 0 \<in> set registerOAuthRoutes" for p op
    using that by (intro served_atI [of "mk_route op ''POST'' p 0"]) (simp_all add: fixed_public_def mk_route_def)
  then show "list_all2 (\<lambda>p op. served_at sv ''POST'' (issuer (sv_env sv) @ p) op) OAuthFormEndpoints
           [''oauth-token'', ''oauth-introspect'', ''oauth-revoke'', ''oauth-bc-authorize'']"
    by (simp add: OAuthFormEndpoints_def registerOAuthRoutes_def)
qed

subsection \<open>What stands in front of a route\<close>

text \<open>
  An admin route is reached only through the guard of the deployer, and an agent route only with a token besides. A request that is
  served passed the gateway; outside the public routes the admin middleware let it pass, if one is set, and its tenant is the one of
  the headers; on an agent route the token after \<open>Bearer\<close> was accepted and its claims name a tenant. No middleware
  that answers a request itself is bypassed.
\<close>

theorem serve_guarded:
  assumes "serve G H sv parse g h r = Inr c"
  shows "\<exists>r1 r2. gateway G r = Inr r1 \<and> run_hook (hk_global H) r1 = Inr r2 \<and>
     (g \<noteq> PublicGroup \<longrightarrow> run_hook (hk_admin H) r2 = Inr (sr_request c) \<and>
        (\<forall>auth. hk_admin H = Some auth \<longrightarrow> auth r2 = Some (sr_request c)) \<and>
        sr_tenant c = fst (TenantContextMiddleware (ch_AccountID h) (ch_ProjectID h) (ch_UserID h)))"
    and "g = AgentGroup \<Longrightarrow> \<exists>tok cl. ch_Authorization h = ''Bearer '' @ tok \<and> tok \<noteq> [] \<and> parse tok = Some cl \<and>
       sr_agent c = Some (extractAgentClaims cl) \<and> claim_str cl ''account_id'' \<noteq> [] \<and> claim_str cl ''project_id'' \<noteq> []"
    and "g \<noteq> AgentGroup \<Longrightarrow> sr_agent c = None"
proof -
  from assms obtain r1 r2 where a: "gateway G r = Inr r1" "run_hook (hk_global H) r1 = Inr r2"
    by (auto simp: serve_def split: sum.splits)
  have b: "run_hook (hk_admin H) r2 = Inr (sr_request c) \<and>
      sr_tenant c = fst (TenantContextMiddleware (ch_AccountID h) (ch_ProjectID h) (ch_UserID h))" if "g \<noteq> PublicGroup"
    using assms a that by (auto simp: serve_def split: sum.splits prod.splits if_splits)
  have "auth r2 = Some r'" if "run_hook (Some auth) r2 = Inr r'" for auth r'
    using that by (auto simp: run_hook_def split: option.splits)
  with a b show "\<exists>r1 r2. gateway G r = Inr r1 \<and> run_hook (hk_global H) r1 = Inr r2 \<and>
     (g \<noteq> PublicGroup \<longrightarrow> run_hook (hk_admin H) r2 = Inr (sr_request c) \<and>
        (\<forall>auth. hk_admin H = Some auth \<longrightarrow> auth r2 = Some (sr_request c)) \<and>
        sr_tenant c = fst (TenantContextMiddleware (ch_AccountID h) (ch_ProjectID h) (ch_UserID h)))" by metis
  show "g \<noteq> AgentGroup \<Longrightarrow> sr_agent c = None"
    using assms by (cases g) (auto simp: serve_def split: sum.splits prod.splits)
  assume "g = AgentGroup"
  with assms obtain claims where c: "AgentAuthMiddleware (sv_env sv) parse (prmURL (issuer (sv_env sv))) (ch_Authorization h) = Inr claims"
    "sr_agent c = Some claims"
    by (auto simp: serve_def split: sum.splits prod.splits)
  then have p: "has_prefix ''Bearer '' (ch_Authorization h)" by (auto simp: AgentAuthMiddleware_def split: if_splits)
  then obtain tok where t: "ch_Authorization h = ''Bearer '' @ tok" using has_prefixE by blast
  have "trim_prefix ''Bearer '' (ch_Authorization h) = tok" unfolding t by (rule trim_prefix_append)
  with c p obtain cl where "tok \<noteq> []" "parse tok = Some cl" "claims = extractAgentClaims cl" "ag_AccountID claims \<noteq> []" "ag_ProjectID claims \<noteq> []"
    by (auto simp: AgentAuthMiddleware_def Let_def split: if_splits option.splits)
  with t c(2) show "\<exists>tok cl. ch_Authorization h = ''Bearer '' @ tok \<and> tok \<noteq> [] \<and> parse tok = Some cl \<and>
       sr_agent c = Some (extractAgentClaims cl) \<and> claim_str cl ''account_id'' \<noteq> [] \<and> claim_str cl ''project_id'' \<noteq> []"
    by (auto simp: extractAgentClaims_def)
qed


definition agent_request :: http_request where
  "agent_request = \<lparr>hq_Method = ''POST'', hq_Path = ''/api/v1/proof/generate'', hq_RawQuery = [], hq_ContentType = ''application/json'',
     hq_Body = RawBody ''{}'', hq_Limit = None\<rparr>"

theorem serve_guarded_witness:
  "\<exists>c. serve sample_gate \<lparr>hk_global = None, hk_admin = Some Some\<rparr> (sample_server\<lparr>sv_env := sample_env\<lparr>issuer := ''iss''\<rparr>\<rparr>)
       (\<lambda>t. Some [''account_id'' \<mapsto> CStr ''acme'', ''project_id'' \<mapsto> CStr ''prod'']) AgentGroup
       \<lparr>ch_AccountID = ''acme'', ch_ProjectID = ''prod'', ch_UserID = [], ch_Authorization = ''Bearer h.p.s''\<rparr> agent_request = Inr c \<and>
     sr_tenant c = Some (''acme'', ''prod'') \<and> (\<exists>a. sr_agent c = Some a \<and> ag_AccountID a \<noteq> [])"
    (is "\<exists>c. serve ?G ?H ?sv ?parse AgentGroup ?h ?r = Inr c \<and> _ c")
proof -
  have g: "gateway sample_gate agent_request = Inr (agent_request\<lparr>hq_Limit := Some maxBodySize\<rparr>)"
    using sample_media(1)
    by (simp add: gateway_def oauthFormCompatMiddleware_def OAuthFormEndpoints_def requestValidationMiddleware_def agent_request_def Let_def)
  have "jwtalg_Validate (sample_env\<lparr>issuer := ''iss''\<rparr>) ''h.p.s''"
    by (simp add: jwtalg_Validate_def sample_env_def jwt_svid_algs_def)
  then have "\<exists>c. serve ?G ?H ?sv ?parse AgentGroup ?h ?r = Inr c"
    by (simp add: serve_def g run_hook_def AgentAuthMiddleware_def has_prefix_def trim_prefix_def extractAgentClaims_def claim_str_def
        TenantContextMiddleware_def Let_def)
  then obtain c where c: "serve ?G ?H ?sv ?parse AgentGroup ?h ?r = Inr c" by blast
  from serve_guarded(1,2) [OF c] have "sr_tenant c = Some (''acme'', ''prod'')" "\<exists>a. sr_agent c = Some a \<and> ag_AccountID a \<noteq> []"
    by (auto simp: TenantContextMiddleware_def extractAgentClaims_def)
  with c show ?thesis by blast
qed

end
