(* ===== verification/Spec2Isabelle.thy ===== *)
theory Spec2Isabelle
  imports Zeroid_Loading Zeroid_Routes
begin

text \<open>
  A verification development for ZeroID, an identity and token service for agents and workloads
  written in Go. Paths below are relative to \<open>src/\<close>.

  \<^bold>\<open>The program.\<close> HTTP operations (\<open>internal/handler\<close>) call services (\<open>internal/service\<close>), which
  read and write PostgreSQL tables through repositories (\<open>internal/store/postgres\<close>). Every token is
  issued by one service, \<open>CredentialService.IssueCredential\<close>; the grants of the token endpoint, the backchannel flow and
  attestation all end there. Identities, credential policies, keys, clients and revocations
  decide what it may issue. A worker deletes what has expired.

  \<^bold>\<open>How it is modelled.\<close> The database is the record \<open>db\<close> (one list of rows per table, in insertion
  order; statements are the four forms of \<open>Zeroid_Prelude\<close>). A service call is a function of type
  \<open>(db, err, 'a) svc\<close>: it returns an error or a value together with the database it leaves, also on
  an error. Transactions roll back explicitly. What the program draws at run time (clocks,
  UUIDs, random tokens) and what lies outside \<open>src/\<close> (JWT and JWS libraries, bcrypt, JSON
  decoding, DNS, HTTP answers, URL parsing) are arguments: the records \<open>env\<close>, \<open>inputs\<close>, \<open>net_env\<close>,
  \<open>bc_env\<close>, \<open>dpop_env\<close>, \<open>att_env\<close>. Instants are integers of nanoseconds; products of durations are
  64-bit and wrap around (\<open>int64\<close>). Statements do not fail on their own; they fail on the
  constraints of \<open>migrations/\<close>, which the repositories' definitions test.

  \<^bold>\<open>The theories.\<close>
  \<^item> \<open>Zeroid_Prelude\<close>: time, Go strings, tables, the service monad, the interfaces \<open>effect\<close> (a relation
    every call of a service keeps) and \<open>single_use\<close> (a claim that can be won once).
  \<^item> \<open>Zeroid_Domain\<close>, \<open>Zeroid_Records\<close>, \<open>Zeroid_Store\<close>: \<open>domain/\<close> and the repositories' statements.
  \<^item> \<open>Zeroid_Cascade\<close>: the recursive revocation of \<open>migrations/007\<close>; it revokes exactly the active
    descendants of its anchors. The walk is bounded by the depth of the query, and no cycle or
    deeper chain is hidden by the bound: the theorem states the reach within it.
  \<^item> \<open>Zeroid_Policy\<close>: \<open>credential_policy.go\<close>; what enforcement accepts, soundness of the subset test.
  \<^item> \<open>Zeroid_Issuance\<close>, \<open>Zeroid_Evolution\<close>: \<open>credential.go\<close>; issuance succeeds iff its gates are open, and the row and the lifetime that
    result; every operation only adds rows to the credential table or revokes.
  \<^item> \<open>Zeroid_Signals\<close>: \<open>signal.go\<close>; automatic revocation within the tenant, bounded fan-out.
  \<^item> \<open>Zeroid_Identities\<close>: \<open>identity.go\<close>; registration, lifecycle, deactivation, expiry sweep.
  \<^item> \<open>Zeroid_Refresh\<close>: \<open>refresh_token.go\<close>; single-use rotation, one live token per family, reuse.
  \<^item> \<open>Zeroid_OAuth\<close>, \<open>Zeroid_Grants\<close>: \<open>oauth.go\<close>, \<open>authcode.go\<close>; the grants, introspection, revocation.
  \<^item> \<open>Zeroid_Endpoint\<close>, \<open>Zeroid_Clients\<close>: \<open>oauth_client.go\<close>, \<open>dynamic_registration.go\<close>, \<open>Server.EnsureClient\<close>; the address
    test against its ranges, registration and its management tokens.
  \<^item> \<open>Zeroid_Backchannel\<close>, \<open>Zeroid_CIBA\<close>: \<open>backchannel.go\<close>; definitions and proofs: one token per
    request, statuses move forward, polls are paced, callbacks end.
  \<^item> \<open>Zeroid_Proofs\<close>, \<open>Zeroid_Worker\<close>: \<open>dpop.go\<close>, \<open>proof.go\<close>, \<open>worker/cleanup.go\<close>; proofs are accepted once, also across cleanup
    passes, which change no answer of introspection.
  \<^item> \<open>Zeroid_Keys\<close>: \<open>apikey.go\<close>, \<open>agent.go\<close>; keys within their owner's policy, the agent facade.
  \<^item> \<open>Zeroid_Attestation\<close>: \<open>attestation.go\<close>, \<open>internal/attestation\<close>; fail-closed verification.
  \<^item> \<open>Zeroid_Delegation\<close>: \<open>delegation.go\<close>; lineages are paths of the delegation forest.
  \<^item> \<open>Zeroid_Signing\<close>: \<open>signing_credential.go\<close>; the published key set and the finality of revocation.
  \<^item> \<open>Zeroid_API\<close>: \<open>internal/middleware\<close>, \<open>handler/oauth.go\<close>, \<open>handler/auth_verify.go\<close>; tenant and caller of a request,
    challenges, the token, introspection, revocation, backchannel and forward-auth endpoints; a token is bound to the
    proof of its request and to nothing else.
  \<^item> \<open>Zeroid_System\<close>: the operations of all components as one step relation; a revoked lineage stays dead
    whatever operations follow.
  \<^item> \<open>Zeroid_Handlers\<close>: the admin operations of \<open>internal/handler\<close>; they stay in the tenant of the request.
  \<^item> \<open>Zeroid_Verifier\<close>, \<open>Zeroid_Loading\<close>: the client library \<open>pkg/authjwt\<close>; what passes its middleware, recovery
    after a key rotation, agreement with the credential table of the service, the claims on their way from the issuer to
    the resource server, and the lazy load of the key set with concurrent callers.

  \<^item> \<open>Zeroid_Config\<close>, \<open>Zeroid_Waiting\<close>, \<open>Zeroid_Startup\<close>: \<open>config.go\<close>, \<open>database/wait.go\<close>, \<open>signing/jwks.go\<close>, \<open>handler/wellknown.go\<close>,
    start-up, hooks and shutdown of \<open>server.go\<close>; the precedence of settings, the lookup of a registered URI, a wait that ends, what a
    started server can rely on, the two published forms of its keys.
  \<^item> \<open>Zeroid_Gateway\<close>: the first middlewares of \<open>server.go\<close> with the form encoding of \<open>net/url\<close>; what a form becomes.
  \<^item> \<open>Zeroid_Listings\<close>: the listings of every table, the report on what expires soon, the audit log, the identity
    schema; pages cover a listing, listings stay in their tenant.
  \<^item> \<open>Zeroid_Routes\<close>: the route table and the chain in front of each group of routes; routes do not clash, discovery leads to
    public routes, admin and agent routes are guarded.

  \<^bold>\<open>Bounds and fuel.\<close> No definition runs on fuel that the code does not have: the depth arguments of
  the recursive queries and the number of callback attempts are the code's own limits (50 for the
  cascade, 10 for lineages, \<open>PingMaxRetries + 1\<close> attempts); the wait for the database is a partial function whose result is proved to
  exist; all other recursion is over lists.

  \<^bold>\<open>Not modelled.\<close> Concurrency inside one call of the server's services (each call is one step; statements
  that the code relies on for atomicity are single statements or transactions here as well), whereas the callers of
  \<open>EnsureLoaded\<close> interleave; asynchronous dispatch of callbacks, which runs in place; log lines, metrics, traces and the texts
  of error descriptions; the matching of a path against the route table and the binding of JSON to the inputs of an operation, which two
  libraries do; the writing of the audit log, which a trigger of the database does; the run of the migrations, whose
  constraints are in the statements of the repositories; setters that only store a hook; the cryptography itself and the transport of HTTP.
\<close>

end
